(* ===== verification/Nio_Prelude.thy ===== *)
theory Nio_Prelude
  imports Main "HOL-Library.List_Lexorder" "HOL-Library.Char_ord" "HOL-Library.Word"
begin

text \<open>
  Shared base of the development: the collections of automation rules, and the generic facts on
  sorted lists, options and signed 32-bit integers that the component theories use.
  Go strings are byte strings: they are \<open>string\<close> here (a list of 8-bit characters), and Go's
  \<open><\<close> on strings is the lexicographic order on bytes that
  \<open>List_Lexorder\<close> and \<open>Char_ord\<close> provide.
\<close>

section \<open>Rule collections\<close>

named_theorems emits_intros \<open>compositional rules for the calls a program may emit\<close>
named_theorems runs_intros \<open>compositional rules for what a program returns and logs\<close>
named_theorems wp_rules \<open>weakest-precondition equations of the reconcile monad\<close>
named_theorems const_defs \<open>constants of the source that proofs unfold\<close>

section \<open>Machine integers\<close>

type_synonym int32 = "32 word"

definition int32_of_len :: "nat \<Rightarrow> int32" where
  "int32_of_len n = word_of_nat n"

lemma sint_int32_of_len: "n < 2 ^ 31 \<Longrightarrow> sint (int32_of_len n) = int n"
  unfolding int32_of_len_def by (simp add: signed_of_nat signed_take_bit_int_eq_self)

lemma sint_Suc_int32: "sint (w :: int32) < 2 ^ 31 - 1 \<Longrightarrow> sint (w + 1) = sint w + 1"
proof -
  assume a: "sint w < 2 ^ 31 - 1"
  have lo: "- (2 ^ 31) \<le> sint w"
    using sint_ge [of w] by simp
  have "sint (w + 1) = signed_take_bit 31 (sint w + 1)"
    by (simp add: sint_word_ariths)
  also have "\<dots> = sint w + 1"
    using a lo by (intro signed_take_bit_int_eq_self) auto
  finally show ?thesis .
qed

section \<open>Sorted lists without duplicates\<close>

lemma sorted_strict_sort:
  assumes "distinct (xs :: 'a :: linorder list)"
  shows "sorted_wrt (<) (sort xs)"
  using assms by (simp add: strict_sorted_iff)

lemma length_filter_notin:
  assumes "distinct xs" "set ys \<subseteq> set xs" "distinct ys"
  shows "length (filter (\<lambda>x. x \<notin> set ys) xs) = length xs - length ys"
proof -
  have "length (filter (\<lambda>x. x \<notin> set ys) xs) = card (set xs - set ys)"
    using assms(1) distinct_card [of "filter (\<lambda>x. x \<notin> set ys) xs"]
    by (simp add: set_diff_eq)
  also have "\<dots> = card (set xs) - card (set ys)"
    using assms(2) by (simp add: card_Diff_subset)
  finally show ?thesis using assms by (simp add: distinct_card)
qed

lemma sorted_take_less:
  assumes "sorted xs" "x \<in> set (take n xs)" "y \<in> set (drop n xs)"
  shows "x \<le> (y :: 'a :: linorder)"
proof -
  have "sorted (take n xs @ drop n xs)" using assms(1) by simp
  then show ?thesis using assms(2,3) unfolding sorted_append by blast
qed

section \<open>Options\<close>

lemma case_option_same [simp]: "(case x of None \<Rightarrow> c | Some _ \<Rightarrow> c) = c"
  by (cases x) simp_all

end
