(* ===== verification/Nio_Types.thy ===== *)
theory Nio_Types
  imports Go_Std
begin

text \<open>
  The API types of \<open>src/api/v1alpha1\<close> and the parts of the Kubernetes object types
  the controllers read or write. Pointers are options, the string enumerations are
  datatypes with the source's constant names (an extra constructor for the empty string
  or a free value), \<open>int32\<close> stays 32 bits wide, generations and times are integers
  (times in seconds since the epoch). An embedded struct is a record extension.
  Fields of user-supplied Kubernetes templates that no controller looks at are the opaque
  \<open>_rest\<close> fields.
\<close>

section \<open>Object metadata and conditions\<close>

type_synonym labels = "string \<rightharpoonup> string"

record owner_ref =
  or_uid :: string
  or_name :: string
  or_controller :: bool

record meta =
  m_name :: string
  m_ns :: string
  m_uid :: string
  m_rv :: string
  m_gen :: int
  m_creation :: int
  m_deletion :: "int option"
  m_labels :: labels
  m_finalizers :: "string list"
  m_owners :: "owner_ref list"

datatype cond_status = ConditionTrue | ConditionFalse | ConditionUnknown

datatype cond_type =
    ConditionReady | ConditionReconciling | ConditionStalled
  | ConditionDiscoverable | ConditionHardwareScanned
  | ConditionApplied | ConditionGitSynced
  | ConditionUnderprovisioned | ConditionProgressing
  | OtherCondition string

datatype reason =
    ReasonUnderprovisioned | ReasonFullyProvisioned | ReasonSelectionComplete | ReasonInvalidNodeFile
  | ReasonSucceeded | ReasonFailed | ReasonProgressing | ReasonWaiting
  | ReasonSSHConnected | ReasonSSHFailed | ReasonCredentialsMissing
  | ReasonHardwareScanSucceeded | ReasonHardwareScanFailed
  | ReasonConfigApplied | ReasonConfigRemoved | ReasonApplyFailed
  | ReasonGitCloneSucceeded | ReasonGitCloneFailed | ReasonMachineNotReady | ReasonMachineInUse
  | ReasonQueued | ReasonApplyStarted | ReasonApplyInProgress | ReasonJobPending
  | ReasonDeadlineExceeded | ReasonOperationFailed
  | ReasonBlocked | ReasonInstalling | ReasonConverging | ReasonRemoving
  | ReasonInfraNotReady | ReasonGitError | ReasonReady | ReasonReplicaFailure
  | ReasonRunFailed | ReasonBuilderSystemMismatch | ReasonInitFailing
  | OtherReason string

record condition =
  c_type :: cond_type
  c_status :: cond_status
  c_gen :: int
  c_reason :: reason
  c_message :: string

section \<open>Kubernetes pod and job templates\<close>

record env_var =
  ev_name :: string
  ev_value :: string

record volume_mount =
  vm_name :: string
  vm_path :: string
  vm_read_only :: bool

datatype volume_source =
    VSecret string "int option"
  | VConfigMap string "int option"
  | VEmptyDir string "string option"
  | VEphemeral "string option" "string option"
  | VOther string

record volume =
  vol_name :: string
  vol_source :: volume_source

record container =
  ct_name :: string
  ct_image :: string
  ct_command :: "string list"
  ct_args :: "string list"
  ct_workdir :: string
  ct_env :: "env_var list"
  ct_mounts :: "volume_mount list"
  ct_ports :: "(string \<times> int) list"
  ct_rest :: string

record pod_spec =
  ps_volumes :: "volume list"
  ps_init :: "container list"
  ps_containers :: "container list"
  ps_restart_policy :: string
  ps_rest :: string

record pod_template =
  pt_labels :: labels
  pt_annotations :: labels
  pt_spec :: pod_spec

record job_spec =
  js_active_deadline :: "int option"
  js_ttl :: "int32 option"
  js_template :: pod_template
  js_rest :: string

datatype concurrency_policy =
  ConcurrencyUnset | AllowConcurrent | ForbidConcurrent | ReplaceConcurrent

record cronjob_spec =
  cj_schedule :: string
  cj_concurrency :: concurrency_policy
  cj_job :: job_spec
  cj_rest :: string

datatype job_condition_type = JobComplete | JobFailed | JobConditionOther string

record job_condition =
  jc_type :: job_condition_type
  jc_status :: cond_status
  jc_transition :: int

record batch_job =
  bj_meta :: meta
  bj_spec :: job_spec
  bj_start :: "int option"
  bj_completion :: "int option"
  bj_succeeded :: int32
  bj_failed :: int32
  bj_conds :: "job_condition list"

record batch_cronjob =
  bc_meta :: meta
  bc_spec :: cronjob_spec
  bc_last_schedule :: "int option"
  bc_last_successful :: "int option"
  bc_active :: "string list"

section \<open>Workload types\<close>

record key_ref =
  kr_name :: string
  kr_key :: string

record flux_source_ref =
  fx_kind :: string
  fx_name :: string
  fx_api_version :: string

record nix_source =
  src_git_repo :: string
  src_ref :: string
  src_rev :: string
  src_dir :: string
  src_credentials :: "string option"
  src_flux :: "flux_source_ref option"
  src_poll_interval :: "int option"

record nix_file =
  nf_path :: string
  nf_inline :: "string option"
  nf_configmap :: "key_ref option"
  nf_secret :: "key_ref option"

record nix_local_store =
  ls_medium :: string
  ls_size_limit :: "string option"
  ls_storage_class :: string

record nix_builder_spec =
  bs_store_ref :: "string option"
  bs_image :: string
  bs_systems :: "string list"
  bs_max_jobs :: "int32 option"
  bs_storage :: "string option"
  bs_template :: "pod_template option"

record nix_spec =
  nx_source :: nix_source
  nx_run :: string
  nx_args :: "string list"
  nx_prebuild :: "string list"
  nx_image :: string
  nx_container_name :: string
  nx_flags :: "string list"
  nx_store_ref :: "string option"
  nx_builder_ref :: "string option"
  nx_builder_template :: "nix_builder_spec option"
  nx_local_store :: "nix_local_store option"
  nx_trigger :: "bool option"
  nx_suspend :: bool
  nx_files :: "nix_file list"

datatype phase =
    PhaseNone | PhasePending | PhaseResolving | PhaseBuilding | PhaseProgressing
  | PhaseReady | PhaseDegraded | PhaseFailed | PhaseSuspended

record workload_status =
  ws_observed_gen :: int
  ws_phase :: phase
  ws_resolved :: string
  ws_last_polled :: "int option"
  ws_rolled_out :: string
  ws_workload_ref :: string
  ws_conditions :: "condition list"

record nix_job_spec =
  nj_nix :: nix_spec
  nj_template :: "job_spec option"

record nix_job_status = workload_status +
  nj_active_job :: string
  nj_last_run :: "int option"
  nj_succeeded :: int32
  nj_failed :: int32

record nix_job =
  nj_meta :: meta
  nj_spec :: nix_job_spec
  nj_status :: nix_job_status

record nix_cron_job_spec =
  ncj_nix :: nix_spec
  ncj_template :: cronjob_spec

record nix_cron_job_status = workload_status +
  ncj_last_schedule :: "int option"
  ncj_last_successful :: "int option"
  ncj_last_failed :: "int option"
  ncj_active_jobs :: "string list"

record nix_cron_job =
  ncj_meta :: meta
  ncj_spec :: nix_cron_job_spec
  ncj_status :: nix_cron_job_status

record nix_builder_status =
  bst_observed_gen :: int
  bst_phase :: phase
  bst_endpoint :: string
  bst_ready :: bool
  bst_conditions :: "condition list"

record nix_builder =
  nb_meta :: meta
  nb_spec :: nix_builder_spec
  nb_status :: nix_builder_status

section \<open>Machine\<close>

record machine_spec =
  ma_host :: string
  ma_ssh_user :: string
  ma_key_ref :: "string option"
  ma_password_ref :: "key_ref option"

record os_info =
  os_name :: string
  os_id :: string

record cpu_info =
  cpu_model :: string
  cpu_cores :: string

record virt_info =
  vi_type :: string
  vi_engine :: string

record hardware_facts =
  hf_os :: "os_info option"
  hf_kernel :: "string option"
  hf_cpu :: "cpu_info option"
  hf_memory_mb :: "string option"
  hf_architecture :: string
  hf_hostname :: string
  hf_virt :: "virt_info option"
  hf_disks :: labels
  hf_interfaces :: labels

record machine_status =
  mst_observed_gen :: int
  mst_discoverable :: bool
  mst_has_config :: bool
  mst_applied_config :: string
  mst_applied_commit :: string
  mst_last_applied :: "int option"
  mst_last_scan :: "int option"
  mst_facts :: "hardware_facts option"
  mst_facter_result :: "string option"
  mst_conditions :: "condition list"

record machine =
  ma_meta :: meta
  ma_spec :: machine_spec
  ma_status :: machine_status

section \<open>NixosConfiguration\<close>

datatype file_value_type =
    AdditionalFileValueTypeInline | AdditionalFileValueTypeSecretRef
  | AdditionalFileValueTypeNixosFacter | OtherValueType string

record additional_file =
  af_path :: string
  af_value_type :: file_value_type
  af_inline :: string
  af_secret :: "key_ref option"
  af_facter :: bool

record job_customization =
  jt_image :: string
  jt_node_selector :: labels
  jt_service_account :: string
  jt_rest :: string

record config_spec =
  cf_machine_ref :: string
  cf_git_repo :: string
  cf_ref :: string
  cf_credentials :: "string option"
  cf_flake :: string
  cf_on_remove_flake :: string
  cf_subdir :: string
  cf_schedule :: string
  cf_full_install :: bool
  cf_files :: "additional_file list"
  cf_job_template :: "job_customization option"
  cf_store_ref :: "string option"
  cf_builder_ref :: "string option"

datatype config_phase =
    NixosConfigPhaseNone | NixosConfigPhasePending | NixosConfigPhaseBlocked
  | NixosConfigPhaseInstalling | NixosConfigPhaseConverging | NixosConfigPhaseReady
  | NixosConfigPhaseDegraded | NixosConfigPhaseRemoving

record config_status =
  cs_observed_gen :: int
  cs_phase :: config_phase
  cs_install_done :: bool
  cs_resolved :: string
  cs_last_applied :: "int option"
  cs_target :: string
  cs_install_ref :: string
  cs_day_two_ref :: string
  cs_decommission_ref :: string
  cs_install_retries :: int32
  cs_on_remove_retries :: int32
  cs_conditions :: "condition list"

record nixos_config =
  cf_meta :: meta
  cf_spec :: config_spec
  cf_status :: config_status

section \<open>NixCluster\<close>

record label_selector =
  sel_labels :: "(string \<times> string) list"
  sel_exprs :: "(string \<times> string \<times> string list) list"

record node_group =
  ng_name :: string
  ng_selector :: label_selector
  ng_count :: "int32 option"
  ng_values :: "string option"

datatype member_state =
    MemberStatusNone | MemberStatusPending | MemberStatusApplying
  | MemberStatusApplied | MemberStatusFailed

record member_status =
  mb_name :: string
  mb_status :: member_state

record node_group_status =
  gs_name :: string
  gs_members :: "member_status list"
  gs_desired :: int32
  gs_selected :: int32

record cluster_spec =
  cl_source :: nix_source
  cl_ssh_key :: "string option"
  cl_age_key :: "string option"
  cl_store_ref :: "string option"
  cl_builder_ref :: "string option"
  cl_schedule :: string
  cl_groups :: "node_group list"

datatype cluster_phase =
    NixClusterPhaseNone | NixClusterPhaseReady | NixClusterPhaseConverging
  | NixClusterPhaseDegraded | NixClusterPhaseBlocked

record cluster_status =
  cls_phase :: cluster_phase
  cls_groups :: "node_group_status list"
  cls_converge_ref :: string
  cls_conditions :: "condition list"
  cls_observed_gen :: int

record nix_cluster =
  cl_meta :: meta
  cl_spec :: cluster_spec
  cl_status :: cluster_status

section \<open>Constants and labels\<close>

definition defaultAppContainer :: string where
  "defaultAppContainer = ''app''"

definition FinalizerName :: string where
  "FinalizerName = ''nio.homystack.com/finalizer''"

definition LabelWorkloadKind :: string where
  "LabelWorkloadKind = ''nio.homystack.com/workload-kind''"

definition LabelWorkloadName :: string where
  "LabelWorkloadName = ''nio.homystack.com/workload-name''"

definition LabelRevision :: string where
  "LabelRevision = ''nio.homystack.com/revision''"

definition LabelManagedBy :: string where
  "LabelManagedBy = ''app.kubernetes.io/managed-by''"

definition managedLabels :: "string \<Rightarrow> string \<Rightarrow> labels" where
  "managedLabels kind name =
     [LabelWorkloadKind \<mapsto> kind, LabelWorkloadName \<mapsto> name, LabelManagedBy \<mapsto> ''nio'']"

section \<open>Empty values\<close>

text \<open>Go's zero values of the structs the controllers build field by field.\<close>

definition zero_meta :: meta where
  "zero_meta = \<lparr>m_name = [], m_ns = [], m_uid = [], m_rv = [], m_gen = 0, m_creation = 0,
     m_deletion = None, m_labels = Map.empty, m_finalizers = [], m_owners = []\<rparr>"

definition zero_pod_spec :: pod_spec where
  "zero_pod_spec = \<lparr>ps_volumes = [], ps_init = [], ps_containers = [], ps_restart_policy = [], ps_rest = []\<rparr>"

definition zero_pod_template :: pod_template where
  "zero_pod_template = \<lparr>pt_labels = Map.empty, pt_annotations = Map.empty, pt_spec = zero_pod_spec\<rparr>"

definition zero_container :: container where
  "zero_container = \<lparr>ct_name = [], ct_image = [], ct_command = [], ct_args = [], ct_workdir = [],
     ct_env = [], ct_mounts = [], ct_ports = [], ct_rest = []\<rparr>"

definition zero_job_spec :: job_spec where
  "zero_job_spec = \<lparr>js_active_deadline = None, js_ttl = None, js_template = zero_pod_template, js_rest = []\<rparr>"

definition zero_cronjob_spec :: cronjob_spec where
  "zero_cronjob_spec = \<lparr>cj_schedule = [], cj_concurrency = ConcurrencyUnset, cj_job = zero_job_spec, cj_rest = []\<rparr>"

definition zero_source :: nix_source where
  "zero_source = \<lparr>src_git_repo = [], src_ref = [], src_rev = [], src_dir = [],
     src_credentials = None, src_flux = None, src_poll_interval = None\<rparr>"

definition zero_nix_spec :: nix_spec where
  "zero_nix_spec = \<lparr>nx_source = zero_source, nx_run = [], nx_args = [], nx_prebuild = [], nx_image = [],
     nx_container_name = [], nx_flags = [], nx_store_ref = None, nx_builder_ref = None,
     nx_builder_template = None, nx_local_store = None, nx_trigger = None, nx_suspend = False, nx_files = []\<rparr>"

definition zero_job_status :: nix_job_status where
  "zero_job_status = \<lparr>ws_observed_gen = 0, ws_phase = PhaseNone, ws_resolved = [], ws_last_polled = None,
     ws_rolled_out = [], ws_workload_ref = [], ws_conditions = [], nj_active_job = [], nj_last_run = None,
     nj_succeeded = 0, nj_failed = 0\<rparr>"

definition zero_cron_status :: nix_cron_job_status where
  "zero_cron_status = \<lparr>ws_observed_gen = 0, ws_phase = PhaseNone, ws_resolved = [], ws_last_polled = None,
     ws_rolled_out = [], ws_workload_ref = [], ws_conditions = [], ncj_last_schedule = None,
     ncj_last_successful = None, ncj_last_failed = None, ncj_active_jobs = []\<rparr>"

definition zero_cron_job :: nix_cron_job where
  "zero_cron_job = \<lparr>ncj_meta = zero_meta,
     ncj_spec = \<lparr>ncj_nix = zero_nix_spec, ncj_template = zero_cronjob_spec\<rparr>, ncj_status = zero_cron_status\<rparr>"

definition zero_config_status :: config_status where
  "zero_config_status = \<lparr>cs_observed_gen = 0, cs_phase = NixosConfigPhaseNone, cs_install_done = False,
     cs_resolved = [], cs_last_applied = None, cs_target = [], cs_install_ref = [], cs_day_two_ref = [],
     cs_decommission_ref = [], cs_install_retries = 0, cs_on_remove_retries = 0, cs_conditions = []\<rparr>"

definition zero_machine_status :: machine_status where
  "zero_machine_status = \<lparr>mst_observed_gen = 0, mst_discoverable = False, mst_has_config = False,
     mst_applied_config = [], mst_applied_commit = [], mst_last_applied = None, mst_last_scan = None,
     mst_facts = None, mst_facter_result = None, mst_conditions = []\<rparr>"

definition zero_cluster_status :: cluster_status where
  "zero_cluster_status = \<lparr>cls_phase = NixClusterPhaseNone, cls_groups = [], cls_converge_ref = [],
     cls_conditions = [], cls_observed_gen = 0\<rparr>"

end
