(* ===== verification/Selection.thy ===== *)
theory Selection
  imports Nio_Types
begin

text \<open>
  Member selection of a NixCluster (\<open>matchingMachines\<close>, \<open>selectGroupMembers\<close> of
  \<open>nixcluster_controller.go\<close>): candidates in name order, sticky members, top-up from above
  the highest member, then lowest first. The loops of the source are the recursive functions
  \<open>keep_prev\<close> and \<open>fill\<close>; \<open>keptSet\<close> is the set of the slice \<open>kept\<close>.
  The lemmas give the closed form of the selection and the facts the cluster relies on.
\<close>

section \<open>The operations\<close>

definition matchingMachines :: "machine list \<Rightarrow> (labels \<Rightarrow> bool) \<Rightarrow> string set \<Rightarrow> string list" where
  "matchingMachines machines sel claimed =
     sort (map (\<lambda>m. m_name (ma_meta m))
       (filter (\<lambda>m. m_name (ma_meta m) \<notin> claimed \<and> sel (m_labels (ma_meta m))) machines))"

fun keep_prev :: "string list \<Rightarrow> string list \<Rightarrow> string list \<Rightarrow> string list" where
  "keep_prev cands [] kept = kept"
| "keep_prev cands (p # ps) kept =
     (if p \<in> set cands \<and> p \<notin> set kept then keep_prev cands ps (kept @ [p])
      else keep_prev cands ps kept)"

definition drop_extras :: "nat \<Rightarrow> string list \<Rightarrow> string list" where
  "drop_extras n kept = (if length kept > n then take n (sort kept) else kept)"

definition max_kept :: "string list \<Rightarrow> string" where
  "max_kept kept = foldl (\<lambda>m k. if k > m then k else m) [] kept"

fun fill :: "(string \<Rightarrow> bool) \<Rightarrow> nat \<Rightarrow> string list \<Rightarrow> string list \<Rightarrow> string list" where
  "fill P n [] kept = kept"
| "fill P n (c # cs) kept =
     (if length kept \<ge> n then kept
      else if c \<notin> set kept \<and> P c then fill P n cs (kept @ [c])
      else fill P n cs kept)"

definition top_up :: "nat \<Rightarrow> string list \<Rightarrow> string list \<Rightarrow> string list" where
  "top_up n cands kept =
     (if length kept < n
      then fill (\<lambda>_. True) n cands (fill (\<lambda>c. c > max_kept kept) n cands kept)
      else kept)"

definition selectGroupMembers ::
    "string list \<Rightarrow> string list \<Rightarrow> int32 option \<Rightarrow> string list \<times> bool" where
  "selectGroupMembers cands prev cnt =
     (case cnt of
        None \<Rightarrow> (cands, False)
      | Some c \<Rightarrow>
          let n = nat (sint c);
              kept = sort (top_up n cands (drop_extras n (keep_prev cands prev [])))
          in (kept, length kept < n))"

section \<open>The loops in closed form\<close>

lemma set_keep_prev: "set (keep_prev cands prev kept) = set kept \<union> (set prev \<inter> set cands)"
  by (induction prev arbitrary: kept) auto

lemma distinct_keep_prev: "distinct kept \<Longrightarrow> distinct (keep_prev cands prev kept)"
  by (induction prev arbitrary: kept) auto

lemma keep_prev_subset: "set kept \<subseteq> set cands \<Longrightarrow> set (keep_prev cands prev kept) \<subseteq> set cands"
  by (auto simp: set_keep_prev)

lemma keep_prev_id:
  "distinct (kept @ prev) \<Longrightarrow> set prev \<subseteq> set cands \<Longrightarrow> keep_prev cands prev kept = kept @ prev"
  by (induction prev arbitrary: kept) auto

lemma distinct_drop_extras: "distinct kept \<Longrightarrow> distinct (drop_extras n kept)"
  by (simp add: drop_extras_def)

lemma drop_extras_subset: "set (drop_extras n kept) \<subseteq> set kept"
  using set_take_subset [of n "sort kept"] by (auto simp: drop_extras_def)

lemma length_drop_extras: "length (drop_extras n kept) = min n (length kept)"
  by (simp add: drop_extras_def min_def)

lemma fill_closed:
  assumes "distinct cs"
  shows "fill P n cs kept = kept @ take (n - length kept) (filter (\<lambda>c. c \<notin> set kept \<and> P c) cs)"
  using assms
proof (induction cs arbitrary: kept)
  case (Cons c cs)
  then have c: "c \<notin> set cs" and IH: "\<And>kept. fill P n cs kept =
      kept @ take (n - length kept) (filter (\<lambda>c. c \<notin> set kept \<and> P c) cs)" by auto
  have same: "filter (\<lambda>x. x \<notin> set (kept @ [c]) \<and> P x) cs = filter (\<lambda>x. x \<notin> set kept \<and> P x) cs"
    using c by (intro filter_cong) auto
  show ?case
  proof (cases "length kept \<ge> n")
    case False
    then obtain k where "n - length kept = Suc k" "n - Suc (length kept) = k"
      by (metis Suc_diff_Suc not_le)
    with False show ?thesis
      using IH [of "kept @ [c]"] IH [of kept] same by (auto simp del: set_append)
  qed simp
qed simp

definition above :: "string list \<Rightarrow> string list \<Rightarrow> string list" where
  "above cands kept = filter (\<lambda>c. c \<notin> set kept \<and> c > max_kept kept) cands"

definition below :: "string list \<Rightarrow> string list \<Rightarrow> string list" where
  "below cands kept = filter (\<lambda>c. c \<notin> set kept \<and> \<not> c > max_kept kept) cands"

definition vacancies :: "string list \<Rightarrow> string list \<Rightarrow> string list" where
  "vacancies cands kept = above cands kept @ below cands kept"

lemma set_vacancies: "set (vacancies cands kept) = set cands - set kept"
  by (auto simp: vacancies_def above_def below_def)

lemma distinct_vacancies: "distinct cands \<Longrightarrow> distinct (vacancies cands kept)"
  by (auto simp: vacancies_def above_def below_def)

lemma length_vacancies:
  assumes "distinct cands" "distinct kept" "set kept \<subseteq> set cands"
  shows "length (vacancies cands kept) = length cands - length kept"
proof -
  have "length (vacancies cands kept) = card (set cands - set kept)"
    by (metis set_vacancies assms(1) distinct_vacancies distinct_card)
  then show ?thesis using assms by (simp add: card_Diff_subset distinct_card)
qed

text \<open>The two passes together take a prefix of the candidates above, then those below.\<close>

lemma top_up_closed:
  assumes "distinct cands"
  shows "top_up n cands kept =
    kept @ take (n - length kept) (vacancies cands kept)"
proof (cases "length kept < n")
  case True
  let ?k1 = "kept @ take (n - length kept) (above cands kept)"
  have 1: "fill (\<lambda>c. c > max_kept kept) n cands kept = ?k1"
    using assms by (simp add: fill_closed above_def)
  have top: "top_up n cands kept =
      ?k1 @ take (n - length ?k1) (filter (\<lambda>c. c \<notin> set ?k1 \<and> True) cands)"
    using True assms unfolding top_up_def 1 by (simp add: fill_closed)
  show ?thesis
  proof (cases "length (above cands kept) \<le> n - length kept")
    case all: True
    have "filter (\<lambda>c. c \<notin> set ?k1 \<and> True) cands = below cands kept"
      using all by (auto simp: above_def below_def intro!: filter_cong)
    with top all show ?thesis by (simp add: diff_diff_add vacancies_def)
  next
    case False
    with True have "n - length ?k1 = 0" by simp
    with False top show ?thesis by (simp add: vacancies_def)
  qed
qed (simp add: top_up_def)

text \<open>The reference selection: what is kept, then the vacancies.\<close>

definition kept_members :: "string list \<Rightarrow> string list \<Rightarrow> nat \<Rightarrow> string list" where
  "kept_members cands prev n = drop_extras n (keep_prev cands prev [])"

lemma selectGroupMembers_Some:
  assumes "distinct cands"
  shows "fst (selectGroupMembers cands prev (Some c)) =
     (let n = nat (sint c); kept = kept_members cands prev n
      in sort (kept @ take (n - length kept) (vacancies cands kept)))"
  using assms by (simp add: selectGroupMembers_def kept_members_def top_up_closed Let_def)

lemma kept_members_distinct [simp]: "distinct (kept_members cands prev n)"
  by (simp add: kept_members_def distinct_drop_extras distinct_keep_prev)

lemma kept_members_subset: "set (kept_members cands prev n) \<subseteq> set cands"
  using drop_extras_subset [of n "keep_prev cands prev []"] keep_prev_subset [of "[]" cands prev]
  unfolding kept_members_def by simp

lemma length_kept_members: "length (kept_members cands prev n) \<le> n"
  by (simp add: kept_members_def length_drop_extras)

lemma kept_members_all:
  "card (set prev \<inter> set cands) \<le> n \<Longrightarrow> set (kept_members cands prev n) = set prev \<inter> set cands"
  using distinct_card [OF distinct_keep_prev [of "[]" cands prev]]
  by (simp add: kept_members_def drop_extras_def set_keep_prev)

lemma kept_members_over:
  "n < card (set prev \<inter> set cands) \<Longrightarrow>
     kept_members cands prev n = take n (sorted_list_of_set (set prev \<inter> set cands))"
proof -
  assume a: "n < card (set prev \<inter> set cands)"
  let ?k = "keep_prev cands prev []"
  have d: "distinct ?k" by (simp add: distinct_keep_prev)
  have s: "set ?k = set prev \<inter> set cands" by (simp add: set_keep_prev)
  have "length ?k = card (set prev \<inter> set cands)" using distinct_card [OF d] s by simp
  moreover have "sort ?k = sorted_list_of_set (set prev \<inter> set cands)"
    using d s sorted_list_of_set_sort_remdups [of ?k] by (simp add: distinct_remdups_id)
  ultimately show ?thesis using a by (simp add: kept_members_def drop_extras_def)
qed

lemma length_selectGroupMembers:
  assumes "distinct cands"
  shows "length (fst (selectGroupMembers cands prev (Some c))) = min (nat (sint c)) (length cands)"
proof -
  let ?n = "nat (sint c)"
  let ?k = "kept_members cands prev ?n"
  have "length ?k \<le> length cands"
    using kept_members_subset [of cands prev ?n] assms
    by (metis card_mono distinct_card finite_set kept_members_distinct)
  then have "length ?k + min (?n - length ?k) (length cands - length ?k) = min ?n (length cands)"
    using length_kept_members [of cands prev ?n] by linarith
  then show ?thesis
    using assms length_vacancies [OF assms kept_members_distinct kept_members_subset, of prev ?n]
    by (simp add: selectGroupMembers_Some Let_def min.commute)
qed

lemma set_selectGroupMembers:
  assumes "distinct cands"
  shows "set (fst (selectGroupMembers cands prev cnt)) \<subseteq> set cands"
proof (cases cnt)
  case (Some c)
  let ?k = "kept_members cands prev (nat (sint c))"
  have "set (take m (vacancies cands ?k)) \<subseteq> set cands" for m
    using set_take_subset set_vacancies by fastforce
  with Some assms show ?thesis
    using kept_members_subset by (fastforce simp: selectGroupMembers_Some Let_def)
qed (simp add: selectGroupMembers_def)

lemma distinct_kept_vacancies:
  assumes "distinct cands" "distinct kept"
  shows "distinct (kept @ take m (vacancies cands kept))"
  using assms distinct_vacancies [OF assms(1)] set_take_subset [of m "vacancies cands kept"]
  by (auto simp: set_vacancies)

lemma distinct_selectGroupMembers:
  assumes "distinct cands"
  shows "distinct (fst (selectGroupMembers cands prev cnt))"
proof (cases cnt)
  case (Some c)
  then show ?thesis
    using distinct_kept_vacancies [OF assms kept_members_distinct] assms
    by (simp add: selectGroupMembers_Some Let_def)
qed (simp add: selectGroupMembers_def assms)

lemma sorted_selectGroupMembers:
  "sorted cands \<Longrightarrow> sorted (fst (selectGroupMembers cands prev cnt))"
  by (cases cnt) (simp_all add: selectGroupMembers_def Let_def)

lemma snd_selectGroupMembers:
  "snd (selectGroupMembers cands prev (Some c)) \<longleftrightarrow>
     length (fst (selectGroupMembers cands prev (Some c))) < nat (sint c)"
  by (simp add: selectGroupMembers_def Let_def)

lemma fill_subset: "set (fill P n cs kept) \<subseteq> set kept \<union> set cs"
  by (induction P n cs kept rule: fill.induct) auto

lemma selectGroupMembers_subset: "set (fst (selectGroupMembers cands prev cnt)) \<subseteq> set cands"
proof (cases cnt)
  case (Some c)
  let ?n = "nat (sint c)" let ?k = "kept_members cands prev (nat (sint c))"
  have "set (top_up ?n cands ?k) \<subseteq> set cands"
    using fill_subset [of "\<lambda>_. True" ?n cands "fill (\<lambda>c. c > max_kept ?k) ?n cands ?k"]
      fill_subset [of "\<lambda>c. c > max_kept ?k" ?n cands ?k] kept_members_subset [of cands prev ?n]
    by (auto simp: top_up_def)
  with Some show ?thesis by (simp add: selectGroupMembers_def kept_members_def Let_def)
qed (simp add: selectGroupMembers_def)

lemma selectGroupMembers_full:
  assumes "distinct cands" "set kept \<subseteq> set cands" "distinct kept" "sorted kept"
    and "length kept = min (nat (sint c)) (length cands)"
  shows "selectGroupMembers cands kept (Some c) = (kept, length kept < nat (sint c))"
proof -
  let ?n = "nat (sint c)"
  have k: "keep_prev cands kept [] = kept" using keep_prev_id [of "[]" kept cands] assms by simp
  have d: "drop_extras ?n kept = kept" using assms(5) by (simp add: drop_extras_def)
  have "length (take (?n - length kept) (vacancies cands kept)) = 0"
    using length_vacancies [OF assms(1,3,2)] assms(5) by (auto simp: min_def)
  then have "top_up ?n cands kept = kept" by (simp only: length_0_conv top_up_closed [OF assms(1)] append_Nil2)
  then show ?thesis
    using k d assms(4) by (simp add: selectGroupMembers_def Let_def sorted_sort_id)
qed

section \<open>The highest kept member\<close>

lemma foldl_max: "foldl (\<lambda>m k. if k > m then k else m) (m :: string) ks = Max (set (m # ks))"
proof -
  have "(\<lambda>m k. if k > m then k else m) = (\<lambda>(m :: string) k. max k m)"
    by (intro ext) (auto simp: max_def)
  then show ?thesis by (simp only: foldl_conv_fold Max.set_eq_fold)
qed

lemma max_kept_less: "c \<noteq> [] \<Longrightarrow> max_kept kept < c \<longleftrightarrow> (\<forall>k \<in> set kept. k < c)"
  by (cases c) (simp_all add: max_kept_def foldl_max)

text \<open>
  \<open>above_all kept c\<close>: the name \<open>c\<close> lies above every kept name. The vacancies come in the
  order of priority: first those above the kept names, each part in name order.
\<close>

definition above_all :: "string set \<Rightarrow> string \<Rightarrow> bool" where
  "above_all kept c \<longleftrightarrow> (\<forall>k \<in> kept. k < c)"

definition fills_before :: "string set \<Rightarrow> string \<Rightarrow> string \<Rightarrow> bool" where
  "fills_before kept a b \<longleftrightarrow>
     above_all kept a \<and> \<not> above_all kept b \<or> (above_all kept a \<longleftrightarrow> above_all kept b) \<and> a < b"

lemma vacancies_sorted:
  assumes "sorted cands" "distinct cands" "[] \<notin> set cands"
  shows "sorted_wrt (fills_before (set kept)) (vacancies cands kept)"
proof -
  have lt: "sorted_wrt (<) (filter P cands)" for P
    by (rule sorted_wrt_filter) (use assms in \<open>simp add: strict_sorted_iff\<close>)
  have m: "max_kept kept < c \<longleftrightarrow> above_all (set kept) c" if "c \<in> set cands" for c
    using that assms(3) max_kept_less [of c kept] unfolding above_all_def by metis
  have "sorted_wrt (fills_before (set kept)) (above cands kept)"
    unfolding above_def using lt by (rule sorted_wrt_mono_rel [rotated]) (auto simp: m fills_before_def)
  moreover have "sorted_wrt (fills_before (set kept)) (below cands kept)"
    unfolding below_def using lt by (rule sorted_wrt_mono_rel [rotated]) (auto simp: m fills_before_def)
  moreover have "fills_before (set kept) a b" if "a \<in> set (above cands kept)" "b \<in> set (below cands kept)" for a b
    using that by (auto simp: above_def below_def fills_before_def m)
  ultimately show ?thesis by (simp add: vacancies_def sorted_wrt_append)
qed

lemma take_before_rest:
  assumes "sorted_wrt R xs" "a \<in> set (take n xs)" "b \<in> set xs" "b \<notin> set (take n xs)"
  shows "R a b"
proof -
  have "sorted_wrt R (take n xs @ drop n xs)" "b \<in> set (drop n xs)"
    using assms by (simp, metis Un_iff append_take_drop_id set_append)
  then show ?thesis using assms(2) unfolding sorted_wrt_append by blast
qed

section \<open>Groups claim members one after another\<close>

text \<open>
  What the loop over the node groups needs of a selection: it never picks a claimed Machine and
  picks only known ones. \<open>claim_groups\<close> is the loop's selection, group by group.
\<close>

fun claim_groups :: "(string set \<Rightarrow> 'g \<Rightarrow> string list) \<Rightarrow> string set \<Rightarrow> 'g list \<Rightarrow> string list list" where
  "claim_groups pick claimed [] = []"
| "claim_groups pick claimed (g # gs) =
     (let ms = pick claimed g in ms # claim_groups pick (claimed \<union> set ms) gs)"

locale member_pick =
  fixes pick :: "string set \<Rightarrow> 'g \<Rightarrow> string list"
    and known :: "string set"
  assumes pick_fresh: "x \<in> set (pick claimed g) \<Longrightarrow> x \<notin> claimed"
    and pick_known: "set (pick claimed g) \<subseteq> known"
begin

lemma claim_fresh: "ms \<in> set (claim_groups pick claimed gs) \<Longrightarrow> set ms \<inter> claimed = {}"
  by (induction gs arbitrary: claimed) (auto simp: Let_def dest: pick_fresh)

lemma claim_known: "ms \<in> set (claim_groups pick claimed gs) \<Longrightarrow> set ms \<subseteq> known"
  by (induction gs arbitrary: claimed) (auto simp: Let_def dest: subsetD [OF pick_known])

lemma claim_disjoint:
  "i < j \<Longrightarrow> j < length gs \<Longrightarrow>
     set (claim_groups pick claimed gs ! i) \<inter> set (claim_groups pick claimed gs ! j) = {}"
proof (induction gs arbitrary: claimed i j)
  case (Cons g gs)
  have len: "length (claim_groups pick cl gs) = length gs" for cl
    by (induction gs arbitrary: cl) (simp_all add: Let_def)
  obtain j' where j: "j = Suc j'" "j' < length gs" using Cons.prems by (cases j) auto
  show ?case
  proof (cases i)
    case 0
    have "claim_groups pick (claimed \<union> set (pick claimed g)) gs ! j'
        \<in> set (claim_groups pick (claimed \<union> set (pick claimed g)) gs)" using j len by simp
    then show ?thesis using 0 j claim_fresh by (fastforce simp: Let_def)
  next
    case (Suc i')
    then show ?thesis using Cons.IH [of i' j'] Cons.prems j by (simp add: Let_def)
  qed
qed simp

end

text \<open>A group as the loop sees it: its selector, its previous members, its count.\<close>

type_synonym group_req = "(labels \<Rightarrow> bool) \<times> string list \<times> int32 option"

definition pick_members :: "machine list \<Rightarrow> string set \<Rightarrow> group_req \<Rightarrow> string list" where
  "pick_members machines claimed g =
     (case g of (sel, prev, cnt) \<Rightarrow>
        fst (selectGroupMembers (matchingMachines machines sel claimed) prev cnt))"

definition machine_names :: "machine list \<Rightarrow> string set" where
  "machine_names machines = (\<lambda>m. m_name (ma_meta m)) ` set machines"

lemma set_matchingMachines:
  "set (matchingMachines machines sel claimed) =
     {m_name (ma_meta m) |m. m \<in> set machines \<and> m_name (ma_meta m) \<notin> claimed \<and> sel (m_labels (ma_meta m))}"
  by (auto simp: matchingMachines_def)

lemma sorted_matchingMachines: "sorted (matchingMachines machines sel claimed)"
  by (simp add: matchingMachines_def)

lemma distinct_matchingMachines:
  "distinct (map (\<lambda>m. m_name (ma_meta m)) machines) \<Longrightarrow> distinct (matchingMachines machines sel claimed)"
  by (simp add: matchingMachines_def distinct_map inj_on_def)

interpretation members: member_pick "pick_members machines" "machine_names machines" for machines
proof
  fix x claimed and g :: group_req
  obtain sel prev cnt where g: "g = (sel, prev, cnt)" by (cases g)
  have sub: "set (pick_members machines claimed g) \<subseteq> set (matchingMachines machines sel claimed)"
    using selectGroupMembers_subset by (simp add: pick_members_def g)
  then show "x \<in> set (pick_members machines claimed g) \<Longrightarrow> x \<notin> claimed"
    by (auto simp: set_matchingMachines)
  show "set (pick_members machines claimed g) \<subseteq> machine_names machines"
    using sub by (auto simp: set_matchingMachines machine_names_def)
qed

section \<open>Properties\<close>

text \<open>C34. What a counted group gets: sorted, distinct, matching names, as many as the count asks for or
  as there are, and the flag \<open>underprovisioned\<close> exactly when there are too few candidates. A
  negative count counts as zero.\<close>

theorem selectGroupMembers_result:
  assumes "sorted cands" "distinct cands"
  shows "case selectGroupMembers cands prev (Some c) of (members, few) \<Rightarrow>
    sorted members \<and> distinct members \<and> set members \<subseteq> set cands \<and>
    length members = min (nat (sint c)) (length cands) \<and> (few \<longleftrightarrow> int (length cands) < sint c)"
proof -
  obtain ms u where r: "selectGroupMembers cands prev (Some c) = (ms, u)" by force
  have "u \<longleftrightarrow> length ms < nat (sint c)" "length ms = min (nat (sint c)) (length cands)"
    using snd_selectGroupMembers [of cands prev c] length_selectGroupMembers [OF assms(2), of prev c]
    by (simp_all add: r)
  moreover from this have "u \<longleftrightarrow> int (length cands) < sint c" by (auto simp: zless_nat_eq_int_zless)
  ultimately show ?thesis
    using sorted_selectGroupMembers [OF assms(1), of prev "Some c"]
      distinct_selectGroupMembers [OF assms(2), of prev "Some c"]
      selectGroupMembers_subset [of cands prev "Some c"] by (simp add: r)
qed

lemma selectGroupMembers_result_witness:
  "case selectGroupMembers [''m1'', ''m2'', ''m3''] [''m3''] (Some 2) of (members, few) \<Rightarrow>
    sorted members \<and> distinct members \<and> set members \<subseteq> set [''m1'', ''m2'', ''m3''] \<and>
    length members = min (nat (sint (2 :: int32))) (length [''m1'', ''m2'', ''m3'']) \<and>
    (few \<longleftrightarrow> int (length [''m1'', ''m2'', ''m3'']) < sint (2 :: int32))"
  by (rule selectGroupMembers_result) code_simp+

text \<open>Stickiness: previous members that still match stay as long as the count has room for all of
  them; when the count is below their number, exactly the lowest names among them stay.\<close>

theorem selectGroupMembers_sticky:
  assumes "distinct cands"
  shows "if card (set prev \<inter> set cands) \<le> nat (sint c)
    then set prev \<inter> set cands \<subseteq> set (fst (selectGroupMembers cands prev (Some c)))
    else fst (selectGroupMembers cands prev (Some c)) =
      take (nat (sint c)) (sorted_list_of_set (set prev \<inter> set cands))"
proof (cases "card (set prev \<inter> set cands) \<le> nat (sint c)")
  case True
  then show ?thesis using assms kept_members_all [OF True] by (simp add: selectGroupMembers_Some Let_def)
next
  case False
  then show ?thesis using assms kept_members_over [of "nat (sint c)" prev cands]
    by (simp add: selectGroupMembers_Some Let_def sorted_sort_id)
qed

lemma selectGroupMembers_sticky_witness:
  "fst (selectGroupMembers [''a'', ''b'', ''c''] [''c'', ''b''] (Some 1)) = [''b'']"
proof -
  have "sorted_list_of_set (set [''c'', ''b''] \<inter> set [''a'', ''b'', ''c'']) = [''b'', ''c'']"
    "card (set [''c'', ''b''] \<inter> set [''a'', ''b'', ''c'']) = 2" by code_simp+
  then show ?thesis using selectGroupMembers_sticky [of "[''a'', ''b'', ''c'']" "[''c'', ''b'']" 1] by simp
qed

text \<open>Growth: among the candidates that were not members before, a selected one always comes before
  an unselected one in the order of priority, which is: names above every kept member first, lower names
  only after them, each in ascending order. So a newly added lower name never takes a slot while a higher
  one is free.\<close>

theorem selectGroupMembers_grows_upward:
  assumes "sorted cands" "distinct cands" "[] \<notin> set cands"
    and "card (set prev \<inter> set cands) \<le> nat (sint c)"
    and "a \<in> set (fst (selectGroupMembers cands prev (Some c)))" "a \<notin> set prev"
    and "b \<in> set cands" "b \<notin> set (fst (selectGroupMembers cands prev (Some c)))"
  shows "fills_before (set prev \<inter> set cands) a b"
proof -
  let ?n = "nat (sint c)" let ?k = "kept_members cands prev (nat (sint c))"
  let ?t = "take (?n - length ?k) (vacancies cands ?k)"
  have k: "set ?k = set prev \<inter> set cands" by (rule kept_members_all [OF assms(4)])
  have sel: "set (fst (selectGroupMembers cands prev (Some c))) = set ?k \<union> set ?t"
    using assms(2) by (simp add: selectGroupMembers_Some Let_def)
  have "a \<in> set ?t" "b \<in> set (vacancies cands ?k)" "b \<notin> set ?t"
    using assms(5-8) unfolding sel set_vacancies k by auto
  from take_before_rest [OF vacancies_sorted [OF assms(1-3)] this] show ?thesis by (simp only: k)
qed

lemma selectGroupMembers_grows_upward_witness:
  "fills_before (set [''m3''] \<inter> set [''m1'', ''m3'', ''m4'']) ''m4'' ''m1''"
  by (rule selectGroupMembers_grows_upward [where c = 2]) code_simp+

text \<open>A full group is left alone: when its members all still match and are as many as the count
  asks for (or as there are candidates), the next selection returns exactly them, whichever other
  Machines have appeared meanwhile.\<close>

theorem selectGroupMembers_steady:
  assumes "distinct cands" "distinct cands'" "sorted cands"
    and "set (fst (selectGroupMembers cands prev (Some c))) \<subseteq> set cands'"
    and "nat (sint c) \<le> length cands"
  shows "selectGroupMembers cands' (fst (selectGroupMembers cands prev (Some c))) (Some c) =
    (fst (selectGroupMembers cands prev (Some c)), False)"
proof -
  let ?ms = "fst (selectGroupMembers cands prev (Some c))"
  have len: "length ?ms = nat (sint c)" using length_selectGroupMembers [OF assms(1)] assms(5) by simp
  have d: "distinct ?ms" and s: "sorted ?ms"
    using distinct_selectGroupMembers sorted_selectGroupMembers assms(1,3) by auto
  have "length ?ms \<le> length cands'"
    using d assms(2,4) by (metis card_mono distinct_card finite_set)
  then show ?thesis using selectGroupMembers_full [OF assms(2,4) d s, of c] len by simp
qed

lemma selectGroupMembers_steady_witness:
  "selectGroupMembers [''a'', ''b'', ''c''] [''b''] (Some 1) = ([''b''], False)"
proof -
  have "fst (selectGroupMembers [''b'', ''c''] [] (Some 1)) = [''b'']" "nat (sint (1 :: int32)) = 1" by code_simp+
  then show ?thesis
    using selectGroupMembers_steady [of "[''b'', ''c'']" "[''a'', ''b'', ''c'']" "[]" 1]
    by (simp add: less_eq_list_code char_of_def)
qed

end
