(* ===== verification/Infra_Types.thy ===== *)
theory Infra_Types
  imports Nio_Types
begin

text \<open>
  The object types of the workload and infrastructure controllers: NixDeployment, NixStatefulSet and
  NixStore of \<open>src/api/v1alpha1\<close>, the native Deployment, StatefulSet, Service, Secret,
  ConfigMap and Pod as far as the controllers read or write them, and the artifact fields of a Flux
  source. Specs the operator passes on verbatim are opaque strings.
\<close>

section \<open>Native objects\<close>

record pod_selector =
  psel_labels :: labels
  psel_rest :: string

datatype int_or_string = IntVal int32 | StrVal string

record rolling_update =
  ru_max_unavailable :: int_or_string
  ru_max_surge :: int_or_string

record deployment_spec =
  ds_replicas :: "int32 option"
  ds_selector :: "pod_selector option"
  ds_template :: pod_template
  ds_strategy_type :: string
  ds_rolling :: "rolling_update option"
  ds_rest :: string

datatype deployment_condition_type = DeploymentReplicaFailure | DeploymentConditionOther string

record deployment_condition =
  dc_type :: deployment_condition_type
  dc_status :: cond_status
  dc_message :: string

record deployment_status =
  dps_observed_gen :: int
  dps_ready :: int32
  dps_updated :: int32
  dps_available :: int32
  dps_conds :: "deployment_condition list"

record deployment =
  dp_meta :: meta
  dp_spec :: deployment_spec
  dp_status :: deployment_status

record statefulset_spec =
  sfs_replicas :: "int32 option"
  sfs_selector :: "pod_selector option"
  sfs_template :: pod_template
  sfs_service_name :: string
  sfs_update_strategy :: string
  sfs_claims :: "(string \<times> string) list"
  sfs_rest :: string

record statefulset_status =
  sfst_observed_gen :: int
  sfst_ready :: int32
  sfst_updated :: int32
  sfst_current_rev :: string
  sfst_update_rev :: string

record statefulset =
  sf_meta :: meta
  sf_spec :: statefulset_spec
  sf_status :: statefulset_status

record service_port =
  sp_name :: string
  sp_port :: int32
  sp_target :: int_or_string

record service =
  svc_meta :: meta
  svc_cluster_ip :: string
  svc_selector :: labels
  svc_ports :: "service_port list"
  svc_rest :: string

record secret =
  sec_meta :: meta
  sec_type :: string
  sec_data :: labels

record config_map =
  cmap_meta :: meta
  cmap_data :: labels

text \<open>A container state: the waiting reason, whether it is running, the exit code.\<close>

record container_status =
  ics_name :: string
  ics_waiting :: "string option"
  ics_running :: bool
  ics_terminated :: "int32 option"

record pod =
  pod_meta :: meta
  pod_init_statuses :: "container_status list"

text \<open>\<open>unstructured.NestedString\<close>: the field, its absence, or a field of another type.\<close>

datatype nested_string = NestedFound string | NestedMissing | NestedWrongType

record flux_object =
  fxo_meta :: meta
  fxo_revision :: nested_string
  fxo_url :: nested_string

section \<open>NixDeployment and NixStatefulSet\<close>

record nix_deployment_spec =
  nd_nix :: nix_spec
  nd_template :: "deployment_spec option"

record nix_deployment_status = workload_status +
  nds_ready :: int32
  nds_updated :: int32
  nds_available :: int32

record nix_deployment =
  nd_meta :: meta
  nd_spec :: nix_deployment_spec
  nd_status :: nix_deployment_status

record nix_statefulset_spec =
  nss_nix :: nix_spec
  nss_template :: statefulset_spec

record nix_statefulset_status = workload_status +
  nsst_ready :: int32
  nsst_updated :: int32
  nsst_current_rev :: string
  nsst_update_rev :: string

record nix_statefulset =
  nss_meta :: meta
  nss_spec :: nix_statefulset_spec
  nss_status :: nix_statefulset_status

section \<open>NixStore\<close>

record nix_store_spec =
  sto_replicas :: "int32 option"
  sto_storage :: string
  sto_image :: string
  sto_signing_ref :: "string option"
  sto_upstream :: "string list"
  sto_template :: "pod_template option"

record nix_store_status =
  sts_observed_gen :: int
  sts_phase :: phase
  sts_substituter_url :: string
  sts_store_uri :: string
  sts_public_key :: string
  sts_ready_replicas :: int32
  sts_conditions :: "condition list"

record nix_store =
  sto_meta :: meta
  sto_spec :: nix_store_spec
  sto_status :: nix_store_status

section \<open>Values derived from the types\<close>

definition AnnotationRevision :: string where
  "AnnotationRevision = ''nio.homystack.com/revision''"

definition WorkloadFinalizer :: string where
  "WorkloadFinalizer = ''nio.homystack.com/finalizer''"

definition zero_deployment_spec :: deployment_spec where
  "zero_deployment_spec = \<lparr>ds_replicas = None, ds_selector = None, ds_template = zero_pod_template,
     ds_strategy_type = [], ds_rolling = None, ds_rest = []\<rparr>"

definition zero_deployment_status :: deployment_status where
  "zero_deployment_status = \<lparr>dps_observed_gen = 0, dps_ready = 0, dps_updated = 0, dps_available = 0, dps_conds = []\<rparr>"

definition zero_statefulset_status :: statefulset_status where
  "zero_statefulset_status = \<lparr>sfst_observed_gen = 0, sfst_ready = 0, sfst_updated = 0,
     sfst_current_rev = [], sfst_update_rev = []\<rparr>"

definition zero_batch_job :: batch_job where
  "zero_batch_job = \<lparr>bj_meta = zero_meta, bj_spec = zero_job_spec, bj_start = None, bj_completion = None,
     bj_succeeded = 0, bj_failed = 0, bj_conds = []\<rparr>"

definition zero_batch_cronjob :: batch_cronjob where
  "zero_batch_cronjob = \<lparr>bc_meta = zero_meta, bc_spec = zero_cronjob_spec, bc_last_schedule = None,
     bc_last_successful = None, bc_active = []\<rparr>"

definition zero_builder :: nix_builder where
  "zero_builder = \<lparr>nb_meta = zero_meta,
     nb_spec = \<lparr>bs_store_ref = None, bs_image = [], bs_systems = [], bs_max_jobs = None, bs_storage = None,
       bs_template = None\<rparr>,
     nb_status = \<lparr>bst_observed_gen = 0, bst_phase = PhaseNone, bst_endpoint = [], bst_ready = False,
       bst_conditions = []\<rparr>\<rparr>"

end
