(* ===== verification/Node_Files.thy ===== *)
theory Node_Files
  imports K8s_Api
begin

text \<open>
  File destinations and node files: \<open>validateFilePath\<close>, \<open>isSafePathChar\<close>,
  \<open>validateAdditionalFiles\<close> of \<open>nixrender.go\<close>, and \<open>renderMemberNodeFile\<close>,
  \<open>renderNodeFileContent\<close>, \<open>escapeNixString\<close> of \<open>nixcluster_controller.go\<close>.
  The specification of a Nix double-quoted literal, \<open>nix_literal\<close>, says when a body is free of
  string ends and antiquotations and what it denotes; the escape function is proved against it.
\<close>

section \<open>Path validation\<close>

definition isSafePathChar :: "char \<Rightarrow> bool" where
  "isSafePathChar r \<longleftrightarrow>
     (CHR ''a'' \<le> r \<and> r \<le> CHR ''z'') \<or> (CHR ''A'' \<le> r \<and> r \<le> CHR ''Z'') \<or> (CHR ''0'' \<le> r \<and> r \<le> CHR ''9'') \<or>
     r = CHR ''.'' \<or> r = CHR ''_'' \<or> r = CHR ''-'' \<or> r = CHR ''/''"

definition validateFilePath :: "string \<Rightarrow> err option" where
  "validateFilePath p =
     (if p = [] then Some (mk_err ''path is empty'')
      else if path_is_abs p then Some (mk_err (''path '' @ go_quote p @ '' must be relative''))
      else case find (\<lambda>r. \<not> isSafePathChar r) p of
        Some r \<Rightarrow> Some (mk_err (''path '' @ go_quote p @ '' contains an unsupported character '' @
          CHR 0x27 # quote_char r @ [CHR 0x27] @ '' (allowed: letters, digits, . _ - /)''))
      | None \<Rightarrow>
          (if path_clean p = ''..'' \<or> has_prefix (path_clean p) ''../''
           then Some (mk_err (''path '' @ go_quote p @ '' escapes the source tree''))
           else None))"

fun validateAdditionalFiles :: "nix_file list \<Rightarrow> err option" where
  "validateAdditionalFiles [] = None"
| "validateAdditionalFiles (f # fs) =
     (case validateFilePath (nf_path f) of Some e \<Rightarrow> Some e | None \<Rightarrow> validateAdditionalFiles fs)"

section \<open>Node files\<close>

definition escapeNixString :: "string \<Rightarrow> string" where
  "escapeNixString s =
     (let s1 = replace_all [CHR 0x5C] [CHR 0x5C, CHR 0x5C] s;
          s2 = replace_all [CHR 0x22] [CHR 0x5C, CHR 0x22] s1
      in replace_all ''${'' (CHR 0x5C # ''${'') s2)"

definition nl :: string where
  "nl = [CHR 0x0A]"

definition renderNodeFileContent :: "string \<Rightarrow> string \<Rightarrow> string \<Rightarrow> string \<Rightarrow> string" where
  "renderNodeFileContent clusterName machineName host valuesJSON =
     ''{ lib, ... }:'' @ nl @ ''{'' @ nl @
     ''  nixcluster.'' @ go_quote clusterName @ ''.members.'' @ go_quote machineName @ '' ='' @ nl @
     ''    lib.recursiveUpdate (builtins.fromJSON '' @ CHR 0x22 # escapeNixString valuesJSON @ CHR 0x22 # '') {'' @ nl @
     ''      install.ip = '' @ CHR 0x22 # escapeNixString host @ CHR 0x22 # '';'' @ nl @
     ''    };'' @ nl @ ''}'' @ nl"

definition clusterNodesDir :: string where
  "clusterNodesDir = ''modules/nodes''"

definition renderMemberNodeFile :: "string \<Rightarrow> string \<Rightarrow> string \<Rightarrow> string option \<Rightarrow> err + nix_file" where
  "renderMemberNodeFile clusterName machineName host vals =
     (if machineName = [] \<or> contains_any machineName ''/'' \<or> contains_str machineName ''..''
      then Inl (mk_err (''member '' @ go_quote machineName @ '': name must be a single safe path segment''))
      else
        let nodePath = path_join2 clusterNodesDir (machineName @ ''.nix'')
        in case validateFilePath nodePath of
             Some e \<Rightarrow> Inl (wrap_err (''member '' @ go_quote machineName @ '': '') e)
           | None \<Rightarrow>
               let valuesJSON = (case vals of Some raw \<Rightarrow> if raw \<noteq> [] then raw else ''{}'' | None \<Rightarrow> ''{}'')
               in Inr \<lparr>nf_path = nodePath,
                       nf_inline = Some (renderNodeFileContent clusterName machineName host valuesJSON),
                       nf_configmap = None, nf_secret = None\<rparr>)"

section \<open>Lemmas on paths\<close>

lemma validateAdditionalFiles_None:
  "validateAdditionalFiles fs = None \<longleftrightarrow> (\<forall>f \<in> set fs. validateFilePath (nf_path f) = None)"
  by (induction fs) (auto split: option.splits)

lemma validateFilePath_None:
  "validateFilePath p = None \<longleftrightarrow>
     p \<noteq> [] \<and> \<not> path_is_abs p \<and> (\<forall>r \<in> set p. isSafePathChar r) \<and>
     path_clean p \<noteq> ''..'' \<and> \<not> has_prefix (path_clean p) ''../''"
proof -
  have "find (\<lambda>r. \<not> isSafePathChar r) p = None \<longleftrightarrow> (\<forall>r \<in> set p. isSafePathChar r)"
    by (auto simp: find_None_iff)
  then show ?thesis by (auto simp: validateFilePath_def split: option.splits)
qed

text \<open>
  Where a path leads: the directory stack reached from the checkout root by following its
  segments, \<open>None\<close> as soon as a \<open>..\<close> would leave the root.
\<close>

fun walk :: "string list \<Rightarrow> string list \<Rightarrow> string list option" where
  "walk dirs [] = Some dirs"
| "walk dirs (seg # segs) =
     (if seg = [] \<or> seg = ''.'' then walk dirs segs
      else if seg = ''..'' then (case dirs of [] \<Rightarrow> None | d # ds \<Rightarrow> walk ds segs)
      else walk (seg # dirs) segs)"

lemma clean_step_steps:
  "clean_step False [] ''..'' = [''..'']"
  "a \<noteq> ''..'' \<Longrightarrow> clean_step rooted (a # as) ''..'' = as"
  "seg = [] \<or> seg = ''.'' \<Longrightarrow> clean_step rooted acc seg = acc"
  "seg \<noteq> [] \<Longrightarrow> seg \<noteq> ''.'' \<Longrightarrow> seg \<noteq> ''..'' \<Longrightarrow> clean_step rooted acc seg = seg # acc"
  by auto

lemma clean_step_stuck:
  "acc \<noteq> [] \<Longrightarrow> last acc = ''..'' \<Longrightarrow>
     clean_step False acc s \<noteq> [] \<and> last (clean_step False acc s) = ''..''"
  by (cases acc) (auto split: if_splits)

declare clean_step.simps [simp del]

lemma clean_foldl_stuck:
  "acc \<noteq> [] \<Longrightarrow> last acc = ''..'' \<Longrightarrow>
     foldl (clean_step False) acc segs \<noteq> [] \<and> last (foldl (clean_step False) acc segs) = ''..''"
  by (induction segs arbitrary: acc) (simp_all add: clean_step_stuck)

text \<open>
  \<open>Clean\<close> keeps a leading \<open>..\<close> exactly when the walk leaves the root at that point or
  before; from a stack of names it follows the walk step by step.
\<close>

lemma clean_walk:
  assumes "''..'' \<notin> set acc"
  shows "(walk acc segs = None \<longrightarrow> last (foldl (clean_step False) acc segs) = ''..'' \<and>
            foldl (clean_step False) acc segs \<noteq> []) \<and>
         (\<forall>ds. walk acc segs = Some ds \<longrightarrow> foldl (clean_step False) acc segs = ds \<and> ''..'' \<notin> set ds)"
  using assms
proof (induction segs arbitrary: acc)
  case (Cons seg segs)
  show ?case
  proof (cases "seg = ''..''")
    case True
    show ?thesis
    proof (cases acc)
      case Nil
      then show ?thesis
        using True clean_foldl_stuck [of "[''..'']" segs] by (simp add: clean_step_steps)
    next
      case c: (Cons a as)
      with Cons.prems have "clean_step False acc seg = as"
        using True clean_step_steps(2) [of a False as] by auto
      then show ?thesis using c True Cons.prems Cons.IH [of as] by simp
    qed
  next
    case nd: False
    show ?thesis
    proof (cases "seg = [] \<or> seg = ''.''")
      case True
      then show ?thesis
        using nd Cons.prems Cons.IH [of acc] clean_step_steps(3) [of seg False acc] by auto
    next
      case False
      then have st: "clean_step False acc seg = seg # acc" "walk acc (seg # segs) = walk (seg # acc) segs"
        using nd by (simp_all add: clean_step_steps(4))
      have "''..'' \<notin> set (seg # acc)" using nd Cons.prems by auto
      from Cons.IH [OF this] show ?thesis unfolding foldl_Cons st .
    qed
  qed
qed simp

text \<open>What \<open>Clean\<close> produces from a relative path never contains an empty segment.\<close>

lemma clean_step_segs:
  "list_all (\<lambda>w. w \<noteq> [] \<and> CHR ''/'' \<notin> set w) acc \<Longrightarrow> CHR ''/'' \<notin> set seg \<Longrightarrow>
     list_all (\<lambda>w. w \<noteq> [] \<and> CHR ''/'' \<notin> set w) (clean_step rooted acc seg)"
  by (cases acc) (auto simp: clean_step.simps)

lemma clean_foldl_segs:
  "list_all (\<lambda>w. w \<noteq> [] \<and> CHR ''/'' \<notin> set w) acc \<Longrightarrow> \<forall>seg \<in> set segs. CHR ''/'' \<notin> set seg \<Longrightarrow>
     list_all (\<lambda>w. w \<noteq> [] \<and> CHR ''/'' \<notin> set w) (foldl (clean_step rooted) acc segs)"
  by (induction segs arbitrary: acc) (auto intro!: clean_step_segs)

lemma clean_segs_ok: "\<forall>w \<in> set (clean_segs p). w \<noteq> [] \<and> CHR ''/'' \<notin> set w"
  using clean_foldl_segs [of "[]" "split_on CHR ''/'' p"]
  by (auto simp: clean_segs_def list_all_iff dest: in_split_on_no_delim)

lemma split_join_clean_segs:
  "clean_segs p \<noteq> [] \<Longrightarrow> split_on CHR ''/'' (join ''/'' (clean_segs p)) = clean_segs p"
  using split_on_join [of "clean_segs p" "CHR ''/''"] clean_segs_ok by auto

lemma escapes_iff:
  assumes "\<not> path_is_abs p"
  shows "(path_clean p = ''..'' \<or> has_prefix (path_clean p) ''../'') \<longleftrightarrow>
         clean_segs p \<noteq> [] \<and> hd (clean_segs p) = ''..''"
proof (cases "clean_segs p")
  case Nil
  then show ?thesis using assms by (simp add: path_clean_def)
next
  case (Cons w ws)
  have pc: "path_clean p = join ''/'' (w # ws)" using assms Cons by (simp add: path_clean_def)
  have w: "w \<noteq> []" "CHR ''/'' \<notin> set w" using clean_segs_ok [of p] Cons by auto
  show ?thesis
  proof (cases ws)
    case Nil
    have "\<not> has_prefix w ''../''"
      using w(2) by (auto simp: has_prefix_def) (metis in_set_takeD list.set_intros)
    then show ?thesis using pc Cons Nil by simp
  next
    case ws: (Cons v vs)
    have j: "path_clean p = w @ CHR ''/'' # join ''/'' ws" using pc ws by simp
    have "w @ CHR ''/'' # x \<noteq> ''..''" for x by (cases w; cases "tl w") auto
    moreover have "has_prefix (w @ CHR ''/'' # x) ''../'' \<longleftrightarrow> w = ''..''" for x
      using w by (cases w; cases "tl w"; cases "tl (tl w)") auto
    ultimately show ?thesis using Cons j by simp
  qed
qed

lemma validate_walk:
  assumes "validateFilePath p = None"
  shows "\<exists>ds. walk [] (split_on CHR ''/'' p) = Some ds"
proof (rule ccontr)
  assume "\<not> ?thesis"
  then have n: "walk [] (split_on CHR ''/'' p) = None" by simp
  have abs: "\<not> path_is_abs p" and nh: "\<not> (clean_segs p \<noteq> [] \<and> hd (clean_segs p) = ''..'')"
    using assms escapes_iff by (auto simp: validateFilePath_None)
  let ?f = "foldl (clean_step False) [] (split_on CHR ''/'' p)"
  have "clean_segs p = rev ?f" using abs by (simp add: clean_segs_def)
  moreover have "?f \<noteq> []" "last ?f = ''..''"
    using clean_walk [of "[]" "split_on CHR ''/'' p"] n by simp_all
  ultimately show False using nh by (simp add: hd_rev)
qed

lemma walk_validate:
  assumes "p \<noteq> []" "\<not> path_is_abs p" "\<forall>r \<in> set p. isSafePathChar r"
    and "walk [] (split_on CHR ''/'' p) = Some ds"
  shows "validateFilePath p = None"
proof -
  have f: "foldl (clean_step False) [] (split_on CHR ''/'' p) = ds" "''..'' \<notin> set ds"
    using clean_walk [of "[]" "split_on CHR ''/'' p"] assms(4) by simp_all
  then have "clean_segs p = rev ds" using assms(2) by (simp add: clean_segs_def)
  with f(2) have "\<not> (clean_segs p \<noteq> [] \<and> hd (clean_segs p) = ''..'')"
    by (metis hd_in_set set_rev)
  then show ?thesis using assms escapes_iff [OF assms(2)] by (auto simp: validateFilePath_None)
qed

section \<open>The paths of node files\<close>

lemma clean_foldl_plain:
  "list_all (\<lambda>w. w \<noteq> [] \<and> w \<noteq> ''.'' \<and> w \<noteq> ''..'') ws \<Longrightarrow> foldl (clean_step False) acc ws = rev ws @ acc"
  by (induction ws arbitrary: acc) (auto simp: clean_step_steps(4))

lemma path_clean_plain:
  assumes "ws \<noteq> []" "\<forall>w \<in> set ws. CHR ''/'' \<notin> set w"
    and "list_all (\<lambda>w. w \<noteq> [] \<and> w \<noteq> ''.'' \<and> w \<noteq> ''..'') ws"
  shows "path_clean (join ''/'' ws) = join ''/'' ws"
proof -
  obtain u vs where ws: "ws = u # vs" using assms(1) by (cases ws) simp
  obtain c w where u: "u = c # w" using assms(3) ws by (cases u) simp_all
  have c: "c \<noteq> CHR ''/''" using assms(2) ws u by (metis list.set_intros(1))
  have "join ''/'' ws = c # tl (join ''/'' ws)" using ws u by (cases vs) simp_all
  then have "\<not> path_is_abs (join ''/'' ws)" using c unfolding path_is_abs_def by (metis has_prefix_Cons)
  then show ?thesis
    using assms split_on_join [of ws "CHR ''/''"] clean_foldl_plain [OF assms(3), of "[]"]
    by (simp add: path_clean_def clean_segs_def)
qed

definition node_path :: "string \<Rightarrow> string" where
  "node_path name = ''modules/nodes/'' @ name @ ''.nix''"

lemma node_path_join: "node_path name = join ''/'' [''modules'', ''nodes'', name @ ''.nix'']"
  by (simp add: node_path_def)

lemma node_segs_plain:
  "list_all (\<lambda>w. w \<noteq> [] \<and> w \<noteq> ''.'' \<and> w \<noteq> ''..'') [''modules'', ''nodes'', name @ ''.nix'']"
proof -
  have "length (name @ ''.nix'') \<noteq> length ''.''" "length (name @ ''.nix'') \<noteq> length ''..''" by simp_all
  then have "name @ ''.nix'' \<noteq> ''.''" "name @ ''.nix'' \<noteq> ''..''" by (blast dest: arg_cong [where f = length])+
  then show ?thesis by simp
qed

lemma path_join_node:
  assumes "CHR ''/'' \<notin> set name"
  shows "path_join2 clusterNodesDir (name @ ''.nix'') = node_path name"
proof -
  have "join ''/'' (filter (\<lambda>x. x \<noteq> []) [clusterNodesDir, name @ ''.nix'']) = node_path name"
    by (simp add: clusterNodesDir_def node_path_def)
  then show ?thesis
    using path_clean_plain [OF _ _ node_segs_plain, of name] assms
    by (simp add: path_join2_def node_path_join clusterNodesDir_def)
qed

lemma node_path_walk:
  assumes "CHR ''/'' \<notin> set name"
  shows "walk [] (split_on CHR ''/'' (node_path name)) = Some [name @ ''.nix'', ''nodes'', ''modules'']"
  using split_on_join [of "[''modules'', ''nodes'', name @ ''.nix'']" "CHR ''/''"] assms node_segs_plain [of name]
  by (simp add: node_path_join)

lemma validate_node_path:
  assumes "CHR ''/'' \<notin> set name"
  shows "validateFilePath (node_path name) = None \<longleftrightarrow> (\<forall>r \<in> set name. isSafePathChar r)"
proof
  assume "validateFilePath (node_path name) = None"
  then show "\<forall>r \<in> set name. isSafePathChar r" by (simp add: validateFilePath_None node_path_def)
next
  assume a: "\<forall>r \<in> set name. isSafePathChar r"
  have "\<forall>r \<in> set ''modules/nodes/'' \<union> set ''.nix''. isSafePathChar r" by (simp add: isSafePathChar_def)
  with a have "\<forall>r \<in> set (node_path name). isSafePathChar r" by (auto simp: node_path_def)
  then show "validateFilePath (node_path name) = None"
    using walk_validate [OF _ _ _ node_path_walk [OF assms]] by (simp add: node_path_def path_is_abs_def)
qed

lemma contains_slash: "contains_any name ''/'' \<longleftrightarrow> CHR ''/'' \<in> set name"
  by (auto simp: contains_any_def list_ex_iff)

text \<open>When a node file is produced, and which one.\<close>

definition safe_member_name :: "string \<Rightarrow> bool" where
  "safe_member_name name \<longleftrightarrow> name \<noteq> [] \<and> CHR ''/'' \<notin> set name \<and> \<not> contains_str name ''..'' \<and>
     (\<forall>r \<in> set name. isSafePathChar r)"

definition node_file :: "string \<Rightarrow> string \<Rightarrow> string \<Rightarrow> string option \<Rightarrow> nix_file" where
  "node_file clusterName name host vals =
     \<lparr>nf_path = node_path name,
      nf_inline = Some (renderNodeFileContent clusterName name host
        (case vals of Some raw \<Rightarrow> if raw \<noteq> [] then raw else ''{}'' | None \<Rightarrow> ''{}'')),
      nf_configmap = None, nf_secret = None\<rparr>"

lemma renderMemberNodeFile_safe:
  "safe_member_name name \<Longrightarrow>
     renderMemberNodeFile clusterName name host vals = Inr (node_file clusterName name host vals)"
  using validate_node_path [of name]
  by (simp add: renderMemberNodeFile_def safe_member_name_def contains_slash path_join_node node_file_def)

lemma renderMemberNodeFile_unsafe:
  "\<not> safe_member_name name \<Longrightarrow> \<exists>e. renderMemberNodeFile clusterName name host vals = Inl e"
  using validate_node_path [of name]
  by (auto simp: renderMemberNodeFile_def safe_member_name_def contains_slash path_join_node Let_def
      split: option.splits)

section \<open>Nix string literals\<close>

text \<open>
  The body of a Nix double-quoted literal: a backslash escapes the next character (\<open>\n\<close>,
  \<open>\r\<close>, \<open>\t\<close> are control characters), a quote would end the literal and
  an unescaped \<open>${\<close> would start an antiquotation; in the last two cases, and for a
  dangling backslash, the body is not a plain literal (\<open>None\<close>). Raw carriage returns, which
  Nix turns into line feeds, are kept as they are.
\<close>

definition nix_unescape :: "char \<Rightarrow> char" where
  "nix_unescape c = (if c = CHR ''n'' then CHR 0x0A else if c = CHR ''r'' then CHR 0x0D
     else if c = CHR ''t'' then CHR 0x09 else c)"

fun nix_literal :: "string \<Rightarrow> string option" where
  "nix_literal [] = Some []"
| "nix_literal [c] = (if c = CHR 0x22 \<or> c = CHR 0x5C then None else Some [c])"
| "nix_literal (c # d # cs) =
     (if c = CHR 0x5C then map_option ((#) (nix_unescape d)) (nix_literal cs)
      else if c = CHR 0x22 \<or> c = CHR ''$'' \<and> d = CHR ''{'' then None
      else map_option ((#) c) (nix_literal (d # cs)))"

text \<open>The three replacements as one pass.\<close>

fun escape_once :: "string \<Rightarrow> string" where
  "escape_once [] = []"
| "escape_once [c] = (if c = CHR 0x22 \<or> c = CHR 0x5C then [CHR 0x5C, c] else [c])"
| "escape_once (c # d # cs) =
     (if c = CHR 0x22 \<or> c = CHR 0x5C then CHR 0x5C # c # escape_once (d # cs)
      else if c = CHR ''$'' \<and> d = CHR ''{'' then CHR 0x5C # CHR ''$'' # CHR ''{'' # escape_once cs
      else c # escape_once (d # cs))"

definition quote_bs :: "char \<Rightarrow> string" where
  "quote_bs c = (if c = CHR 0x22 \<or> c = CHR 0x5C then [CHR 0x5C, c] else [c])"

lemma escape_first_passes:
  "replace_all [CHR 0x22] [CHR 0x5C, CHR 0x22] (replace_all [CHR 0x5C] [CHR 0x5C, CHR 0x5C] s) =
     concat (map quote_bs s)"
  unfolding replace_all_single by (induction s) (auto simp: quote_bs_def)

lemma escapeNixString_once: "escapeNixString s = escape_once s"
proof -
  have "replace_all ''${'' (CHR 0x5C # ''${'') (concat (map quote_bs s)) = escape_once s"
  proof (induction s rule: escape_once.induct)
    case (3 c d cs)
    consider "c = CHR 0x22 \<or> c = CHR 0x5C" | "c = CHR ''$''" "d = CHR ''{''"
      | "c \<noteq> CHR 0x22" "c \<noteq> CHR 0x5C" "c \<noteq> CHR ''$'' \<or> d \<noteq> CHR ''{''" by blast
    then show ?case
    proof cases
      case 1
      then show ?thesis using 3(1) by (auto simp: quote_bs_def)
    next
      case 2
      then show ?thesis using 3(2) by (simp add: quote_bs_def)
    next
      case other: 3
      have "\<not> has_prefix (c # quote_bs d @ xs) ''${''" for xs
        using other by (auto simp: quote_bs_def)
      then show ?thesis using other 3(3) by (auto simp: quote_bs_def)
    qed
  qed (auto simp: quote_bs_def)
  then show ?thesis by (simp add: escapeNixString_def escape_first_passes)
qed

lemma nix_literal_plain:
  "c \<noteq> CHR 0x22 \<Longrightarrow> c \<noteq> CHR 0x5C \<Longrightarrow> c \<noteq> CHR ''$'' \<Longrightarrow>
     nix_literal (c # s) = map_option ((#) c) (nix_literal s)"
  by (cases s) auto

lemma escape_once_literal: "nix_literal (escape_once s) = Some s"
proof (induction s rule: escape_once.induct)
  case (3 c d cs)
  have ne: "escape_once (x # xs) \<noteq> []" for x xs by (cases xs) auto
  have hd: "hd (escape_once (x # xs)) = CHR ''{'' \<longleftrightarrow> x = CHR ''{''" for x xs by (cases xs) auto
  obtain y ys where y: "escape_once (d # cs) = y # ys" using ne [of d cs] by (cases "escape_once (d # cs)") auto
  with hd [of d cs] 3 show ?case by (auto simp: nix_unescape_def nix_literal_plain [of "CHR ''{''"])
qed (auto simp: nix_unescape_def)

section \<open>Properties\<close>

text \<open>C38. \<open>validateFilePath\<close> accepts exactly the non-empty relative paths over the safe
  character set that never step out of the checkout when followed segment by segment. (The code decides
  this on the cleaned path; \<open>walk\<close> follows the path as written.)\<close>

theorem validateFilePath_iff:
  "validateFilePath p = None \<longleftrightarrow>
     p \<noteq> [] \<and> \<not> path_is_abs p \<and> list_all isSafePathChar p \<and> walk [] (split_on CHR ''/'' p) \<noteq> None"
  using validate_walk [of p] walk_validate [of p] validateFilePath_None [of p]
  by (auto simp: list_all_iff)

text \<open>C33. Escaping is lossless and keeps a value inside its literal: a Nix double-quoted literal whose
  body is \<open>escapeNixString s\<close> denotes exactly \<open>s\<close>, with no premature end and no live
  antiquotation, for every \<open>s\<close>.\<close>

theorem escapeNixString_literal: "nix_literal (escapeNixString s) = Some s"
  by (simp only: escapeNixString_once escape_once_literal)

text \<open>A member's node file is produced exactly for the names that are one safe path segment, and it
  lands at \<open>modules/nodes/<name>.nix\<close>: its path passes the validation and leads to that file and
  nowhere else.\<close>

theorem renderMemberNodeFile_result:
  "case renderMemberNodeFile clusterName name host vals of
     Inl _ \<Rightarrow> \<not> safe_member_name name
   | Inr f \<Rightarrow> safe_member_name name \<and> f = node_file clusterName name host vals \<and>
       validateFilePath (nf_path f) = None \<and>
       walk [] (split_on CHR ''/'' (nf_path f)) = Some [name @ ''.nix'', ''nodes'', ''modules'']"
proof (cases "safe_member_name name")
  case True
  then show ?thesis
    using validate_node_path [of name] node_path_walk [of name]
    by (simp add: renderMemberNodeFile_safe node_file_def) (simp add: safe_member_name_def)
next
  case False
  obtain e where "renderMemberNodeFile clusterName name host vals = Inl e"
    using renderMemberNodeFile_unsafe [OF False] by blast
  then show ?thesis using False by simp
qed

end
