(* ===== verification/Run_Outcome.thy ===== *)
theory Run_Outcome
  imports K8s_Api
begin

text \<open>
  The outcome of runs, read off finished batch Jobs (\<open>nixcronjob_controller.go\<close>,
  \<open>nixjob_controller.go\<close>): which Jobs belong to a workload, when a Job finished, the most
  recent failed and successful run, and whether the latest run failed. The lemmas show that the scan
  of \<open>lastFinishedRuns\<close> computes a maximum, so both times only move forward.
\<close>

section \<open>The operations\<close>

definition ownedBy :: "meta \<Rightarrow> string \<Rightarrow> bool" where
  "ownedBy obj owner \<longleftrightarrow> owner \<noteq> [] \<and> list_ex (\<lambda>r. or_uid r = owner) (m_owners obj)"

definition findJobCondition :: "batch_job \<Rightarrow> job_condition_type \<Rightarrow> job_condition option" where
  "findJobCondition job t = find (\<lambda>c. jc_type c = t) (bj_conds job)"

definition jobHasCondition :: "batch_job \<Rightarrow> job_condition_type \<Rightarrow> bool" where
  "jobHasCondition job t \<longleftrightarrow> list_ex (\<lambda>c. jc_type c = t \<and> jc_status c = ConditionTrue) (bj_conds job)"

definition jobFinishedAt :: "batch_job \<Rightarrow> job_condition_type \<Rightarrow> int option" where
  "jobFinishedAt job want =
     (case findJobCondition job want of
        None \<Rightarrow> None
      | Some c \<Rightarrow>
          if jc_status c \<noteq> ConditionTrue then None
          else case bj_completion job of Some t \<Rightarrow> Some t | None \<Rightarrow> Some (jc_transition c))"

text \<open>\<open>(*metav1.Time).Before\<close> is false when either side is nil.\<close>

definition time_before :: "int option \<Rightarrow> int option \<Rightarrow> bool" where
  "time_before a b = (case (a, b) of (Some x, Some y) \<Rightarrow> x < y | _ \<Rightarrow> False)"

definition later :: "int option \<Rightarrow> int option \<Rightarrow> bool" where
  "later current candidate \<longleftrightarrow> current = None \<or> time_before current candidate"

text \<open>The loop of \<open>lastFinishedRuns\<close> over the listed Jobs; \<open>uid1\<close> and \<open>uid2\<close> are the
  UIDs of the NixCronJob and of its CronJob.\<close>

definition scan_job :: "string \<Rightarrow> string \<Rightarrow> int option \<times> int option \<Rightarrow> batch_job \<Rightarrow> int option \<times> int option" where
  "scan_job uid1 uid2 acc job =
     (case acc of (lastFailed, lastSucceeded) \<Rightarrow>
        if \<not> ownedBy (bj_meta job) uid1 \<and> \<not> ownedBy (bj_meta job) uid2 then (lastFailed, lastSucceeded)
        else
          (let f = jobFinishedAt job JobFailed; c = jobFinishedAt job JobComplete
           in (if f \<noteq> None \<and> later lastFailed f then f else lastFailed,
               if c \<noteq> None \<and> later lastSucceeded c then c else lastSucceeded)))"

definition lastFinishedRuns ::
    "'w env \<Rightarrow> nix_cron_job \<Rightarrow> batch_cronjob \<Rightarrow> ('w, int option \<times> int option) prog" where
  "lastFinishedRuns E ncj cj =
     (let lastFailed = ncj_last_failed (ncj_status ncj);
          ls = ncj_last_successful (ncj_status ncj);
          lastSucceeded = (if later ls (bc_last_successful cj) then bc_last_successful cj else ls)
      in do {
        r \<leftarrow> api_list (e_batch_jobs E) EvBatchJob \<lparr>lo_ns = m_ns (ncj_meta ncj), lo_labels = [], lo_fields = []\<rparr>;
        (case r of
           Inl _ \<Rightarrow> State_Monad.return (lastFailed, lastSucceeded)
         | Inr jobs \<Rightarrow> State_Monad.return
             (foldl (scan_job (m_uid (ncj_meta ncj)) (m_uid (bc_meta cj))) (lastFailed, lastSucceeded) jobs))
      })"

definition latestRunFailed :: "int option \<Rightarrow> int option \<Rightarrow> bool \<times> string" where
  "latestRunFailed lastFailed lastSuccessful =
     (case lastFailed of
        None \<Rightarrow> (False, [])
      | Some f \<Rightarrow>
          if lastSuccessful \<noteq> None \<and> \<not> time_before lastSuccessful lastFailed then (False, [])
          else (True, ''the most recent run failed at '' @ rfc3339 f))"

section \<open>Times that only move forward\<close>

text \<open>\<open>None\<close> is before every time: the order of \<open>Option_ord\<close>.\<close>

definition newest :: "int option \<Rightarrow> int option \<Rightarrow> int option" where
  "newest a b = (case (a, b) of (None, _) \<Rightarrow> b | (_, None) \<Rightarrow> a | (Some x, Some y) \<Rightarrow> Some (max x y))"

lemma newest_simps [simp]:
  "newest None b = b" "newest a None = a" "newest (Some x) (Some y) = Some (max x y)"
  by (simp_all add: newest_def split: option.split)

lemma newest_assoc: "newest (newest a b) c = newest a (newest b c)"
  by (cases a; cases b; cases c) (simp_all add: max.assoc)

lemma later_newest: "(if later a b then b else a) = newest a b"
  by (cases a; cases b) (auto simp: later_def time_before_def max_def)

lemma later_newest_some: "(if b \<noteq> None \<and> later a b then b else a) = newest a b"
  by (cases a; cases b) (auto simp: later_def time_before_def max_def)

text \<open>The run times of one kind in a list of Jobs, newest of all.\<close>

definition own_runs :: "string \<Rightarrow> string \<Rightarrow> job_condition_type \<Rightarrow> batch_job list \<Rightarrow> int list" where
  "own_runs uid1 uid2 t jobs =
     List.map_filter (\<lambda>job. if ownedBy (bj_meta job) uid1 \<or> ownedBy (bj_meta job) uid2
       then jobFinishedAt job t else None) jobs"

definition newest_of :: "int option \<Rightarrow> int list \<Rightarrow> int option" where
  "newest_of a ts = foldl (\<lambda>a t. newest a (Some t)) a ts"

lemma scan_jobs:
  "foldl (scan_job uid1 uid2) (f, s) jobs =
     (newest_of f (own_runs uid1 uid2 JobFailed jobs), newest_of s (own_runs uid1 uid2 JobComplete jobs))"
proof (induction jobs arbitrary: f s)
  case Nil
  then show ?case by (simp add: own_runs_def newest_of_def map_filter_simps)
next
  case (Cons job jobs)
  show ?case
  proof (cases "ownedBy (bj_meta job) uid1 \<or> ownedBy (bj_meta job) uid2")
    case True
    then have "scan_job uid1 uid2 (f, s) job =
        (newest f (jobFinishedAt job JobFailed), newest s (jobFinishedAt job JobComplete))"
      by (simp only: scan_job_def prod.case Let_def later_newest_some if_False de_Morgan_disj [symmetric] simp_thms)
    then show ?thesis using True Cons.IH
      by (auto simp: own_runs_def newest_of_def map_filter_simps split: option.split)
  next
    case False
    then show ?thesis using Cons.IH by (simp add: scan_job_def own_runs_def map_filter_simps)
  qed
qed

lemma newest_of_Some: "newest_of (Some x) ts = Some (Max (insert x (set ts)))"
proof (induction ts arbitrary: x)
  case (Cons t ts)
  have "Max (insert x (set (t # ts))) = Max (insert (max x t) (set ts))"
    by (cases "ts = []") (simp_all add: insert_commute max.assoc max.left_commute max.commute)
  then show ?case using Cons.IH [of "max x t"] by (simp add: newest_of_def)
qed (simp add: newest_of_def)

lemma newest_of_None: "newest_of None ts = (if ts = [] then None else Some (Max (set ts)))"
  by (cases ts) (use newest_of_Some in \<open>auto simp: newest_of_def\<close>)

lemma latestRunFailed_iff:
  "fst (latestRunFailed f s) \<longleftrightarrow> (\<exists>x. f = Some x \<and> (\<forall>y. s = Some y \<longrightarrow> y < x))"
  by (cases f; cases s) (simp_all add: latestRunFailed_def time_before_def)

lemma newest_of_from: "newest_of a ts = newest a (newest_of None ts)"
proof (cases a)
  case (Some x)
  have "Max (insert x (set ts)) = max x (Max (set ts))" if "ts \<noteq> []" using that by simp
  with Some show ?thesis by (cases "ts = []") (simp_all add: newest_of_Some newest_of_None)
qed simp

section \<open>Properties\<close>

text \<open>\<open>lastFinishedRuns\<close> returns, for failures and for successes alike, the newest of the
  time recorded before and the finish times of the listed Jobs owned by the workload or its CronJob (the
  CronJob's own success time counts too). So neither time ever moves back, and an unreadable Job list
  (\<open>jobs = []\<close>) leaves the recorded times as they are.\<close>

theorem lastFinishedRuns_newest:
  "\<exists>jobs log. sys_log (snd (run_state (lastFinishedRuns E ncj cj) st)) = sys_log st @ [log] \<and>
     (log = EvBatchJob (Listed \<lparr>lo_ns = m_ns (ncj_meta ncj), lo_labels = [], lo_fields = []\<rparr> (Inr jobs)) \<or> jobs = []) \<and>
     fst (run_state (lastFinishedRuns E ncj cj) st) =
       (newest (ncj_last_failed (ncj_status ncj))
          (newest_of None (own_runs (m_uid (ncj_meta ncj)) (m_uid (bc_meta cj)) JobFailed jobs)),
        newest (newest (ncj_last_successful (ncj_status ncj)) (bc_last_successful cj))
          (newest_of None (own_runs (m_uid (ncj_meta ncj)) (m_uid (bc_meta cj)) JobComplete jobs)))"
proof -
  let ?lo = "\<lparr>lo_ns = m_ns (ncj_meta ncj), lo_labels = [], lo_fields = []\<rparr>"
  obtain r w where r: "ka_list (e_batch_jobs E) ?lo (sys_world st) = (r, w)" by force
  show ?thesis
  proof (cases r)
    case (Inl e)
    then show ?thesis
      by (intro exI [of _ "[]"] exI [of _ "EvBatchJob (Listed ?lo r)"])
        (simp add: lastFinishedRuns_def api_defs api_call_def r Let_def later_newest own_runs_def
          newest_of_def map_filter_simps)
  next
    case (Inr jobs)
    then show ?thesis
      by (intro exI [of _ jobs] exI [of _ "EvBatchJob (Listed ?lo r)"])
        (simp add: lastFinishedRuns_def api_defs api_call_def r Let_def later_newest scan_jobs
          newest_of_from [symmetric])
  qed
qed

text \<open>The verdict on a workload: read off the newest failure and the newest success of its finished
  runs, \<open>latestRunFailed\<close> says exactly whether some run failed strictly after every success; with no
  failure there is no verdict, and a success at the same second clears it.\<close>

theorem latestRunFailed_verdict:
  "fst (latestRunFailed (newest_of None failures) (newest_of None successes)) \<longleftrightarrow>
     list_ex (\<lambda>x. list_all (\<lambda>y. y < x) successes) failures"
proof (cases "failures = []")
  case False
  let ?f = "Max (set failures)" and ?ok = "\<lambda>x. list_all (\<lambda>y. y < x) successes"
  have up: "x \<le> ?f" if "x \<in> set failures" for x using False that by simp_all
  have "?f \<in> set failures" using False by simp
  moreover have "?ok ?f" if "x \<in> set failures" "?ok x" for x
    using that up [of x] by (auto simp: list_all_iff intro: less_le_trans)
  ultimately have "list_ex ?ok failures \<longleftrightarrow> ?ok ?f" by (auto simp: list_ex_iff)
  moreover have "?ok ?f \<longleftrightarrow> successes = [] \<or> Max (set successes) < ?f"
    by (cases "successes = []") (simp_all add: list_all_iff)
  ultimately show ?thesis using False by (simp add: latestRunFailed_iff newest_of_None)
qed (simp add: newest_of_None latestRunFailed_iff)

end
