(* ===== verification/Cluster_Status.thy ===== *)
theory Cluster_Status
  imports Run_Outcome
begin

text \<open>
  What a converge (or day-2) cron job says about the machines it serves
  (\<open>nixcluster_controller.go\<close>): \<open>convergeStall\<close>, the coarse status of a member and the phase
  of the cluster. The cron is passed with the flag \<open>haveCron\<close> as in the source; it is the zero
  value when the flag is false.
\<close>

section \<open>The operations\<close>

definition convergeStall :: "lib \<Rightarrow> nix_cron_job \<Rightarrow> bool \<Rightarrow> condition option" where
  "convergeStall L cron haveCron =
     (if \<not> haveCron then None
      else case lib_find_cond L (ws_conditions (ncj_status cron)) ConditionStalled of
        None \<Rightarrow> None
      | Some c \<Rightarrow> if c_status c \<noteq> ConditionTrue \<or> c_reason c \<noteq> ReasonInfraNotReady then None else Some c)"

definition coarseMemberStatus :: "lib \<Rightarrow> nix_cron_job \<Rightarrow> bool \<Rightarrow> member_state \<Rightarrow> member_state" where
  "coarseMemberStatus L cron haveCron prevStatus =
     (let st = ncj_status cron in
      if \<not> haveCron then MemberStatusPending
      else if convergeStall L cron haveCron \<noteq> None
      then (if prevStatus \<noteq> MemberStatusNone then prevStatus else MemberStatusPending)
      else if fst (latestRunFailed (ncj_last_failed st) (ncj_last_successful st)) then MemberStatusFailed
      else if ws_phase st = PhaseFailed \<or> ws_phase st = PhaseDegraded then MemberStatusFailed
      else if ws_phase st = PhaseReady then MemberStatusApplied
      else if length (ncj_active_jobs st) > 0 then MemberStatusApplying
      else if ncj_last_successful st \<noteq> None then MemberStatusApplied
      else MemberStatusPending)"

definition clusterPhase :: "lib \<Rightarrow> nix_cron_job \<Rightarrow> bool \<Rightarrow> nat \<Rightarrow> cluster_phase" where
  "clusterPhase L cron haveCron totalMembers =
     (let st = ncj_status cron in
      if totalMembers = 0 then NixClusterPhaseBlocked
      else if \<not> haveCron then NixClusterPhaseConverging
      else if convergeStall L cron haveCron \<noteq> None then NixClusterPhaseBlocked
      else if fst (latestRunFailed (ncj_last_failed st) (ncj_last_successful st)) then NixClusterPhaseDegraded
      else if ws_phase st = PhaseFailed \<or> ws_phase st = PhaseDegraded then NixClusterPhaseDegraded
      else if ws_phase st = PhaseReady then NixClusterPhaseReady
      else if ncj_last_successful st \<noteq> None then NixClusterPhaseReady
      else NixClusterPhaseConverging)"

section \<open>Properties\<close>

text \<open>The phase of a cluster and the status of its members never contradict each other: a Ready
  cluster has only Applied or Applying members, a Degraded one only Failed members, a Converging one
  only Pending or Applying members, and in a Blocked cluster with members every member still
  reports what it reported before (Pending if it never did).\<close>

theorem clusterPhase_matches_members:
  "case clusterPhase L cron haveCron (Suc n) of
     NixClusterPhaseReady \<Rightarrow> coarseMemberStatus L cron haveCron prev \<in> {MemberStatusApplied, MemberStatusApplying}
   | NixClusterPhaseDegraded \<Rightarrow> coarseMemberStatus L cron haveCron prev = MemberStatusFailed
   | NixClusterPhaseConverging \<Rightarrow> coarseMemberStatus L cron haveCron prev \<in> {MemberStatusPending, MemberStatusApplying}
   | NixClusterPhaseBlocked \<Rightarrow> coarseMemberStatus L cron haveCron prev =
       (if prev = MemberStatusNone then MemberStatusPending else prev)
   | NixClusterPhaseNone \<Rightarrow> False"
  by (simp add: clusterPhase_def coarseMemberStatus_def Let_def)

end
