(* ===== verification/Children.thy ===== *)
theory Children
  imports K8s_Api
begin

text \<open>
  The child workloads of a NixosConfiguration (\<open>nixosconfiguration_children.go\<close>): the
  builders of the install NixJob, the day-2 NixCronJob and the decommission NixJob, with the
  functions that shape their source, files, arguments and pod. A builder either reports why the
  machine or the files cannot be served or returns the object to create. Reading
  \<open>SSHKeySecretRef.Name\<close> of a Machine without a key would be a nil dereference in Go:
  \<open>targetSSHPodTemplate\<close> returns \<open>None\<close> there, and the lemmas show no builder gets so far.
\<close>

section \<open>Constants\<close>

definition targetSSHVolumeName :: string where
  [const_defs]: "targetSSHVolumeName = ''nio-target-ssh''"

definition targetSSHMountPath :: string where
  [const_defs]: "targetSSHMountPath = ''/etc/nio/target-ssh''"

definition targetSSHKeyPath :: string where
  [const_defs]: "targetSSHKeyPath = targetSSHMountPath @ ''/ssh-privatekey''"

definition targetNixSSHOpts :: string where
  [const_defs]: "targetNixSSHOpts = ''-i '' @ targetSSHKeyPath @
     '' -o StrictHostKeyChecking=no -o UserKnownHostsFile=/dev/null''"

definition installerInstallable :: string where
  [const_defs]: "installerInstallable = ''github:nix-community/nixos-anywhere''"

definition rebuildInstallable :: string where
  [const_defs]: "rebuildInstallable = ''nixpkgs#nixos-rebuild''"

definition defaultDayTwoSchedule :: string where
  [const_defs]: "defaultDayTwoSchedule = ''*/30 * * * *''"

definition installChildName :: "string \<Rightarrow> string" where
  [const_defs]: "installChildName cfg = cfg @ ''-install''"

definition dayTwoChildName :: "string \<Rightarrow> string" where
  [const_defs]: "dayTwoChildName cfg = cfg @ ''-day2''"

definition decommissionChildName :: "string \<Rightarrow> string" where
  [const_defs]: "decommissionChildName cfg = cfg @ ''-onremove''"

section \<open>Parts of a child\<close>

fun value_type_str :: "file_value_type \<Rightarrow> string" where
  "value_type_str AdditionalFileValueTypeInline = ''Inline''"
| "value_type_str AdditionalFileValueTypeSecretRef = ''SecretRef''"
| "value_type_str AdditionalFileValueTypeNixosFacter = ''NixosFacter''"
| "value_type_str (OtherValueType s) = s"

fun map_files :: "additional_file list \<Rightarrow> nix_file list \<Rightarrow> err + nix_file list" where
  "map_files [] out = Inr out"
| "map_files (f # fs) out =
     (case af_value_type f of
        AdditionalFileValueTypeInline \<Rightarrow>
          map_files fs (out @ [\<lparr>nf_path = af_path f, nf_inline = Some (af_inline f),
            nf_configmap = None, nf_secret = None\<rparr>])
      | AdditionalFileValueTypeSecretRef \<Rightarrow>
          map_files fs (out @ [\<lparr>nf_path = af_path f, nf_inline = None,
            nf_configmap = None, nf_secret = af_secret f\<rparr>])
      | vt \<Rightarrow> Inl (mk_err (''additionalFile '' @ go_quote (af_path f) @ '': valueType '' @
            go_quote (value_type_str vt) @ '' is not supported'')))"

definition mapAdditionalFiles :: "nixos_config \<Rightarrow> err + nix_file list" where
  "mapAdditionalFiles config = map_files (cf_files (cf_spec config)) []"

definition is_hex_digit :: "char \<Rightarrow> bool" where
  "is_hex_digit c \<longleftrightarrow> (CHR ''0'' \<le> c \<and> c \<le> CHR ''9'') \<or> (CHR ''a'' \<le> c \<and> c \<le> CHR ''f'') \<or>
     (CHR ''A'' \<le> c \<and> c \<le> CHR ''F'')"

definition isFullCommitSHA :: "string \<Rightarrow> bool" where
  "isFullCommitSHA s \<longleftrightarrow> length s = 40 \<and> list_all is_hex_digit s"

definition childNixSource :: "nixos_config \<Rightarrow> nix_source" where
  "childNixSource config =
     (let src = zero_source\<lparr>src_git_repo := cf_git_repo (cf_spec config),
                 src_credentials := cf_credentials (cf_spec config),
                 src_dir := cf_subdir (cf_spec config)\<rparr>
      in if isFullCommitSHA (cf_ref (cf_spec config)) then src\<lparr>src_rev := cf_ref (cf_spec config)\<rparr>
         else src\<lparr>src_ref := cf_ref (cf_spec config)\<rparr>)"

definition targetHost :: "machine \<Rightarrow> string" where
  "targetHost machine =
     (if ma_ssh_user (ma_spec machine) = [] then ''root'' else ma_ssh_user (ma_spec machine)) @
     ''@'' @ ma_host (ma_spec machine)"

definition flakeInstallable :: "string \<Rightarrow> string" where
  "flakeInstallable attr = ''.'' @ attr"

definition targetSSHPodTemplate :: "machine \<Rightarrow> pod_template option" where
  "targetSSHPodTemplate machine =
     (case ma_key_ref (ma_spec machine) of
        None \<Rightarrow> None
      | Some secretName \<Rightarrow> Some (zero_pod_template\<lparr>pt_spec := zero_pod_spec\<lparr>
          ps_volumes := [\<lparr>vol_name = targetSSHVolumeName, vol_source = VSecret secretName (Some 256)\<rparr>],
          ps_containers := [zero_container\<lparr>ct_name := defaultAppContainer,
            ct_env := [\<lparr>ev_name = ''NIX_SSHOPTS'', ev_value = targetNixSSHOpts\<rparr>],
            ct_mounts := [\<lparr>vm_name = targetSSHVolumeName, vm_path = targetSSHMountPath,
              vm_read_only = True\<rparr>]\<rparr>]\<rparr>\<rparr>))"

definition requireTargetKey :: "machine \<Rightarrow> err option" where
  "requireTargetKey machine =
     (if ma_key_ref (ma_spec machine) = None
      then Some (mk_err (''machine '' @ go_quote (m_name (ma_meta machine)) @
        '' has no sshKeySecretRef; cannot apply over SSH''))
      else None)"

definition installAnywhereArgs :: "nixos_config \<Rightarrow> machine \<Rightarrow> string list" where
  "installAnywhereArgs config machine =
     [''--flake'', flakeInstallable (cf_flake (cf_spec config)),
      ''-i'', targetSSHKeyPath,
      ''--ssh-option'', ''StrictHostKeyChecking=no'',
      ''--ssh-option'', ''UserKnownHostsFile=/dev/null'',
      targetHost machine]"

section \<open>The builders\<close>

definition nil_dereference :: err where
  "nil_dereference = mk_err ''nil pointer dereference''"

definition buildInstallNixJob :: "nixos_config \<Rightarrow> machine \<Rightarrow> err + nix_job" where
  "buildInstallNixJob config machine =
     (case requireTargetKey machine of Some e \<Rightarrow> Inl e | None \<Rightarrow>
      (case mapAdditionalFiles config of Inl e \<Rightarrow> Inl e | Inr files \<Rightarrow>
      (case targetSSHPodTemplate machine of None \<Rightarrow> Inl nil_dereference | Some pod \<Rightarrow>
         Inr \<lparr>nj_meta = zero_meta\<lparr>m_name := installChildName (m_name (cf_meta config)),
                                  m_ns := m_ns (cf_meta config)\<rparr>,
              nj_spec = \<lparr>nj_nix = zero_nix_spec\<lparr>
                  nx_source := childNixSource config,
                  nx_run := installerInstallable,
                  nx_args := installAnywhereArgs config machine,
                  nx_files := files,
                  nx_store_ref := cf_store_ref (cf_spec config),
                  nx_builder_ref := cf_builder_ref (cf_spec config)\<rparr>,
                nj_template = Some (zero_job_spec\<lparr>js_template := pod\<rparr>)\<rparr>,
              nj_status = zero_job_status\<rparr>)))"

definition buildDayTwoNixCronJob :: "nixos_config \<Rightarrow> machine \<Rightarrow> err + nix_cron_job" where
  "buildDayTwoNixCronJob config machine =
     (case requireTargetKey machine of Some e \<Rightarrow> Inl e | None \<Rightarrow>
      (case mapAdditionalFiles config of Inl e \<Rightarrow> Inl e | Inr files \<Rightarrow>
       (let schedule = (if cf_schedule (cf_spec config) = [] then defaultDayTwoSchedule
                        else cf_schedule (cf_spec config)) in
      (case targetSSHPodTemplate machine of None \<Rightarrow> Inl nil_dereference | Some pod \<Rightarrow>
         Inr \<lparr>ncj_meta = zero_meta\<lparr>m_name := dayTwoChildName (m_name (cf_meta config)),
                                   m_ns := m_ns (cf_meta config)\<rparr>,
              ncj_spec = \<lparr>ncj_nix = zero_nix_spec\<lparr>
                  nx_source := childNixSource config,
                  nx_run := rebuildInstallable,
                  nx_args := [''switch'', ''--flake'', flakeInstallable (cf_flake (cf_spec config)),
                              ''--target-host'', targetHost machine],
                  nx_files := files,
                  nx_trigger := Some True,
                  nx_store_ref := cf_store_ref (cf_spec config),
                  nx_builder_ref := cf_builder_ref (cf_spec config)\<rparr>,
                ncj_template = zero_cronjob_spec\<lparr>
                  cj_schedule := schedule,
                  cj_concurrency := ForbidConcurrent,
                  cj_job := zero_job_spec\<lparr>js_template := pod\<rparr>\<rparr>\<rparr>,
              ncj_status = zero_cron_status\<rparr>))))"

definition buildDecommissionNixJob :: "nixos_config \<Rightarrow> machine \<Rightarrow> err + nix_job" where
  "buildDecommissionNixJob config machine =
     (case requireTargetKey machine of Some e \<Rightarrow> Inl e | None \<Rightarrow>
      (case mapAdditionalFiles config of Inl e \<Rightarrow> Inl e | Inr files \<Rightarrow>
      (case targetSSHPodTemplate machine of None \<Rightarrow> Inl nil_dereference | Some pod \<Rightarrow>
         Inr \<lparr>nj_meta = zero_meta\<lparr>m_name := decommissionChildName (m_name (cf_meta config)),
                                  m_ns := m_ns (cf_meta config)\<rparr>,
              nj_spec = \<lparr>nj_nix = zero_nix_spec\<lparr>
                  nx_source := childNixSource config,
                  nx_run := rebuildInstallable,
                  nx_args := [''switch'', ''--flake'', flakeInstallable (cf_on_remove_flake (cf_spec config)),
                              ''--target-host'', targetHost machine],
                  nx_files := files,
                  nx_store_ref := cf_store_ref (cf_spec config),
                  nx_builder_ref := cf_builder_ref (cf_spec config)\<rparr>,
                nj_template = Some (zero_job_spec\<lparr>js_template := pod\<rparr>)\<rparr>,
              nj_status = zero_job_status\<rparr>)))"

section \<open>Lemmas\<close>

definition file_supported :: "additional_file \<Rightarrow> bool" where
  "file_supported f \<longleftrightarrow> af_value_type f \<in> {AdditionalFileValueTypeInline, AdditionalFileValueTypeSecretRef}"

definition nix_file_of :: "additional_file \<Rightarrow> nix_file" where
  "nix_file_of f =
     (if af_value_type f = AdditionalFileValueTypeInline
      then \<lparr>nf_path = af_path f, nf_inline = Some (af_inline f), nf_configmap = None, nf_secret = None\<rparr>
      else \<lparr>nf_path = af_path f, nf_inline = None, nf_configmap = None, nf_secret = af_secret f\<rparr>)"

lemma map_files_Inr: "list_all file_supported fs \<Longrightarrow> map_files fs out = Inr (out @ map nix_file_of fs)"
  by (induction fs arbitrary: out) (auto simp: file_supported_def nix_file_of_def)

lemma map_files_Inl:
  "\<not> list_all file_supported fs \<Longrightarrow> \<exists>e. map_files fs out = Inl e \<and> e \<noteq> nil_dereference"
proof (induction fs arbitrary: out)
  case (Cons f fs)
  then show ?case
    by (cases "af_value_type f") (auto simp: file_supported_def nil_dereference_def mk_err_def)
qed simp

text \<open>When every builder succeeds, and the parts all children share.\<close>

definition buildable :: "nixos_config \<Rightarrow> machine \<Rightarrow> bool" where
  "buildable config machine \<longleftrightarrow>
     ma_key_ref (ma_spec machine) \<noteq> None \<and> list_all file_supported (cf_files (cf_spec config))"

definition is_Inr :: "'a + 'b \<Rightarrow> bool" where
  "is_Inr x = (case x of Inl _ \<Rightarrow> False | Inr _ \<Rightarrow> True)"

lemma is_Inr_simps [simp]: "is_Inr (Inr b)" "\<not> is_Inr (Inl a)"
  by (simp_all add: is_Inr_def)

lemma buildable_cases:
  assumes "buildable config machine"
  obtains k pod where "ma_key_ref (ma_spec machine) = Some k" "targetSSHPodTemplate machine = Some pod"
    "requireTargetKey machine = None"
    "mapAdditionalFiles config = Inr (map nix_file_of (cf_files (cf_spec config)))"
  using assms map_files_Inr [of "cf_files (cf_spec config)" "[]"]
  by (auto simp: buildable_def targetSSHPodTemplate_def requireTargetKey_def mapAdditionalFiles_def)

lemma unbuildable_cases:
  assumes "\<not> buildable config machine"
  obtains e where "requireTargetKey machine = Some e" "e \<noteq> nil_dereference"
  | e where "requireTargetKey machine = None" "mapAdditionalFiles config = Inl e" "e \<noteq> nil_dereference"
proof (cases "ma_key_ref (ma_spec machine)")
  case None
  then show ?thesis using that(1) by (auto simp: requireTargetKey_def nil_dereference_def mk_err_def)
next
  case (Some k)
  then have "\<not> list_all file_supported (cf_files (cf_spec config))" using assms by (simp add: buildable_def)
  then show ?thesis
    using Some that(2) map_files_Inl [of "cf_files (cf_spec config)" "[]"]
    by (auto simp: requireTargetKey_def mapAdditionalFiles_def)
qed

lemmas builder_defs = buildInstallNixJob_def buildDayTwoNixCronJob_def buildDecommissionNixJob_def

lemma builders_ok:
  assumes "buildable config machine"
  shows "\<exists>j. buildInstallNixJob config machine = Inr j \<and> nx_args (nj_nix (nj_spec j)) = installAnywhereArgs config machine \<and>
      m_name (nj_meta j) = installChildName (m_name (cf_meta config)) \<and> m_ns (nj_meta j) = m_ns (cf_meta config) \<and>
      m_owners (nj_meta j) = [] \<and> nj_template (nj_spec j) \<noteq> None"
    "\<exists>c. buildDayTwoNixCronJob config machine = Inr c \<and> m_name (ncj_meta c) = dayTwoChildName (m_name (cf_meta config)) \<and>
      m_ns (ncj_meta c) = m_ns (cf_meta config) \<and> m_owners (ncj_meta c) = [] \<and> \<not> nx_suspend (ncj_nix (ncj_spec c))"
    "\<exists>j. buildDecommissionNixJob config machine = Inr j \<and> m_name (nj_meta j) = decommissionChildName (m_name (cf_meta config)) \<and>
      m_ns (nj_meta j) = m_ns (cf_meta config) \<and> m_owners (nj_meta j) = [] \<and> nj_template (nj_spec j) \<noteq> None"
  using assms
  by - (rule buildable_cases [OF assms], simp add: builder_defs zero_meta_def zero_nix_spec_def)+

lemma builders_err:
  assumes "\<not> buildable config machine"
  shows "\<exists>e. e \<noteq> nil_dereference \<and> buildInstallNixJob config machine = Inl e \<and>
     buildDayTwoNixCronJob config machine = Inl e \<and> buildDecommissionNixJob config machine = Inl e"
  by (rule unbuildable_cases [OF assms]) (auto simp: builder_defs)

section \<open>Properties\<close>

text \<open>The three builders succeed for exactly the same configurations and machines: the Machine has an
  SSH key and every additional file is inline or from a Secret. Otherwise all three report the same
  error, and none of them ever reads the key of a Machine that has none.\<close>

theorem builders_agree:
  "if buildable config machine
   then is_Inr (buildInstallNixJob config machine) \<and> is_Inr (buildDayTwoNixCronJob config machine) \<and>
     is_Inr (buildDecommissionNixJob config machine)
   else \<exists>e. e \<noteq> nil_dereference \<and> buildInstallNixJob config machine = Inl e \<and>
     buildDayTwoNixCronJob config machine = Inl e \<and> buildDecommissionNixJob config machine = Inl e"
proof (cases "buildable config machine")
  case True
  then show ?thesis using builders_ok [OF True] by auto
next
  case False
  then show ?thesis using builders_err [OF False] by simp
qed

end
