(* ===== verification/Cluster_Controller.thy ===== *)
theory Cluster_Controller
  imports Selection Node_Files Cluster_Status Children
begin

text \<open>
  The NixCluster controller (\<open>nixcluster_controller.go\<close>): the loop over the node groups, the
  converge child and its pod, the builder preflight, conditions, failure and removal. The loop's
  accumulators are the record \<open>loop_state\<close>; dereferencing a Machine that is not in \<open>byName\<close>
  would be a nil dereference in Go, the outcome \<open>LoopPanic\<close>, shown unreachable.
\<close>

section \<open>Constants\<close>

definition convergeChildSuffix :: string where
  [const_defs]: "convergeChildSuffix = ''-converge''"

definition clusterSSHVolumeName :: string where
  [const_defs]: "clusterSSHVolumeName = ''nio-cluster-ssh''"

definition clusterSSHMountPath :: string where
  [const_defs]: "clusterSSHMountPath = ''/etc/nio/cluster-ssh''"

definition clusterSSHKeyPath :: string where
  [const_defs]: "clusterSSHKeyPath = clusterSSHMountPath @ ''/ssh-privatekey''"

definition clusterAgeVolumeName :: string where
  [const_defs]: "clusterAgeVolumeName = ''nio-cluster-age''"

definition clusterAgeMountPath :: string where
  [const_defs]: "clusterAgeMountPath = ''/etc/nio/age''"

definition clusterAgeKeyPath :: string where
  [const_defs]: "clusterAgeKeyPath = clusterAgeMountPath @ ''/keys.txt''"

definition clusterNixSSHOpts :: string where
  [const_defs]: "clusterNixSSHOpts = ''-i '' @ clusterSSHKeyPath @
     '' -o StrictHostKeyChecking=no -o UserKnownHostsFile=/dev/null''"

definition convergeActiveDeadlineSeconds :: int where
  [const_defs]: "convergeActiveDeadlineSeconds = 3600"

definition defaultClusterDayTwoSchedule :: string where
  [const_defs]: "defaultClusterDayTwoSchedule = ''*/30 * * * *''"

definition clusterRequeue :: int where
  [const_defs]: "clusterRequeue = 30"

definition convergeCronName :: "string \<Rightarrow> string" where
  [const_defs]: "convergeCronName cluster = cluster @ convergeChildSuffix"

definition clusterAppInstallable :: "string \<Rightarrow> string" where
  [const_defs]: "clusterAppInstallable cluster = ''.#cluster-'' @ cluster"

section \<open>The converge child\<close>

definition convergePodTemplate :: "nix_cluster \<Rightarrow> pod_template" where
  "convergePodTemplate cluster =
     (let ssh = cl_ssh_key (cl_spec cluster); age = cl_age_key (cl_spec cluster);
          mode = Some 256;
          volumes = (case ssh of None \<Rightarrow> []
              | Some n \<Rightarrow> [\<lparr>vol_name = clusterSSHVolumeName, vol_source = VSecret n mode\<rparr>]) @
            (case age of None \<Rightarrow> []
              | Some n \<Rightarrow> [\<lparr>vol_name = clusterAgeVolumeName, vol_source = VSecret n mode\<rparr>]);
          mounts = (case ssh of None \<Rightarrow> []
              | Some _ \<Rightarrow> [\<lparr>vm_name = clusterSSHVolumeName, vm_path = clusterSSHMountPath, vm_read_only = True\<rparr>]) @
            (case age of None \<Rightarrow> []
              | Some _ \<Rightarrow> [\<lparr>vm_name = clusterAgeVolumeName, vm_path = clusterAgeMountPath, vm_read_only = True\<rparr>]);
          envs = (case ssh of None \<Rightarrow> []
              | Some _ \<Rightarrow> [\<lparr>ev_name = ''NIX_SSHOPTS'', ev_value = clusterNixSSHOpts\<rparr>]) @
            (case age of None \<Rightarrow> []
              | Some _ \<Rightarrow> [\<lparr>ev_name = ''SOPS_AGE_KEY_FILE'', ev_value = clusterAgeKeyPath\<rparr>])
      in zero_pod_template\<lparr>pt_spec := zero_pod_spec\<lparr>ps_volumes := volumes,
           ps_containers := [zero_container\<lparr>ct_name := defaultAppContainer, ct_env := envs, ct_mounts := mounts\<rparr>]\<rparr>\<rparr>)"

definition desiredConvergeCronJob :: "nix_cluster \<Rightarrow> nix_file list \<Rightarrow> nix_cron_job" where
  "desiredConvergeCronJob cluster files =
     (let schedule = (if cl_schedule (cl_spec cluster) = [] then defaultClusterDayTwoSchedule
                      else cl_schedule (cl_spec cluster));
          name = m_name (cl_meta cluster)
      in \<lparr>ncj_meta = zero_meta\<lparr>m_name := convergeCronName name, m_ns := m_ns (cl_meta cluster),
            m_labels := managedLabels ''NixCluster'' name\<rparr>,
          ncj_spec = \<lparr>ncj_nix = zero_nix_spec\<lparr>
              nx_source := cl_source (cl_spec cluster),
              nx_run := clusterAppInstallable name,
              nx_args := [''converge''],
              nx_files := files,
              nx_trigger := Some True,
              nx_store_ref := cl_store_ref (cl_spec cluster),
              nx_builder_ref := cl_builder_ref (cl_spec cluster)\<rparr>,
            ncj_template = zero_cronjob_spec\<lparr>
              cj_schedule := schedule,
              cj_concurrency := ForbidConcurrent,
              cj_job := zero_job_spec\<lparr>js_active_deadline := Some convergeActiveDeadlineSeconds,
                js_template := convergePodTemplate cluster\<rparr>\<rparr>\<rparr>,
          ncj_status = zero_cron_status\<rparr>)"

text \<open>The function handed to \<open>controllerutil.CreateOrUpdate\<close>.\<close>

definition converge_mutate :: "lib \<Rightarrow> nix_cluster \<Rightarrow> nix_cron_job \<Rightarrow> nix_cron_job \<Rightarrow> err + nix_cron_job" where
  "converge_mutate L cluster desired cron =
     (case lib_set_controller_ref L (cl_meta cluster)
             ((ncj_meta cron)\<lparr>m_labels := m_labels (ncj_meta desired)\<rparr>) of
        Inl e \<Rightarrow> Inl e
      | Inr m \<Rightarrow> Inr (cron\<lparr>ncj_meta := m, ncj_spec := ncj_spec desired\<rparr>))"

definition ensureConvergeCronJob :: "'w env \<Rightarrow> nix_cluster \<Rightarrow> nix_file list \<Rightarrow> ('w, err option) prog" where
  "ensureConvergeCronJob E cluster files =
     (let desired = desiredConvergeCronJob cluster files;
          cron = zero_cron_job\<lparr>ncj_meta := zero_meta\<lparr>m_name := m_name (ncj_meta desired),
                   m_ns := m_ns (ncj_meta desired)\<rparr>\<rparr>
      in api_create_or_update (e_crons E) EvCron cron (converge_mutate (e_lib E) cluster desired))"

definition converge_key :: "nix_cluster \<Rightarrow> key" where
  "converge_key cluster = \<lparr>k_ns = m_ns (cl_meta cluster), k_name = convergeCronName (m_name (cl_meta cluster))\<rparr>"

definition suspendConvergeCronJob :: "'w env \<Rightarrow> nix_cluster \<Rightarrow> ('w, err option) prog" where
  "suspendConvergeCronJob E cluster = do {
     r \<leftarrow> api_get (e_crons E) EvCron (converge_key cluster);
     (case r of
        Inl e \<Rightarrow> State_Monad.return (ignore_not_found (Some e))
      | Inr cron \<Rightarrow>
          if nx_suspend (ncj_nix (ncj_spec cron)) then State_Monad.return None
          else do {
            u \<leftarrow> api_update (e_crons E) EvCron (cron\<lparr>ncj_spec := (ncj_spec cron)\<lparr>ncj_nix :=
                   (ncj_nix (ncj_spec cron))\<lparr>nx_suspend := True\<rparr>\<rparr>\<rparr>);
            State_Monad.return (case u of Inl e \<Rightarrow> Some e | Inr _ \<Rightarrow> None)
          })
   }"

section \<open>The builder preflight\<close>

definition nixSystemForArch :: "string \<Rightarrow> string" where
  "nixSystemForArch arch =
     (let a = to_lower (trim_space arch) in
      if a = ''x86_64'' \<or> a = ''amd64'' then ''x86_64-linux''
      else if a = ''aarch64'' \<or> a = ''arm64'' then ''aarch64-linux''
      else [])"

text \<open>The loop of \<open>checkBuilderCoversMembers\<close> over the members of all groups.\<close>

definition member_mismatch :: "(string \<rightharpoonup> machine) \<Rightarrow> string list \<Rightarrow> string \<Rightarrow> string option" where
  "member_mismatch byName systems name =
     (case byName name of
        None \<Rightarrow> None
      | Some machine \<Rightarrow>
     (case mst_facts (ma_status machine) of
        None \<Rightarrow> None
      | Some facts \<Rightarrow>
          (let system = nixSystemForArch (hf_architecture facts) in
           if system = [] \<or> system \<in> set systems then None
           else Some (name @ '' needs '' @ system))))"

definition mismatches :: "(string \<rightharpoonup> machine) \<Rightarrow> string list \<Rightarrow> node_group_status list \<Rightarrow> string list" where
  "mismatches byName systems groups =
     List.map_filter (member_mismatch byName systems) (map mb_name (concat (map gs_members groups)))"

definition checkBuilderCoversMembers ::
    "'w env \<Rightarrow> nix_cluster \<Rightarrow> (string \<rightharpoonup> machine) \<Rightarrow> node_group_status list \<Rightarrow> ('w, err option) prog" where
  "checkBuilderCoversMembers E cluster byName groups =
     (case cl_builder_ref (cl_spec cluster) of
        None \<Rightarrow> State_Monad.return None
      | Some ref \<Rightarrow> do {
          r \<leftarrow> api_get (e_builders E) EvBuilder \<lparr>k_ns = m_ns (cl_meta cluster), k_name = ref\<rparr>;
          (case r of
             Inl _ \<Rightarrow> State_Monad.return None
           | Inr builder \<Rightarrow>
               (let systems = bs_systems (nb_spec builder) in
                if systems = [] then State_Monad.return None
                else
                  (let mm = mismatches byName systems groups in
                   if mm = [] then State_Monad.return None
                   else State_Monad.return (Some (mk_err
                     (''NixBuilder '' @ go_quote (m_name (nb_meta builder)) @ '' builds only ['' @
                      join '' '' systems @ ''], but '' @ join '', '' mm @
                      ''; converge delegates every build (max-jobs = 0) so there is no local fallback''))))))
        })"

section \<open>Conditions and failure\<close>

definition set_cluster_cond :: "lib \<Rightarrow> nix_cluster \<Rightarrow> condition \<Rightarrow> nix_cluster" where
  "set_cluster_cond L cluster c =
     cluster\<lparr>cl_status := (cl_status cluster)\<lparr>cls_conditions := lib_set_cond L (cls_conditions (cl_status cluster)) c\<rparr>\<rparr>"

definition remove_cluster_cond :: "lib \<Rightarrow> nix_cluster \<Rightarrow> cond_type \<Rightarrow> nix_cluster" where
  "remove_cluster_cond L cluster t =
     cluster\<lparr>cl_status := (cl_status cluster)\<lparr>cls_conditions := lib_remove_cond L (cls_conditions (cl_status cluster)) t\<rparr>\<rparr>"

definition cluster_condition :: "nix_cluster \<Rightarrow> cond_type \<Rightarrow> bool \<Rightarrow> reason \<Rightarrow> string \<Rightarrow> condition" where
  "cluster_condition cluster t st rsn msg =
     \<lparr>c_type = t, c_status = (if st then ConditionTrue else ConditionFalse),
      c_gen = m_gen (cl_meta cluster), c_reason = rsn, c_message = msg\<rparr>"

definition set_underprovisioned :: "lib \<Rightarrow> bool \<Rightarrow> nix_cluster \<Rightarrow> nix_cluster" where
  "set_underprovisioned L anyUnder cluster = set_cluster_cond L cluster
     (if anyUnder
      then cluster_condition cluster ConditionUnderprovisioned True ReasonUnderprovisioned
        ''one or more nodeGroups have fewer matching Machines than requested''
      else cluster_condition cluster ConditionUnderprovisioned False ReasonFullyProvisioned
        ''all nodeGroups satisfied their requested count'')"

definition set_git_synced :: "lib \<Rightarrow> nix_cron_job \<Rightarrow> bool \<Rightarrow> nix_cluster \<Rightarrow> nix_cluster" where
  "set_git_synced L cron haveCron cluster = set_cluster_cond L cluster
     (if haveCron \<and> ws_resolved (ncj_status cron) \<noteq> []
      then cluster_condition cluster ConditionGitSynced True ReasonSucceeded
        (''converge resolved revision '' @ ws_resolved (ncj_status cron))
      else cluster_condition cluster ConditionGitSynced False ReasonWaiting
        ''converge has not resolved a revision yet'')"

definition stalled_message :: "condition \<Rightarrow> string" where
  "stalled_message c = ''converge is stalled: '' @ c_message c"

definition set_ready :: "lib \<Rightarrow> condition option \<Rightarrow> nat \<Rightarrow> nix_cluster \<Rightarrow> nix_cluster" where
  "set_ready L stall totalMembers cluster =
     (if cls_phase (cl_status cluster) = NixClusterPhaseReady
      then remove_cluster_cond L (set_cluster_cond L cluster
        (cluster_condition cluster ConditionReady True ReasonSucceeded ''cluster converged'')) ConditionStalled
      else set_cluster_cond L cluster
        (case stall of
           Some c \<Rightarrow> cluster_condition cluster ConditionReady False (c_reason c) (stalled_message c)
         | None \<Rightarrow>
             if totalMembers = 0
             then cluster_condition cluster ConditionReady False ReasonWaiting ''no Machines selected for any nodeGroup''
             else cluster_condition cluster ConditionReady False ReasonConverging ''converge in progress''))"

definition set_stalled :: "lib \<Rightarrow> condition option \<Rightarrow> nix_cluster \<Rightarrow> nix_cluster" where
  "set_stalled L stall cluster =
     (case stall of
        Some c \<Rightarrow> set_cluster_cond L cluster
          (cluster_condition cluster ConditionStalled True (c_reason c) (stalled_message c))
      | None \<Rightarrow> remove_cluster_cond L cluster ConditionStalled)"

definition setConditions :: "lib \<Rightarrow> nix_cluster \<Rightarrow> nix_cron_job \<Rightarrow> bool \<Rightarrow> bool \<Rightarrow> nat \<Rightarrow> nix_cluster" where
  "setConditions L cluster cron haveCron anyUnder totalMembers =
     (let c1 = set_underprovisioned L anyUnder cluster;
          c2 = set_git_synced L cron haveCron c1;
          stall = convergeStall L cron haveCron;
          c3 = set_ready L stall totalMembers c2
      in set_stalled L stall c3)"

definition failed_cluster :: "lib \<Rightarrow> nix_cluster \<Rightarrow> cluster_phase \<Rightarrow> reason \<Rightarrow> err \<Rightarrow> nix_cluster" where
  "failed_cluster L cluster ph rsn cause =
     (let c0 = cluster\<lparr>cl_status := (cl_status cluster)\<lparr>cls_phase := ph\<rparr>\<rparr>;
          gen = m_gen (cl_meta cluster);
          c1 = set_cluster_cond L c0 \<lparr>c_type = ConditionStalled, c_status = ConditionTrue, c_gen = gen,
                 c_reason = rsn, c_message = e_msg cause\<rparr>
      in set_cluster_cond L c1 \<lparr>c_type = ConditionReady, c_status = ConditionFalse, c_gen = gen,
                 c_reason = rsn, c_message = e_msg cause\<rparr>)"

definition cluster_fail ::
    "'w env \<Rightarrow> nix_cluster \<Rightarrow> cluster_phase \<Rightarrow> reason \<Rightarrow> err \<Rightarrow> ('w, reconcile_end) prog" where
  "cluster_fail E cluster ph rsn cause = do {
     api_status_update (e_clusters E) EvCluster (failed_cluster (e_lib E) cluster ph rsn cause);
     State_Monad.return (done_res, Some cause)
   }"

section \<open>The loop over the node groups\<close>

record loop_state =
  lp_claimed :: "string set"
  lp_statuses :: "node_group_status list"
  lp_files :: "nix_file list"
  lp_under :: bool
  lp_total :: nat

datatype loop_end = LoopOk loop_state | LoopFail reason err | LoopPanic

text \<open>The inner loop: the node files and the status entries of one group's members.\<close>

datatype members_end = MembersOk "nix_file list" "member_status list" | MembersFail err | MembersPanic

fun render_members ::
    "string \<Rightarrow> (string \<rightharpoonup> machine) \<Rightarrow> string option \<Rightarrow> string list \<Rightarrow> nix_file list \<Rightarrow> member_status list \<Rightarrow> members_end" where
  "render_members cluster byName vals [] files sts = MembersOk files sts"
| "render_members cluster byName vals (name # names) files sts =
     (case byName name of
        None \<Rightarrow> MembersPanic
      | Some m \<Rightarrow>
     (case renderMemberNodeFile cluster name (ma_host (ma_spec m)) vals of
        Inl e \<Rightarrow> MembersFail e
      | Inr nf \<Rightarrow> render_members cluster byName vals names (files @ [nf])
          (sts @ [\<lparr>mb_name = name, mb_status = MemberStatusNone\<rparr>])))"

definition next_state ::
    "node_group \<Rightarrow> string list \<Rightarrow> string list \<Rightarrow> bool \<Rightarrow> nix_file list \<Rightarrow> member_status list \<Rightarrow> loop_state \<Rightarrow> loop_state" where
  "next_state g candidates members few files sts st =
     \<lparr>lp_claimed = lp_claimed st \<union> set members,
      lp_statuses = lp_statuses st @ [\<lparr>gs_name = ng_name g, gs_members = sts,
        gs_desired = (case ng_count g of Some c \<Rightarrow> c | None \<Rightarrow> int32_of_len (length candidates)),
        gs_selected = int32_of_len (length members)\<rparr>],
      lp_files = files,
      lp_under = (lp_under st \<or> few),
      lp_total = lp_total st + length members\<rparr>"

fun group_loop ::
    "lib \<Rightarrow> string \<Rightarrow> machine list \<Rightarrow> (string \<rightharpoonup> machine) \<Rightarrow> (string \<Rightarrow> string list) \<Rightarrow>
     node_group list \<Rightarrow> loop_state \<Rightarrow> loop_end" where
  "group_loop L cluster machines byName prev [] st = LoopOk st"
| "group_loop L cluster machines byName prev (g # gs) st =
     (case lib_selector L (ng_selector g) of
        Inl e \<Rightarrow> LoopFail ReasonSelectionComplete (wrap_err (''group '' @ go_quote (ng_name g) @ '' selector: '') e)
      | Inr sel \<Rightarrow>
     (let candidates = matchingMachines machines sel (lp_claimed st) in
     (case selectGroupMembers candidates (prev (ng_name g)) (ng_count g) of (members, few) \<Rightarrow>
     (case render_members cluster byName (ng_values g) members (lp_files st) [] of
        MembersFail e \<Rightarrow> LoopFail ReasonInvalidNodeFile e
      | MembersPanic \<Rightarrow> LoopPanic
      | MembersOk files sts \<Rightarrow>
          group_loop L cluster machines byName prev gs
            (next_state g candidates members few files sts st)))))"

definition loop_start :: loop_state where
  "loop_start = \<lparr>lp_claimed = {}, lp_statuses = [], lp_files = [], lp_under = False, lp_total = 0\<rparr>"

section \<open>Reconcile\<close>

definition machines_by_name :: "machine list \<Rightarrow> string \<rightharpoonup> machine" where
  "machines_by_name machines = foldl (\<lambda>m x. m(m_name (ma_meta x) \<mapsto> x)) Map.empty machines"

definition previous_members :: "node_group_status list \<Rightarrow> string \<Rightarrow> string list" where
  "previous_members groups = foldl (\<lambda>f g. f(gs_name g := map mb_name (gs_members g))) (\<lambda>_. []) groups"

definition previous_status :: "node_group_status list \<Rightarrow> string \<Rightarrow> member_state" where
  "previous_status groups =
     foldl (\<lambda>f m. f(mb_name m := mb_status m)) (\<lambda>_. MemberStatusNone) (concat (map gs_members groups))"

text \<open>The coarse status of every member, and the rest of the final status.\<close>

definition observe_members ::
    "lib \<Rightarrow> nix_cron_job \<Rightarrow> bool \<Rightarrow> (string \<Rightarrow> member_state) \<Rightarrow> node_group_status list \<Rightarrow> node_group_status list" where
  "observe_members L cron haveCron prevStatus groups =
     map (\<lambda>g. g\<lparr>gs_members := map (\<lambda>m. m\<lparr>mb_status :=
       coarseMemberStatus L cron haveCron (prevStatus (mb_name m))\<rparr>) (gs_members g)\<rparr>) groups"

definition observed_cluster ::
    "lib \<Rightarrow> nix_cluster \<Rightarrow> nix_cron_job \<Rightarrow> bool \<Rightarrow> loop_state \<Rightarrow> (string \<Rightarrow> member_state) \<Rightarrow> nix_cluster" where
  "observed_cluster L cluster cron haveCron st prevStatus =
     (let c0 = cluster\<lparr>cl_status := (cl_status cluster)\<lparr>
             cls_groups := observe_members L cron haveCron prevStatus (lp_statuses st),
             cls_converge_ref := convergeCronName (m_name (cl_meta cluster)),
             cls_phase := clusterPhase L cron haveCron (lp_total st)\<rparr>\<rparr>;
          c1 = setConditions L c0 cron haveCron (lp_under st) (lp_total st)
      in c1\<lparr>cl_status := (cl_status c1)\<lparr>cls_observed_gen := m_gen (cl_meta c1)\<rparr>\<rparr>)"

text \<open>From the loop's result to the end of the reconcile.\<close>

definition cluster_converge ::
    "'w env \<Rightarrow> nix_cluster \<Rightarrow> (string \<rightharpoonup> machine) \<Rightarrow> loop_state \<Rightarrow> ('w, reconcile_end) prog" where
  "cluster_converge E cluster byName st =
     (case validateAdditionalFiles (lp_files st) of
        Some e \<Rightarrow> cluster_fail E cluster NixClusterPhaseBlocked ReasonInvalidNodeFile e
      | None \<Rightarrow> do {
          b \<leftarrow> checkBuilderCoversMembers E cluster byName (lp_statuses st);
          (case b of
             Some e \<Rightarrow> do {
               suspendConvergeCronJob E cluster;
               cluster_fail E cluster NixClusterPhaseBlocked ReasonBuilderSystemMismatch e
             }
           | None \<Rightarrow> do {
               en \<leftarrow> ensureConvergeCronJob E cluster (lp_files st);
               (case en of
                  Some e \<Rightarrow> cluster_fail E cluster NixClusterPhaseDegraded ReasonFailed e
                | None \<Rightarrow> do {
                    g \<leftarrow> api_get (e_crons E) EvCron (converge_key cluster);
                    (case (case g of Inl _ \<Rightarrow> (zero_cron_job, False) | Inr c \<Rightarrow> (c, True)) of
                       (cron, haveCron) \<Rightarrow> do {
                         u \<leftarrow> api_status_update (e_clusters E) EvCluster
                           (observed_cluster (e_lib E) cluster cron haveCron st
                              (previous_status (cls_groups (cl_status cluster))));
                         State_Monad.return (case u of
                            Inl e \<Rightarrow> if IsConflict e then (requeue_res, None) else (done_res, Some e)
                          | Inr _ \<Rightarrow> (after_res clusterRequeue, None))
                       })
                  })
             })
        })"

definition ClusterReconcileRemoving :: "'w env \<Rightarrow> nix_cluster \<Rightarrow> ('w, reconcile_end) prog" where
  "ClusterReconcileRemoving E cluster = do {
     d \<leftarrow> api_delete (e_crons E) EvCron (zero_cron_job\<lparr>ncj_meta := zero_meta\<lparr>
            m_name := convergeCronName (m_name (cl_meta cluster)), m_ns := m_ns (cl_meta cluster)\<rparr>\<rparr>);
     (case ignore_not_found d of
        Some e \<Rightarrow> State_Monad.return (done_res, Some e)
      | None \<Rightarrow>
          if lib_contains_finalizer (e_lib E) (m_finalizers (cl_meta cluster)) FinalizerName then do {
            u \<leftarrow> api_update (e_clusters E) EvCluster (cluster\<lparr>cl_meta := (cl_meta cluster)\<lparr>m_finalizers :=
                   lib_remove_finalizer (e_lib E) (m_finalizers (cl_meta cluster)) FinalizerName\<rparr>\<rparr>);
            State_Monad.return (done_res, case u of Inl e \<Rightarrow> Some e | Inr _ \<Rightarrow> None)
          }
          else State_Monad.return (done_res, None))
   }"

definition ClusterReconcile :: "'w env \<Rightarrow> key \<Rightarrow> ('w, reconcile_end) prog" where
  "ClusterReconcile E k = do {
     g \<leftarrow> api_get (e_clusters E) EvCluster k;
     (case g of
        Inl e \<Rightarrow> State_Monad.return (done_res, ignore_not_found (Some e))
      | Inr cluster0 \<Rightarrow>
          if m_deletion (cl_meta cluster0) \<noteq> None then ClusterReconcileRemoving E cluster0
          else do {
            f \<leftarrow> (if lib_contains_finalizer (e_lib E) (m_finalizers (cl_meta cluster0)) FinalizerName
                  then State_Monad.return (Inr cluster0)
                  else api_update (e_clusters E) EvCluster (cluster0\<lparr>cl_meta := (cl_meta cluster0)\<lparr>m_finalizers :=
                    lib_add_finalizer (e_lib E) (m_finalizers (cl_meta cluster0)) FinalizerName\<rparr>\<rparr>));
            (case f of
               Inl e \<Rightarrow> State_Monad.return (done_res, Some e)
             | Inr cluster \<Rightarrow> do {
                 ml \<leftarrow> api_list (e_machines E) EvMachine \<lparr>lo_ns = m_ns (cl_meta cluster), lo_labels = [], lo_fields = []\<rparr>;
                 (case ml of
                    Inl e \<Rightarrow> State_Monad.return (done_res, Some e)
                  | Inr machines \<Rightarrow>
                      (let byName = machines_by_name machines in
                       (case group_loop (e_lib E) (m_name (cl_meta cluster)) machines byName
                               (previous_members (cls_groups (cl_status cluster))) (cl_groups (cl_spec cluster)) loop_start of
                          LoopFail rsn e \<Rightarrow> cluster_fail E cluster NixClusterPhaseBlocked rsn e
                        | LoopPanic \<Rightarrow> State_Monad.return (done_res, Some nil_dereference)
                        | LoopOk st \<Rightarrow> cluster_converge E cluster byName st)))
               })
          })
   }"

definition findClustersForMachine :: "'w env \<Rightarrow> meta \<Rightarrow> ('w, key list) prog" where
  "findClustersForMachine E obj = do {
     r \<leftarrow> api_list (e_clusters E) EvCluster \<lparr>lo_ns = m_ns obj, lo_labels = [], lo_fields = []\<rparr>;
     State_Monad.return (case r of Inl _ \<Rightarrow> [] | Inr cs \<Rightarrow> map (\<lambda>c. key_of (cl_meta c)) cs)
   }"

end
