(* ===== verification/Config_Controller.thy ===== *)
theory Config_Controller
  imports Children Cluster_Status
begin

text \<open>
  The NixosConfiguration controller (\<open>nixosconfiguration_controller.go\<close>): \<open>Reconcile\<close>,
  the state machine of a live object (uniqueness gate, machine gate, install path, day-2 path) and
  the removal path. A handler that mutates its working copy \<open>config\<close> in Go returns the new
  copy here; \<open>r.Update\<close> and \<open>r.Status().Update\<close> put the server's answer into it when they
  succeed. What the controller only logs is left out.
\<close>

section \<open>Constants\<close>

definition RequeueInterval :: int where
  [const_defs]: "RequeueInterval = 30"

definition MaxInstallRetries :: int where
  [const_defs]: "MaxInstallRetries = 3"

definition MaxOnRemoveRetries :: int where
  [const_defs]: "MaxOnRemoveRetries = 3"

definition DecommissionTTLSeconds :: int32 where
  [const_defs]: "DecommissionTTLSeconds = 600"

definition IndexConfigByMachine :: string where
  [const_defs]: "IndexConfigByMachine = ''spec.machineRef.name''"

definition LabelMachineName :: string where
  [const_defs]: "LabelMachineName = ''nio.homystack.com/machine''"

definition LabelConfigName :: string where
  [const_defs]: "LabelConfigName = ''nio.homystack.com/config''"

definition LabelOperation :: string where
  [const_defs]: "LabelOperation = ''nio.homystack.com/operation''"

definition operationDecommission :: string where
  [const_defs]: "operationDecommission = ''decommission''"

section \<open>Phases and conditions\<close>

definition setPhase ::
    "lib \<Rightarrow> nixos_config \<Rightarrow> config_phase \<Rightarrow> reason \<Rightarrow> string \<Rightarrow> bool \<Rightarrow> condition option \<Rightarrow> nixos_config" where
  "setPhase L config ph rsn msg applied childGitSynced =
     (let gen = m_gen (cf_meta config);
          ready = (ph = NixosConfigPhaseReady);
          stalled = (ph = NixosConfigPhaseDegraded \<or> ph = NixosConfigPhaseBlocked);
          cs0 = cs_conditions (cf_status config);
          cs1 = lib_set_cond L cs0 \<lparr>c_type = ConditionReady,
            c_status = (if ready then ConditionTrue else ConditionFalse),
            c_gen = gen, c_reason = rsn, c_message = msg\<rparr>;
          cs2 = (if stalled
            then lib_set_cond L cs1 \<lparr>c_type = ConditionStalled, c_status = ConditionTrue,
              c_gen = gen, c_reason = rsn, c_message = msg\<rparr>
            else lib_remove_cond L cs1 ConditionStalled);
          cs3 = lib_set_cond L cs2 \<lparr>c_type = ConditionReconciling,
            c_status = (if ready \<or> stalled then ConditionFalse else ConditionTrue),
            c_gen = gen, c_reason = rsn, c_message = msg\<rparr>;
          cs4 = lib_set_cond L cs3 \<lparr>c_type = ConditionApplied,
            c_status = (if applied then ConditionTrue else ConditionFalse),
            c_gen = gen, c_reason = (if applied then ReasonConfigApplied else ReasonWaiting), c_message = msg\<rparr>;
          cs5 = (case childGitSynced of
              None \<Rightarrow> cs4
            | Some g \<Rightarrow> lib_set_cond L cs4 \<lparr>c_type = ConditionGitSynced, c_status = c_status g,
                c_gen = gen, c_reason = c_reason g, c_message = c_message g\<rparr>)
      in config\<lparr>cf_status := (cf_status config)\<lparr>cs_phase := ph, cs_conditions := cs5\<rparr>\<rparr>)"

definition setBlocked :: "lib \<Rightarrow> nixos_config \<Rightarrow> reason \<Rightarrow> string \<Rightarrow> nixos_config" where
  "setBlocked L config rsn msg = setPhase L config NixosConfigPhaseBlocked rsn msg False None"

definition setDegraded :: "lib \<Rightarrow> nixos_config \<Rightarrow> string \<Rightarrow> bool \<Rightarrow> nixos_config" where
  "setDegraded L config msg applied =
     setPhase L config NixosConfigPhaseDegraded ReasonApplyFailed msg applied None"

section \<open>Ownership of a machine\<close>

definition configEarlier :: "nixos_config \<Rightarrow> nixos_config \<Rightarrow> bool" where
  "configEarlier a b =
     (if m_creation (cf_meta a) = m_creation (cf_meta b) then m_name (cf_meta a) < m_name (cf_meta b)
      else m_creation (cf_meta a) < m_creation (cf_meta b))"

text \<open>The loop of \<open>machineOwner\<close>.\<close>

fun pick_owner :: "nixos_config \<Rightarrow> nixos_config list \<Rightarrow> nixos_config \<Rightarrow> nixos_config" where
  "pick_owner config [] winner = winner"
| "pick_owner config (c # cs) winner =
     (if cf_machine_ref (cf_spec c) \<noteq> cf_machine_ref (cf_spec config) then pick_owner config cs winner
      else if m_name (cf_meta c) = m_name (cf_meta config) then pick_owner config cs winner
      else pick_owner config cs (if configEarlier c winner then c else winner))"

definition machineOwner :: "'w env \<Rightarrow> nixos_config \<Rightarrow> ('w, err + string) prog" where
  "machineOwner E config = do {
     r \<leftarrow> api_list (e_configs E) EvConfig \<lparr>lo_ns = m_ns (cf_meta config), lo_labels = [], lo_fields = []\<rparr>;
     (case r of
        Inl e \<Rightarrow> State_Monad.return (Inl e)
      | Inr cs \<Rightarrow> State_Monad.return (Inr (m_name (cf_meta (pick_owner config cs config)))))
   }"

section \<open>Status writes\<close>

definition statusUpdate :: "'w env \<Rightarrow> nixos_config \<Rightarrow> ('w, nixos_config \<times> err option) prog" where
  "statusUpdate E config = do {
     r \<leftarrow> api_status_update (e_configs E) EvConfig config;
     (case r of
        Inl e \<Rightarrow> if IsConflict e then State_Monad.return (config, None) else State_Monad.return (config, Some e)
      | Inr config' \<Rightarrow> State_Monad.return (config', None))
   }"

text \<open>The function handed to \<open>retry.RetryOnConflict\<close>, with the change it makes to the latest status.\<close>

definition status_attempt ::
    "'w env \<Rightarrow> key \<Rightarrow> (config_status \<Rightarrow> config_status) \<Rightarrow> ('w, err + nixos_config) prog" where
  "status_attempt E k f = do {
     r \<leftarrow> api_get (e_configs E) EvConfig k;
     (case r of
        Inl e \<Rightarrow> State_Monad.return (Inl e)
      | Inr latest \<Rightarrow> api_status_update (e_configs E) EvConfig (latest\<lparr>cf_status := f (cf_status latest)\<rparr>))
   }"

text \<open>\<open>config.Status = latest.Status; config.ResourceVersion = latest.ResourceVersion\<close>.\<close>

definition sync_status :: "nixos_config \<Rightarrow> nixos_config \<Rightarrow> nixos_config" where
  "sync_status config latest =
     config\<lparr>cf_status := cf_status latest, cf_meta := (cf_meta config)\<lparr>m_rv := m_rv (cf_meta latest)\<rparr>\<rparr>"

definition bump_retries :: "config_status \<Rightarrow> config_status" where
  "bump_retries st = st\<lparr>cs_on_remove_retries := cs_on_remove_retries st + 1, cs_phase := NixosConfigPhaseRemoving\<rparr>"

definition bumpOnRemoveRetries :: "'w env \<Rightarrow> nixos_config \<Rightarrow> ('w, err + nixos_config) prog" where
  "bumpOnRemoveRetries E config = do {
     r \<leftarrow> e_retry E (status_attempt E (key_of (cf_meta config)) bump_retries);
     State_Monad.return (case r of Inl e \<Rightarrow> Inl e | Inr latest \<Rightarrow> Inr (sync_status config latest))
   }"

definition mark_done :: "config_status \<Rightarrow> config_status" where
  "mark_done st = st\<lparr>cs_install_done := True, cs_install_ref := []\<rparr>"

definition markFullDiskInstallCompleted :: "'w env \<Rightarrow> nixos_config \<Rightarrow> ('w, err + nixos_config) prog" where
  "markFullDiskInstallCompleted E config = do {
     r \<leftarrow> e_retry E (status_attempt E (key_of (cf_meta config)) mark_done);
     State_Monad.return (case r of Inl e \<Rightarrow> Inl e | Inr latest \<Rightarrow> Inr (sync_status config latest))
   }"

section \<open>Children\<close>

definition childLabels :: "nixos_config \<Rightarrow> machine \<Rightarrow> labels" where
  "childLabels config machine =
     [LabelConfigName \<mapsto> m_name (cf_meta config), LabelMachineName \<mapsto> m_name (ma_meta machine)]"

definition ensureInstallNixJob :: "'w env \<Rightarrow> nixos_config \<Rightarrow> machine \<Rightarrow> ('w, err + nix_job) prog" where
  "ensureInstallNixJob E config machine =
     (case buildInstallNixJob config machine of
        Inl e \<Rightarrow> State_Monad.return (Inl e)
      | Inr built \<Rightarrow>
     (case lib_set_controller_ref (e_lib E) (cf_meta config)
             ((nj_meta built)\<lparr>m_labels := childLabels config machine\<rparr>) of
        Inl e \<Rightarrow> State_Monad.return (Inl e)
      | Inr dm \<Rightarrow>
        (let desired = built\<lparr>nj_meta := dm\<rparr> in do {
           r \<leftarrow> api_get (e_jobs E) EvJob (key_of (nj_meta desired));
           (case r of
              Inl e \<Rightarrow> if IsNotFound e then api_create (e_jobs E) EvJob desired else State_Monad.return (Inl e)
            | Inr existing \<Rightarrow>
                if m_deletion (nj_meta existing) \<noteq> None then State_Monad.return (Inr existing)
                else api_update (e_jobs E) EvJob
                  (existing\<lparr>nj_meta := (nj_meta existing)\<lparr>m_labels := m_labels (nj_meta desired)\<rparr>,
                            nj_spec := nj_spec desired\<rparr>))
         })))"

definition ensureDayTwoNixCronJob ::
    "'w env \<Rightarrow> nixos_config \<Rightarrow> machine \<Rightarrow> bool \<Rightarrow> ('w, err + nix_cron_job) prog" where
  "ensureDayTwoNixCronJob E config machine suspend =
     (case buildDayTwoNixCronJob config machine of
        Inl e \<Rightarrow> State_Monad.return (Inl e)
      | Inr built \<Rightarrow>
     (case lib_set_controller_ref (e_lib E) (cf_meta config)
             ((ncj_meta built)\<lparr>m_labels := childLabels config machine\<rparr>) of
        Inl e \<Rightarrow> State_Monad.return (Inl e)
      | Inr dm \<Rightarrow>
        (let desired = built\<lparr>ncj_meta := dm,
               ncj_spec := (ncj_spec built)\<lparr>ncj_nix := (ncj_nix (ncj_spec built))\<lparr>nx_suspend := suspend\<rparr>\<rparr>\<rparr> in do {
           r \<leftarrow> api_get (e_crons E) EvCron (key_of (ncj_meta desired));
           (case r of
              Inl e \<Rightarrow> if IsNotFound e then api_create (e_crons E) EvCron desired else State_Monad.return (Inl e)
            | Inr existing \<Rightarrow>
                if m_deletion (ncj_meta existing) \<noteq> None then State_Monad.return (Inr existing)
                else api_update (e_crons E) EvCron
                  (existing\<lparr>ncj_meta := (ncj_meta existing)\<lparr>m_labels := m_labels (ncj_meta desired)\<rparr>,
                            ncj_spec := ncj_spec desired\<rparr>))
         })))"

definition set_ttl :: "int32 \<Rightarrow> nix_job \<Rightarrow> nix_job" where
  "set_ttl ttl j = j\<lparr>nj_spec := (nj_spec j)\<lparr>nj_template :=
     map_option (\<lambda>js. js\<lparr>js_ttl := Some ttl\<rparr>) (nj_template (nj_spec j))\<rparr>\<rparr>"

definition decommissionLabels :: "nixos_config \<Rightarrow> machine \<Rightarrow> labels" where
  "decommissionLabels config machine =
     [LabelConfigName \<mapsto> m_name (cf_meta config), LabelMachineName \<mapsto> m_name (ma_meta machine),
      LabelOperation \<mapsto> operationDecommission]"

definition ensureDecommissionNixJob :: "'w env \<Rightarrow> nixos_config \<Rightarrow> machine \<Rightarrow> ('w, err + nix_job) prog" where
  "ensureDecommissionNixJob E config machine =
     (case buildDecommissionNixJob config machine of
        Inl e \<Rightarrow> State_Monad.return (Inl e)
      | Inr built \<Rightarrow>
        (let desired = set_ttl DecommissionTTLSeconds
               (built\<lparr>nj_meta := (nj_meta built)\<lparr>m_labels := decommissionLabels config machine\<rparr>\<rparr>) in do {
           r \<leftarrow> api_get (e_jobs E) EvJob (key_of (nj_meta desired));
           (case r of
              Inl e \<Rightarrow>
                if IsNotFound e then do {
                  c \<leftarrow> api_create (e_jobs E) EvJob desired;
                  (case c of
                     Inl e' \<Rightarrow> State_Monad.return (Inl e')
                   | Inr created \<Rightarrow> do {
                       record_event EventTypeNormal ''OnRemoveFlakeStarted''
                         (''Started decommission job '' @ go_quote (m_name (nj_meta created)));
                       State_Monad.return (Inr created)
                     })
                }
                else State_Monad.return (Inl e)
            | Inr existing \<Rightarrow> State_Monad.return (Inr existing))
         }))"

definition findDecommissionJob :: "'w env \<Rightarrow> nixos_config \<Rightarrow> ('w, err + nix_job option) prog" where
  "findDecommissionJob E config = do {
     r \<leftarrow> api_list (e_jobs E) EvJob \<lparr>lo_ns = m_ns (cf_meta config),
            lo_labels = [(LabelConfigName, m_name (cf_meta config)), (LabelOperation, operationDecommission)],
            lo_fields = []\<rparr>;
     State_Monad.return (case r of
        Inl e \<Rightarrow> Inl e
      | Inr items \<Rightarrow> (case items of [] \<Rightarrow> Inr None | j # _ \<Rightarrow> Inr (Some j)))
   }"

definition deleteDecommissionJob :: "'w env \<Rightarrow> nix_job \<Rightarrow> ('w, err option) prog" where
  "deleteDecommissionJob E job = do {
     r \<leftarrow> api_delete (e_jobs E) EvJob job;
     State_Monad.return (case r of None \<Rightarrow> None | Some e \<Rightarrow> if \<not> IsNotFound e then Some e else None)
   }"

definition suspendDayTwoCronIfExists :: "'w env \<Rightarrow> nixos_config \<Rightarrow> ('w, unit) prog" where
  "suspendDayTwoCronIfExists E config = do {
     r \<leftarrow> api_get (e_crons E) EvCron
       \<lparr>k_ns = m_ns (cf_meta config), k_name = dayTwoChildName (m_name (cf_meta config))\<rparr>;
     (case r of
        Inl _ \<Rightarrow> State_Monad.return ()
      | Inr cron \<Rightarrow>
          if nx_suspend (ncj_nix (ncj_spec cron)) then State_Monad.return ()
          else do {
            api_update (e_crons E) EvCron (cron\<lparr>ncj_spec := (ncj_spec cron)\<lparr>ncj_nix :=
              (ncj_nix (ncj_spec cron))\<lparr>nx_suspend := True\<rparr>\<rparr>\<rparr>);
            State_Monad.return ()
          })
   }"

definition deleteDayTwoCronIfExists :: "'w env \<Rightarrow> nixos_config \<Rightarrow> ('w, err option) prog" where
  "deleteDayTwoCronIfExists E config = do {
     r \<leftarrow> api_get (e_crons E) EvCron
       \<lparr>k_ns = m_ns (cf_meta config), k_name = dayTwoChildName (m_name (cf_meta config))\<rparr>;
     (case r of
        Inl e \<Rightarrow> State_Monad.return (ignore_not_found (Some e))
      | Inr cron \<Rightarrow>
          if m_deletion (ncj_meta cron) \<noteq> None then State_Monad.return None
          else do {
            d \<leftarrow> api_delete (e_crons E) EvCron cron;
            State_Monad.return (ignore_not_found d)
          })
   }"

section \<open>The machine's record of what it runs\<close>

definition writeBackMachineStatus :: "'w env \<Rightarrow> nixos_config \<Rightarrow> machine \<Rightarrow> ('w, err option) prog" where
  "writeBackMachineStatus E config machine = do {
     r \<leftarrow> api_status_update (e_machines E) EvMachine (machine\<lparr>ma_status := (ma_status machine)\<lparr>
            mst_has_config := True,
            mst_applied_config := m_name (cf_meta config),
            mst_applied_commit := cs_resolved (cf_status config),
            mst_last_applied := cs_last_applied (cf_status config)\<rparr>\<rparr>);
     State_Monad.return (case r of Inl e \<Rightarrow> Some e | Inr _ \<Rightarrow> None)
   }"

definition clearMachineStatus :: "'w env \<Rightarrow> nixos_config \<Rightarrow> machine \<Rightarrow> ('w, err option) prog" where
  "clearMachineStatus E config machine =
     (if mst_applied_config (ma_status machine) \<noteq> m_name (cf_meta config) then State_Monad.return None
      else do {
        r \<leftarrow> api_status_update (e_machines E) EvMachine (machine\<lparr>ma_status := (ma_status machine)\<lparr>
               mst_has_config := False, mst_applied_config := [], mst_applied_commit := [],
               mst_last_applied := None\<rparr>\<rparr>);
        State_Monad.return (case r of Inl e \<Rightarrow> ignore_not_found (Some e) | Inr _ \<Rightarrow> None)
      })"

section \<open>The live object\<close>

abbreviation requeue_later :: ctrl_result where
  "requeue_later \<equiv> after_res RequeueInterval"

definition reconcileInstall ::
    "'w env \<Rightarrow> nixos_config \<Rightarrow> machine \<Rightarrow> ('w, nixos_config \<times> bool \<times> reconcile_end) prog" where
  "reconcileInstall E config0 machine = do {
     r \<leftarrow> ensureInstallNixJob E config0 machine;
     (case r of
        Inl e \<Rightarrow> State_Monad.return (config0, False, done_res, Some e)
      | Inr job \<Rightarrow>
        (let L = e_lib E; name = m_name (nj_meta job);
             config = config0\<lparr>cf_status := (cf_status config0)\<lparr>cs_install_ref := name\<rparr>\<rparr> in
         if sint (nj_succeeded (nj_status job)) > 0 then do {
           m \<leftarrow> markFullDiskInstallCompleted E config;
           (case m of
              Inl e \<Rightarrow> State_Monad.return (config, False, done_res, Some e)
            | Inr config1 \<Rightarrow> do {
                d \<leftarrow> api_delete (e_jobs E) EvJob job;
                (case ignore_not_found d of
                   Some e \<Rightarrow> State_Monad.return (config1, False, done_res, Some e)
                 | None \<Rightarrow> do {
                     record_event EventTypeNormal ''InstallSucceeded''
                       (''Full-disk install '' @ go_quote name @ '' succeeded'');
                     State_Monad.return (config1, True, done_res, None)
                   })
              })
         }
         else if sint (nj_failed (nj_status job)) > 0 then
           (if m_deletion (nj_meta job) \<noteq> None then
              State_Monad.return
                (setPhase L config NixosConfigPhaseInstalling ReasonInstalling
                   (''Full-disk install '' @ go_quote name @ '' is being retried'') False None,
                 False, requeue_later, None)
            else if sint (cs_install_retries (cf_status config)) \<ge> MaxInstallRetries then
              (let msg = ''Full-disk install failed after '' @ show_int MaxInstallRetries @ '' retries'' in do {
                (if cs_phase (cf_status config) \<noteq> NixosConfigPhaseDegraded
                 then record_event EventTypeWarning ''InstallFailed'' msg else State_Monad.return ());
                State_Monad.return (setDegraded L config msg False, False, done_res, None)
              })
            else
              (let config1 = config\<lparr>cf_status := (cf_status config)\<lparr>
                     cs_install_retries := cs_install_retries (cf_status config) + 1\<rparr>\<rparr> in do {
                d \<leftarrow> api_delete (e_jobs E) EvJob job;
                (case ignore_not_found d of
                   Some e \<Rightarrow> State_Monad.return (config1, False, done_res, Some e)
                 | None \<Rightarrow> State_Monad.return
                     (setPhase L config1 NixosConfigPhaseInstalling ReasonInstalling
                        (''Retrying full-disk install (attempt '' @
                         show_int (sint (cs_install_retries (cf_status config1))) @ ''/'' @
                         show_int MaxInstallRetries @ '')'') False None,
                      False, requeue_later, None))
              }))
         else State_Monad.return
           (setPhase L config NixosConfigPhaseInstalling ReasonInstalling
              (''Full-disk install '' @ go_quote name @ '' is running'') False None,
            False, requeue_later, None)))
   }"

definition reconcileDayTwo ::
    "'w env \<Rightarrow> nixos_config \<Rightarrow> machine \<Rightarrow> ('w, nixos_config \<times> reconcile_end) prog" where
  "reconcileDayTwo E config0 machine = do {
     r \<leftarrow> ensureDayTwoNixCronJob E config0 machine False;
     (case r of
        Inl e \<Rightarrow> State_Monad.return (config0, done_res, Some e)
      | Inr cron \<Rightarrow>
        (let L = e_lib E; st = ncj_status cron;
             config = config0\<lparr>cf_status := (cf_status config0)\<lparr>
               cs_day_two_ref := m_name (ncj_meta cron), cs_resolved := ws_rolled_out st\<rparr>\<rparr>;
             gitSynced = lib_find_cond L (ws_conditions st) ConditionGitSynced;
             applied = (cs_install_done (cf_status config) \<or> ncj_last_successful st \<noteq> None);
             with_time = config\<lparr>cf_status := (cf_status config)\<lparr>cs_last_applied := ncj_last_successful st\<rparr>\<rparr> in
         if ws_phase st = PhaseReady \<and> ncj_last_successful st \<noteq> None then
           (let config1 = setPhase L with_time NixosConfigPhaseReady ReasonSucceeded
                  ''Day-2 convergence healthy; configuration applied'' True gitSynced in do {
              w \<leftarrow> writeBackMachineStatus E config1 machine;
              (case w of
                 Some e \<Rightarrow> if IsConflict e then State_Monad.return (config1, requeue_res, None)
                           else State_Monad.return (config1, done_res, Some e)
               | None \<Rightarrow> State_Monad.return (config1, requeue_later, None))
            })
         else (case convergeStall L cron True of
             Some c \<Rightarrow> State_Monad.return
               (setDegraded L config (''Day-2 convergence is stalled: '' @ c_message c) applied, requeue_later, None)
           | None \<Rightarrow>
               if ws_phase st = PhaseDegraded \<or> ws_phase st = PhaseFailed then
                 State_Monad.return (setDegraded L config ''Day-2 convergence run failed'' applied, requeue_later, None)
               else
                 (let config1 = (if ncj_last_successful st \<noteq> None then with_time else config) in
                  State_Monad.return
                    (setPhase L config1 NixosConfigPhaseConverging ReasonConverging
                       ''Day-2 convergence in progress'' applied gitSynced, requeue_later, None)))))
   }"

definition runStateMachine :: "'w env \<Rightarrow> nixos_config \<Rightarrow> ('w, nixos_config \<times> reconcile_end) prog" where
  "runStateMachine E config = do {
     ow \<leftarrow> machineOwner E config;
     (case ow of
        Inl e \<Rightarrow> State_Monad.return (config, done_res, Some e)
      | Inr owner \<Rightarrow>
        (let L = e_lib E; mref = cf_machine_ref (cf_spec config) in
         if owner \<noteq> m_name (cf_meta config) then
           (let msg = ''machine '' @ go_quote mref @ '' already owned by NixosConfiguration '' @ go_quote owner;
                config1 = setBlocked L config ReasonMachineInUse msg in do {
              suspendDayTwoCronIfExists E config1;
              record_event EventTypeWarning ''MachineOwned'' msg;
              State_Monad.return (config1, requeue_later, None)
            })
         else do {
           m \<leftarrow> api_get (e_machines E) EvMachine \<lparr>k_ns = m_ns (cf_meta config), k_name = mref\<rparr>;
           (case m of
              Inl e \<Rightarrow>
                if IsNotFound e then
                  (let msg = ''Machine '' @ go_quote mref @ '' not found'';
                       config1 = setBlocked L config ReasonMachineNotReady msg in do {
                     suspendDayTwoCronIfExists E config1;
                     record_event EventTypeWarning ''MachineNotFound'' msg;
                     State_Monad.return (config1, requeue_later, None)
                   })
                else State_Monad.return (config, done_res, Some e)
            | Inr machine \<Rightarrow>
                if \<not> mst_discoverable (ma_status machine) then
                  (let config1 = setBlocked L config ReasonMachineNotReady
                         (''Machine '' @ go_quote (m_name (ma_meta machine)) @ '' is not reachable via SSH'') in do {
                     suspendDayTwoCronIfExists E config1;
                     State_Monad.return (config1, requeue_later, None)
                   })
                else
                  (let config1 = config\<lparr>cf_status := (cf_status config)\<lparr>cs_target := m_name (ma_meta machine)\<rparr>\<rparr> in
                   if cf_full_install (cf_spec config1) \<and> \<not> cs_install_done (cf_status config1) then do {
                     i \<leftarrow> reconcileInstall E config1 machine;
                     (case i of (config2, dn, res, er) \<Rightarrow>
                        if er \<noteq> None \<or> \<not> dn then State_Monad.return (config2, res, er)
                        else reconcileDayTwo E config2 machine)
                   }
                   else reconcileDayTwo E config1 machine))
         }))
   }"

section \<open>Removal\<close>

definition finalize :: "'w env \<Rightarrow> nixos_config \<Rightarrow> ('w, reconcile_end) prog" where
  "finalize E config = do {
     r \<leftarrow> api_update (e_configs E) EvConfig (config\<lparr>cf_meta := (cf_meta config)\<lparr>m_finalizers :=
            lib_remove_finalizer (e_lib E) (m_finalizers (cf_meta config)) FinalizerName\<rparr>\<rparr>);
     State_Monad.return (case r of
        Inl e \<Rightarrow> if IsConflict e then (requeue_res, None) else (done_res, Some e)
      | Inr _ \<Rightarrow> (done_res, None))
   }"

text \<open>\<open>config.Status.Phase = Removing\<close>, \<open>statusUpdate\<close> and the requeue that ends three branches.\<close>

definition keep_removing :: "'w env \<Rightarrow> nixos_config \<Rightarrow> ('w, reconcile_end) prog" where
  "keep_removing E config = do {
     u \<leftarrow> statusUpdate E (config\<lparr>cf_status := (cf_status config)\<lparr>cs_phase := NixosConfigPhaseRemoving\<rparr>\<rparr>);
     (case snd u of
        Some e \<Rightarrow> State_Monad.return (done_res, Some e)
      | None \<Rightarrow> State_Monad.return (requeue_later, None))
   }"

text \<open>A failed decommission job is counted and deleted, unless its deletion is already under way.\<close>

definition count_and_delete :: "'w env \<Rightarrow> nixos_config \<Rightarrow> nix_job \<Rightarrow> ('w, err + nixos_config) prog" where
  "count_and_delete E config job =
     (if m_deletion (nj_meta job) = None then do {
        b \<leftarrow> bumpOnRemoveRetries E config;
        (case b of
           Inl e \<Rightarrow> State_Monad.return (Inl e)
         | Inr config1 \<Rightarrow> do {
             d \<leftarrow> api_delete (e_jobs E) EvJob job;
             (case ignore_not_found d of
                Some e \<Rightarrow> State_Monad.return (Inl e)
              | None \<Rightarrow> State_Monad.return (Inr config1))
           })
      }
      else State_Monad.return (Inr config))"

text \<open>The branch of a failed decommission job.\<close>

definition decommission_failed ::
    "'w env \<Rightarrow> nixos_config \<Rightarrow> machine \<Rightarrow> nix_job \<Rightarrow> ('w, reconcile_end) prog" where
  "decommission_failed E config machine job = do {
     c \<leftarrow> count_and_delete E config job;
     (case c of
        Inl e \<Rightarrow> State_Monad.return (done_res, Some e)
      | Inr config1 \<Rightarrow>
          if sint (cs_on_remove_retries (cf_status config1)) \<ge> MaxOnRemoveRetries then do {
            record_event EventTypeWarning ''OnRemoveFlakeFailed''
              (''Decommission failed after '' @ show_int MaxOnRemoveRetries @ '' attempts; finalizing anyway'');
            cl \<leftarrow> clearMachineStatus E config1 machine;
            (case cl of
               Some e \<Rightarrow> State_Monad.return (done_res, Some e)
             | None \<Rightarrow> do {
                 d \<leftarrow> deleteDecommissionJob E job;
                 (case d of
                    Some e \<Rightarrow> State_Monad.return (done_res, Some e)
                  | None \<Rightarrow> finalize E config1)
               })
          }
          else keep_removing E config1)
   }"

text \<open>The branch of a decommission job that was found, by its outcome.\<close>

definition decommission_observed ::
    "'w env \<Rightarrow> nixos_config \<Rightarrow> machine \<Rightarrow> nix_job \<Rightarrow> ('w, reconcile_end) prog" where
  "decommission_observed E config0 machine job =
     (let config = config0\<lparr>cf_status := (cf_status config0)\<lparr>cs_decommission_ref := m_name (nj_meta job)\<rparr>\<rparr> in
      if sint (nj_succeeded (nj_status job)) > 0 then do {
        cl \<leftarrow> clearMachineStatus E config machine;
        (case cl of
           Some e \<Rightarrow> State_Monad.return (done_res, Some e)
         | None \<Rightarrow> do {
             d \<leftarrow> deleteDecommissionJob E job;
             (case d of
                Some e \<Rightarrow> State_Monad.return (done_res, Some e)
              | None \<Rightarrow> do {
                  record_event EventTypeNormal ''OnRemoveFlakeSucceeded'' ''Decommission flake applied successfully'';
                  finalize E config
                })
           })
      }
      else if sint (nj_failed (nj_status job)) > 0 then decommission_failed E config machine job
      else keep_removing E config)"

text \<open>The branch where no decommission job was found.\<close>

definition decommission_start :: "'w env \<Rightarrow> nixos_config \<Rightarrow> machine \<Rightarrow> ('w, reconcile_end) prog" where
  "decommission_start E config machine = do {
     r \<leftarrow> ensureDecommissionNixJob E config machine;
     (case r of
        Inl e \<Rightarrow> do {
          record_event EventTypeWarning ''OnRemoveFlakeSkipped'' (''Cannot run onRemoveFlake: '' @ e_msg e);
          finalize E config
        }
      | Inr newJob \<Rightarrow>
          keep_removing E (config\<lparr>cf_status := (cf_status config)\<lparr>cs_decommission_ref := m_name (nj_meta newJob)\<rparr>\<rparr>))
   }"

definition ConfigReconcileRemoving :: "'w env \<Rightarrow> nixos_config \<Rightarrow> ('w, reconcile_end) prog" where
  "ConfigReconcileRemoving E config =
     (if \<not> lib_contains_finalizer (e_lib E) (m_finalizers (cf_meta config)) FinalizerName
      then State_Monad.return (done_res, None)
      else do {
        deleteDayTwoCronIfExists E config;
        mr \<leftarrow> api_get (e_machines E) EvMachine
          \<lparr>k_ns = m_ns (cf_meta config), k_name = cf_machine_ref (cf_spec config)\<rparr>;
        (case mr of
           Inl e \<Rightarrow>
             if \<not> IsNotFound e then State_Monad.return (done_res, Some e)
             else finalize E config
         | Inr machine \<Rightarrow>
             if cf_on_remove_flake (cf_spec config) = [] then do {
               cl \<leftarrow> clearMachineStatus E config machine;
               (case cl of
                  Some e \<Rightarrow> State_Monad.return (done_res, Some e)
                | None \<Rightarrow> finalize E config)
             }
             else do {
               j \<leftarrow> findDecommissionJob E config;
               (case j of
                  Inl e \<Rightarrow> State_Monad.return (done_res, Some e)
                | Inr None \<Rightarrow> decommission_start E config machine
                | Inr (Some job) \<Rightarrow> decommission_observed E config machine job)
             })
      })"

section \<open>Reconcile\<close>

text \<open>The finalizer step: \<open>Inl\<close> ends the reconcile with that answer.\<close>

definition ensure_finalizer :: "'w env \<Rightarrow> nixos_config \<Rightarrow> ('w, reconcile_end + nixos_config) prog" where
  "ensure_finalizer E config =
     (if lib_contains_finalizer (e_lib E) (m_finalizers (cf_meta config)) FinalizerName
      then State_Monad.return (Inr config)
      else do {
        r \<leftarrow> api_update (e_configs E) EvConfig (config\<lparr>cf_meta := (cf_meta config)\<lparr>m_finalizers :=
               lib_add_finalizer (e_lib E) (m_finalizers (cf_meta config)) FinalizerName\<rparr>\<rparr>);
        State_Monad.return (case r of
           Inl e \<Rightarrow> Inl (if IsConflict e then (requeue_res, None) else (done_res, Some e))
         | Inr config' \<Rightarrow> Inr config')
      })"

definition ConfigReconcile :: "'w env \<Rightarrow> key \<Rightarrow> ('w, reconcile_end) prog" where
  "ConfigReconcile E k = do {
     g \<leftarrow> api_get (e_configs E) EvConfig k;
     (case g of
        Inl e \<Rightarrow> State_Monad.return (done_res, ignore_not_found (Some e))
      | Inr config \<Rightarrow>
          if m_deletion (cf_meta config) \<noteq> None then ConfigReconcileRemoving E config
          else do {
            f \<leftarrow> ensure_finalizer E config;
            (case f of
               Inl fin \<Rightarrow> State_Monad.return fin
             | Inr config1 \<Rightarrow> do {
                 sm \<leftarrow> runStateMachine E
                   (config1\<lparr>cf_status := (cf_status config1)\<lparr>cs_observed_gen := m_gen (cf_meta config1)\<rparr>\<rparr>);
                 (case sm of (config2, fin) \<Rightarrow> do {
                    u \<leftarrow> api_status_update (e_configs E) EvConfig config2;
                    State_Monad.return (case u of
                       Inl e \<Rightarrow> if IsConflict e then (requeue_res, None) else (done_res, Some e)
                     | Inr _ \<Rightarrow> fin)
                  })
               })
          })
   }"

section \<open>Watches\<close>

definition findConfigsForMachine :: "'w env \<Rightarrow> machine \<Rightarrow> ('w, key list) prog" where
  "findConfigsForMachine E machine = do {
     r \<leftarrow> api_list (e_configs E) EvConfig \<lparr>lo_ns = m_ns (ma_meta machine), lo_labels = [],
            lo_fields = [(IndexConfigByMachine, m_name (ma_meta machine))]\<rparr>;
     State_Monad.return (case r of Inl _ \<Rightarrow> [] | Inr cs \<Rightarrow> map (\<lambda>c. key_of (cf_meta c)) cs)
   }"

definition label_value :: "labels \<Rightarrow> string \<Rightarrow> string" where
  "label_value ls k = (case ls k of None \<Rightarrow> [] | Some v \<Rightarrow> v)"

definition findConfigsForOrphanRemoveJob :: "nix_job \<Rightarrow> key list" where
  "findConfigsForOrphanRemoveJob job =
     (let ls = m_labels (nj_meta job) in
      if label_value ls LabelOperation \<noteq> operationDecommission then []
      else if label_value ls LabelConfigName = [] then []
      else [\<lparr>k_ns = m_ns (nj_meta job), k_name = label_value ls LabelConfigName\<rparr>])"

end
