(* ===== verification/Config_Status.thy ===== *)
theory Config_Status
  imports Config_Controller "HOL-Library.Product_Lexorder" "HOL-Library.Multiset"
begin

text \<open>
  Correctness of the pure parts of the NixosConfiguration controller: the conditions \<open>setPhase\<close>
  derives, the owner of a machine as the least object of the order on creation time and name, and
  the labels that lead from a decommission job back to its configuration.
\<close>

section \<open>Conditions\<close>

abbreviation cond_of :: "lib \<Rightarrow> nixos_config \<Rightarrow> cond_type \<Rightarrow> cond_status option" where
  "cond_of L config t \<equiv> map_option c_status (lib_find_cond L (cs_conditions (cf_status config)) t)"

lemma setPhase_phase [simp]:
  "cs_phase (cf_status (setPhase L config ph rsn msg applied g)) = ph"
  "cf_meta (setPhase L config ph rsn msg applied g) = cf_meta config"
  "cf_spec (setPhase L config ph rsn msg applied g) = cf_spec config"
  "cs_install_done (cf_status (setPhase L config ph rsn msg applied g)) = cs_install_done (cf_status config)"
  "cs_install_retries (cf_status (setPhase L config ph rsn msg applied g)) = cs_install_retries (cf_status config)"
  "cs_last_applied (cf_status (setPhase L config ph rsn msg applied g)) = cs_last_applied (cf_status config)"
  "cs_resolved (cf_status (setPhase L config ph rsn msg applied g)) = cs_resolved (cf_status config)"
  by (simp_all add: setPhase_def Let_def)

lemma setPhase_conds:
  assumes "lib_ok L"
  shows "lib_find_cond L (cs_conditions (cf_status (setPhase L config ph rsn msg applied g))) t =
    (let gen = m_gen (cf_meta config);
         ready = (ph = NixosConfigPhaseReady);
         stalled = (ph = NixosConfigPhaseDegraded \<or> ph = NixosConfigPhaseBlocked);
         mk = (\<lambda>b rs m. Some \<lparr>c_type = t, c_status = (if b then ConditionTrue else ConditionFalse),
                c_gen = gen, c_reason = rs, c_message = m\<rparr>)
     in case t of
          ConditionReady \<Rightarrow> mk ready rsn msg
        | ConditionStalled \<Rightarrow> if stalled then mk True rsn msg else None
        | ConditionReconciling \<Rightarrow> mk (\<not> ready \<and> \<not> stalled) rsn msg
        | ConditionApplied \<Rightarrow> mk applied (if applied then ReasonConfigApplied else ReasonWaiting) msg
        | ConditionGitSynced \<Rightarrow>
            (case g of Some c \<Rightarrow> Some \<lparr>c_type = t, c_status = c_status c, c_gen = gen,
                c_reason = c_reason c, c_message = c_message c\<rparr>
             | None \<Rightarrow> lib_find_cond L (cs_conditions (cf_status config)) t)
        | _ \<Rightarrow> lib_find_cond L (cs_conditions (cf_status config)) t)"
  using assms by (cases t; cases g) (simp_all add: setPhase_def Let_def)

section \<open>The owner of a machine\<close>

definition owner_rank :: "nixos_config \<Rightarrow> int \<times> string" where
  "owner_rank c = (m_creation (cf_meta c), m_name (cf_meta c))"

lemma configEarlier_rank: "configEarlier a b \<longleftrightarrow> owner_rank a < owner_rank b"
  by (auto simp: configEarlier_def owner_rank_def)

definition rivals :: "nixos_config \<Rightarrow> nixos_config list \<Rightarrow> nixos_config list" where
  "rivals config cs = filter (\<lambda>c. cf_machine_ref (cf_spec c) = cf_machine_ref (cf_spec config) \<and>
     m_name (cf_meta c) \<noteq> m_name (cf_meta config)) cs"

lemma pick_owner_in: "pick_owner config cs w \<in> insert w (set (rivals config cs))"
  by (induction cs arbitrary: w) (auto simp: rivals_def)

lemma pick_owner_least:
  "c \<in> insert w (set (rivals config cs)) \<Longrightarrow> owner_rank (pick_owner config cs w) \<le> owner_rank c"
proof (induction cs arbitrary: w c)
  case (Cons d ds)
  show ?case
  proof (cases "cf_machine_ref (cf_spec d) = cf_machine_ref (cf_spec config) \<and>
      m_name (cf_meta d) \<noteq> m_name (cf_meta config)")
    case False
    then have "rivals config (d # ds) = rivals config ds" by (simp add: rivals_def)
    moreover have "pick_owner config (d # ds) w = pick_owner config ds w" using False by auto
    ultimately show ?thesis using Cons by simp
  next
    case d: True
    let ?w = "if configEarlier d w then d else w"
    have p: "pick_owner config (d # ds) w = pick_owner config ds ?w" using d by simp
    have w: "owner_rank ?w \<le> owner_rank w" "owner_rank ?w \<le> owner_rank d"
      by (auto simp: configEarlier_rank)
    have "owner_rank (pick_owner config ds ?w) \<le> owner_rank ?w" by (rule Cons.IH) simp
    moreover have "owner_rank (pick_owner config ds ?w) \<le> owner_rank c" if "c \<in> set (rivals config ds)"
      by (rule Cons.IH) (use that in simp)
    moreover have "c = w \<or> c = d \<or> c \<in> set (rivals config ds)"
      using Cons.prems d by (auto simp: rivals_def)
    ultimately show ?thesis unfolding p using w by (metis order_trans)
  qed
qed (simp add: rivals_def)

text \<open>All claimants of one machine in a list of configurations.\<close>

definition claimants :: "string \<Rightarrow> nixos_config list \<Rightarrow> nixos_config list" where
  "claimants mref cs = filter (\<lambda>c. cf_machine_ref (cf_spec c) = mref) cs"

lemma pick_owner_claimant:
  assumes "distinct (map (\<lambda>c. m_name (cf_meta c)) cs)" "config \<in> set cs"
  shows "pick_owner config cs config \<in> set (claimants (cf_machine_ref (cf_spec config)) cs)"
    "c \<in> set (claimants (cf_machine_ref (cf_spec config)) cs) \<Longrightarrow>
       owner_rank (pick_owner config cs config) \<le> owner_rank c"
proof -
  have eq: "c = config" if "c \<in> set cs" "m_name (cf_meta c) = m_name (cf_meta config)" for c
    using that assms by (auto simp: distinct_map dest: inj_onD)
  have set: "set (claimants (cf_machine_ref (cf_spec config)) cs) = insert config (set (rivals config cs))"
    using assms(2) eq by (auto simp: claimants_def rivals_def)
  show "pick_owner config cs config \<in> set (claimants (cf_machine_ref (cf_spec config)) cs)"
    unfolding set by (rule pick_owner_in)
  show "owner_rank (pick_owner config cs config) \<le> owner_rank c"
    if "c \<in> set (claimants (cf_machine_ref (cf_spec config)) cs)"
    using that unfolding set by (rule pick_owner_least)
qed

text \<open>A small configuration for the witnesses.\<close>

definition sample_config :: "string \<Rightarrow> int \<Rightarrow> nixos_config" where
  "sample_config name created = \<lparr>cf_meta = zero_meta\<lparr>m_name := name, m_ns := ''ns'', m_creation := created,
       m_finalizers := [FinalizerName]\<rparr>,
     cf_spec = \<lparr>cf_machine_ref = ''m'', cf_git_repo = ''repo'', cf_ref = ''main'', cf_credentials = None,
       cf_flake = ''#m'', cf_on_remove_flake = ''#off'', cf_subdir = [], cf_schedule = [], cf_full_install = True,
       cf_files = [], cf_job_template = None, cf_store_ref = None, cf_builder_ref = None\<rparr>,
     cf_status = zero_config_status\<rparr>"

definition sample_machine :: machine where
  "sample_machine = \<lparr>ma_meta = zero_meta\<lparr>m_name := ''m'', m_ns := ''ns''\<rparr>,
     ma_spec = \<lparr>ma_host = ''h'', ma_ssh_user = [], ma_key_ref = Some ''key'', ma_password_ref = None\<rparr>,
     ma_status = zero_machine_status\<lparr>mst_discoverable := True\<rparr>\<rparr>"

section \<open>Properties\<close>

text \<open>The standard conditions follow from the phase: after \<open>setPhase\<close> exactly one of Ready, Stalled
  and Reconciling is true (Ready in phase Ready, Stalled in Degraded and Blocked, Reconciling in the
  others), Stalled is absent unless true, Applied says what the caller asked for, and conditions of
  other types (GitSynced when no child condition is passed) are as before.\<close>

theorem setPhase_conditions:
  assumes "lib_ok L"
  shows "let config' = setPhase L config ph rsn msg applied g;
             holds = (\<lambda>t. cond_of L config' t = Some ConditionTrue)
    in cs_phase (cf_status config') = ph \<and>
       filter holds [ConditionReady, ConditionStalled, ConditionReconciling] =
         [if ph = NixosConfigPhaseReady then ConditionReady
          else if ph \<in> {NixosConfigPhaseDegraded, NixosConfigPhaseBlocked} then ConditionStalled
          else ConditionReconciling] \<and>
       (holds ConditionStalled \<or> cond_of L config' ConditionStalled = None) \<and>
       (holds ConditionApplied \<longleftrightarrow> applied) \<and>
       cond_of L config' (OtherCondition s) = cond_of L config (OtherCondition s) \<and>
       cond_of L config' ConditionGitSynced =
         (if g = None then cond_of L config ConditionGitSynced else map_option c_status g)"
  using setPhase_conds [OF assms, of config ph rsn msg applied g]
  by (cases ph; cases g) simp_all

lemma setPhase_conditions_witness:
  "cond_of ref_lib (setPhase ref_lib (sample_config ''a'' 5) NixosConfigPhaseDegraded ReasonApplyFailed ''x'' True None)
     ConditionApplied = Some ConditionTrue"
  using setPhase_conditions [OF ref_lib_ok, of "sample_config ''a'' 5" NixosConfigPhaseDegraded ReasonApplyFailed "''x''" True None]
  unfolding Let_def by blast

text \<open>C37. One owner per machine: when every claimant sees the same list, all of them name the same owner,
  the claimant with the earliest creation time and, among equals, the smallest name; so exactly one
  of them passes the uniqueness gate. The order of the list does not matter.\<close>

theorem machine_has_one_owner:
  assumes "distinct (map (\<lambda>c. m_name (cf_meta c)) cs)" "mset cs' = mset cs"
    and "a \<in> set cs" "b \<in> set cs" "cf_machine_ref (cf_spec a) = cf_machine_ref (cf_spec b)"
  shows "pick_owner a cs a = pick_owner b cs' b \<and>
    pick_owner a cs a \<in> set (claimants (cf_machine_ref (cf_spec a)) cs) \<and>
    list_all (\<lambda>c. owner_rank (pick_owner a cs a) \<le> owner_rank c) (claimants (cf_machine_ref (cf_spec a)) cs)"
proof -
  let ?C = "claimants (cf_machine_ref (cf_spec a)) cs"
  have perm: "set cs' = set cs" using assms(2) by (rule mset_eq_setD)
  have d': "distinct (map (\<lambda>c. m_name (cf_meta c)) cs')"
    using assms(1,2) by (metis mset_map mset_eq_imp_distinct_iff)
  have same: "set (claimants (cf_machine_ref (cf_spec b)) cs') = set ?C"
    using perm assms(5) by (simp add: claimants_def)
  have A: "pick_owner a cs a \<in> set ?C" "\<And>c. c \<in> set ?C \<Longrightarrow> owner_rank (pick_owner a cs a) \<le> owner_rank c"
    using pick_owner_claimant [OF assms(1,3)] by simp_all
  have B: "pick_owner b cs' b \<in> set ?C" "\<And>c. c \<in> set ?C \<Longrightarrow> owner_rank (pick_owner b cs' b) \<le> owner_rank c"
    using pick_owner_claimant [OF d'] assms(4) perm same by blast+
  have "owner_rank (pick_owner a cs a) = owner_rank (pick_owner b cs' b)"
    using A B by (metis order_antisym)
  then have "pick_owner a cs a = pick_owner b cs' b"
    using A(1) B(1) assms(1) unfolding claimants_def owner_rank_def
    by (auto simp: distinct_map dest: inj_onD)
  then show ?thesis using A by (simp add: list_all_iff)
qed

lemma machine_has_one_owner_witness:
  "m_name (cf_meta (pick_owner (sample_config ''b'' 5) [sample_config ''a'' 5, sample_config ''b'' 5] (sample_config ''b'' 5)))
     = ''a''"
proof -
  let ?a = "sample_config ''a'' 5" and ?b = "sample_config ''b'' 5"
  have eq: "pick_owner ?b [?a, ?b] ?b = pick_owner ?a [?b, ?a] ?a"
    using machine_has_one_owner [of "[?a, ?b]" "[?b, ?a]" ?b ?a]
    by (simp add: sample_config_def zero_meta_def)
  show ?thesis
    unfolding eq by (simp add: sample_config_def zero_meta_def configEarlier_def)
qed

end
