(* ===== verification/Config_Install.thy ===== *)
theory Config_Install
  imports Config_Status
begin

text \<open>
  Safety of the live path of the NixosConfiguration controller, for every behaviour of the API
  server: no child work before the uniqueness and machine gates pass, the install child is only
  deleted after its completion has been written, a completed install is never touched again, the
  failures are counted and capped. Each handler gets a specification of what it logs and returns
  (lemmas \<open>..._runs\<close>, in the collection \<open>runs_intros\<close>); the properties combine them.
\<close>

section \<open>Kinds of events\<close>

fun no_job :: "event \<Rightarrow> bool" where
  "no_job (EvJob _) = False"
| "no_job _ = True"

fun config_event :: "event \<Rightarrow> bool" where
  "config_event (EvConfig _) = True"
| "config_event _ = False"

fun suspend_event :: "event \<Rightarrow> bool" where
  "suspend_event (EvCron (Got k r)) = True"
| "suspend_event (EvCron (Updated x r)) = nx_suspend (ncj_nix (ncj_spec x))"
| "suspend_event _ = False"

text \<open>A stored status that records the completed install.\<close>

fun records_done :: "event \<Rightarrow> bool" where
  "records_done (EvConfig (StatusUpdated c (Inr c'))) = cs_install_done (cf_status c)"
| "records_done _ = False"

text \<open>\<open>completion_first b es\<close>: no succeeded install child is deleted before its completion is recorded.\<close>

definition succeeded :: "nix_job \<Rightarrow> bool" where
  "succeeded job \<longleftrightarrow> sint (nj_succeeded (nj_status job)) > 0"

definition failed :: "nix_job \<Rightarrow> bool" where
  "failed job \<longleftrightarrow> sint (nj_failed (nj_status job)) > 0"

fun deletes_success :: "event \<Rightarrow> bool" where
  "deletes_success (EvJob (Deleted job r)) = succeeded job"
| "deletes_success _ = False"

fun completion_first :: "bool \<Rightarrow> event list \<Rightarrow> bool" where
  "completion_first b [] = True"
| "completion_first b (ev # es) =
     ((deletes_success ev \<longrightarrow> b) \<and> completion_first (b \<or> records_done ev) es)"

lemma completion_first_append:
  "completion_first b (es @ es') \<longleftrightarrow>
     completion_first b es \<and> completion_first (b \<or> list_ex records_done es) es'"
  by (induction es arbitrary: b) (auto simp: disj_assoc)

lemma completion_first_no_delete: "list_all (\<lambda>ev. \<not> deletes_success ev) es \<Longrightarrow> completion_first b es"
  by (induction es arbitrary: b) auto

lemma no_job_no_delete: "no_job ev \<Longrightarrow> \<not> deletes_success ev"
  by (cases ev) auto

lemma config_event_no_job: "config_event ev \<Longrightarrow> no_job ev"
  by (cases ev) auto

lemma suspend_event_no_job: "suspend_event ev \<Longrightarrow> no_job ev"
  by (cases ev) auto

lemma list_all_imp: "list_all P es \<Longrightarrow> (\<And>ev. P ev \<Longrightarrow> Q ev) \<Longrightarrow> list_all Q es"
  by (simp add: list_all_iff)

section \<open>Specifications of the handlers\<close>

abbreviation all_configs :: "nixos_config \<Rightarrow> list_opts" where
  "all_configs config \<equiv> \<lparr>lo_ns = m_ns (cf_meta config), lo_labels = [], lo_fields = []\<rparr>"

lemma machineOwner_runs [runs_intros]:
  assumes "\<And>e. R (Inl e) [EvConfig (Listed (all_configs config) (Inl e))]"
    and "\<And>cs. R (Inr (m_name (cf_meta (pick_owner config cs config)))) [EvConfig (Listed (all_configs config) (Inr cs))]"
  shows "runs (machineOwner E config) R"
  unfolding machineOwner_def by (auto intro!: runs_intros assms)

lemma suspend_runs [runs_intros]:
  assumes "\<And>es. list_all suspend_event es \<Longrightarrow> R () es"
  shows "runs (suspendDayTwoCronIfExists E config) R"
  unfolding suspendDayTwoCronIfExists_def by (auto intro!: runs_intros assms)

lemma status_attempt_runs:
  "runs (status_attempt E k f) (\<lambda>r es. list_all config_event es \<and>
     (\<forall>c'. r = Inr c' \<longrightarrow> (\<exists>l. EvConfig (StatusUpdated (l\<lparr>cf_status := f (cf_status l)\<rparr>) (Inr c')) \<in> set es)))"
  unfolding status_attempt_def by (auto intro!: runs_intros)

lemma retried_attempt_runs:
  assumes "retry_ok E"
  shows "runs (e_retry E (status_attempt E k f)) (\<lambda>r es. list_all config_event es \<and>
     (\<forall>c'. r = Inr c' \<longrightarrow> (\<exists>l. EvConfig (StatusUpdated (l\<lparr>cf_status := f (cf_status l)\<rparr>) (Inr c')) \<in> set es)))"
  by (rule runs_retry [OF assms status_attempt_runs]) auto

lemma markFullDiskInstallCompleted_runs [runs_intros]:
  assumes "retry_ok E"
    and "\<And>r es. list_all config_event es \<Longrightarrow> (\<And>c'. r = Inr c' \<Longrightarrow> list_ex records_done es) \<Longrightarrow> R r es"
  shows "runs (markFullDiskInstallCompleted E config) R"
  unfolding markFullDiskInstallCompleted_def
proof (rule runs_then [OF retried_attempt_runs [OF assms(1)]], rule runs_return, rule assms(2))
  fix r es c'
  assume a: "list_all config_event es \<and> (\<forall>c'. r = Inr c' \<longrightarrow>
    (\<exists>l. EvConfig (StatusUpdated (l\<lparr>cf_status := mark_done (cf_status l)\<rparr>) (Inr c')) \<in> set es))"
  then show "list_all config_event (es @ [])" by simp
  assume "(case r of Inl e \<Rightarrow> Inl e | Inr latest \<Rightarrow> Inr (sync_status config latest)) = Inr c'"
  then obtain latest where "r = Inr latest" by (cases r) auto
  with a obtain l where l: "EvConfig (StatusUpdated (l\<lparr>cf_status := mark_done (cf_status l)\<rparr>) (Inr latest)) \<in> set es"
    by blast
  have "records_done (EvConfig (StatusUpdated (l\<lparr>cf_status := mark_done (cf_status l)\<rparr>) (Inr latest)))"
    by (simp add: mark_done_def)
  with l show "list_ex records_done (es @ [])" unfolding append_Nil2 list_ex_iff by (rule bexI [rotated])
qed

text \<open>Ensuring the install child never deletes anything.\<close>

fun ensure_event :: "event \<Rightarrow> bool" where
  "ensure_event (EvJob (Got k r)) = True"
| "ensure_event (EvJob (Created x r)) = True"
| "ensure_event (EvJob (Updated x r)) = True"
| "ensure_event _ = False"

lemma ensure_event_no_delete: "ensure_event ev \<Longrightarrow> \<not> deletes_success ev"
  by (cases ev rule: ensure_event.cases) auto

lemma ensureInstallNixJob_runs [runs_intros]:
  assumes "\<And>r es. list_all ensure_event es \<Longrightarrow> R r es"
  shows "runs (ensureInstallNixJob E config machine) R"
  unfolding ensureInstallNixJob_def by (auto intro!: runs_intros assms)

lemma ensureDayTwoNixCronJob_runs:
  assumes "\<And>r es. list_all no_job es \<Longrightarrow> R r es"
  shows "runs (ensureDayTwoNixCronJob E config machine suspend) R"
  unfolding ensureDayTwoNixCronJob_def by (auto intro!: runs_intros assms)

lemma reconcileDayTwo_no_job [runs_intros]:
  assumes "\<And>r es. list_all no_job es \<Longrightarrow> R r es"
  shows "runs (reconcileDayTwo E config machine) R"
  unfolding reconcileDayTwo_def writeBackMachineStatus_def
  by (auto intro!: runs_intros ensureDayTwoNixCronJob_runs assms)

section \<open>The install step\<close>

text \<open>
  Every deletion of the step: of a succeeded child after the record, or of a failed one that is not
  yet being deleted, below the cap, with the failure counted in the configuration it returns.
\<close>

definition counted_delete :: "nixos_config \<Rightarrow> nixos_config \<Rightarrow> event \<Rightarrow> bool" where
  "counted_delete before after ev =
     (case ev of
        EvJob (Deleted job r) \<Rightarrow>
          succeeded job \<or>
          failed job \<and> m_deletion (nj_meta job) = None \<and>
          sint (cs_install_retries (cf_status before)) < MaxInstallRetries \<and>
          sint (cs_install_retries (cf_status after)) = sint (cs_install_retries (cf_status before)) + 1
      | _ \<Rightarrow> True)"

definition install_spec ::
    "nixos_config \<Rightarrow> nixos_config \<times> bool \<times> reconcile_end \<Rightarrow> event list \<Rightarrow> bool" where
  "install_spec config out es =
     (case out of (config', dn, res, er) \<Rightarrow>
        completion_first False es \<and>
        (dn \<longrightarrow> list_ex records_done es \<and> er = None) \<and>
        list_all (counted_delete config config') es)"

lemma ensure_event_counted: "ensure_event ev \<Longrightarrow> counted_delete a b ev"
  by (cases ev rule: ensure_event.cases) (auto simp: counted_delete_def)

lemma config_event_counted: "config_event ev \<Longrightarrow> counted_delete a b ev"
  by (cases ev) (auto simp: counted_delete_def)

lemma completion_first_ensure: "list_all ensure_event es \<Longrightarrow> completion_first b es"
  by (rule completion_first_no_delete) (auto elim: list_all_imp dest: ensure_event_no_delete)

lemma completion_first_config: "list_all config_event es \<Longrightarrow> completion_first b es"
  by (rule completion_first_no_delete, erule list_all_imp) (rule no_job_no_delete, erule config_event_no_job)

lemma below_cap_counts:
  "sint (n :: int32) < MaxInstallRetries \<Longrightarrow> sint (n + 1) = sint n + 1"
  by (rule sint_Suc_int32) (simp add: MaxInstallRetries_def)

lemma reconcileInstall_runs [runs_intros]:
  assumes "retry_ok E" and R: "\<And>out es. install_spec config out es \<Longrightarrow> R out es"
  shows "runs (reconcileInstall E config machine) R"
  unfolding reconcileInstall_def Let_def
  by (auto intro!: runs_intros assms(1) R
      simp: install_spec_def completion_first_append completion_first_ensure completion_first_config
        list_all_imp [OF _ ensure_event_counted] list_all_imp [OF _ config_event_counted]
        counted_delete_def succeeded_def failed_def below_cap_counts)

section \<open>The state machine\<close>

text \<open>Events that touch no child and change nothing but a suspend flag.\<close>

fun quiet :: "event \<Rightarrow> bool" where
  "quiet (EvConfig (Listed lo r)) = True"
| "quiet (EvMachine (Got k r)) = True"
| "quiet (EvRecorded ty rsn msg) = True"
| "quiet ev = suspend_event ev"

lemma suspend_quiet: "suspend_event ev \<Longrightarrow> quiet ev"
  by (cases ev rule: quiet.cases) auto

lemma quiet_no_job: "quiet ev \<Longrightarrow> no_job ev"
  by (cases ev rule: quiet.cases) auto

text \<open>
  What is logged before any child is touched: the list in which the configuration is the owner of
  its machine, and the machine, reachable.
\<close>

definition gates_passed :: "nixos_config \<Rightarrow> event list \<Rightarrow> bool" where
  "gates_passed config es \<longleftrightarrow>
     (\<exists>lo cs m es'. es = EvConfig (Listed lo (Inr cs)) #
        EvMachine (Got \<lparr>k_ns = m_ns (cf_meta config), k_name = cf_machine_ref (cf_spec config)\<rparr> (Inr m)) # es' \<and>
        m_name (cf_meta (pick_owner config cs config)) = m_name (cf_meta config) \<and>
        mst_discoverable (ma_status m))"

definition stays_blocked :: "nixos_config \<times> reconcile_end \<Rightarrow> bool" where
  "stays_blocked out =
     (case out of (config', res, er) \<Rightarrow>
        (case er of Some _ \<Rightarrow> True
         | None \<Rightarrow> cs_phase (cf_status config') = NixosConfigPhaseBlocked \<and> res = requeue_later))"

definition state_machine_spec ::
    "nixos_config \<Rightarrow> nixos_config \<times> reconcile_end \<Rightarrow> event list \<Rightarrow> bool" where
  "state_machine_spec config out es \<longleftrightarrow>
     completion_first False es \<and>
     (list_all quiet es \<and> stays_blocked out \<or> gates_passed config es) \<and>
     (cs_install_done (cf_status config) \<or> \<not> cf_full_install (cf_spec config) \<longrightarrow> list_all no_job es)"

lemma setBlocked_phase [simp]: "cs_phase (cf_status (setBlocked L config rsn msg)) = NixosConfigPhaseBlocked"
  by (simp add: setBlocked_def)

lemma quiet_completion: "list_all quiet es \<Longrightarrow> completion_first b es"
  by (rule completion_first_no_delete, erule list_all_imp) (rule no_job_no_delete, erule quiet_no_job)

lemma no_job_completion: "list_all no_job es \<Longrightarrow> completion_first b es"
  by (rule completion_first_no_delete, erule list_all_imp) (rule no_job_no_delete)

lemma quiet_spec:
  "list_all quiet es \<Longrightarrow> stays_blocked out \<Longrightarrow> state_machine_spec config out es"
  by (simp add: state_machine_spec_def quiet_completion list_all_imp [OF _ quiet_no_job])

lemma spec_cases:
  assumes "list_all quiet es \<and> stays_blocked out \<or>
    (\<exists>lo cs m es'. es = EvConfig (Listed lo (Inr cs)) #
        EvMachine (Got \<lparr>k_ns = m_ns (cf_meta config), k_name = cf_machine_ref (cf_spec config)\<rparr> (Inr m)) # es' \<and>
        m_name (cf_meta (pick_owner config cs config)) = m_name (cf_meta config) \<and>
        mst_discoverable (ma_status m) \<and> completion_first False es' \<and>
        (cs_install_done (cf_status config) \<or> \<not> cf_full_install (cf_spec config) \<longrightarrow> list_all no_job es'))"
  shows "state_machine_spec config out es"
  using assms by (auto simp: state_machine_spec_def gates_passed_def quiet_completion list_all_imp [OF _ quiet_no_job])

lemmas log_simps = stays_blocked_def install_spec_def completion_first_append no_job_completion
  list_all_imp [OF _ suspend_quiet]

lemma runStateMachine_runs [runs_intros]:
  assumes "retry_ok E" and R: "\<And>out es. state_machine_spec config out es \<Longrightarrow> R out es"
  shows "runs (runStateMachine E config) R"
  unfolding runStateMachine_def Let_def
  by (rule runs_mono [where R = "state_machine_spec config", rotated], erule R, intro runs_intros assms(1))
    (rule spec_cases, simp add: log_simps split: option.splits)+

lemma sample_retry_ok: "retry_ok (sample_env :: 'w env)"
  by (rule retry_ok_attempts [where n = 4]) (simp add: sample_env_def)

section \<open>Properties\<close>

text \<open>C8. In the reconcile of a live configuration, an install child that succeeded is only deleted
  after a status with \<open>fullDiskInstallCompleted = true\<close> has been accepted by the server, whatever the
  server answers and however often it reports a conflict.\<close>

theorem install_completion_recorded_first:
  assumes "retry_ok E"
  shows "runs (runStateMachine E config) (\<lambda>_ es. completion_first False es)"
  by (rule runStateMachine_runs [OF assms]) (simp add: state_machine_spec_def)

lemma install_completion_recorded_first_witness:
  "runs (runStateMachine (sample_env :: unit env) (sample_config ''a'' 5)) (\<lambda>_ es. completion_first False es)"
  by (rule install_completion_recorded_first [OF sample_retry_ok])

text \<open>A completed (or not requested) full-disk install is never touched again: when the status says
  completed, the state machine neither reads, creates, updates nor deletes any NixJob.\<close>

theorem completed_install_untouched:
  assumes "retry_ok E" "cs_install_done (cf_status config) \<or> \<not> cf_full_install (cf_spec config)"
  shows "emits no_job (runStateMachine E config)"
  unfolding runs_emits
  by (rule runStateMachine_runs [OF assms(1)]) (use assms(2) in \<open>simp add: state_machine_spec_def\<close>)

lemma completed_install_untouched_witness:
  "emits no_job (runStateMachine (sample_env :: unit env)
     (sample_config ''a'' 5\<lparr>cf_status := zero_config_status\<lparr>cs_install_done := True\<rparr>\<rparr>))"
  by (rule completed_install_untouched [OF sample_retry_ok]) simp

text \<open>C19. The gates guard the children: either the reconcile logged only reads, events and the suspension of
  the day-2 cron, and (unless it returns an error) left the configuration Blocked with a requeue; or it
  first saw itself as the owner of its machine and then found that machine reachable.\<close>

theorem gates_guard_children:
  assumes "retry_ok E"
  shows "runs (runStateMachine E config)
    (\<lambda>out es. list_all quiet es \<and> stays_blocked out \<or> gates_passed config es)"
  by (rule runStateMachine_runs [OF assms]) (simp add: state_machine_spec_def)

lemma gates_guard_children_witness:
  "runs (runStateMachine (sample_env :: unit env) (sample_config ''a'' 5))
    (\<lambda>out es. list_all quiet es \<and> stays_blocked out \<or> gates_passed (sample_config ''a'' 5) es)"
  by (rule gates_guard_children [OF sample_retry_ok])

text \<open>Failed installs are counted and capped: a child deleted without success was observed failed and
  not yet being deleted, with fewer than \<open>MaxInstallRetries\<close> failures counted, and the returned
  configuration counts exactly one more (no 32-bit overflow). So at the cap no child is deleted.\<close>

theorem install_failures_counted:
  assumes "retry_ok E"
  shows "runs (reconcileInstall E config machine) (\<lambda>(config', _) es. list_all (counted_delete config config') es)"
  by (rule reconcileInstall_runs [OF assms]) (auto simp: install_spec_def)

lemma install_failures_counted_witness:
  "runs (reconcileInstall (sample_env :: unit env) (sample_config ''a'' 5) sample_machine)
     (\<lambda>(config', _) es. list_all (counted_delete (sample_config ''a'' 5) config') es)"
  by (rule install_failures_counted [OF sample_retry_ok])

end
