(* ===== verification/Config_History.thy ===== *)
theory Config_History
  imports Config_Install
begin

text \<open>
  A configuration over many reconciles. The server is still arbitrary but for one contract,
  \<open>honors_done\<close>: once the stored status records the completed install, reads of the object
  return it and no write of anybody else takes it back. Reconciles of the object alternate with
  arbitrary steps of other actors (\<open>history\<close>); the invariant is the stored record, and no
  install child is ever created again.
\<close>

section \<open>Programs that keep an invariant of the world\<close>

definition ensures :: "('w \<Rightarrow> bool) \<Rightarrow> ('w, 'a) prog \<Rightarrow> ('a \<Rightarrow> event list \<Rightarrow> bool) \<Rightarrow> bool" where
  "ensures I m R \<longleftrightarrow> (\<forall>s. I (sys_world s) \<longrightarrow>
     (\<exists>a s' es. run_state m s = (a, s') \<and> I (sys_world s') \<and> sys_log s' = sys_log s @ es \<and> R a es))"

named_theorems ensures_intros \<open>compositional rules of ensures\<close>

lemma ensures_return [ensures_intros]: "R a [] \<Longrightarrow> ensures I (State_Monad.return a) R"
  by (simp add: ensures_def)

lemma ensures_bind [ensures_intros]:
  fixes I :: "'w \<Rightarrow> bool"
  assumes "ensures I m (\<lambda>a es. ensures I (f a) (\<lambda>b es'. R b (es @ es')))"
  shows "ensures I (State_Monad.bind m f) R"
  unfolding ensures_def
proof (intro allI impI)
  fix s :: "'w sys"
  assume "I (sys_world s)"
  then obtain a s1 es1 where 1: "run_state m s = (a, s1)" "I (sys_world s1)" "sys_log s1 = sys_log s @ es1"
      "ensures I (f a) (\<lambda>b es'. R b (es1 @ es'))"
    using assms unfolding ensures_def [of I m] by blast
  obtain b s2 es2 where "run_state (f a) s1 = (b, s2)" "I (sys_world s2)" "sys_log s2 = sys_log s1 @ es2"
      "R b (es1 @ es2)"
    using 1(2,4) unfolding ensures_def by blast
  with 1 show "\<exists>a s' es. run_state (State_Monad.bind m f) s = (a, s') \<and> I (sys_world s') \<and>
      sys_log s' = sys_log s @ es \<and> R a es"
    by (intro exI [of _ b] exI [of _ s2] exI [of _ "es1 @ es2"]) simp
qed

lemma ensures_call:
  assumes "\<And>w r w'. I w \<Longrightarrow> op w = (r, w') \<Longrightarrow> I w' \<and> R r [ev r]"
  shows "ensures I (api_call op ev) R"
  using assms by (auto simp: ensures_def api_call_def split: prod.split)

lemma ensures_mono: "ensures I m R \<Longrightarrow> (\<And>a es. R a es \<Longrightarrow> Q a es) \<Longrightarrow> ensures I m Q"
  unfolding ensures_def by blast

lemma ensures_event [ensures_intros]: "R () [EvRecorded ty rsn msg] \<Longrightarrow> ensures I (record_event ty rsn msg) R"
  unfolding record_event_def by (rule ensures_call) auto

lemma ensures_if [ensures_intros]:
  "(b \<Longrightarrow> ensures I m R) \<Longrightarrow> (\<not> b \<Longrightarrow> ensures I n R) \<Longrightarrow> ensures I (if b then m else n) R"
  by simp

lemma ensures_case_sum [ensures_intros]:
  "(\<And>a. x = Inl a \<Longrightarrow> ensures I (f a) R) \<Longrightarrow> (\<And>b. x = Inr b \<Longrightarrow> ensures I (g b) R) \<Longrightarrow>
     ensures I (case x of Inl a \<Rightarrow> f a | Inr b \<Rightarrow> g b) R"
  by (cases x) simp_all

lemma ensures_case_option [ensures_intros]:
  "(x = None \<Longrightarrow> ensures I f R) \<Longrightarrow> (\<And>b. x = Some b \<Longrightarrow> ensures I (g b) R) \<Longrightarrow>
     ensures I (case x of None \<Rightarrow> f | Some b \<Rightarrow> g b) R"
  by (cases x) simp_all

lemma ensures_case_prod [ensures_intros]:
  "(\<And>a b. x = (a, b) \<Longrightarrow> ensures I (f a b) R) \<Longrightarrow> ensures I (case x of (a, b) \<Rightarrow> f a b) R"
  by (cases x) simp

lemma ensures_attempts:
  assumes "ensures I fn R" "\<And>e r es es'. R (Inl e) es \<Longrightarrow> R r es' \<Longrightarrow> R r (es @ es')"
  shows "ensures I (attempts n fn) R"
proof (induction n)
  case (Suc n)
  show ?case
    unfolding attempts.simps
  proof (rule ensures_bind, rule ensures_mono [OF assms(1)])
    fix r es
    assume r: "R r es"
    have ret: "ensures I (State_Monad.return r) (\<lambda>b es'. R b (es @ es'))"
      by (rule ensures_return) (use r in simp)
    have again: "ensures I (attempts n fn) (\<lambda>b es'. R b (es @ es'))" if "r = Inl e" for e
      by (rule ensures_mono [OF Suc]) (use r that assms(2) in blast)
    show "ensures I (case r of Inl e \<Rightarrow> if IsConflict e then attempts n fn else State_Monad.return r
        | Inr _ \<Rightarrow> State_Monad.return r) (\<lambda>b es'. R b (es @ es'))"
      by (cases r) (use ret again in simp_all)
  qed
qed (use assms(1) in simp)

lemma ensures_retry:
  fixes E :: "'w env"
  assumes "retry_ok E" "ensures I fn R" "\<And>e r es es'. R (Inl e) es \<Longrightarrow> R r es' \<Longrightarrow> R r (es @ es')"
  shows "ensures I (e_retry E fn) R"
  unfolding ensures_def
proof (intro allI impI)
  fix s :: "'w sys"
  assume I: "I (sys_world s)"
  obtain n where "run_state (e_retry E fn) s = run_state (attempts n fn) s"
    using assms(1) unfolding retry_ok_def by blast
  then show "\<exists>a s' es. run_state (e_retry E fn) s = (a, s') \<and> I (sys_world s') \<and>
      sys_log s' = sys_log s @ es \<and> R a es"
    using ensures_attempts [OF assms(2,3), where n = n] I unfolding ensures_def by simp
qed

section \<open>The contract of the server\<close>

text \<open>Calls on other kinds of objects leave the stored record alone.\<close>

definition keeps_api :: "('w \<Rightarrow> bool) \<Rightarrow> ('w, 'o) kind_api \<Rightarrow> bool" where
  "keeps_api I K \<longleftrightarrow> (\<forall>w. I w \<longrightarrow>
     (\<forall>k. I (snd (ka_get K k w))) \<and> (\<forall>lo. I (snd (ka_list K lo w))) \<and> (\<forall>x. I (snd (ka_create K x w))) \<and>
     (\<forall>x. I (snd (ka_update K x w))) \<and> (\<forall>x. I (snd (ka_status_update K x w))) \<and>
     (\<forall>x. I (snd (ka_delete K x w))))"

text \<open>The configuration at \<open>k\<close> with the completed install.\<close>

definition done_at :: "key \<Rightarrow> nixos_config \<Rightarrow> bool" where
  "done_at k c \<longleftrightarrow> key_of (cf_meta c) = k \<and> cs_install_done (cf_status c)"

definition honors_done :: "'w env \<Rightarrow> key \<Rightarrow> ('w \<Rightarrow> bool) \<Rightarrow> bool" where
  "honors_done E k I \<longleftrightarrow>
     keeps_api I (e_machines E) \<and> keeps_api I (e_jobs E) \<and> keeps_api I (e_crons E) \<and>
     (\<forall>w. I w \<longrightarrow>
        (\<forall>lo r w'. ka_list (e_configs E) lo w = (r, w') \<longrightarrow> I w') \<and>
        (\<forall>r w'. ka_get (e_configs E) k w = (r, w') \<longrightarrow> I w' \<and> (\<forall>c. r = Inr c \<longrightarrow> done_at k c)) \<and>
        (\<forall>x r w'. done_at k x \<and> ka_update (e_configs E) x w = (r, w') \<longrightarrow> I w' \<and> (\<forall>c. r = Inr c \<longrightarrow> done_at k c)) \<and>
        (\<forall>x r w'. done_at k x \<and> ka_status_update (e_configs E) x w = (r, w') \<longrightarrow>
           I w' \<and> (\<forall>c. r = Inr c \<longrightarrow> done_at k c)))"

lemma keeps_ensures [ensures_intros]:
  "keeps_api I K \<Longrightarrow> (\<And>r. R1 r [tag (Got k r)]) \<Longrightarrow> ensures I (api_get K tag k) R1"
  "keeps_api I K \<Longrightarrow> (\<And>r. R2 r [tag (Listed lo r)]) \<Longrightarrow> ensures I (api_list K tag lo) R2"
  "keeps_api I K \<Longrightarrow> (\<And>r. R1 r [tag (Created x r)]) \<Longrightarrow> ensures I (api_create K tag x) R1"
  "keeps_api I K \<Longrightarrow> (\<And>r. R1 r [tag (Updated x r)]) \<Longrightarrow> ensures I (api_update K tag x) R1"
  "keeps_api I K \<Longrightarrow> (\<And>r. R1 r [tag (StatusUpdated x r)]) \<Longrightarrow> ensures I (api_status_update K tag x) R1"
  "keeps_api I K \<Longrightarrow> (\<And>r. R3 r [tag (Deleted x r)]) \<Longrightarrow> ensures I (api_delete K tag x) R3"
  unfolding api_defs keeps_api_def by (rule ensures_call; metis snd_conv)+

lemma honors_keeps:
  assumes "honors_done E k I"
  shows "keeps_api I (e_machines E)" "keeps_api I (e_jobs E)" "keeps_api I (e_crons E)"
  using assms by (simp_all add: honors_done_def)

lemma honorsD:
  assumes "honors_done E k I" "I w"
  shows "ka_list (e_configs E) lo w = (rl, w') \<Longrightarrow> I w'"
    "ka_get (e_configs E) k w = (r, w') \<Longrightarrow> I w' \<and> (\<forall>c. r = Inr c \<longrightarrow> done_at k c)"
    "done_at k x \<Longrightarrow> ka_update (e_configs E) x w = (r, w') \<Longrightarrow> I w' \<and> (\<forall>c. r = Inr c \<longrightarrow> done_at k c)"
    "done_at k x \<Longrightarrow> ka_status_update (e_configs E) x w = (r, w') \<Longrightarrow> I w' \<and> (\<forall>c. r = Inr c \<longrightarrow> done_at k c)"
  using assms unfolding honors_done_def by blast+

lemma honors_list:
  assumes "honors_done E k I" "\<And>r. R r [EvConfig (Listed lo r)]"
  shows "ensures I (api_list (e_configs E) EvConfig lo) R"
  unfolding api_defs by (rule ensures_call) (use assms honorsD(1) [OF assms(1)] in simp)

lemma honors_get:
  assumes "honors_done E k I" "\<And>r. (\<And>c. r = Inr c \<Longrightarrow> done_at k c) \<Longrightarrow> R r [EvConfig (Got k r)]"
  shows "ensures I (api_get (e_configs E) EvConfig k) R"
  unfolding api_defs by (rule ensures_call) (use assms(2) honorsD(2) [OF assms(1)] in simp)

lemma honors_update:
  assumes "honors_done E k I" "done_at k x"
    and "\<And>r. (\<And>c. r = Inr c \<Longrightarrow> done_at k c) \<Longrightarrow> R r [EvConfig (Updated x r)]"
  shows "ensures I (api_update (e_configs E) EvConfig x) R"
  unfolding api_defs by (rule ensures_call) (use assms(3) honorsD(3) [OF assms(1) _ assms(2)] in simp)

lemma honors_status_update:
  assumes "honors_done E k I" "done_at k x"
    and "\<And>r. (\<And>c. r = Inr c \<Longrightarrow> done_at k c) \<Longrightarrow> R r [EvConfig (StatusUpdated x r)]"
  shows "ensures I (api_status_update (e_configs E) EvConfig x) R"
  unfolding api_defs by (rule ensures_call) (use assms(3) honorsD(4) [OF assms(1) _ assms(2)] in simp)

lemmas honors_ensures = honors_list honors_get honors_update honors_status_update

section \<open>One reconcile\<close>

text \<open>The creation of an install child: a NixJob that runs the installer.\<close>

fun installs :: "event \<Rightarrow> bool" where
  "installs (EvJob (Created j r)) = (nx_run (nj_nix (nj_spec j)) = installerInstallable)"
| "installs _ = False"

abbreviation no_installs :: "event list \<Rightarrow> bool" where
  "no_installs es \<equiv> list_all (\<lambda>ev. \<not> installs ev) es"

lemma decommission_run:
  "buildDecommissionNixJob config machine = Inr j \<Longrightarrow> nx_run (nj_nix (nj_spec j)) \<noteq> installerInstallable"
  by (auto simp: buildDecommissionNixJob_def const_defs split: option.splits sum.splits)

lemma done_at_setPhase [simp]: "done_at k (setPhase L c ph rsn msg a g) \<longleftrightarrow> done_at k c"
  by (simp add: done_at_def)

lemma done_at_set [simp]:
  "done_at k (setBlocked L c rsn msg) \<longleftrightarrow> done_at k c"
  "done_at k (setDegraded L c msg a) \<longleftrightarrow> done_at k c"
  "done_at k (c\<lparr>cf_status := st\<rparr>) \<longleftrightarrow> key_of (cf_meta c) = k \<and> cs_install_done st"
  "done_at k (if b then c else d) \<longleftrightarrow> (b \<longrightarrow> done_at k c) \<and> (\<not> b \<longrightarrow> done_at k d)"
  "done_at k (c\<lparr>cf_meta := (cf_meta c)\<lparr>m_finalizers := fs\<rparr>\<rparr>) \<longleftrightarrow> done_at k c"
  by (auto simp: done_at_def setBlocked_def setDegraded_def key_of_def)

lemma done_atD: "done_at k c \<Longrightarrow> key_of (cf_meta c) = k \<and> cs_install_done (cf_status c)"
  by (simp add: done_at_def)

lemma status_attempt_done:
  assumes "honors_done E k I" "\<And>st. cs_install_done (f st) = cs_install_done st"
  shows "ensures I (status_attempt E k f) (\<lambda>r es. no_installs es \<and> (\<forall>c. r = Inr c \<longrightarrow> done_at k c))"
  unfolding status_attempt_def using assms(2)
  by (auto intro!: ensures_intros honors_ensures [OF assms(1)] dest: done_atD)

lemma bump_done [ensures_intros]:
  assumes "honors_done E k I" "retry_ok E" "done_at k config"
    and R: "\<And>r es. no_installs es \<Longrightarrow> (\<And>c. r = Inr c \<Longrightarrow> done_at k c) \<Longrightarrow> R r es"
  shows "ensures I (bumpOnRemoveRetries E config) R"
proof -
  have key: "key_of (cf_meta config) = k" using assms(3) by (simp add: done_at_def)
  have "ensures I (e_retry E (status_attempt E k bump_retries))
      (\<lambda>r es. no_installs es \<and> (\<forall>c. r = Inr c \<longrightarrow> done_at k c))"
    by (rule ensures_retry [OF assms(2) status_attempt_done [OF assms(1)]]) (auto simp: bump_retries_def)
  then show ?thesis
    unfolding bumpOnRemoveRetries_def key using assms(3)
    by (intro ensures_bind, elim ensures_mono, intro ensures_return R)
      (auto simp: sync_status_def done_at_def key_of_def split: sum.splits)
qed

lemma keep_removing_done [ensures_intros]:
  assumes "honors_done E k I" "done_at k config" "\<And>r es. no_installs es \<Longrightarrow> R r es"
  shows "ensures I (keep_removing E config) R"
  unfolding keep_removing_def statusUpdate_def using assms(2)
  by (auto intro!: ensures_intros honors_ensures [OF assms(1)] assms(3) dest: done_atD)

lemma finalize_done [ensures_intros]:
  assumes "honors_done E k I" "done_at k config" "\<And>r es. no_installs es \<Longrightarrow> R r es"
  shows "ensures I (finalize E config) R"
  unfolding finalize_def
  by (auto intro!: ensures_intros honors_ensures [OF assms(1)] assms)

lemma small_steps_done [ensures_intros]:
  assumes "honors_done E k I"
  shows "(\<And>r es. no_installs es \<Longrightarrow> R1 r es) \<Longrightarrow> ensures I (findDecommissionJob E config) R1"
    "(\<And>r es. no_installs es \<Longrightarrow> R2 r es) \<Longrightarrow> ensures I (deleteDecommissionJob E job) R2"
    "(\<And>r es. no_installs es \<Longrightarrow> R2 r es) \<Longrightarrow> ensures I (deleteDayTwoCronIfExists E config) R2"
    "(\<And>es. no_installs es \<Longrightarrow> R3 () es) \<Longrightarrow> ensures I (suspendDayTwoCronIfExists E config) R3"
    "(\<And>r es. no_installs es \<Longrightarrow> R2 r es) \<Longrightarrow> ensures I (clearMachineStatus E config machine) R2"
    "(\<And>r es. no_installs es \<Longrightarrow> R2 r es) \<Longrightarrow> ensures I (writeBackMachineStatus E config machine) R2"
    "(\<And>r es. no_installs es \<Longrightarrow> R4 r es) \<Longrightarrow> ensures I (machineOwner E config) R4"
    "(\<And>r es. no_installs es \<Longrightarrow> R5 r es) \<Longrightarrow> ensures I (ensureDayTwoNixCronJob E config machine b) R5"
  unfolding findDecommissionJob_def deleteDecommissionJob_def deleteDayTwoCronIfExists_def
    suspendDayTwoCronIfExists_def clearMachineStatus_def writeBackMachineStatus_def machineOwner_def
    ensureDayTwoNixCronJob_def Let_def
  by (auto intro!: ensures_intros honors_keeps [OF assms] honors_ensures [OF assms])

lemma ensureDecommission_done [ensures_intros]:
  assumes "honors_done E k I" "\<And>r es. no_installs es \<Longrightarrow> R r es"
  shows "ensures I (ensureDecommissionNixJob E config machine) R"
  unfolding ensureDecommissionNixJob_def Let_def
  by (auto intro!: ensures_intros honors_keeps [OF assms(1)] assms(2) simp: set_ttl_def dest: decommission_run)

lemma count_and_delete_done [ensures_intros]:
  assumes "honors_done E k I" "retry_ok E" "done_at k config"
    and "\<And>r es. no_installs es \<Longrightarrow> (\<And>c. r = Inr c \<Longrightarrow> done_at k c) \<Longrightarrow> R r es"
  shows "ensures I (count_and_delete E config job) R"
  unfolding count_and_delete_def
  by (auto intro!: ensures_intros honors_keeps [OF assms(1)] assms)

lemma decommission_failed_done [ensures_intros]:
  assumes "honors_done E k I" "retry_ok E" "done_at k config" "\<And>r es. no_installs es \<Longrightarrow> R r es"
  shows "ensures I (decommission_failed E config machine job) R"
  unfolding decommission_failed_def
  by (auto intro!: ensures_intros assms honors_keeps [OF assms(1)] dest: done_atD)

lemma removing_done [ensures_intros]:
  assumes "honors_done E k I" "retry_ok E" "done_at k config" "\<And>r es. no_installs es \<Longrightarrow> R r es"
  shows "ensures I (ConfigReconcileRemoving E config) R"
  unfolding ConfigReconcileRemoving_def decommission_start_def decommission_observed_def Let_def
  using done_atD [OF assms(3)]
  by (auto intro!: ensures_intros assms honors_keeps [OF assms(1)] dest: done_atD split: option.splits)

lemma reconcileDayTwo_done [ensures_intros]:
  assumes "honors_done E k I" "done_at k config"
    and "\<And>c fin es. no_installs es \<Longrightarrow> done_at k c \<Longrightarrow> R (c, fin) es"
  shows "ensures I (reconcileDayTwo E config machine) R"
  unfolding reconcileDayTwo_def Let_def
  using done_atD [OF assms(2)]
  by (auto intro!: ensures_intros assms honors_keeps [OF assms(1)] dest: done_atD split: option.splits)

lemma runStateMachine_done [ensures_intros]:
  assumes "honors_done E k I" "done_at k config"
    and "\<And>c fin es. no_installs es \<Longrightarrow> done_at k c \<Longrightarrow> R (c, fin) es"
  shows "ensures I (runStateMachine E config) R"
proof -
  have "key_of (cf_meta config) = k \<and> cs_install_done (cf_status config)" by (rule done_atD [OF assms(2)])
  then show ?thesis
    unfolding runStateMachine_def Let_def
    by (auto intro!: ensures_intros assms honors_keeps [OF assms(1)] simp: done_at_def setBlocked_def)
qed

lemma ensure_finalizer_done [ensures_intros]:
  assumes "honors_done E k I" "done_at k config"
    and "\<And>r es. no_installs es \<Longrightarrow> (\<And>c. r = Inr c \<Longrightarrow> done_at k c) \<Longrightarrow> R r es"
  shows "ensures I (ensure_finalizer E config) R"
  unfolding ensure_finalizer_def
  by (auto intro!: ensures_intros honors_ensures [OF assms(1)] assms dest: done_atD split: sum.splits)

lemma ConfigReconcile_done:
  assumes "honors_done E k I" "retry_ok E"
  shows "ensures I (ConfigReconcile E k) (\<lambda>_ es. no_installs es)"
  unfolding ConfigReconcile_def
  by (auto intro!: ensures_intros honors_ensures [OF assms(1)] assms dest: done_atD split: sum.splits)

section \<open>Histories\<close>

text \<open>
  \<open>history E k I s s'\<close>: from \<open>s\<close> to \<open>s'\<close> by reconciles of the object at \<open>k\<close> and
  steps of other actors, which change the world as they like but do not take the record back.
\<close>

inductive history :: "'w env \<Rightarrow> key \<Rightarrow> ('w \<Rightarrow> bool) \<Rightarrow> 'w sys \<Rightarrow> 'w sys \<Rightarrow> bool"
  for E k I s where
    history_start: "history E k I s s"
  | history_reconcile: "history E k I s s1 \<Longrightarrow> run_state (ConfigReconcile E k) s1 = (fin, s2) \<Longrightarrow> history E k I s s2"
  | history_others: "history E k I s s1 \<Longrightarrow> (I (sys_world s1) \<longrightarrow> I w) \<Longrightarrow> history E k I s (s1\<lparr>sys_world := w\<rparr>)"

inductive_cases history_elim: "history E k I s s'"

lemma history_invariant:
  assumes "honors_done E k I" "retry_ok E" "history E k I s s'" "I (sys_world s)"
  shows "I (sys_world s') \<and> (\<exists>es. sys_log s' = sys_log s @ es \<and> no_installs es)"
  using assms(3)
proof induction
  case (history_reconcile s1 fin s2)
  obtain a s2' es where "run_state (ConfigReconcile E k) s1 = (a, s2')" "I (sys_world s2')"
      "sys_log s2' = sys_log s1 @ es" "no_installs es"
    using ConfigReconcile_done [OF assms(1,2)] history_reconcile.IH unfolding ensures_def by blast
  with history_reconcile show ?case by (metis append.assoc list_all_append prod.inject)
qed (use assms(4) in auto)

section \<open>Properties\<close>

text \<open>C1. No machine is wiped twice: once the completed install is recorded, no sequence of reconciles of the
  configuration, interleaved with whatever other actors do, ever creates an install child again, as
  long as the server honours the record (reads see it, nobody resets it). The removal path is included.\<close>

theorem no_reinstall_after_completion:
  assumes "honors_done E k I" "retry_ok E" "history E k I s s'" "I (sys_world s)" "sys_log s = []"
  shows "no_installs (sys_log s')"
  using history_invariant [OF assms(1-4)] assms(5) by auto

definition done_config :: nixos_config where
  "done_config = (sample_config ''a'' 5)\<lparr>cf_status := zero_config_status\<lparr>cs_install_done := True\<rparr>\<rparr>"

text \<open>The witness: a server that holds the completed configuration, and two reconciles of it.\<close>

definition done_env :: "bool env" where
  "done_env = sample_env\<lparr>e_configs := view_api (\<lambda>w. if w then Some done_config else None)\<rparr>"

lemma done_env_honors: "honors_done done_env (key_of (cf_meta done_config)) (\<lambda>w. w)"
  by (auto simp: honors_done_def keeps_api_def done_env_def sample_env_def view_api_def done_at_def done_config_def)

lemma no_reinstall_after_completion_witness:
  "no_installs (sys_log (snd (run_state (ConfigReconcile done_env (key_of (cf_meta done_config)))
     (snd (run_state (ConfigReconcile done_env (key_of (cf_meta done_config)))
        \<lparr>sys_world = True, sys_log = []\<rparr>)))))"
proof (rule no_reinstall_after_completion [OF done_env_honors])
  show "retry_ok done_env" by (rule retry_ok_attempts [where n = 4]) (simp add: done_env_def sample_env_def)
  show "history done_env (key_of (cf_meta done_config)) (\<lambda>w. w) \<lparr>sys_world = True, sys_log = []\<rparr>
      (snd (run_state (ConfigReconcile done_env (key_of (cf_meta done_config)))
        (snd (run_state (ConfigReconcile done_env (key_of (cf_meta done_config)))
        \<lparr>sys_world = True, sys_log = []\<rparr>))))"
    by (rule history_reconcile [OF history_reconcile [OF history_start surjective_pairing] surjective_pairing])
qed simp_all

section \<open>Where the contract matters\<close>

text \<open>
  The contract \<open>honors_done\<close> asks that reads see the recorded completion. A cached read that lags behind it
  (here: a configuration that still says not completed, while the child is already gone) makes the
  controller create the install child again.
\<close>

definition stale_env :: "bool env" where
  "stale_env = sample_env\<lparr>e_configs := view_api (\<lambda>_. Some (sample_config ''a'' 5)),
     e_machines := view_api (\<lambda>_. Some sample_machine)\<rparr>"

lemma stale_read_reinstalls:
  "list_ex installs (sys_log (snd (run_state (ConfigReconcile stale_env \<lparr>k_ns = ''ns'', k_name = ''a''\<rparr>)
     \<lparr>sys_world = True, sys_log = []\<rparr>)))"
  by code_simp

text \<open>
  The count of failed installs lives in the working copy until the final status write: when that write
  conflicts, the failed child is already deleted and the failure is not counted.
\<close>

definition failed_job :: nix_job where
  "failed_job = \<lparr>nj_meta = zero_meta\<lparr>m_name := ''a-install'', m_ns := ''ns''\<rparr>,
     nj_spec = \<lparr>nj_nix = zero_nix_spec, nj_template = None\<rparr>,
     nj_status = zero_job_status\<lparr>nj_failed := 1\<rparr>\<rparr>"

definition conflict_env :: "bool env" where
  "conflict_env = stale_env\<lparr>e_jobs := view_api (\<lambda>_. Some failed_job),
     e_configs := (e_configs stale_env)\<lparr>ka_status_update := (\<lambda>x w. (Inl \<lparr>e_kind = KConflict, e_msg = ''conflict''\<rparr>, w))\<rparr>\<rparr>"

fun deletes_job :: "event \<Rightarrow> bool" where
  "deletes_job (EvJob (Deleted j None)) = True"
| "deletes_job _ = False"

fun stores_status :: "event \<Rightarrow> bool" where
  "stores_status (EvConfig (StatusUpdated x (Inr y))) = True"
| "stores_status _ = False"

lemma conflict_loses_install_count:
  "case run_state (ConfigReconcile conflict_env \<lparr>k_ns = ''ns'', k_name = ''a''\<rparr>) \<lparr>sys_world = True, sys_log = []\<rparr> of
     (fin, s) \<Rightarrow> fin = (requeue_res, None) \<and> list_ex deletes_job (sys_log s) \<and> \<not> list_ex stores_status (sys_log s)"
  by code_simp

end
