(* ===== verification/Config_Outcome.thy ===== *)
theory Config_Outcome
  imports Config_History
begin

text \<open>
  What the day-2 step reports and what removal guarantees: the phase and the conditions follow the
  state of the day-2 cron job, the machine's record is written exactly in phase Ready; the finalizer
  goes only when the decommission is settled, the decommission job is an orphan that leads back to its
  configuration, and its failures are stored before it is deleted.
\<close>

section \<open>The day-2 step\<close>

definition cond_true :: "lib \<Rightarrow> nixos_config \<Rightarrow> cond_type \<Rightarrow> bool" where
  "cond_true L config t =
     (case lib_find_cond L (cs_conditions (cf_status config)) t of
        None \<Rightarrow> False | Some c \<Rightarrow> c_status c = ConditionTrue)"

text \<open>The state of the child as the server answered it.\<close>

fun answered_cron :: "event \<Rightarrow> nix_cron_job option" where
  "answered_cron (EvCron (Got k (Inr c))) = Some c"
| "answered_cron (EvCron (Created x (Inr c))) = Some c"
| "answered_cron (EvCron (Updated x (Inr c))) = Some c"
| "answered_cron _ = None"

fun child_event :: "event \<Rightarrow> bool" where
  "child_event (EvCron _) = True"
| "child_event _ = False"

definition day_two_phase :: "lib \<Rightarrow> nix_cron_job \<Rightarrow> config_phase" where
  "day_two_phase L cron =
     (if ws_phase (ncj_status cron) = PhaseReady \<and> ncj_last_successful (ncj_status cron) \<noteq> None
      then NixosConfigPhaseReady
      else if convergeStall L cron True \<noteq> None \<or> ws_phase (ncj_status cron) \<in> {PhaseDegraded, PhaseFailed}
      then NixosConfigPhaseDegraded
      else NixosConfigPhaseConverging)"

text \<open>The machine's record of this configuration at the revision the child rolled out.\<close>

definition written_back :: "nixos_config \<Rightarrow> nix_cron_job \<Rightarrow> machine \<Rightarrow> machine" where
  "written_back config cron machine = machine\<lparr>ma_status := (ma_status machine)\<lparr>
     mst_has_config := True, mst_applied_config := m_name (cf_meta config),
     mst_applied_commit := ws_rolled_out (ncj_status cron),
     mst_last_applied := ncj_last_successful (ncj_status cron)\<rparr>\<rparr>"

lemma ensureDayTwo_answer:
  assumes "\<And>e es. list_all child_event es \<Longrightarrow> R (Inl e) es"
    and "\<And>cron es ev. list_all child_event (es @ [ev]) \<Longrightarrow> answered_cron ev = Some cron \<Longrightarrow> R (Inr cron) (es @ [ev])"
  shows "runs (ensureDayTwoNixCronJob E config machine b) R"
proof -
  have one: "R (Inr cron) [ev]" if "answered_cron ev = Some cron" "child_event ev" for cron ev
    using assms(2) [of "[]" ev cron] that by simp
  have two: "R (Inr cron) [ev0, ev]" if "answered_cron ev = Some cron" "child_event ev" "child_event ev0" for cron ev ev0
    using assms(2) [of "[ev0]" ev cron] that by simp
  have w: "R r [ev0, ev]" if "child_event ev0" "child_event ev" "\<And>c. r = Inr c \<Longrightarrow> answered_cron ev = Some c" for r ev0 ev
    by (cases r) (use that two assms(1) in auto)
  show ?thesis
    unfolding ensureDayTwoNixCronJob_def Let_def
    by (intro runs_intros) (auto intro!: one w assms(1))
qed

definition day_two_spec ::
    "lib \<Rightarrow> nixos_config \<Rightarrow> machine \<Rightarrow> nixos_config \<times> reconcile_end \<Rightarrow> event list \<Rightarrow> bool" where
  "day_two_spec L config machine out es =
     (case out of (config', res, er) \<Rightarrow>
        config' = config \<and> er \<noteq> None \<and> list_all child_event es \<or>
        (\<exists>cron r. cron \<in> set (List.map_filter answered_cron es) \<and>
           cs_phase (cf_status config') = day_two_phase L cron \<and>
           cs_resolved (cf_status config') = ws_rolled_out (ncj_status cron) \<and>
           (cond_true L config' ConditionApplied \<longleftrightarrow>
             cs_install_done (cf_status config) \<or> ncj_last_successful (ncj_status cron) \<noteq> None) \<and>
           filter (\<lambda>ev. \<not> child_event ev) es =
             (if day_two_phase L cron = NixosConfigPhaseReady
              then [EvMachine (StatusUpdated (written_back config cron machine) r)] else [])))"

lemma day_two_specI:
  assumes "answered_cron ev = Some cron" "list_all child_event (es @ [ev])"
    and "cs_phase (cf_status config') = day_two_phase L cron"
    and "cs_resolved (cf_status config') = ws_rolled_out (ncj_status cron)"
    and "(cond_true L config' ConditionApplied \<longleftrightarrow>
             cs_install_done (cf_status config) \<or> ncj_last_successful (ncj_status cron) \<noteq> None)"
    and "es' = (if day_two_phase L cron = NixosConfigPhaseReady
              then [EvMachine (StatusUpdated (written_back config cron machine) r)] else [])"
  shows "day_two_spec L config machine (config', fin) ((es @ [ev]) @ es')"
proof -
  have f: "filter (\<lambda>ev. \<not> child_event ev) (es @ [ev]) = []"
    using assms(2) by (simp add: filter_empty_conv list_all_iff)
  have "filter (\<lambda>ev. \<not> child_event ev) ((es @ [ev]) @ es') = es'"
    unfolding filter_append [of _ "es @ [ev]"] f assms(6) by simp
  moreover have "cron \<in> set (List.map_filter answered_cron ((es @ [ev]) @ es'))"
    using assms(1) by (force simp: List.map_filter_def)
  ultimately show ?thesis
    unfolding day_two_spec_def using assms(3-6) by (cases fin) auto
qed

lemma setDegraded_status [simp]:
  "cs_phase (cf_status (setDegraded L config msg a)) = NixosConfigPhaseDegraded"
  "cs_resolved (cf_status (setDegraded L config msg a)) = cs_resolved (cf_status config)"
  by (simp_all add: setDegraded_def)

lemma setPhase_applied:
  "lib_ok L \<Longrightarrow> cond_true L (setPhase L config ph rsn msg a g) ConditionApplied \<longleftrightarrow> a"
  by (simp add: cond_true_def setPhase_conds)

lemma setDegraded_applied:
  "lib_ok L \<Longrightarrow> cond_true L (setDegraded L config msg a) ConditionApplied \<longleftrightarrow> a"
  by (simp add: setDegraded_def setPhase_applied)

lemma day_two_written:
  assumes "answered_cron ev = Some cron" "list_all child_event (es @ [ev])"
    and "day_two_phase L cron = NixosConfigPhaseReady" "m = written_back config cron machine"
    and "cs_phase (cf_status config') = day_two_phase L cron"
    and "cs_resolved (cf_status config') = ws_rolled_out (ncj_status cron)"
    and "cond_true L config' ConditionApplied \<longleftrightarrow>
             cs_install_done (cf_status config) \<or> ncj_last_successful (ncj_status cron) \<noteq> None"
  shows "day_two_spec L config machine (config', fin) (es @ [ev, EvMachine (StatusUpdated m r)])"
  using day_two_specI [OF assms(1,2,5-7), of "[EvMachine (StatusUpdated m r)]"] assms(3,4) by simp

lemmas day_two_simps = day_two_phase_def setPhase_applied setDegraded_applied written_back_def

lemma reconcileDayTwo_spec:
  assumes "lib_ok (e_lib E)"
  shows "runs (reconcileDayTwo E config machine) (day_two_spec (e_lib E) config machine)"
  unfolding reconcileDayTwo_def writeBackMachineStatus_def Let_def
  by (intro runs_intros ensureDayTwo_answer, simp add: day_two_spec_def)
    (auto intro!: day_two_written day_two_specI [where es' = "[]", simplified] simp: day_two_simps assms)

section \<open>Removal\<close>

fun no_update :: "event \<Rightarrow> bool" where
  "no_update (EvConfig (Updated x r)) = False"
| "no_update _ = True"

fun machine_gone :: "event \<Rightarrow> bool" where
  "machine_gone (EvMachine (Got k (Inl e))) = IsNotFound e"
| "machine_gone _ = False"

fun skipped :: "event \<Rightarrow> bool" where
  "skipped (EvRecorded ty rsn msg) = (ty = EventTypeWarning \<and> rsn = ''OnRemoveFlakeSkipped'')"
| "skipped _ = False"

fun listed_job :: "(nix_job \<Rightarrow> bool) \<Rightarrow> event \<Rightarrow> bool" where
  "listed_job P (EvJob (Listed lo (Inr (j # js)))) = P j"
| "listed_job P _ = False"

definition at_remove_cap :: "nixos_config \<Rightarrow> bool" where
  "at_remove_cap c \<longleftrightarrow> sint (cs_on_remove_retries (cf_status c)) \<ge> MaxOnRemoveRetries"

fun stored_cap :: "event \<Rightarrow> bool" where
  "stored_cap (EvConfig (StatusUpdated x (Inr y))) = at_remove_cap y"
| "stored_cap _ = False"

text \<open>The decommission is over: nothing to do, done, given up at the cap, or impossible.\<close>

definition settled :: "nixos_config \<Rightarrow> event list \<Rightarrow> bool" where
  "settled config es \<longleftrightarrow>
     cf_on_remove_flake (cf_spec config) = [] \<or> list_ex machine_gone es \<or> list_ex skipped es \<or>
     list_ex (listed_job succeeded) es \<or>
     list_ex (listed_job failed) es \<and> (at_remove_cap config \<or> list_ex stored_cap es)"

text \<open>The Machine's record of the configuration is cleared when the Machine has one.\<close>

fun shows_record :: "string \<Rightarrow> event \<Rightarrow> bool" where
  "shows_record name (EvMachine (Got k (Inr m))) = (mst_applied_config (ma_status m) = name)"
| "shows_record name _ = False"

fun clears_record :: "event \<Rightarrow> bool" where
  "clears_record (EvMachine (StatusUpdated m r)) = (\<not> mst_has_config (ma_status m) \<and> mst_applied_config (ma_status m) = [])"
| "clears_record _ = False"

definition record_cleared :: "nixos_config \<Rightarrow> event list \<Rightarrow> bool" where
  "record_cleared config es \<longleftrightarrow>
     list_ex (shows_record (m_name (cf_meta config))) es \<longrightarrow> list_ex clears_record es"

text \<open>
  \<open>removal_spec\<close>: either the configuration is not updated, or the only update is the last
  call, after a settled and cleared removal.
\<close>

definition removal_spec :: "nixos_config \<Rightarrow> event list \<Rightarrow> bool" where
  "removal_spec config es \<longleftrightarrow>
     list_all no_update es \<or>
     list_all no_update (butlast es) \<and> settled config (butlast es) \<and>
     (record_cleared config (butlast es) \<or> list_ex skipped (butlast es))"

lemma finalize_runs [runs_intros]:
  assumes "\<And>x r fin. R fin [EvConfig (Updated x r)]"
  shows "runs (finalize E config) R"
  unfolding finalize_def by (auto intro!: runs_intros assms)

lemma keep_removing_runs [runs_intros]:
  assumes "\<And>x r fin. R fin [EvConfig (StatusUpdated x r)]"
  shows "runs (keep_removing E config) R"
  unfolding keep_removing_def statusUpdate_def by (auto intro!: runs_intros assms)

text \<open>Events that neither update the configuration nor read a Machine.\<close>

fun aside :: "event \<Rightarrow> bool" where
  "aside (EvConfig (Updated x r)) = False"
| "aside (EvMachine (Got k r)) = False"
| "aside _ = True"

lemma aside_no_update: "aside ev \<Longrightarrow> no_update ev"
  by (cases ev rule: aside.cases) auto

lemma aside_shows: "aside ev \<Longrightarrow> \<not> shows_record name ev"
  by (cases ev rule: aside.cases) auto

lemma asides:
  assumes "list_all aside es"
  shows "list_all no_update es" "\<not> list_ex (shows_record name) es"
  using assms aside_no_update aside_shows by (auto simp: list_all_iff list_ex_iff)

lemma deleteDayTwo_runs [runs_intros]:
  assumes "\<And>r es. list_all child_event es \<Longrightarrow> R r es"
  shows "runs (deleteDayTwoCronIfExists E config) R"
  unfolding deleteDayTwoCronIfExists_def by (auto intro!: runs_intros assms)

lemma child_aside: "child_event ev \<Longrightarrow> aside ev"
  by (cases ev rule: child_event.cases) auto

lemma deleteDecommissionJob_runs [runs_intros]:
  assumes "\<And>r d. R r [EvJob (Deleted job d)]"
  shows "runs (deleteDecommissionJob E job) R"
  unfolding deleteDecommissionJob_def by (auto intro!: runs_intros assms)

lemma findDecommissionJob_runs [runs_intros]:
  assumes "\<And>e lo r. R (Inl e) [EvJob (Listed lo r)]" "\<And>lo. R (Inr None) [EvJob (Listed lo (Inr []))]"
    and "\<And>lo j js. R (Inr (Some j)) [EvJob (Listed lo (Inr (j # js)))]"
  shows "runs (findDecommissionJob E config) R"
  unfolding findDecommissionJob_def
  by (auto intro!: runs_intros assms split: sum.splits list.splits)

text \<open>A successful attempt ends with reading the latest object and storing its changed status.\<close>

definition ends_stored :: "key \<Rightarrow> (config_status \<Rightarrow> config_status) \<Rightarrow> nixos_config \<Rightarrow> event list \<Rightarrow> bool" where
  "ends_stored k f c es \<longleftrightarrow> (\<exists>pre l. es = pre @ [EvConfig (Got k (Inr l)),
     EvConfig (StatusUpdated (l\<lparr>cf_status := f (cf_status l)\<rparr>) (Inr c))])"

lemma ends_stored_prepend: "ends_stored k f c es' \<Longrightarrow> ends_stored k f c (es @ es')"
  unfolding ends_stored_def by (metis append.assoc)

lemma status_attempt_suffix:
  "runs (status_attempt E k f) (\<lambda>r es. list_all config_event es \<and> list_all aside es \<and>
     (\<forall>c'. r = Inr c' \<longrightarrow> ends_stored k f c' es))"
  unfolding status_attempt_def by (auto intro!: runs_intros simp: ends_stored_def)

lemma retried_suffix:
  assumes "retry_ok E"
  shows "runs (e_retry E (status_attempt E k f)) (\<lambda>r es. list_all config_event es \<and> list_all aside es \<and>
     (\<forall>c'. r = Inr c' \<longrightarrow> ends_stored k f c' es))"
  by (rule runs_retry [OF assms status_attempt_suffix]) (simp add: ends_stored_prepend)

lemma bump_runs [runs_intros]:
  assumes "retry_ok E"
    and "\<And>e es. list_all config_event es \<Longrightarrow> list_all aside es \<Longrightarrow> R (Inl e) es"
    and "\<And>c k l pre. list_all config_event pre \<Longrightarrow> list_all aside pre \<Longrightarrow>
      R (Inr (sync_status config c)) (pre @ [EvConfig (Got k (Inr l)),
        EvConfig (StatusUpdated (l\<lparr>cf_status := bump_retries (cf_status l)\<rparr>) (Inr c))])"
  shows "runs (bumpOnRemoveRetries E config) R"
  unfolding bumpOnRemoveRetries_def
  by (rule runs_then [OF retried_suffix [OF assms(1)]], rule runs_return)
    (auto simp: assms(2) ends_stored_def split: sum.split intro!: assms(3))

text \<open>A decommission job as the controller creates it: no owner, reaped by its TTL, and labelled so that
  its events lead back to the configuration.\<close>

definition orphan_of :: "nixos_config \<Rightarrow> nix_job \<Rightarrow> bool" where
  "orphan_of config j \<longleftrightarrow>
     m_owners (nj_meta j) = [] \<and>
     (case nj_template (nj_spec j) of None \<Rightarrow> False | Some t \<Rightarrow> js_ttl t = Some DecommissionTTLSeconds) \<and>
     findConfigsForOrphanRemoveJob j = (if m_name (cf_meta config) = [] then [] else [key_of (cf_meta config)])"

fun creates_orphan :: "nixos_config \<Rightarrow> event \<Rightarrow> bool" where
  "creates_orphan config (EvJob (Created j r)) = orphan_of config j"
| "creates_orphan config _ = True"

lemma decommission_orphan:
  assumes "buildDecommissionNixJob config machine = Inr built"
  shows "orphan_of config (set_ttl DecommissionTTLSeconds
     (built\<lparr>nj_meta := (nj_meta built)\<lparr>m_labels := decommissionLabels config machine\<rparr>\<rparr>))"
proof -
  have b: "buildable config machine"
    using assms builders_err [of config machine] by fastforce
  have "m_owners (nj_meta built) = []" "m_ns (nj_meta built) = m_ns (cf_meta config)"
    "nj_template (nj_spec built) \<noteq> None"
    using builders_ok(3) [OF b] assms by auto
  then show ?thesis
    by (auto simp: orphan_of_def set_ttl_def findConfigsForOrphanRemoveJob_def decommissionLabels_def
        label_value_def const_defs key_of_def)
qed

lemma ensureDecommission_runs [runs_intros]:
  assumes "\<And>r es. list_all (creates_orphan config) es \<Longrightarrow> list_all aside es \<Longrightarrow> R r es"
  shows "runs (ensureDecommissionNixJob E config machine) R"
  unfolding ensureDecommissionNixJob_def Let_def
  by (auto intro!: runs_intros assms dest: decommission_orphan)

text \<open>What follows once the Machine is known; \<open>P\<close> is the reason to finalize.\<close>

definition tail_spec :: "nixos_config \<Rightarrow> machine \<Rightarrow> (event list \<Rightarrow> bool) \<Rightarrow> event list \<Rightarrow> bool" where
  "tail_spec config machine P es \<longleftrightarrow>
     list_all (creates_orphan config) es \<and> \<not> list_ex (shows_record (m_name (cf_meta config))) es \<and>
     (list_all no_update es \<or>
      list_all no_update (butlast es) \<and> P (butlast es) \<and>
      (mst_applied_config (ma_status machine) = m_name (cf_meta config) \<and> \<not> list_ex skipped (butlast es) \<longrightarrow>
         list_ex clears_record (butlast es)))"

lemma config_event_orphan: "config_event ev \<Longrightarrow> creates_orphan config ev"
  by (cases ev) auto

lemma child_event_orphan: "child_event ev \<Longrightarrow> creates_orphan config ev"
  by (cases ev) auto

lemma events_orphan:
  "list_all config_event es \<Longrightarrow> list_all (creates_orphan config) es"
  "list_all child_event es \<Longrightarrow> list_all (creates_orphan config) es"
  "list_all child_event es \<Longrightarrow> list_all aside es"
  by (auto simp: list_all_iff intro: config_event_orphan child_event_orphan child_aside)

lemmas tail_simps = tail_spec_def asides butlast_append events_orphan

lemma clearMachineStatus_orphan [runs_intros]:
  assumes "\<And>r es. list_all aside es \<Longrightarrow> list_all (creates_orphan config) es \<Longrightarrow>
    (mst_applied_config (ma_status machine) = m_name (cf_meta config) \<longrightarrow> list_ex clears_record es) \<Longrightarrow> R r es"
  shows "runs (clearMachineStatus E config machine) R"
  unfolding clearMachineStatus_def by (auto intro!: runs_intros assms)

lemma sync_status_cap [simp]:
  "cs_on_remove_retries (cf_status (sync_status config c)) = cs_on_remove_retries (cf_status c)"
  "cf_meta (sync_status config c) = (cf_meta config)\<lparr>m_rv := m_rv (cf_meta c)\<rparr>"
  by (simp_all add: sync_status_def)

lemma creates_orphan_cong:
  assumes "m_name (cf_meta c) = m_name (cf_meta d)" "m_ns (cf_meta c) = m_ns (cf_meta d)"
  shows "creates_orphan c = creates_orphan d"
proof (rule ext)
  fix ev
  have "orphan_of c = orphan_of d" using assms by (auto simp: orphan_of_def key_of_def)
  then show "creates_orphan c ev = creates_orphan d ev"
    by (cases "(c, ev)" rule: creates_orphan.cases) auto
qed

lemma creates_orphan_same [simp]:
  "creates_orphan (sync_status config c) = creates_orphan config"
  "creates_orphan (config\<lparr>cf_status := st\<rparr>) = creates_orphan config"
  by (rule creates_orphan_cong; simp)+

text \<open>
  Counting precedes deletion: the log of \<open>count_and_delete\<close> is nothing, or ends with the stored
  count, or with the deletion after it.
\<close>

lemma count_and_delete_runs [runs_intros]:
  assumes "retry_ok E"
    and "m_deletion (nj_meta job) \<noteq> None \<Longrightarrow> R (Inr config) []"
    and "\<And>e es. m_deletion (nj_meta job) = None \<Longrightarrow> list_all config_event es \<Longrightarrow> list_all aside es \<Longrightarrow> R (Inl e) es"
    and "\<And>e c k l pre d. m_deletion (nj_meta job) = None \<Longrightarrow> list_all config_event pre \<Longrightarrow> list_all aside pre \<Longrightarrow>
      R (Inl e) (pre @ [EvConfig (Got k (Inr l)),
        EvConfig (StatusUpdated (l\<lparr>cf_status := bump_retries (cf_status l)\<rparr>) (Inr c)), EvJob (Deleted job d)])"
    and "\<And>c k l pre d. m_deletion (nj_meta job) = None \<Longrightarrow> list_all config_event pre \<Longrightarrow> list_all aside pre \<Longrightarrow>
      R (Inr (sync_status config c)) (pre @ [EvConfig (Got k (Inr l)),
        EvConfig (StatusUpdated (l\<lparr>cf_status := bump_retries (cf_status l)\<rparr>) (Inr c)), EvJob (Deleted job d)])"
  shows "runs (count_and_delete E config job) R"
  unfolding count_and_delete_def by (auto intro!: runs_intros assms(1,2,4,5) intro: assms(3))

lemma at_remove_cap_same [simp]:
  "at_remove_cap (sync_status config c) \<longleftrightarrow> at_remove_cap c"
  "at_remove_cap (config\<lparr>cf_status := (cf_status config)\<lparr>cs_decommission_ref := x\<rparr>\<rparr>) \<longleftrightarrow> at_remove_cap config"
  by (simp_all add: at_remove_cap_def)

lemma decommission_failed_spec [runs_intros]:
  assumes "retry_ok E"
    and R: "\<And>r es. tail_spec config machine (\<lambda>es. at_remove_cap config \<or> list_ex stored_cap es) es \<Longrightarrow> R r es"
  shows "runs (decommission_failed E config machine job) R"
  unfolding decommission_failed_def at_remove_cap_def [symmetric]
  by (auto intro!: runs_intros assms(1) R simp: tail_simps)

lemma decommission_start_spec [runs_intros]:
  assumes "\<And>r es. tail_spec config machine (list_ex skipped) es \<Longrightarrow> R r es"
  shows "runs (decommission_start E config machine) R"
  unfolding decommission_start_def
  by (auto intro!: runs_intros assms simp: tail_simps)

lemma decommission_observed_spec [runs_intros]:
  assumes "retry_ok E"
    and "\<And>r es. tail_spec config machine
      (\<lambda>es. succeeded job \<or> failed job \<and> (at_remove_cap config \<or> list_ex stored_cap es)) es \<Longrightarrow> R r es"
  shows "runs (decommission_observed E config machine job) R"
  unfolding decommission_observed_def Let_def succeeded_def [symmetric] failed_def [symmetric]
  by (auto intro!: runs_intros assms simp: tail_simps)

text \<open>Before the Machine is known only the day-2 cron job was touched.\<close>

lemma list_ex_butlast: "list_ex P (butlast es) \<Longrightarrow> list_ex P es"
  by (auto simp: list_ex_iff dest: in_set_butlastD)

lemma removing_spec:
  assumes "retry_ok E"
  shows "runs (ConfigReconcileRemoving E config)
    (\<lambda>_ es. removal_spec config es \<and> list_all (creates_orphan config) es)"
  unfolding ConfigReconcileRemoving_def
  by (auto intro!: runs_intros assms simp: tail_simps removal_spec_def settled_def record_cleared_def
      split: if_splits dest: list_ex_butlast)

section \<open>The finalizer comes first\<close>

fun no_child :: "event \<Rightarrow> bool" where
  "no_child (EvJob x) = False"
| "no_child (EvCron x) = False"
| "no_child _ = True"

definition finalizer_held :: "lib \<Rightarrow> key \<Rightarrow> event list \<Rightarrow> bool" where
  "finalizer_held L k es \<longleftrightarrow> (\<exists>c es'. es = EvConfig (Got k (Inr c)) # es' \<and>
     (lib_contains_finalizer L (m_finalizers (cf_meta c)) FinalizerName \<or>
      (\<exists>x c' es''. es' = EvConfig (Updated x (Inr c')) # es'' \<and>
         lib_contains_finalizer L (m_finalizers (cf_meta x)) FinalizerName)))"

lemma ConfigReconcile_finalizer:
  assumes "lib_ok (e_lib E)" "retry_ok E"
  shows "runs (ConfigReconcile E k) (\<lambda>_ es. list_all no_child es \<or> finalizer_held (e_lib E) k es)"
proof -
  have rem: "runs (ConfigReconcileRemoving E c)
      (\<lambda>_ es. es = [] \<or> lib_contains_finalizer (e_lib E) (m_finalizers (cf_meta c)) FinalizerName)" for c
  proof (cases "lib_contains_finalizer (e_lib E) (m_finalizers (cf_meta c)) FinalizerName")
    case True
    then show ?thesis by (auto intro: runs_mono [OF removing_spec [OF assms(2)]])
  next
    case False
    then show ?thesis unfolding ConfigReconcileRemoving_def by (auto intro!: runs_intros)
  qed
  show ?thesis
    unfolding ConfigReconcile_def ensure_finalizer_def
    by (auto intro!: runs_intros runs_mono [OF rem] assms(2) simp: finalizer_held_def assms(1)
        split: sum.splits)
qed

section \<open>Properties\<close>

text \<open>C32. The day-2 step reports the state of its child: the phase is Ready exactly for a Ready cron job
  that has succeeded, Degraded for a stalled or failing one, Converging otherwise; Applied is true exactly
  when something was ever applied (a completed install or a successful run), so a stall or a failure
  does not unset it; the Machine's record is written exactly in phase Ready, with the rolled-out
  revision. When the child cannot be ensured, an error is returned and nothing else changes.\<close>

theorem day_two_reports_child:
  assumes "lib_ok (e_lib E)"
  shows "runs (reconcileDayTwo E config machine) (day_two_spec (e_lib E) config machine)"
  by (rule reconcileDayTwo_spec [OF assms])

lemma sample_lib_ok: "lib_ok (e_lib (sample_env :: 'w env))"
  using ref_lib_ok by (simp add: sample_env_def)

lemma day_two_reports_child_witness:
  "runs (reconcileDayTwo (sample_env :: unit env) (sample_config ''a'' 5) sample_machine)
     (day_two_spec ref_lib (sample_config ''a'' 5) sample_machine)"
  using day_two_reports_child [OF sample_lib_ok, where ?'a = unit]
  by (simp add: sample_env_def)



text \<open>C36. The decommission job survives its parent and is found again: every NixJob created on removal has no
  owner reference, is reaped by its TTL, and its labels map its events back to the configuration.\<close>

theorem decommission_job_is_orphan:
  assumes "retry_ok E"
  shows "emits (creates_orphan config) (ConfigReconcileRemoving E config)"
  unfolding runs_emits by (rule runs_mono [OF removing_spec [OF assms]]) blast

lemma decommission_job_is_orphan_witness:
  "emits (creates_orphan (sample_config ''a'' 5)) (ConfigReconcileRemoving (sample_env :: unit env) (sample_config ''a'' 5))"
  by (rule decommission_job_is_orphan [OF sample_retry_ok])

definition is_Inl :: "'a + 'b \<Rightarrow> bool" where
  "is_Inl x = (case x of Inl _ \<Rightarrow> True | Inr _ \<Rightarrow> False)"

definition counted_before_delete :: "nixos_config \<Rightarrow> nix_job \<Rightarrow> err + nixos_config \<Rightarrow> event list \<Rightarrow> bool" where
  "counted_before_delete config job out es \<longleftrightarrow>
     (if m_deletion (nj_meta job) \<noteq> None then es = [] \<and> out = Inr config
      else is_Inl out \<and> list_all config_event es \<or>
        (\<exists>pre k l c d. list_all config_event pre \<and> (is_Inl out \<or> out = Inr (sync_status config c)) \<and>
           es = pre @ [EvConfig (Got k (Inr l)),
             EvConfig (StatusUpdated (l\<lparr>cf_status := bump_retries (cf_status l)\<rparr>) (Inr c)), EvJob (Deleted job d)]))"

text \<open>A failed decommission job is counted in the stored status before it is deleted: the deletion
  comes right after the server accepted the latest status with one failure more; a job that is already
  being deleted is not counted again, and without a stored count there is no deletion.\<close>

theorem decommission_failure_stored_first:
  assumes "retry_ok E"
  shows "runs (count_and_delete E config job) (counted_before_delete config job)"
  by (rule count_and_delete_runs [OF assms]; auto simp: counted_before_delete_def is_Inl_def)

lemma decommission_failure_stored_first_witness:
  "runs (count_and_delete (sample_env :: unit env) (sample_config ''a'' 5) failed_job)
     (counted_before_delete (sample_config ''a'' 5) failed_job)"
  by (rule decommission_failure_stored_first [OF sample_retry_ok])

text \<open>The finalizer comes before the children: a reconcile that touches a NixJob or NixCronJob first read
  the configuration with the finalizer in place, or added it in an update the server accepted.\<close>

theorem finalizer_before_children:
  assumes "lib_ok (e_lib E)" "retry_ok E"
  shows "runs (ConfigReconcile E k) (\<lambda>_ es. list_all no_child es \<or> finalizer_held (e_lib E) k es)"
  by (rule ConfigReconcile_finalizer [OF assms])

lemma finalizer_before_children_witness:
  "runs (ConfigReconcile (sample_env :: unit env) \<lparr>k_ns = ''ns'', k_name = ''a''\<rparr>) (\<lambda>_ es. list_all no_child es \<or> finalizer_held ref_lib \<lparr>k_ns = ''ns'', k_name = ''a''\<rparr> es)"
  using finalizer_before_children [OF sample_lib_ok sample_retry_ok, where ?'a = unit]
  by (simp add: sample_env_def)

end
