(* ===== verification/Cluster_Safety.thy ===== *)
theory Cluster_Safety
  imports Cluster_Controller Config_Outcome
begin

text \<open>
  Correctness of the NixCluster controller: the loop over the groups claims disjoint members and
  renders one node file per member at a path of its own, without ever failing the later validation
  or dereferencing a missing Machine; the preflight reports exactly the provable mismatches; the
  status written says what happened, and success is only claimed after the converge child was ensured.
\<close>

section \<open>The loop\<close>

definition group_names :: "node_group_status \<Rightarrow> string list" where
  "group_names g = map mb_name (gs_members g)"

definition member_names :: "loop_state \<Rightarrow> string list" where
  "member_names st = concat (map group_names (lp_statuses st))"

lemma machines_by_name_dom: "dom (machines_by_name machines) = machine_names machines"
proof -
  have "dom (foldl (\<lambda>m x. m(m_name (ma_meta x) \<mapsto> x)) f machines) = dom f \<union> machine_names machines" for f
    by (induction machines arbitrary: f) (auto simp: machine_names_def)
  then show ?thesis by (simp add: machines_by_name_def)
qed

lemma render_members_Ok:
  assumes "render_members cluster byName vals names files sts = MembersOk files' sts'"
  shows "list_all safe_member_name names \<and> map nf_path files' = map nf_path files @ map node_path names \<and>
    map mb_name sts' = map mb_name sts @ names"
  using assms
proof (induction names arbitrary: files sts)
  case (Cons name names)
  then obtain m nf where m: "byName name = Some m"
      "renderMemberNodeFile cluster name (ma_host (ma_spec m)) vals = Inr nf"
    by (auto split: option.splits sum.splits)
  have "safe_member_name name"
    using renderMemberNodeFile_unsafe m(2) by (metis sum.distinct(1))
  moreover from this have "nf_path nf = node_path name"
    using m(2) renderMemberNodeFile_safe by (fastforce simp: node_file_def)
  ultimately show ?case using Cons.IH Cons.prems m by fastforce
qed simp

lemma render_members_no_panic:
  "set names \<subseteq> dom byName \<Longrightarrow> render_members cluster byName vals names files sts \<noteq> MembersPanic"
  by (induction names arbitrary: files sts) (auto split: option.splits sum.splits)

lemma render_members_Fail:
  "render_members cluster byName vals names files sts = MembersFail e \<Longrightarrow> \<not> list_all safe_member_name names"
  using renderMemberNodeFile_safe
  by (induction names arbitrary: files sts) (auto split: option.splits sum.splits)

lemma group_loop_step:
  assumes "group_loop L cluster machines byName prev (g # gs) st = LoopOk st'"
  obtains sel members few files sts where
    "selectGroupMembers (matchingMachines machines sel (lp_claimed st)) (prev (ng_name g)) (ng_count g) = (members, few)"
    "pick_members machines (lp_claimed st) (sel, prev (ng_name g), ng_count g) = members"
    "render_members cluster byName (ng_values g) members (lp_files st) [] = MembersOk files sts"
    "group_loop L cluster machines byName prev gs
       (next_state g (matchingMachines machines sel (lp_claimed st)) members few files sts st) = LoopOk st'"
  using assms by (auto simp: Let_def pick_members_def split: sum.splits prod.splits members_end.splits)

lemma next_state_fields [simp]:
  "lp_claimed (next_state g cands members few files sts st) = lp_claimed st \<union> set members"
  "lp_files (next_state g cands members few files sts st) = files"
  "lp_total (next_state g cands members few files sts st) = lp_total st + length members"
  by (simp_all add: next_state_def)

lemma next_state_names:
  "map mb_name sts = members \<Longrightarrow> map group_names (lp_statuses (next_state g cands members few files sts st)) =
     map group_names (lp_statuses st) @ [members]"
  "map mb_name sts = members \<Longrightarrow> member_names (next_state g cands members few files sts st) = member_names st @ members"
  by (simp_all add: next_state_def member_names_def group_names_def)

text \<open>The members of the groups are those the claiming loop picks.\<close>

lemma group_loop_claims:
  assumes "group_loop L cluster machines byName prev gs st = LoopOk st'"
  shows "\<exists>reqs. length reqs = length gs \<and> map group_names (lp_statuses st') =
    map group_names (lp_statuses st) @ claim_groups (pick_members machines) (lp_claimed st) reqs"
  using assms
proof (induction gs arbitrary: st)
  case (Cons g gs)
  from Cons.prems obtain sel members few files sts where
    p: "pick_members machines (lp_claimed st) (sel, prev (ng_name g), ng_count g) = members" and
    rd: "render_members cluster byName (ng_values g) members (lp_files st) [] = MembersOk files sts" and
    tl: "group_loop L cluster machines byName prev gs
       (next_state g (matchingMachines machines sel (lp_claimed st)) members few files sts st) = LoopOk st'"
    by (rule group_loop_step)
  have n: "map mb_name sts = members" using render_members_Ok [OF rd] by simp
  obtain reqs where "length reqs = length gs" "map group_names (lp_statuses st') =
      map group_names (lp_statuses st) @ members # claim_groups (pick_members machines) (lp_claimed st \<union> set members) reqs"
    using Cons.IH [OF tl] by (auto simp: next_state_names [OF n])
  then show ?case
    by (intro exI [of _ "(sel, prev (ng_name g), ng_count g) # reqs"]) (simp add: p Let_def)
qed simp

text \<open>What one pass keeps: one node file per claimed member, counted.\<close>

definition loop_inv :: "machine list \<Rightarrow> loop_state \<Rightarrow> bool" where
  "loop_inv machines st \<longleftrightarrow>
     map nf_path (lp_files st) = map node_path (member_names st) \<and>
     list_all safe_member_name (member_names st) \<and> lp_total st = length (member_names st) \<and>
     lp_claimed st = set (member_names st) \<and> distinct (member_names st) \<and>
     set (member_names st) \<subseteq> machine_names machines"

lemma loop_inv_start: "loop_inv machines loop_start"
  by (simp add: loop_inv_def loop_start_def member_names_def)

lemma pick_members_distinct:
  "distinct (map (\<lambda>m. m_name (ma_meta m)) machines) \<Longrightarrow> distinct (pick_members machines claimed g)"
  by (cases g) (simp add: pick_members_def distinct_selectGroupMembers distinct_matchingMachines)

lemma group_loop_inv:
  assumes "distinct (map (\<lambda>m. m_name (ma_meta m)) machines)"
    and "loop_inv machines st" "group_loop L cluster machines byName prev gs st = LoopOk st'"
  shows "loop_inv machines st'"
  using assms(2,3)
proof (induction gs arbitrary: st)
  case (Cons g gs)
  from Cons.prems(2) obtain sel members few files sts where
    p: "pick_members machines (lp_claimed st) (sel, prev (ng_name g), ng_count g) = members" and
    rd: "render_members cluster byName (ng_values g) members (lp_files st) [] = MembersOk files sts" and
    tl: "group_loop L cluster machines byName prev gs
       (next_state g (matchingMachines machines sel (lp_claimed st)) members few files sts st) = LoopOk st'"
    by (rule group_loop_step)
  let ?st = "next_state g (matchingMachines machines sel (lp_claimed st)) members few files sts st"
  have rd': "list_all safe_member_name members" "map nf_path files = map nf_path (lp_files st) @ map node_path members"
      "map mb_name sts = members"
    using render_members_Ok [OF rd] by simp_all
  have "distinct members" using pick_members_distinct [OF assms(1)] p by metis
  moreover have "set members \<inter> lp_claimed st = {}"
    using members.pick_fresh [of _ machines "lp_claimed st" "(sel, prev (ng_name g), ng_count g)"] p by auto
  moreover have "set members \<subseteq> machine_names machines"
    using members.pick_known [of machines "lp_claimed st" "(sel, prev (ng_name g), ng_count g)"] p by simp
  ultimately have "loop_inv machines ?st"
    using Cons.prems(1) rd'(1,2) by (auto simp: loop_inv_def next_state_names [OF rd'(3)])
  then show ?case using Cons.IH tl by blast
qed simp

lemma group_loop_no_panic:
  assumes "machine_names machines \<subseteq> dom byName"
  shows "group_loop L cluster machines byName prev gs st \<noteq> LoopPanic"
proof (induction gs arbitrary: st)
  case (Cons g gs)
  show ?case
  proof (cases "lib_selector L (ng_selector g)")
    case (Inr sel)
    let ?c = "matchingMachines machines sel (lp_claimed st)"
    obtain ms few where s: "selectGroupMembers ?c (prev (ng_name g)) (ng_count g) = (ms, few)" by force
    have "set ms \<subseteq> machine_names machines"
      using members.pick_known [of machines "lp_claimed st" "(sel, prev (ng_name g), ng_count g)"]
      by (simp add: pick_members_def s)
    then have "render_members cluster byName (ng_values g) ms (lp_files st) [] \<noteq> MembersPanic"
      using assms by (intro render_members_no_panic) auto
    then show ?thesis using Inr s Cons.IH by (simp add: Let_def split: members_end.split)
  qed simp
qed simp

lemma loop_files_valid: "loop_inv machines st \<Longrightarrow> validateAdditionalFiles (lp_files st) = None"
proof -
  assume inv: "loop_inv machines st"
  have "validateFilePath p = None" if "p \<in> set (map nf_path (lp_files st))" for p
    using inv that validate_node_path
    by (auto simp: loop_inv_def list_all_iff safe_member_name_def)
  then show ?thesis by (simp add: validateAdditionalFiles_None)
qed

lemma inj_node_path: "inj node_path"
  by (simp add: inj_def node_path_def)

section \<open>The preflight\<close>

definition provable_mismatch ::
    "(string \<rightharpoonup> machine) \<Rightarrow> nix_builder \<Rightarrow> node_group_status list \<Rightarrow> bool" where
  "provable_mismatch byName builder groups \<longleftrightarrow>
     bs_systems (nb_spec builder) \<noteq> [] \<and>
     (\<exists>g \<in> set groups. \<exists>name \<in> set (group_names g). \<exists>machine facts.
        byName name = Some machine \<and> mst_facts (ma_status machine) = Some facts \<and>
        nixSystemForArch (hf_architecture facts) \<noteq> [] \<and>
        nixSystemForArch (hf_architecture facts) \<notin> set (bs_systems (nb_spec builder)))"

lemma map_filter_empty: "List.map_filter f xs = [] \<longleftrightarrow> (\<forall>x \<in> set xs. f x = None)"
  by (induction xs) (auto simp: map_filter_simps split: option.splits)

lemma member_mismatch_None:
  "member_mismatch byName systems name = None \<longleftrightarrow>
     \<not> (\<exists>machine facts. byName name = Some machine \<and> mst_facts (ma_status machine) = Some facts \<and>
        nixSystemForArch (hf_architecture facts) \<noteq> [] \<and> nixSystemForArch (hf_architecture facts) \<notin> set systems)"
  by (auto simp: member_mismatch_def Let_def split: option.splits)

lemma mismatches_iff:
  assumes "bs_systems (nb_spec builder) \<noteq> []"
  shows "mismatches byName (bs_systems (nb_spec builder)) groups = [] \<longleftrightarrow> \<not> provable_mismatch byName builder groups"
proof -
  have names: "set (map mb_name (concat (map gs_members groups))) = (\<Union>g \<in> set groups. set (group_names g))"
    by (auto simp: group_names_def)
  show ?thesis
    unfolding mismatches_def map_filter_empty names member_mismatch_None provable_mismatch_def
    using assms by blast
qed

lemma no_systems_no_mismatch: "bs_systems (nb_spec builder) = [] \<Longrightarrow> \<not> provable_mismatch byName builder groups"
  by (simp add: provable_mismatch_def)

lemma preflight_runs:
  assumes "\<And>r es. list_all no_child es \<Longrightarrow>
    r \<noteq> None \<longleftrightarrow> (\<exists>k builder. es = [EvBuilder (Got k (Inr builder))] \<and> provable_mismatch byName builder groups) \<Longrightarrow> R r es"
  shows "runs (checkBuilderCoversMembers E cluster byName groups) R"
  unfolding checkBuilderCoversMembers_def Let_def
  by (auto intro!: runs_intros assms simp: mismatches_iff no_systems_no_mismatch)

section \<open>Conditions of a cluster\<close>

definition cluster_cond :: "lib \<Rightarrow> nix_cluster \<Rightarrow> cond_type \<Rightarrow> cond_status option" where
  "cluster_cond L cluster t = map_option c_status (lib_find_cond L (cls_conditions (cl_status cluster)) t)"

lemma cluster_cond_set [simp]:
  "lib_ok L \<Longrightarrow> cluster_cond L (set_cluster_cond L cl c) t =
     (if t = c_type c then Some (c_status c) else cluster_cond L cl t)"
  "lib_ok L \<Longrightarrow> cluster_cond L (remove_cluster_cond L cl t') t = (if t = t' then None else cluster_cond L cl t)"
  by (simp_all add: cluster_cond_def set_cluster_cond_def remove_cluster_cond_def)

lemma set_cluster_cond_fields [simp]:
  "cls_phase (cl_status (set_cluster_cond L cl c)) = cls_phase (cl_status cl)"
  "cls_phase (cl_status (remove_cluster_cond L cl t)) = cls_phase (cl_status cl)"
  "cls_observed_gen (cl_status (set_cluster_cond L cl c)) = cls_observed_gen (cl_status cl)"
  "cls_groups (cl_status (set_cluster_cond L cl c)) = cls_groups (cl_status cl)"
  "cls_groups (cl_status (remove_cluster_cond L cl t)) = cls_groups (cl_status cl)"
  "cl_meta (set_cluster_cond L cl c) = cl_meta cl"
  "cl_meta (remove_cluster_cond L cl t) = cl_meta cl"
  by (simp_all add: set_cluster_cond_def remove_cluster_cond_def)

lemma cluster_condition_fields [simp]:
  "c_type (cluster_condition cl t b rsn msg) = t"
  "c_status (cluster_condition cl t b rsn msg) = (if b then ConditionTrue else ConditionFalse)"
  by (simp_all add: cluster_condition_def)

lemmas set_defs = set_underprovisioned_def set_git_synced_def set_ready_def set_stalled_def

lemma step_fields [simp]:
  "cls_phase (cl_status (set_underprovisioned L u cl)) = cls_phase (cl_status cl)"
  "cls_phase (cl_status (set_git_synced L cron h cl)) = cls_phase (cl_status cl)"
  "cls_phase (cl_status (set_ready L stall n cl)) = cls_phase (cl_status cl)"
  "cls_phase (cl_status (set_stalled L stall cl)) = cls_phase (cl_status cl)"
  "cls_groups (cl_status (set_underprovisioned L u cl)) = cls_groups (cl_status cl)"
  "cls_groups (cl_status (set_git_synced L cron h cl)) = cls_groups (cl_status cl)"
  "cls_groups (cl_status (set_ready L stall n cl)) = cls_groups (cl_status cl)"
  "cls_groups (cl_status (set_stalled L stall cl)) = cls_groups (cl_status cl)"
  "cl_meta (set_underprovisioned L u cl) = cl_meta cl"
  "cl_meta (set_git_synced L cron h cl) = cl_meta cl"
  "cl_meta (set_ready L stall n cl) = cl_meta cl"
  "cl_meta (set_stalled L stall cl) = cl_meta cl"
  by (simp_all add: set_defs split: option.split)

lemma setConditions_fields [simp]:
  "cls_phase (cl_status (setConditions L cl cron haveCron u n)) = cls_phase (cl_status cl)"
  "cls_groups (cl_status (setConditions L cl cron haveCron u n)) = cls_groups (cl_status cl)"
  "cl_meta (setConditions L cl cron haveCron u n) = cl_meta cl"
  by (simp_all add: setConditions_def Let_def)

lemma step_conds:
  assumes "lib_ok L"
  shows "cluster_cond L (set_underprovisioned L u cl) t =
      (if t = ConditionUnderprovisioned then Some (if u then ConditionTrue else ConditionFalse) else cluster_cond L cl t)"
    "cluster_cond L (set_git_synced L cron h cl) t =
      (if t = ConditionGitSynced
       then Some (if h \<and> ws_resolved (ncj_status cron) \<noteq> [] then ConditionTrue else ConditionFalse)
       else cluster_cond L cl t)"
    "t \<noteq> ConditionStalled \<Longrightarrow> cluster_cond L (set_ready L stall n cl) t =
      (if t = ConditionReady
       then Some (if cls_phase (cl_status cl) = NixClusterPhaseReady then ConditionTrue else ConditionFalse)
       else cluster_cond L cl t)"
    "cluster_cond L (set_stalled L stall cl) t =
      (if t = ConditionStalled then (if stall = None then None else Some ConditionTrue) else cluster_cond L cl t)"
  using assms by (auto simp: set_defs split: option.split)

lemma setConditions_conds:
  assumes "lib_ok L"
  shows "cluster_cond L (setConditions L cl cron haveCron u n) t =
    (case t of
       ConditionUnderprovisioned \<Rightarrow> Some (if u then ConditionTrue else ConditionFalse)
     | ConditionGitSynced \<Rightarrow>
         Some (if haveCron \<and> ws_resolved (ncj_status cron) \<noteq> [] then ConditionTrue else ConditionFalse)
     | ConditionReady \<Rightarrow> Some (if cls_phase (cl_status cl) = NixClusterPhaseReady then ConditionTrue else ConditionFalse)
     | ConditionStalled \<Rightarrow> if convergeStall L cron haveCron = None then None else Some ConditionTrue
     | _ \<Rightarrow> cluster_cond L cl t)"
  by (cases t) (simp_all add: setConditions_def Let_def step_conds [OF assms])

lemma cluster_cond_status [simp]:
  "cls_conditions st = cls_conditions (cl_status cl) \<Longrightarrow> cluster_cond L (cl\<lparr>cl_status := st\<rparr>) t = cluster_cond L cl t"
  by (simp add: cluster_cond_def)

lemma ready_not_stalled:
  "clusterPhase L cron haveCron n = NixClusterPhaseReady \<Longrightarrow> convergeStall L cron haveCron = None"
  by (auto simp: clusterPhase_def Let_def split: if_splits)

text \<open>The two kinds of status a reconcile writes.\<close>

definition reports_failure :: "lib \<Rightarrow> nix_cluster \<Rightarrow> bool" where
  "reports_failure L x \<longleftrightarrow>
     cls_phase (cl_status x) \<in> {NixClusterPhaseBlocked, NixClusterPhaseDegraded} \<and>
     cluster_cond L x ConditionReady = Some ConditionFalse \<and> cluster_cond L x ConditionStalled = Some ConditionTrue"

definition reports_state :: "lib \<Rightarrow> nix_cluster \<Rightarrow> bool" where
  "reports_state L x \<longleftrightarrow>
     cls_observed_gen (cl_status x) = m_gen (cl_meta x) \<and>
     cluster_cond L x ConditionReady =
       Some (if cls_phase (cl_status x) = NixClusterPhaseReady then ConditionTrue else ConditionFalse) \<and>
     (cls_phase (cl_status x) = NixClusterPhaseReady \<longrightarrow> cluster_cond L x ConditionStalled = None)"

lemma failed_cluster_reports:
  "lib_ok L \<Longrightarrow> ph \<in> {NixClusterPhaseBlocked, NixClusterPhaseDegraded} \<Longrightarrow>
     reports_failure L (failed_cluster L cluster ph rsn cause) \<and>
     cls_observed_gen (cl_status (failed_cluster L cluster ph rsn cause)) = cls_observed_gen (cl_status cluster)"
  by (simp add: reports_failure_def failed_cluster_def Let_def)

lemma observed_cluster_reports:
  assumes "lib_ok L"
  shows "reports_state L (observed_cluster L cluster cron haveCron st prevStatus)"
  using ready_not_stalled
  by (simp add: reports_state_def observed_cluster_def Let_def setConditions_conds [OF assms])

section \<open>One reconcile\<close>

fun ensured :: "event \<Rightarrow> bool" where
  "ensured (EvCron (CreateOrUpdated x f None)) = True"
| "ensured _ = False"

fun sound_status :: "lib \<Rightarrow> bool \<Rightarrow> event \<Rightarrow> bool" where
  "sound_status L b (EvCluster (StatusUpdated x r)) = (if b then reports_state L x else reports_failure L x)"
| "sound_status L b _ = True"

fun sees_mismatch :: "(string \<rightharpoonup> machine) \<Rightarrow> node_group_status list \<Rightarrow> event \<Rightarrow> bool" where
  "sees_mismatch byName groups (EvBuilder (Got k (Inr builder))) = provable_mismatch byName builder groups"
| "sees_mismatch byName groups _ = False"

text \<open>Events on the converge child that at most suspend it.\<close>

fun child_suspended_only :: "event \<Rightarrow> bool" where
  "child_suspended_only (EvCron x) = suspend_event (EvCron x)"
| "child_suspended_only _ = True"

lemma suspendConverge_runs [runs_intros]:
  assumes "\<And>r es. list_all suspend_event es \<Longrightarrow> list_all child_event es \<Longrightarrow> R r es"
  shows "runs (suspendConvergeCronJob E cluster) R"
  unfolding suspendConvergeCronJob_def by (auto intro!: runs_intros assms)

lemma cluster_fail_runs [runs_intros]:
  assumes "\<And>r. R (done_res, Some cause)
    [EvCluster (StatusUpdated (failed_cluster (e_lib E) cluster ph rsn cause) r)]"
  shows "runs (cluster_fail E cluster ph rsn cause) R"
  unfolding cluster_fail_def by (auto intro!: runs_intros assms)

lemma child_events_sound:
  "list_all child_event es \<Longrightarrow> list_all (sound_status L b) es"
  "list_all suspend_event es \<Longrightarrow> \<not> list_ex ensured es"
  "list_all suspend_event es \<Longrightarrow> list_all child_suspended_only es"
  "list_all child_event es \<Longrightarrow> \<not> list_ex (sees_mismatch byName groups) es"
proof -
  have "child_event ev \<Longrightarrow> sound_status L b ev \<and> \<not> sees_mismatch byName groups ev" for ev
    by (cases ev rule: child_event.cases) auto
  then show "list_all child_event es \<Longrightarrow> list_all (sound_status L b) es"
    "list_all child_event es \<Longrightarrow> \<not> list_ex (sees_mismatch byName groups) es"
    by (auto simp: list_all_iff list_ex_iff)
  have "suspend_event ev \<Longrightarrow> \<not> ensured ev \<and> child_suspended_only ev" for ev
    by (cases ev rule: suspend_event.cases) auto
  then show "list_all suspend_event es \<Longrightarrow> \<not> list_ex ensured es"
    "list_all suspend_event es \<Longrightarrow> list_all child_suspended_only es"
    by (auto simp: list_all_iff list_ex_iff)
qed

lemma preflight_cases [runs_intros]:
  assumes "\<And>es. es = [] \<or> (\<exists>k r. es = [EvBuilder (Got k r)]) \<Longrightarrow>
      \<not> list_ex (sees_mismatch byName groups) es \<Longrightarrow> R None es"
    and "\<And>e k builder. provable_mismatch byName builder groups \<Longrightarrow> R (Some e) [EvBuilder (Got k (Inr builder))]"
  shows "runs (checkBuilderCoversMembers E cluster byName groups) R"
proof -
  have none: "R None [EvBuilder (Got k (Inr b))]" if "\<not> provable_mismatch byName b groups" for k b
    by (rule assms(1)) (use that in auto)
  have inl: "R None [EvBuilder (Got k (Inl e))]" and nil: "R None []" for k e
    by (rule assms(1); simp)+
  show ?thesis
    unfolding checkBuilderCoversMembers_def Let_def
    by (auto intro!: runs_intros none inl nil assms(2) simp: mismatches_iff no_systems_no_mismatch)
qed

definition converge_spec ::
    "lib \<Rightarrow> (string \<rightharpoonup> machine) \<Rightarrow> node_group_status list \<Rightarrow> event list \<Rightarrow> bool" where
  "converge_spec L byName groups es \<longleftrightarrow>
     list_all (sound_status L (list_ex ensured es)) es \<and>
     (if list_ex (sees_mismatch byName groups) es then list_all child_suspended_only es else True)"

lemma cluster_converge_runs [runs_intros]:
  assumes "lib_ok (e_lib E)" "\<And>r es. converge_spec (e_lib E) byName (lp_statuses st) es \<Longrightarrow> R r es"
  shows "runs (cluster_converge E cluster byName st) R"
proof -
  have fails: "ph \<in> {NixClusterPhaseBlocked, NixClusterPhaseDegraded} \<Longrightarrow>
      reports_failure (e_lib E) (failed_cluster (e_lib E) cluster ph rsn e)" for ph rsn e
    using failed_cluster_reports [OF assms(1)] by blast
  show ?thesis
    unfolding cluster_converge_def ensureConvergeCronJob_def Let_def
    by (auto intro!: runs_intros assms(2) simp: converge_spec_def fails child_events_sound
        observed_cluster_reports [OF assms(1)] split: sum.splits)
qed

lemma ClusterReconcileRemoving_no_status [runs_intros]:
  assumes "\<And>r es. list_all (sound_status (e_lib E) (list_ex ensured es)) es \<Longrightarrow> R r es"
  shows "runs (ClusterReconcileRemoving E cluster) R"
  unfolding ClusterReconcileRemoving_def by (auto intro!: runs_intros assms)

lemma ClusterReconcile_sound:
  assumes "lib_ok (e_lib E)"
  shows "runs (ClusterReconcile E k) (\<lambda>_ es. list_all (sound_status (e_lib E) (list_ex ensured es)) es)"
proof -
  have fails: "reports_failure (e_lib E) (failed_cluster (e_lib E) cluster NixClusterPhaseBlocked rsn e)" for cluster rsn e
    using failed_cluster_reports [OF assms] by blast
  show ?thesis
    unfolding ClusterReconcile_def Let_def
    by (auto intro!: runs_intros assms simp: fails converge_spec_def split: loop_end.splits)
qed

text \<open>A small cluster for the witnesses.\<close>

definition worker :: "string \<Rightarrow> machine" where
  "worker name = sample_machine\<lparr>ma_meta := zero_meta\<lparr>m_name := name, m_ns := ''ns''\<rparr>\<rparr>"

definition worker_group :: "string \<Rightarrow> int32 option \<Rightarrow> node_group" where
  "worker_group name cnt = \<lparr>ng_name = name, ng_selector = \<lparr>sel_labels = [], sel_exprs = []\<rparr>,
     ng_count = cnt, ng_values = None\<rparr>"

definition sample_cluster :: nix_cluster where
  "sample_cluster = \<lparr>cl_meta = zero_meta\<lparr>m_name := ''c'', m_ns := ''ns''\<rparr>,
     cl_spec = \<lparr>cl_source = zero_source, cl_ssh_key = None, cl_age_key = None, cl_store_ref = None,
       cl_builder_ref = None, cl_schedule = [], cl_groups = [worker_group ''a'' (Some 1)]\<rparr>,
     cl_status = zero_cluster_status\<rparr>"

definition sample_loop :: loop_end where
  "sample_loop = group_loop ref_lib ''c'' [worker ''m1'', worker ''m2''] (machines_by_name [worker ''m1'', worker ''m2''])
     (\<lambda>_. []) [worker_group ''a'' (Some 1), worker_group ''b'' None] loop_start"

definition loop_result :: "loop_end \<Rightarrow> loop_state" where
  "loop_result r = (case r of LoopOk st \<Rightarrow> st | _ \<Rightarrow> loop_start)"

lemma sample_loop_names:
  "(case sample_loop of LoopOk st \<Rightarrow> map group_names (lp_statuses st) | _ \<Rightarrow> []) = [[''m1''], [''m2'']]"
  by code_simp

lemma sample_loop_Ok: "sample_loop = LoopOk (loop_result sample_loop)"
proof -
  have "r = LoopOk (loop_result r)" if "(case r of LoopOk st \<Rightarrow> map group_names (lp_statuses st) | _ \<Rightarrow> []) \<noteq> []" for r
    using that by (cases r) (simp_all add: loop_result_def)
  from this [of sample_loop] sample_loop_names show ?thesis by simp
qed

section \<open>Properties\<close>

text \<open>C12. No Machine serves two groups: the members selected for two different groups of a cluster are
  disjoint, whatever their selectors, counts and previous members.\<close>

theorem groups_have_disjoint_members:
  assumes "group_loop L cluster machines byName prev gs loop_start = LoopOk st"
    and "i < j" "j < length (lp_statuses st)"
  shows "set (group_names (lp_statuses st ! i)) \<inter> set (group_names (lp_statuses st ! j)) = {}"
proof -
  obtain reqs where r: "map group_names (lp_statuses st) = claim_groups (pick_members machines) {} reqs"
    "length reqs = length gs"
    using group_loop_claims [OF assms(1)] by (auto simp: loop_start_def)
  have "length (claim_groups (pick_members machines) cl reqs) = length reqs" for cl
    by (induction reqs arbitrary: cl) (simp_all add: Let_def)
  then have "length (lp_statuses st) = length reqs" by (metis r(1) length_map)
  then show ?thesis
    using members.claim_disjoint [OF assms(2), of reqs machines "{}"] assms(2,3) r(1)
    by (metis nth_map order.strict_trans)
qed

lemma groups_have_disjoint_members_witness:
  "set (group_names (lp_statuses (loop_result sample_loop) ! 0)) \<inter>
   set (group_names (lp_statuses (loop_result sample_loop) ! 1)) = {}"
proof (rule groups_have_disjoint_members)
  show "group_loop ref_lib ''c'' [worker ''m1'', worker ''m2''] (machines_by_name [worker ''m1'', worker ''m2''])
     (\<lambda>_. []) [worker_group ''a'' (Some 1), worker_group ''b'' None] loop_start = LoopOk (loop_result sample_loop)"
    using sample_loop_Ok by (simp only: sample_loop_def)
qed code_simp+

text \<open>C39. One node file per member: when the loop succeeds, the files are, in order, one per selected member
  at \<open>modules/nodes/<member>.nix\<close>, no two at the same path, the members are distinct Machines of the
  list, the total counts them, and the validation that follows in the source can never fail.\<close>

theorem one_node_file_per_member:
  assumes "distinct (map (\<lambda>m. m_name (ma_meta m)) machines)"
    and "group_loop L cluster machines byName prev gs loop_start = LoopOk st"
  shows "map nf_path (lp_files st) = map node_path (member_names st) \<and> distinct (map nf_path (lp_files st)) \<and>
    distinct (member_names st) \<and> set (member_names st) \<subseteq> machine_names machines \<and>
    lp_total st = length (member_names st) \<and> validateAdditionalFiles (lp_files st) = None"
proof -
  have inv: "loop_inv machines st" by (rule group_loop_inv [OF assms(1) loop_inv_start assms(2)])
  have "distinct (map node_path (member_names st))"
    using inv inj_node_path by (simp add: loop_inv_def distinct_map inj_on_subset [of _ UNIV])
  with inv loop_files_valid [OF inv] show ?thesis by (auto simp: loop_inv_def)
qed

lemma one_node_file_per_member_witness:
  "map nf_path (lp_files (loop_result sample_loop)) = map node_path [''m1'', ''m2'']"
proof -
  have "member_names (loop_result sample_loop) = [''m1'', ''m2'']" by code_simp
  moreover have "distinct (map (\<lambda>m. m_name (ma_meta m)) [worker ''m1'', worker ''m2''])" by code_simp
  ultimately show ?thesis
    using one_node_file_per_member [OF _ sample_loop_Ok [unfolded sample_loop_def]] by (simp add: sample_loop_def)
qed

text \<open>The loop never dereferences a Machine that is not in \<open>byName\<close>: for the map built from the listed
  Machines it ends with a result or a reported failure.\<close>

theorem group_loop_never_panics:
  "group_loop L cluster machines (machines_by_name machines) prev gs st \<noteq> LoopPanic"
  by (rule group_loop_no_panic) (simp add: machines_by_name_dom)

text \<open>The preflight is exact and conservative: it refuses a cluster if and only if it read the builder, the
  builder restricts its systems, and some selected member is known to need a system that is not
  among them; an unreadable builder, unknown facts or an unknown architecture never refuse.\<close>

theorem preflight_refuses_provable_mismatch:
  "runs (checkBuilderCoversMembers E cluster byName groups)
    (\<lambda>r es. r \<noteq> None \<longleftrightarrow>
      (\<exists>k builder. es = [EvBuilder (Got k (Inr builder))] \<and> provable_mismatch byName builder groups))"
  by (rule preflight_runs) blast

text \<open>C14. Every status a reconcile writes is honest: before the converge child was created or updated it
  can only write a failure (Blocked or Degraded, Ready false, Stalled true); once the child was ensured
  it writes the observed state, with the observed generation, Ready true exactly in phase Ready, and
  never Ready and Stalled together.\<close>

theorem cluster_status_is_honest:
  assumes "lib_ok (e_lib E)"
  shows "runs (ClusterReconcile E k) (\<lambda>_ es. list_all (sound_status (e_lib E) (list_ex ensured es)) es)"
  by (rule ClusterReconcile_sound [OF assms])

lemma cluster_status_is_honest_witness:
  "runs (ClusterReconcile (sample_env :: unit env) \<lparr>k_ns = ''ns'', k_name = ''a''\<rparr>) (\<lambda>_ es. list_all (sound_status ref_lib (list_ex ensured es)) es)"
  using cluster_status_is_honest [OF sample_lib_ok, where ?'a = unit] by (simp add: sample_env_def)

text \<open>On a provable builder mismatch the converge child is at most suspended: the rest of the reconcile
  neither creates it nor updates its spec, and it writes a failure status.\<close>

theorem mismatch_only_suspends:
  assumes "lib_ok (e_lib E)"
  shows "runs (cluster_converge E cluster byName st) (\<lambda>_ es. converge_spec (e_lib E) byName (lp_statuses st) es)"
  by (rule cluster_converge_runs [OF assms])

lemma mismatch_only_suspends_witness:
  "runs (cluster_converge (sample_env :: unit env) sample_cluster (machines_by_name []) loop_start) (\<lambda>_ es. converge_spec ref_lib (machines_by_name []) [] es)"
  using mismatch_only_suspends [OF sample_lib_ok, where ?'a = unit and st = loop_start]
  by (simp add: sample_env_def loop_start_def)

text \<open>The conditions of a cluster follow from the converge child: Ready is true exactly in phase Ready,
  Stalled is true exactly while the child is stalled on its infrastructure and absent otherwise,
  GitSynced and Underprovisioned say what was observed, other conditions stay.\<close>

theorem cluster_conditions:
  assumes "lib_ok L"
  shows "map (cluster_cond L (setConditions L cl cron haveCron few n))
      [ConditionUnderprovisioned, ConditionGitSynced, ConditionReady, ConditionStalled, ConditionReconciling] =
    [Some (if few then ConditionTrue else ConditionFalse),
     Some (if haveCron \<and> ws_resolved (ncj_status cron) \<noteq> [] then ConditionTrue else ConditionFalse),
     Some (if cls_phase (cl_status cl) = NixClusterPhaseReady then ConditionTrue else ConditionFalse),
     (if convergeStall L cron haveCron = None then None else Some ConditionTrue),
     cluster_cond L cl ConditionReconciling]"
  by (simp add: setConditions_conds [OF assms])

lemma cluster_conditions_witness:
  "cluster_cond ref_lib (setConditions ref_lib sample_cluster zero_cron_job False True 0) ConditionUnderprovisioned = Some ConditionTrue"
  using cluster_conditions [OF ref_lib_ok, of sample_cluster zero_cron_job False True 0] by simp

end
