(* ===== verification/Removal_Bound.thy ===== *)
theory Removal_Bound
  imports Config_Outcome
begin

text \<open>
  The removal of a configuration ends. Reconciles of a deleted configuration are run one after the
  other on a server that keeps what it accepted (\<open>tracks_removal\<close>); each failed decommission job
  found raises the stored count by one, and at \<open>MaxOnRemoveRetries\<close> the finalizer goes, so
  however many reconciles there are, only that many failed attempts can be met.
\<close>

section \<open>Programs and the world they leave\<close>














section \<open>The server\<close>

text \<open>
  \<open>cnt\<close> and \<open>gone\<close> read the stored count of failed attempts of the deleted configuration at
  \<open>k\<close>, and whether its finalizer was removed. Reads return what was accepted last, nobody else writes
  the two, and other kinds of objects do not matter.
\<close>

definition same_removal :: "('w \<Rightarrow> int) \<Rightarrow> ('w \<Rightarrow> bool) \<Rightarrow> 'w \<Rightarrow> 'w \<Rightarrow> bool" where
  "same_removal cnt gone w w' \<longleftrightarrow> cnt w' = cnt w \<and> gone w' = gone w"


lemma same_refl [simp]: "same_removal cnt gone w w"
  by (simp add: same_removal_def)




section \<open>One reconcile\<close>

text \<open>A reconcile that met a failed decommission job not yet being deleted.\<close>

fun met_failure :: "event \<Rightarrow> bool" where
  "met_failure (EvJob (Listed lo (Inr (j # js)))) = (failed j \<and> \<not> succeeded j \<and> m_deletion (nj_meta j) = None)"
| "met_failure _ = False"

definition failures_met :: "event list \<Rightarrow> nat" where
  "failures_met es = length (filter met_failure es)"

lemma failures_met_simps [simp]:
  "failures_met [] = 0" "failures_met (ev # es) = (if met_failure ev then 1 else 0) + failures_met es"
  "failures_met (es @ es') = failures_met es + failures_met es'"
  by (simp_all add: failures_met_def)

text \<open>A reconcile went through: it returned neither an error nor an immediate requeue.\<close>

definition went_through :: "reconcile_end \<Rightarrow> bool" where
  "went_through fin \<longleftrightarrow> snd fin = None \<and> \<not> res_requeue (fst fin)"

text \<open>The count stays below the cap until the finalizer is gone.\<close>

definition under_cap :: "('w \<Rightarrow> int) \<Rightarrow> ('w \<Rightarrow> bool) \<Rightarrow> 'w \<Rightarrow> bool" where
  "under_cap cnt gone w \<longleftrightarrow> 0 \<le> cnt w \<and> cnt w \<le> MaxOnRemoveRetries \<and> (cnt w = MaxOnRemoveRetries \<longrightarrow> gone w)"

definition advances :: "('w \<Rightarrow> int) \<Rightarrow> ('w \<Rightarrow> bool) \<Rightarrow> 'w \<Rightarrow> nat \<Rightarrow> 'w \<Rightarrow> bool" where
  "advances cnt gone w n w' \<longleftrightarrow> cnt w' = cnt w + int n \<and> (gone w \<longrightarrow> gone w') \<and> under_cap cnt gone w'"









lemma key_of_rv [simp]: "key_of (m\<lparr>m_rv := v\<rparr>) = key_of m"
  by (simp add: key_of_def)


text \<open>A part of the reconcile that met \<open>n\<close> failures so far.\<close>

definition carries :: "('w \<Rightarrow> int) \<Rightarrow> ('w \<Rightarrow> bool) \<Rightarrow> 'w \<Rightarrow> nat \<Rightarrow> reconcile_end \<Rightarrow> event list \<Rightarrow> 'w \<Rightarrow> bool" where
  "carries cnt gone w n fin es w' \<longleftrightarrow> failures_met es = 0 \<and> (went_through fin \<longrightarrow> advances cnt gone w n w')"


lemma carries_step:
  assumes "carries cnt gone w' n fin es' w''" "same_removal cnt gone w w'" "failures_met es = 0"
  shows "carries cnt gone w n fin (es @ es') w''"
  using assms by (auto simp: carries_def advances_def same_removal_def)












lemma same_trans: "same_removal cnt gone w w' \<Longrightarrow> same_removal cnt gone w' w'' \<Longrightarrow> same_removal cnt gone w w''"
  by (simp add: same_removal_def)



section \<open>Any number of reconciles\<close>






section \<open>Properties\<close>







end
