(* ===== verification/Render.thy ===== *)
theory Render
  imports Children Sha256 Node_Files
begin

text \<open>
  Pod rendering (\<open>nixrender.go\<close>, with \<open>upsertVolume\<close> of \<open>nixstore_controller.go\<close>,
  \<open>additionalFilesConfigMapName\<close> of \<open>nixworkload.go\<close> and \<open>IsSSHRepo\<close> of
  \<open>gitauth.go\<close>): the revision key, \<open>NIX_CONFIG\<close>, shell quoting, the scripts of the
  init containers, and \<open>renderPodTemplate\<close>. The pod template argument is a value, so the deep
  copy the source starts with has no counterpart.
\<close>

section \<open>Constants\<close>

definition nixStorePodVolume :: string where [const_defs]: "nixStorePodVolume = ''nix-store''"
definition workspaceVolume :: string where [const_defs]: "workspaceVolume = ''workspace''"
definition nixMountPath :: string where [const_defs]: "nixMountPath = ''/nix''"
definition nixBootstrapMount :: string where [const_defs]: "nixBootstrapMount = ''/nix-vol''"
definition workspaceMountPath :: string where [const_defs]: "workspaceMountPath = ''/workspace''"
definition gitCredsVolumeName :: string where [const_defs]: "gitCredsVolumeName = ''nio-git-creds''"
definition gitCredsMountPath :: string where [const_defs]: "gitCredsMountPath = ''/etc/nio/git-creds''"
definition initBootstrap :: string where [const_defs]: "initBootstrap = ''bootstrap''"
definition initFetchSource :: string where [const_defs]: "initFetchSource = ''fetch-source''"
definition initInjectFiles :: string where [const_defs]: "initInjectFiles = ''inject-files''"
definition initInstantiate :: string where [const_defs]: "initInstantiate = ''instantiate''"
definition filesMountBase :: string where [const_defs]: "filesMountBase = ''/etc/nio/files''"
definition sshVolumeName :: string where [const_defs]: "sshVolumeName = ''nio-ssh''"
definition sshKeyMountPath :: string where [const_defs]: "sshKeyMountPath = ''/etc/nio/ssh''"

definition sshPrivateKeyPath :: string where
  "sshPrivateKeyPath = sshKeyMountPath @ ''/ssh-privatekey''"

definition defaultNixSystems :: string where
  "defaultNixSystems = ''x86_64-linux,aarch64-linux''"

definition cacheNixosPublicKey :: string where
  "cacheNixosPublicKey = ''cache.nixos.org-1:6NCHdD59X431o0gWypbMrAURkbJ16ZPMQFGspcDShjY=''"

definition cacheNixosURL :: string where
  "cacheNixosURL = ''https://cache.nixos.org''"

definition sshHostKeyOpts :: string where
  "sshHostKeyOpts = ''-o StrictHostKeyChecking=no -o UserKnownHostsFile=/dev/null''"

definition DefaultRunnerImage :: string where
  "DefaultRunnerImage = ''nixos/nix:latest''"

definition additionalFilesConfigMapName :: "string \<Rightarrow> string" where
  "additionalFilesConfigMapName owner = owner @ ''-nixfiles''"

section \<open>Inputs\<close>

record store_info =
  si_substituter :: string
  si_key :: string
  si_push :: string

record builder_info =
  bi_endpoint :: string
  bi_systems :: "string list"
  bi_ssh_key :: string

record render_input =
  ri_spec :: nix_spec
  ri_revision :: string
  ri_artifact :: string
  ri_store :: "store_info option"
  ri_builder :: "builder_info option"
  ri_ssh_secret :: string
  ri_kind :: string
  ri_name :: string

section \<open>The revision key\<close>

definition rev_field :: "string \<Rightarrow> string" where
  "rev_field s = show_nat (length s) @ '':'' @ s"

text \<open>What is written to the hash.\<close>

definition rev_input :: "string \<Rightarrow> string \<Rightarrow> string list \<Rightarrow> string" where
  "rev_input resolvedRevision run args =
     rev_field resolvedRevision @ rev_field run @ concat (map rev_field args)"

definition compositeRevision :: "string \<Rightarrow> string \<Rightarrow> string list \<Rightarrow> string" where
  "compositeRevision resolvedRevision run args =
     ''r-'' @ take 12 (sha256_hex (rev_input resolvedRevision run args))"

section \<open>NIX_CONFIG\<close>

definition buildNixConfig :: "store_info option \<Rightarrow> builder_info option \<Rightarrow> string" where
  "buildNixConfig store builder =
     (let from_store = (case store of
            None \<Rightarrow> ([], [])
          | Some s \<Rightarrow> if si_substituter s = [] then ([], [])
              else ([si_substituter s], if si_key s = [] then [] else [si_key s]));
          substituters = fst from_store @ [cacheNixosURL];
          trustedKeys = snd from_store @ [cacheNixosPublicKey];
          base = [''experimental-features = nix-command flakes'',
            ''substituters = '' @ join '' '' substituters,
            ''trusted-public-keys = '' @ join '' '' trustedKeys];
          builders = (case builder of
            None \<Rightarrow> []
          | Some b \<Rightarrow> if bi_endpoint b = [] then []
              else
                (let systemList = (if bi_systems b = [] then defaultNixSystems else join '','' (bi_systems b));
                     buildersLine = ''builders = '' @ bi_endpoint b @ '' '' @ systemList
                 in [if bi_ssh_key b = [] then buildersLine else buildersLine @ '' '' @ bi_ssh_key b,
                     ''builders-use-substitutes = true'', ''max-jobs = 0'']))
      in join [CHR 0x0A] (base @ builders))"

section \<open>Commands\<close>

definition shellQuote :: "string \<Rightarrow> string" where
  "shellQuote s = [CHR 0x27] @ replace_all [CHR 0x27] [CHR 0x27, CHR 0x5C, CHR 0x27, CHR 0x27] s @ [CHR 0x27]"

definition shellJoin :: "string list \<Rightarrow> string" where
  "shellJoin args = join '' '' (map shellQuote args)"

definition runCommand :: "string \<Rightarrow> string list \<Rightarrow> string list \<Rightarrow> string list" where
  "runCommand run args nixFlags =
     [''nix'', ''run''] @ nixFlags @ [run] @ (if args = [] then [] else ''--'' # args)"

definition buildCommand :: "string \<Rightarrow> string list \<Rightarrow> string list \<Rightarrow> string list" where
  "buildCommand run prebuild nixFlags = [''nix'', ''build''] @ nixFlags @ [run] @ prebuild"

definition wrapSSH :: "string list \<Rightarrow> bool \<Rightarrow> string list" where
  "wrapSSH cmd needsSSH =
     (if \<not> needsSSH then cmd
      else [''sh'', ''-c'', ''exec nix shell nixpkgs#openssh --command '' @ shellJoin cmd])"

section \<open>The fetch-source script\<close>

definition script :: "string list \<Rightarrow> string" where
  "script ls = concat (map (\<lambda>l. l @ [CHR 0x0A]) ls)"

definition flux_fetch_script :: string where
  \<open>flux_fetch_script = script
     [''set -eu'',
      ''nix shell nixpkgs#gitMinimal nixpkgs#curl --command sh -c '' @ [CHR 0x27],
      ''  curl --location --fail "$NIO_ARTIFACT_URL" | tar --extract --gzip --directory /workspace'',
      ''  cd /workspace'',
      ''  [ -e .git ] || (git init --quiet && git add --all --force && '' @ [CHR 0x5C],
      ''    git -c user.email=nio@homystack.com -c user.name=nio commit --quiet --message "flux artifact $NIO_REVISION")'' @ [CHR 0x27]]\<close>

definition ssh_auth_prelude :: string where
  \<open>ssh_auth_prelude = script
     [''  install -m 600 "$NIO_GIT_CREDENTIALS_PATH/ssh-privatekey" /workspace/.nio-ssh-key'',
      ''  if [ -s "$NIO_GIT_CREDENTIALS_PATH/known_hosts" ]; then'',
      ''    GIT_SSH_COMMAND="ssh -i /workspace/.nio-ssh-key -o IdentitiesOnly=yes -o StrictHostKeyChecking=yes -o UserKnownHostsFile=$NIO_GIT_CREDENTIALS_PATH/known_hosts"'',
      ''  else'',
      ''    GIT_SSH_COMMAND="ssh -i /workspace/.nio-ssh-key -o IdentitiesOnly=yes -o StrictHostKeyChecking=no -o UserKnownHostsFile=/dev/null"'',
      ''  fi'',
      ''  export GIT_SSH_COMMAND'']\<close>

definition https_auth_prelude :: string where
  \<open>https_auth_prelude = script
     [''  cat > /workspace/.nio-askpass <<"NIOASKPASS"'',
      ''#!/bin/sh'',
      ''case "$1" in'',
      ''Username*) head -n1 "$NIO_GIT_CREDENTIALS_PATH/username" 2>/dev/null || printf git ;;'',
      ''Password*) head -n1 "$NIO_GIT_CREDENTIALS_PATH/password" 2>/dev/null || head -n1 "$NIO_GIT_CREDENTIALS_PATH/token" 2>/dev/null ;;'',
      ''esac'',
      ''NIOASKPASS'',
      ''  chmod +x /workspace/.nio-askpass'',
      ''  export GIT_ASKPASS=/workspace/.nio-askpass GIT_TERMINAL_PROMPT=0'']\<close>

definition git_fetch_commands :: string where
  \<open>git_fetch_commands = script
     [''  git init --quiet /workspace && cd /workspace'',
      ''  git remote add origin "$NIO_GIT_REPO"'',
      ''  git fetch --depth 1 origin "$NIO_REVISION"'',
      ''  git checkout --detach FETCH_HEAD'' @ [CHR 0x27]]\<close>

definition fetchSourceScript :: "bool \<Rightarrow> bool \<Rightarrow> bool \<Rightarrow> string" where
  "fetchSourceScript flux hasCreds sshRepo =
     (if flux then flux_fetch_script
      else
        (let pkgs = (if hasCreds \<and> sshRepo then ''nixpkgs#gitMinimal nixpkgs#openssh'' else ''nixpkgs#gitMinimal'');
             authPrelude = (if hasCreds \<and> sshRepo then ssh_auth_prelude
               else if hasCreds then https_auth_prelude else [])
         in script [''set -eu'', ''nix shell '' @ pkgs @ '' --command sh -c '' @ [CHR 0x27]] @
            authPrelude @ git_fetch_commands))"

definition IsSSHRepo :: "string \<Rightarrow> bool" where
  "IsSSHRepo repo \<longleftrightarrow>
     has_prefix repo ''ssh://'' \<or> has_prefix repo ''git@'' \<or>
     contains_str repo ''@'' \<and> \<not> has_prefix repo ''http''"

section \<open>Lists keyed by a name\<close>

fun upsertVolume :: "volume list \<Rightarrow> volume \<Rightarrow> volume list" where
  "upsertVolume [] v = [v]"
| "upsertVolume (w # ws) v = (if vol_name w = vol_name v then v # ws else w # upsertVolume ws v)"

fun upsertEnv :: "env_var list \<Rightarrow> env_var \<Rightarrow> env_var list" where
  "upsertEnv [] e = [e]"
| "upsertEnv (f # fs) e = (if ev_name f = ev_name e then e # fs else f # upsertEnv fs e)"

fun setContainer :: "container list \<Rightarrow> container \<Rightarrow> container list" where
  "setContainer [] c = [c]"
| "setContainer (d # ds) c = (if ct_name d = ct_name c then c # ds else d # setContainer ds c)"

definition hasEnvVar :: "env_var list \<Rightarrow> string \<Rightarrow> bool" where
  "hasEnvVar env name \<longleftrightarrow> list_ex (\<lambda>e. ev_name e = name) env"

definition findOrNewContainer :: "container list \<Rightarrow> string \<Rightarrow> container" where
  "findOrNewContainer containers name =
     (case find (\<lambda>c. ct_name c = name) containers of
        Some c \<Rightarrow> c
      | None \<Rightarrow> zero_container\<lparr>ct_name := name\<rparr>)"

definition filterOutContainers :: "container list \<Rightarrow> string list \<Rightarrow> container list" where
  "filterOutContainers containers names = filter (\<lambda>c. ct_name c \<notin> set names) containers"

text \<open>\<open>byPath\<close> maps a mount path to the last index that has it.\<close>

definition by_path :: "volume_mount list \<Rightarrow> string \<rightharpoonup> nat" where
  "by_path mounts = map_of (rev (zip (map vm_path mounts) [0..<length mounts]))"

definition put_mount :: "(string \<rightharpoonup> nat) \<Rightarrow> volume_mount list \<Rightarrow> volume_mount \<Rightarrow> volume_mount list" where
  "put_mount byPath mounts m =
     (case byPath (vm_path m) of Some i \<Rightarrow> mounts[i := m] | None \<Rightarrow> mounts @ [m])"

definition upsertMounts :: "volume_mount list \<Rightarrow> volume_mount list \<Rightarrow> volume_mount list" where
  "upsertMounts mounts add = sort_key vm_path (foldl (put_mount (by_path mounts)) mounts add)"

definition nixStoreVolume :: "nix_local_store option \<Rightarrow> volume" where
  "nixStoreVolume ls =
     (let medium = (case ls of None \<Rightarrow> ''Disk'' | Some l \<Rightarrow> if ls_medium l = [] then ''Disk'' else ls_medium l);
          sizeLimit = (case ls of None \<Rightarrow> None | Some l \<Rightarrow> ls_size_limit l);
          source =
            (if medium = ''Memory'' then VEmptyDir ''Memory'' sizeLimit
             else if medium = ''PodPVC'' then
               VEphemeral (case ls of None \<Rightarrow> None
                 | Some l \<Rightarrow> if ls_storage_class l = [] then None else Some (ls_storage_class l)) sizeLimit
             else VEmptyDir [] sizeLimit)
      in \<lparr>vol_name = nixStorePodVolume, vol_source = source\<rparr>)"

section \<open>The inject-files container\<close>

text \<open>What the closure \<open>refDir\<close> captures: the index of each referenced object, the volumes, the mounts.\<close>

record inject_state =
  inj_idx :: "(string \<times> nat) list"
  inj_vols :: "volume list"
  inj_mounts :: "volume_mount list"

definition refDir :: "inject_state \<Rightarrow> string \<Rightarrow> string \<Rightarrow> inject_state \<times> string" where
  "refDir st kind name =
     (let key = kind @ ''/'' @ name in
      case map_of (inj_idx st) key of
        Some i \<Rightarrow> (st, filesMountBase @ ''/'' @ show_nat i)
      | None \<Rightarrow>
          (let idx = length (inj_idx st);
               src = (if kind = ''cm'' then VConfigMap name (Some 256) else VSecret name (Some 256));
               volName = ''nio-file-'' @ show_nat idx;
               mountPath = filesMountBase @ ''/'' @ show_nat idx
           in (\<lparr>inj_idx = inj_idx st @ [(key, idx)],
                inj_vols = inj_vols st @ [\<lparr>vol_name = volName, vol_source = src\<rparr>],
                inj_mounts = inj_mounts st @ [\<lparr>vm_name = volName, vm_path = mountPath, vm_read_only = True\<rparr>]\<rparr>,
               filesMountBase @ ''/'' @ show_nat idx)))"

definition dq :: "string \<Rightarrow> string" where
  "dq s = [CHR 0x22] @ s @ [CHR 0x22]"

text \<open>The object a file's content is taken from, and its key there: a ConfigMap, a Secret, or the
  operator's own ConfigMap for inline content of file number \<open>i\<close>.\<close>

definition file_source :: "string \<Rightarrow> nat \<Rightarrow> nix_file \<Rightarrow> string \<times> string \<times> string" where
  "file_source inlineCMName i f =
     (case nf_configmap f of
        Some r \<Rightarrow> (''cm'', kr_name r, kr_key r)
      | None \<Rightarrow> (case nf_secret f of
          Some r \<Rightarrow> (''sec'', kr_name r, kr_key r)
        | None \<Rightarrow> (''cm'', inlineCMName, ''file-'' @ show_nat i)))"

definition inject_line :: "string \<Rightarrow> string \<Rightarrow> nix_file \<Rightarrow> string" where
  "inject_line dir key f =
     script [''mkdir -p '' @ dq (''$(dirname '' @ dq (nf_path f) @ '')''),
             ''cp '' @ dq (dir @ ''/'' @ key) @ '' '' @ dq (nf_path f)]"

fun inject_lines :: "string \<Rightarrow> nat \<Rightarrow> nix_file list \<Rightarrow> inject_state \<Rightarrow> inject_state \<times> string" where
  "inject_lines inlineCMName i [] st = (st, [])"
| "inject_lines inlineCMName i (f # fs) st =
     (case file_source inlineCMName i f of (kind, name, key) \<Rightarrow>
      case refDir st kind name of (st1, dir) \<Rightarrow>
      case inject_lines inlineCMName (Suc i) fs st1 of (st2, rest) \<Rightarrow>
        (st2, inject_line dir key f @ rest))"

definition nix_and_workspace :: "volume_mount list" where
  "nix_and_workspace =
     [\<lparr>vm_name = nixStorePodVolume, vm_path = nixMountPath, vm_read_only = False\<rparr>,
      \<lparr>vm_name = workspaceVolume, vm_path = workspaceMountPath, vm_read_only = False\<rparr>]"

definition nix_config_env :: "string \<Rightarrow> env_var" where
  "nix_config_env nixConfig = \<lparr>ev_name = ''NIX_CONFIG'', ev_value = nixConfig\<rparr>"

definition additionalFilesInjection ::
    "nix_file list \<Rightarrow> string \<Rightarrow> string \<Rightarrow> string \<Rightarrow> (container \<times> volume list) option" where
  "additionalFilesInjection files img inlineCMName nixConfig =
     (if files = [] then None
      else
        (case inject_lines inlineCMName 0 files
                \<lparr>inj_idx = [], inj_vols = [], inj_mounts = nix_and_workspace\<rparr> of
           (st, body) \<Rightarrow>
             (let text = script [''set -eu'', ''cd '' @ workspaceMountPath] @ body @
                    ''git add --force --'' @ concat (map (\<lambda>f. '' '' @ dq (nf_path f)) files) @ [CHR 0x0A]
              in Some (zero_container\<lparr>ct_name := initInjectFiles, ct_image := img,
                     ct_env := [nix_config_env nixConfig],
                     ct_command := [''nix'', ''shell'', ''nixpkgs#gitMinimal'', ''--command'', ''sh'', ''-c'', text],
                     ct_mounts := inj_mounts st\<rparr>, inj_vols st))))"

section \<open>The pod template\<close>

definition runner_image :: "nix_spec \<Rightarrow> string" where
  "runner_image nix = (if nx_image nix = [] then DefaultRunnerImage else nx_image nix)"

definition app_name :: "nix_spec \<Rightarrow> string" where
  "app_name nix = (if nx_container_name nix = [] then defaultAppContainer else nx_container_name nix)"

definition work_dir :: "nix_spec \<Rightarrow> string" where
  "work_dir nix =
     (if src_dir (nx_source nix) = [] then workspaceMountPath
      else path_join2 workspaceMountPath (src_dir (nx_source nix)))"

definition creds_secret :: "nix_spec \<Rightarrow> string" where
  "creds_secret nix =
     (if src_flux (nx_source nix) = None
      then (case src_credentials (nx_source nix) of None \<Rightarrow> [] | Some n \<Rightarrow> n) else [])"

text \<open>The volumes the renderer owns, in the order it upserts them (those of the injected files follow).\<close>

definition owned_volumes :: "render_input \<Rightarrow> volume list" where
  "owned_volumes inp =
     [nixStoreVolume (nx_local_store (ri_spec inp)),
      \<lparr>vol_name = workspaceVolume, vol_source = VEmptyDir [] None\<rparr>] @
     (if ri_ssh_secret inp = [] then []
      else [\<lparr>vol_name = sshVolumeName, vol_source = VSecret (ri_ssh_secret inp) (Some 256)\<rparr>]) @
     (if creds_secret (ri_spec inp) = [] then []
      else [\<lparr>vol_name = gitCredsVolumeName, vol_source = VSecret (creds_secret (ri_spec inp)) (Some 256)\<rparr>])"

definition build_mounts :: "render_input \<Rightarrow> volume_mount list" where
  "build_mounts inp = nix_and_workspace @
     (if ri_ssh_secret inp = [] then []
      else [\<lparr>vm_name = sshVolumeName, vm_path = sshKeyMountPath, vm_read_only = True\<rparr>])"

definition bootstrap_container :: "string \<Rightarrow> container" where
  "bootstrap_container img = zero_container\<lparr>ct_name := initBootstrap, ct_image := img,
     ct_command := [''sh'', ''-c'',
       ''[ -e '' @ nixBootstrapMount @ ''/store ] || cp --archive /nix/. '' @ nixBootstrapMount @ ''/''],
     ct_mounts := [\<lparr>vm_name = nixStorePodVolume, vm_path = nixBootstrapMount, vm_read_only = False\<rparr>]\<rparr>"

definition fetch_container :: "render_input \<Rightarrow> string \<Rightarrow> string \<Rightarrow> container" where
  "fetch_container inp img nixConfig =
     (let nix = ri_spec inp;
          flux = src_flux (nx_source nix) \<noteq> None;
          hasCreds = creds_secret nix \<noteq> [];
          sshRepo = hasCreds \<and> IsSSHRepo (src_git_repo (nx_source nix))
      in zero_container\<lparr>ct_name := initFetchSource, ct_image := img,
           ct_command := [''sh'', ''-c'', fetchSourceScript flux hasCreds sshRepo],
           ct_env := [nix_config_env nixConfig, \<lparr>ev_name = ''NIO_REVISION'', ev_value = ri_revision inp\<rparr>] @
             [if flux then \<lparr>ev_name = ''NIO_ARTIFACT_URL'', ev_value = ri_artifact inp\<rparr>
              else \<lparr>ev_name = ''NIO_GIT_REPO'', ev_value = src_git_repo (nx_source nix)\<rparr>] @
             (if hasCreds then [\<lparr>ev_name = ''NIO_GIT_CREDENTIALS_PATH'', ev_value = gitCredsMountPath\<rparr>] else []),
           ct_mounts := nix_and_workspace @
             (if hasCreds then [\<lparr>vm_name = gitCredsVolumeName, vm_path = gitCredsMountPath, vm_read_only = True\<rparr>]
              else [])\<rparr>)"

definition instantiate_command :: "render_input \<Rightarrow> string list" where
  "instantiate_command inp =
     (let nix = ri_spec inp;
          build = buildCommand (nx_run nix) (nx_prebuild nix) (nx_flags nix);
          push_url = (case ri_store inp of None \<Rightarrow> [] | Some s \<Rightarrow> si_push s)
      in if ri_ssh_secret inp \<noteq> [] \<and> push_url \<noteq> [] then
           [''sh'', ''-c'', ''exec nix shell nixpkgs#openssh --command sh -c '' @
             shellQuote (shellJoin build @ '' && '' @
               shellJoin ([''nix'', ''copy'', ''--to'', push_url] @ nx_run nix # nx_prebuild nix))]
         else wrapSSH build (ri_ssh_secret inp \<noteq> []))"

definition instantiate_container :: "render_input \<Rightarrow> string \<Rightarrow> string \<Rightarrow> container" where
  "instantiate_container inp img nixConfig = zero_container\<lparr>ct_name := initInstantiate, ct_image := img,
     ct_workdir := work_dir (ri_spec inp),
     ct_command := instantiate_command inp,
     ct_env := nix_config_env nixConfig #
       (if ri_ssh_secret inp = [] then []
        else [\<lparr>ev_name = ''NIX_SSHOPTS'', ev_value = ''-i '' @ sshPrivateKeyPath @ '' '' @ sshHostKeyOpts\<rparr>]),
     ct_mounts := build_mounts inp\<rparr>"

text \<open>The app container, from the user's container of that name or a fresh one.\<close>

definition app_container :: "render_input \<Rightarrow> string \<Rightarrow> string \<Rightarrow> container \<Rightarrow> container" where
  "app_container inp img nixConfig user =
     (let nix = ri_spec inp;
          appNeedsSSH = ri_ssh_secret inp \<noteq> [] \<or> hasEnvVar (ct_env user) ''NIX_SSHOPTS'';
          env = upsertEnv (ct_env user) (nix_config_env nixConfig)
      in user\<lparr>ct_image := img,
           ct_workdir := work_dir nix,
           ct_command := wrapSSH (runCommand (nx_run nix) (nx_args nix) (nx_flags nix)) appNeedsSSH,
           ct_args := [],
           ct_env := (if \<not> hasEnvVar env ''NIX_SSHOPTS'' \<and> ri_ssh_secret inp \<noteq> []
             then upsertEnv env \<lparr>ev_name = ''NIX_SSHOPTS'', ev_value = sshHostKeyOpts\<rparr> else env),
           ct_mounts := upsertMounts (ct_mounts user) (build_mounts inp)\<rparr>)"

definition owned_inits :: "string list" where
  "owned_inits = [initBootstrap, initFetchSource, initInjectFiles, initInstantiate]"

definition rendered_inits :: "render_input \<Rightarrow> string \<Rightarrow> string \<Rightarrow> container list" where
  "rendered_inits inp img nixConfig =
     [bootstrap_container img, fetch_container inp img nixConfig] @
     (case additionalFilesInjection (nx_files (ri_spec inp)) img
             (additionalFilesConfigMapName (ri_name inp)) nixConfig of
        None \<Rightarrow> [] | Some (c, _) \<Rightarrow> [c]) @
     [instantiate_container inp img nixConfig]"

definition injected_volumes :: "render_input \<Rightarrow> string \<Rightarrow> string \<Rightarrow> volume list" where
  "injected_volumes inp img nixConfig =
     (case additionalFilesInjection (nx_files (ri_spec inp)) img
             (additionalFilesConfigMapName (ri_name inp)) nixConfig of
        None \<Rightarrow> [] | Some (_, vols) \<Rightarrow> vols)"

definition renderPodTemplate :: "render_input \<Rightarrow> pod_template \<Rightarrow> pod_template" where
  "renderPodTemplate inp base =
     (let nix = ri_spec inp;
          img = runner_image nix;
          rev = compositeRevision (ri_revision inp) (nx_run nix) (nx_args nix);
          nixConfig = buildNixConfig (ri_store inp) (ri_builder inp);
          spec = pt_spec base;
          app = findOrNewContainer (ps_containers spec) (app_name nix)
      in base\<lparr>pt_labels := pt_labels base ++ (managedLabels (ri_kind inp) (ri_name inp))(LabelRevision \<mapsto> rev),
           pt_annotations := (pt_annotations base)(AnnotationRevision \<mapsto> rev),
           pt_spec := spec\<lparr>
             ps_volumes := foldl upsertVolume (ps_volumes spec) (owned_volumes inp @ injected_volumes inp img nixConfig),
             ps_init := rendered_inits inp img nixConfig @ filterOutContainers (ps_init spec) owned_inits,
             ps_containers := setContainer (ps_containers spec) (app_container inp img nixConfig app)\<rparr>\<rparr>)"

end
