(* ===== verification/Shell_Quoting.thy ===== *)
theory Shell_Quoting
  imports Render
begin

text \<open>
  What the shell makes of the command lines the renderer builds. \<open>shell_words\<close> is the field
  splitting of POSIX \<open>sh\<close> for a simple command made of literal characters, backslash escapes and
  single quotes; on any other metacharacter it gives up. The theorems read the rendered command
  lines back.
\<close>

section \<open>A reader for simple commands\<close>

definition shell_meta :: "char \<Rightarrow> bool" where
  "shell_meta c \<longleftrightarrow> c \<in> set ''|&;<>()$`*?['' \<or> c = CHR 0x22 \<or> c = CHR 0x0A \<or> c = CHR 0x09"

text \<open>Characters that only mean something at the start of a word.\<close>

definition word_start_meta :: "char \<Rightarrow> bool" where
  "word_start_meta c \<longleftrightarrow> c = CHR ''#'' \<or> c = CHR ''~''"

text \<open>
  \<open>sh_lex quoted word s\<close>: the words of \<open>s\<close>, inside single quotes when \<open>quoted\<close>, after the
  characters of an unfinished \<open>word\<close> (\<open>None\<close> between words).
\<close>

definition emit_word :: "string option \<Rightarrow> string list option \<Rightarrow> string list option" where
  "emit_word w rest = (case w of None \<Rightarrow> rest | Some x \<Rightarrow> map_option ((#) x) rest)"

definition grow :: "string option \<Rightarrow> char \<Rightarrow> string option" where
  "grow w c = Some ((case w of None \<Rightarrow> [] | Some x \<Rightarrow> x) @ [c])"

fun sh_lex :: "bool \<Rightarrow> string option \<Rightarrow> string \<Rightarrow> string list option" where
  "sh_lex True w [] = None"
| "sh_lex False w [] = emit_word w (Some [])"
| "sh_lex True w (c # cs) = (if c = CHR 0x27 then sh_lex False w cs else sh_lex True (grow w c) cs)"
| "sh_lex False w (c # cs) =
     (if c = CHR 0x27 then sh_lex True (Some (case w of None \<Rightarrow> [] | Some x \<Rightarrow> x)) cs
      else if c = CHR '' '' then emit_word w (sh_lex False None cs)
      else if c = CHR 0x5C then
        (case cs of [] \<Rightarrow> None | d # ds \<Rightarrow> if d = CHR 0x0A then None else sh_lex False (grow w d) ds)
      else if shell_meta c \<or> (w = None \<and> word_start_meta c) then None
      else sh_lex False (grow w c) cs)"

definition shell_words :: "string \<Rightarrow> string list option" where
  "shell_words s = sh_lex False None s"

section \<open>Reading quoted words\<close>

abbreviation sq_escape :: "string \<Rightarrow> string" where
  "sq_escape s \<equiv> replace_all [CHR 0x27] [CHR 0x27, CHR 0x5C, CHR 0x27, CHR 0x27] s"

lemma sh_lex_escaped: "sh_lex True (Some x) (sq_escape s @ CHR 0x27 # t) = sh_lex False (Some (x @ s)) t"
  by (induction s arbitrary: x) (auto simp: grow_def)

lemma sh_lex_shellQuote:
  "sh_lex False w (shellQuote s @ t) = sh_lex False (Some ((case w of None \<Rightarrow> [] | Some x \<Rightarrow> x) @ s)) t"
  by (simp add: shellQuote_def sh_lex_escaped)

lemma map_option_append_Nil [simp]: "map_option ((@) []) x = x"
  by (cases x) simp_all

lemma append_Cons_fun: "(@) (a # xs) = (\<lambda>ys. a # xs @ ys)"
  by (simp add: fun_eq_iff)

lemma sh_lex_shellJoin:
  "sh_lex False None (shellJoin args @ t) =
     (if args = [] then sh_lex False None t
      else map_option (\<lambda>ws. butlast args @ ws) (sh_lex False (Some (last args)) t))"
  unfolding shellJoin_def
proof (induction args)
  case (Cons a args)
  show ?case
  proof (cases args)
    case Nil
    then show ?thesis by (simp add: sh_lex_shellQuote)
  next
    case (Cons b bs)
    then show ?thesis
      using Cons.IH
      by (simp add: join_Cons sh_lex_shellQuote emit_word_def option.map_comp comp_def append_Cons_fun)
  qed
qed simp

lemma sh_lex_shellJoin_end: "sh_lex False None (shellJoin args) = Some args"
  using sh_lex_shellJoin [of args "[]"] by (cases "args = []") (auto simp: emit_word_def)

text \<open>A prefix of plain words and blanks.\<close>

definition plain_word :: "string \<Rightarrow> bool" where
  "plain_word w \<longleftrightarrow> w \<noteq> [] \<and> \<not> word_start_meta (hd w) \<and>
     list_all (\<lambda>c. \<not> shell_meta c \<and> c \<noteq> CHR 0x27 \<and> c \<noteq> CHR '' '' \<and> c \<noteq> CHR 0x5C) w"

lemma sh_lex_plain:
  "list_all (\<lambda>c. \<not> shell_meta c \<and> c \<noteq> CHR 0x27 \<and> c \<noteq> CHR '' '' \<and> c \<noteq> CHR 0x5C) w \<Longrightarrow>
     sh_lex False (Some x) (w @ CHR '' '' # t) = map_option ((#) (x @ w)) (sh_lex False None t)"
  by (induction w arbitrary: x) (auto simp: grow_def emit_word_def)

lemma sh_lex_plain_word:
  assumes "plain_word w"
  shows "sh_lex False None (w @ CHR '' '' # t) = map_option ((#) w) (sh_lex False None t)"
proof -
  obtain c cs where w: "w = c # cs" using assms by (cases w) (auto simp: plain_word_def)
  then have "sh_lex False None (w @ CHR '' '' # t) = sh_lex False (Some [c]) (cs @ CHR '' '' # t)"
    using assms by (simp add: plain_word_def grow_def)
  then show ?thesis using assms w by (simp add: plain_word_def sh_lex_plain)
qed

lemma sh_lex_plain_words:
  "list_all plain_word ws \<Longrightarrow>
     sh_lex False None (concat (map (\<lambda>w. w @ '' '') ws) @ t) = map_option (\<lambda>vs. ws @ vs) (sh_lex False None t)"
proof (induction ws)
  case Nil
  then show ?case by (simp add: option.map_ident)
next
  case (Cons w ws)
  then show ?case by (simp add: sh_lex_plain_word option.map_comp comp_def)
qed

definition openssh_words :: "string list" where
  "openssh_words = [''exec'', ''nix'', ''shell'', ''nixpkgs#openssh'', ''--command'']"

lemma openssh_words_plain: "list_all plain_word openssh_words" "plain_word ''sh''" "plain_word ''-c''"
  by (code_simp)+

lemma openssh_prefix:
  "''exec nix shell nixpkgs#openssh --command '' = concat (map (\<lambda>w. w @ '' '') openssh_words)"
  "''exec nix shell nixpkgs#openssh --command sh -c '' = concat (map (\<lambda>w. w @ '' '') (openssh_words @ [''sh'', ''-c'']))"
  by (simp_all add: openssh_words_def)

definition push_url :: "render_input \<Rightarrow> string" where
  "push_url inp = (case ri_store inp of None \<Rightarrow> [] | Some st \<Rightarrow> si_push st)"

lemma shell_words_openssh:
  "shell_words (''exec nix shell nixpkgs#openssh --command '' @ shellJoin cmd) = Some (openssh_words @ cmd)"
  unfolding shell_words_def openssh_prefix(1)
  by (simp only: sh_lex_plain_words openssh_words_plain sh_lex_shellJoin_end option.map)

lemma shell_words_openssh_sh:
  "shell_words (''exec nix shell nixpkgs#openssh --command sh -c '' @ shellQuote s) =
     Some (openssh_words @ [''sh'', ''-c'', s])"
proof -
  have "list_all plain_word (openssh_words @ [''sh'', ''-c''])" using openssh_words_plain by simp
  moreover have "sh_lex False None (shellQuote s) = Some [s]"
    using sh_lex_shellQuote [of None s "[]"] by (simp add: emit_word_def)
  ultimately show ?thesis
    unfolding shell_words_def openssh_prefix(2) by (simp only: sh_lex_plain_words option.map append_assoc append.simps)
qed

section \<open>Property\<close>

text \<open>C9. What the rendered command lines run. Every argument list survives quoting: the shell
  splits \<open>shellJoin args\<close> into exactly \<open>args\<close>, whatever characters they contain (quotes, blanks,
  \<open>$(...)\<close>, newlines, empty arguments). A command wrapped for SSH is \<open>sh -c\<close> of
  \<open>exec nix shell nixpkgs#openssh --command\<close> followed by the command's own words. With a store to
  push to, the instantiate command hands a single word to an inner \<open>sh -c\<close>: two commands joined by
  \<open>&&\<close> that split into the \<open>nix build\<close> and the \<open>nix copy --to\<close> of the same installables;
  otherwise it is the \<open>nix build\<close> itself, wrapped when there is a builder key.\<close>

theorem rendered_commands_run:
  "shell_words (shellJoin args) = Some args \<and>
   (\<exists>s. wrapSSH cmd True = [''sh'', ''-c'', s] \<and> shell_words s = Some (openssh_words @ cmd)) \<and>
   (if ri_ssh_secret inp \<noteq> [] \<and> push_url inp \<noteq> []
    then \<exists>s build push. instantiate_command inp = [''sh'', ''-c'', s] \<and>
       shell_words s = Some (openssh_words @ [''sh'', ''-c'', build @ '' && '' @ push]) \<and>
       shell_words build = Some (buildCommand (nx_run (ri_spec inp)) (nx_prebuild (ri_spec inp)) (nx_flags (ri_spec inp))) \<and>
       shell_words push = Some ([''nix'', ''copy'', ''--to'', push_url inp] @ nx_run (ri_spec inp) # nx_prebuild (ri_spec inp))
    else instantiate_command inp =
       wrapSSH (buildCommand (nx_run (ri_spec inp)) (nx_prebuild (ri_spec inp)) (nx_flags (ri_spec inp)))
         (ri_ssh_secret inp \<noteq> []))"
proof -
  have join: "shell_words (shellJoin as) = Some as" for as
    unfolding shell_words_def by (rule sh_lex_shellJoin_end)
  show ?thesis
    by (simp add: join wrapSSH_def instantiate_command_def Let_def push_url_def [symmetric]
        shell_words_openssh shell_words_openssh_sh del: append.simps)
      (metis join)?
qed

end
