(* ===== verification/Render_Safety.thy ===== *)
theory Render_Safety
  imports Shell_Quoting "HOL-Library.Multiset"
begin

text \<open>
  What rendering guarantees: the laws of the keyed lists (locale \<open>keyed_upsert\<close>, interpreted on
  volumes, environment variables and containers), of the mount list, and of the injected files, and
  from them the properties of \<open>renderPodTemplate\<close>: rendering a rendered template changes nothing,
  and a well-formed pod stays well formed.
\<close>

section \<open>Keyed lists\<close>

text \<open>The contract of an update by key in a list: keys stay in place, the updated key reads back, other
  keys keep their first element, and writing what is there changes nothing.\<close>

locale keyed_upsert =
  fixes key :: "'a \<Rightarrow> string"
    and upsert :: "'a list \<Rightarrow> 'a \<Rightarrow> 'a list"
  assumes upsert_keys: "map key (upsert xs x) = (if key x \<in> key ` set xs then map key xs else map key xs @ [key x])"
    and upsert_find: "find (\<lambda>y. key y = k) (upsert xs x) = (if k = key x then Some x else find (\<lambda>y. key y = k) xs)"
    and upsert_same: "find (\<lambda>y. key y = key x) xs = Some x \<Longrightarrow> upsert xs x = xs"
    and upsert_set: "set (upsert xs x) \<subseteq> insert x (set xs)"
begin

lemma distinct_upsert: "distinct (map key xs) \<Longrightarrow> distinct (map key (upsert xs x))"
  by (simp add: upsert_keys)

lemma distinct_upserts: "distinct (map key xs) \<Longrightarrow> distinct (map key (foldl upsert xs ys))"
  by (induction ys arbitrary: xs) (simp_all add: distinct_upsert)

lemma keys_upsert: "key ` set (upsert xs x) = insert (key x) (key ` set xs)"
proof -
  have "key ` set (upsert xs x) = set (map key (upsert xs x))" by simp
  then show ?thesis unfolding upsert_keys by auto
qed

lemma keys_upserts: "key ` set (foldl upsert xs ys) = key ` set xs \<union> key ` set ys"
  by (induction ys arbitrary: xs) (simp_all add: keys_upsert)

lemma set_upserts: "set (foldl upsert xs ys) \<subseteq> set xs \<union> set ys"
proof (induction ys arbitrary: xs)
  case (Cons y ys)
  then show ?case using Cons.IH [of "upsert xs y"] upsert_set [of xs y] by auto
qed simp

lemma find_upserts:
  "distinct (map key ys) \<Longrightarrow> find (\<lambda>z. key z = k) (foldl upsert xs ys) =
     (case find (\<lambda>z. key z = k) ys of Some y \<Rightarrow> Some y | None \<Rightarrow> find (\<lambda>z. key z = k) xs)"
proof (induction ys arbitrary: xs)
  case (Cons y ys)
  have "find (\<lambda>z. key z = key y) ys = None"
    using Cons.prems by (auto simp: find_None_iff image_iff)
  then show ?case using Cons by (auto simp: upsert_find split: option.splits)
qed simp

lemma upserts_same: "\<forall>y \<in> set ys. find (\<lambda>z. key z = key y) xs = Some y \<Longrightarrow> foldl upsert xs ys = xs"
  by (induction ys) (simp_all add: upsert_same)

lemma upserts_again:
  assumes "distinct (map key ys)"
  shows "foldl upsert (foldl upsert xs ys) ys = foldl upsert xs ys"
proof (rule upserts_same, rule ballI)
  fix y assume y: "y \<in> set ys"
  have "find (\<lambda>z. key z = key y) ys = Some y"
    using y assms by (induction ys) (auto simp: image_iff)
  then show "find (\<lambda>z. key z = key y) (foldl upsert xs ys) = Some y"
    by (simp add: find_upserts [OF assms])
qed

end

text \<open>The recursion all three updates share.\<close>

fun upsert_by :: "('a \<Rightarrow> string) \<Rightarrow> 'a list \<Rightarrow> 'a \<Rightarrow> 'a list" where
  "upsert_by key [] x = [x]"
| "upsert_by key (y # ys) x = (if key y = key x then x # ys else y # upsert_by key ys x)"

lemma upsert_by_keyed: "keyed_upsert key (upsert_by key)"
proof
  show "map key (upsert_by key xs x) = (if key x \<in> key ` set xs then map key xs else map key xs @ [key x])" for xs x
    by (induction xs) auto
  show "find (\<lambda>y. key y = k) (upsert_by key xs x) = (if k = key x then Some x else find (\<lambda>y. key y = k) xs)" for k xs x
    by (induction xs) auto
  show "upsert_by key xs x = xs" if "find (\<lambda>y. key y = key x) xs = Some x" for xs x
    using that by (induction xs) (auto split: if_splits)
  show "set (upsert_by key xs x) \<subseteq> insert x (set xs)" for xs x
    by (induction xs) auto
qed

lemma upsert_by_instances:
  "upsertVolume = upsert_by vol_name" "upsertEnv = upsert_by ev_name" "setContainer = upsert_by ct_name"
proof -
  have "upsertVolume vs v = upsert_by vol_name vs v" for vs v by (induction vs) auto
  then show "upsertVolume = upsert_by vol_name" by blast
  have "upsertEnv es e = upsert_by ev_name es e" for es e by (induction es) auto
  then show "upsertEnv = upsert_by ev_name" by blast
  have "setContainer cs c = upsert_by ct_name cs c" for cs c by (induction cs) auto
  then show "setContainer = upsert_by ct_name" by blast
qed

interpretation volumes: keyed_upsert vol_name upsertVolume
  unfolding upsert_by_instances by (rule upsert_by_keyed)

interpretation envs: keyed_upsert ev_name upsertEnv
  unfolding upsert_by_instances by (rule upsert_by_keyed)

interpretation containers: keyed_upsert ct_name setContainer
  unfolding upsert_by_instances by (rule upsert_by_keyed)

lemma hasEnvVar_keys: "hasEnvVar env n \<longleftrightarrow> n \<in> ev_name ` set env"
  by (auto simp: hasEnvVar_def list_ex_iff)

lemma hasEnvVar_upsert [simp]: "hasEnvVar (upsertEnv env e) n \<longleftrightarrow> n = ev_name e \<or> hasEnvVar env n"
  by (simp add: hasEnvVar_keys envs.keys_upsert)

section \<open>Mount lists\<close>

text \<open>The last mount at a path.\<close>

definition last_at :: "volume_mount list \<Rightarrow> string \<Rightarrow> volume_mount option" where
  "last_at ms p = map_option ((!) ms) (by_path ms p)"

lemma by_path_snoc: "by_path (ms @ [m]) p = (if p = vm_path m then Some (length ms) else by_path ms p)"
  by (simp add: by_path_def)

lemma by_path_Nil [simp]: "by_path [] p = None"
  by (simp add: by_path_def)

lemma by_path_SomeD: "by_path ms p = Some i \<Longrightarrow> i < length ms \<and> vm_path (ms ! i) = p"
proof (induction ms rule: rev_induct)
  case (snoc m ms)
  then show ?case by (auto simp: by_path_snoc nth_append split: if_splits)
qed simp

lemma by_path_None_iff: "by_path ms p = None \<longleftrightarrow> p \<notin> vm_path ` set ms"
  by (induction ms rule: rev_induct) (auto simp: by_path_snoc)

lemma by_path_cong: "map vm_path ms = map vm_path ns \<Longrightarrow> by_path ms p = by_path ns p"
  unfolding by_path_def by (metis length_map)

lemma last_at_filter:
  "last_at ms p = (let f = filter (\<lambda>m. vm_path m = p) ms in if f = [] then None else Some (last f))"
proof (induction ms rule: rev_induct)
  case (snoc m ms)
  have "i < length ms" if "by_path ms p = Some i" for i using that by_path_SomeD by blast
  then have "last_at (ms @ [m]) p = (if p = vm_path m then Some m else last_at ms p)"
    by (cases "by_path ms p") (auto simp: last_at_def by_path_snoc nth_append)
  with snoc show ?case by (auto simp: Let_def)
qed (simp add: last_at_def)

lemma last_at_sort [simp]: "last_at (sort_key vm_path ms) p = last_at ms p"
proof -
  have "filter (\<lambda>m. vm_path m = p) (sort_key vm_path ms) = filter (\<lambda>m. vm_path m = p) ms"
    by (rule sort_key_stable)
  then show ?thesis by (simp add: last_at_filter)
qed

lemma put_mount_paths:
  "map vm_path (put_mount (by_path ms) ms m) =
     (if vm_path m \<in> vm_path ` set ms then map vm_path ms else map vm_path ms @ [vm_path m])"
proof (cases "by_path ms (vm_path m)")
  case None
  then show ?thesis using by_path_None_iff [of ms "vm_path m"] by (simp add: put_mount_def)
next
  case (Some i)
  then have "i < length ms" "vm_path (ms ! i) = vm_path m" using by_path_SomeD by blast+
  moreover from this have "vm_path m \<in> vm_path ` set ms" by (metis imageI nth_mem)
  ultimately show ?thesis using Some by (simp add: put_mount_def map_update list_update_same_conv)
qed

lemma put_mount_set: "set (put_mount idx ms m) \<subseteq> insert m (set ms)"
  by (auto simp: put_mount_def dest: subsetD [OF set_update_subset_insert] split: option.splits)

lemma put_mount_by_path:
  "p \<noteq> vm_path m \<Longrightarrow> by_path (put_mount (by_path ms) ms m) p = by_path ms p"
proof (cases "by_path ms (vm_path m)")
  case None
  then show "p \<noteq> vm_path m \<Longrightarrow> ?thesis" by (simp add: put_mount_def by_path_snoc)
next
  case (Some i)
  then have "vm_path m \<in> vm_path ` set ms" by (metis by_path_None_iff option.distinct(1))
  then show ?thesis by (intro by_path_cong) (simp add: put_mount_paths)
qed

lemma put_mount_last: "last_at (put_mount (by_path ms) ms m) p = (if p = vm_path m then Some m else last_at ms p)"
proof (cases "by_path ms (vm_path m)")
  case None
  then show ?thesis
    by (auto simp: put_mount_def last_at_def by_path_snoc nth_append dest: by_path_SomeD
        split: option.splits intro!: option.map_cong0)
next
  case (Some i)
  then have i: "i < length ms" "vm_path (ms ! i) = vm_path m" using by_path_SomeD by blast+
  have paths: "map vm_path (ms[i := m]) = map vm_path ms" using i by (simp add: map_update list_update_same_conv)
  have "last_at (ms[i := m]) p = map_option ((!) (ms[i := m])) (by_path ms p)"
    unfolding last_at_def by (simp only: by_path_cong [OF paths])
  moreover have "j \<noteq> i" if "by_path ms p = Some j" "p \<noteq> vm_path m" for j
    using that i by_path_SomeD by blast
  ultimately show ?thesis using Some i
    by (cases "by_path ms p") (auto simp: put_mount_def last_at_def)
qed

lemma put_mounts:
  assumes "distinct (map vm_path add)" "\<forall>m \<in> set add. idx (vm_path m) = by_path ms (vm_path m)"
  shows "(\<forall>m \<in> set add. last_at (foldl (put_mount idx) ms add) (vm_path m) = Some m) \<and>
    (\<forall>p. p \<notin> vm_path ` set add \<longrightarrow> last_at (foldl (put_mount idx) ms add) p = last_at ms p) \<and>
    set (foldl (put_mount idx) ms add) \<subseteq> set ms \<union> set add \<and>
    (distinct (map vm_path ms) \<longrightarrow> distinct (map vm_path (foldl (put_mount idx) ms add)))"
  using assms
proof (induction add arbitrary: ms)
  case (Cons a add)
  let ?ms = "put_mount (by_path ms) ms a"
  have same: "put_mount idx ms a = ?ms" using Cons.prems(2) by (simp add: put_mount_def)
  have "\<forall>m \<in> set add. idx (vm_path m) = by_path ?ms (vm_path m)"
    using Cons.prems by (auto simp: put_mount_by_path image_iff)
  note IH = Cons.IH [OF _ this]
  have "last_at ?ms (vm_path a) = Some a" by (simp add: put_mount_last)
  moreover have "distinct (map vm_path ?ms)" if "distinct (map vm_path ms)"
    using that by (simp add: put_mount_paths)
  ultimately show ?case
    using IH Cons.prems(1) put_mount_set [of "by_path ms" ms a] by (auto simp: same put_mount_last)
qed simp

lemma upsertMounts_laws:
  assumes "distinct (map vm_path add)"
  shows "m \<in> set add \<Longrightarrow> last_at (upsertMounts ms add) (vm_path m) = Some m"
    "p \<notin> vm_path ` set add \<Longrightarrow> last_at (upsertMounts ms add) p = last_at ms p"
    "set (upsertMounts ms add) \<subseteq> set ms \<union> set add"
    "distinct (map vm_path ms) \<Longrightarrow> distinct (map vm_path (upsertMounts ms add))"
proof -
  let ?L = "foldl (put_mount (by_path ms)) ms add"
  have d: "distinct (map vm_path (sort_key vm_path ?L)) = distinct (map vm_path ?L)"
    by (metis mset_map mset_eq_imp_distinct_iff mset_sort)
  show "m \<in> set add \<Longrightarrow> last_at (upsertMounts ms add) (vm_path m) = Some m"
    "p \<notin> vm_path ` set add \<Longrightarrow> last_at (upsertMounts ms add) p = last_at ms p"
    "set (upsertMounts ms add) \<subseteq> set ms \<union> set add"
    "distinct (map vm_path ms) \<Longrightarrow> distinct (map vm_path (upsertMounts ms add))"
    using put_mounts [OF assms, of "by_path ms" ms] by (auto simp: upsertMounts_def d simp del: distinct_map)
qed

lemma put_mount_same: "last_at ms (vm_path m) = Some m \<Longrightarrow> put_mount (by_path ms) ms m = ms"
  by (auto simp: last_at_def put_mount_def)

lemma put_mounts_same:
  "\<forall>m \<in> set add. last_at ms (vm_path m) = Some m \<Longrightarrow> foldl (put_mount (by_path ms)) ms add = ms"
  by (induction add) (simp_all add: put_mount_same)

lemma upsertMounts_again:
  assumes "distinct (map vm_path add)"
  shows "upsertMounts (upsertMounts ms add) add = upsertMounts ms add"
proof -
  let ?R = "upsertMounts ms add"
  have "foldl (put_mount (by_path ?R)) ?R add = ?R"
    by (rule put_mounts_same) (simp add: upsertMounts_laws(1) [OF assms])
  moreover have "sorted (map vm_path ?R)" by (simp add: upsertMounts_def)
  ultimately show ?thesis unfolding upsertMounts_def [of ?R] by (simp add: sort_key_id_if_sorted)
qed

section \<open>Decimal numbers\<close>

definition read_nat :: "string \<Rightarrow> nat" where
  "read_nat s = foldl (\<lambda>a c. 10 * a + (of_char c - 48)) 0 s"

lemma digit_char_code: "n < 10 \<Longrightarrow> of_char (digit_char n) - 48 = n"
  by (simp add: digit_char_def)


lemma read_show_nat [simp]: "read_nat (show_nat n) = n"
proof (induction n rule: show_nat.induct)
  case (1 n)
  show ?case
  proof (cases "n < 10")
    case True
    then show ?thesis by (simp add: show_nat.simps [of n] read_nat_def digit_char_code)
  next
    case False
    then have "read_nat (show_nat n) = 10 * read_nat (show_nat (n div 10)) + n mod 10"
      by (simp add: show_nat.simps [of n] read_nat_def digit_char_code)
    then show ?thesis using 1 False by simp
  qed
qed

lemma show_nat_inject [simp]: "show_nat m = show_nat n \<longleftrightarrow> m = n"
  by (metis read_show_nat)


section \<open>The revision key\<close>






section \<open>Injected files\<close>

text \<open>The volume source that serves a referenced object, and the mounts of the first \<open>n\<close> of them.\<close>

definition ref_source :: "string \<Rightarrow> string \<Rightarrow> volume_source" where
  "ref_source kind name = (if kind = ''cm'' then VConfigMap name (Some 256) else VSecret name (Some 256))"

definition ref_volume :: "nat \<Rightarrow> string" where
  "ref_volume i = ''nio-file-'' @ show_nat i"

definition ref_path :: "nat \<Rightarrow> string" where
  "ref_path i = filesMountBase @ ''/'' @ show_nat i"

definition ref_mounts :: "nat \<Rightarrow> volume_mount list" where
  "ref_mounts n = map (\<lambda>i. \<lparr>vm_name = ref_volume i, vm_path = ref_path i, vm_read_only = True\<rparr>) [0..<n]"

definition inject_ok :: "inject_state \<Rightarrow> bool" where
  "inject_ok st \<longleftrightarrow>
     (\<forall>k i. map_of (inj_idx st) k = Some i \<longrightarrow> i < length (inj_idx st)) \<and>
     (\<forall>kind name i. kind \<in> {''cm'', ''sec''} \<longrightarrow> map_of (inj_idx st) (kind @ ''/'' @ name) = Some i \<longrightarrow>
        vol_source (inj_vols st ! i) = ref_source kind name) \<and>
     map vol_name (inj_vols st) = map ref_volume [0..<length (inj_idx st)] \<and>
     inj_mounts st = nix_and_workspace @ ref_mounts (length (inj_idx st))"

definition serves :: "inject_state \<Rightarrow> string \<Rightarrow> string \<Rightarrow> string \<Rightarrow> bool" where
  "serves st dir kind name \<longleftrightarrow>
     (\<exists>i. dir = ref_path i \<and> i < length (inj_vols st) \<and> vol_source (inj_vols st ! i) = ref_source kind name)"

lemma ref_key_inject:
  "kind \<in> {''cm'', ''sec''} \<Longrightarrow> kind' \<in> {''cm'', ''sec''} \<Longrightarrow>
     kind @ ''/'' @ name = kind' @ ''/'' @ name' \<longleftrightarrow> kind = kind' \<and> name = name'"
  by auto

lemma inject_ok_lengths: "inject_ok st \<Longrightarrow> length (inj_vols st) = length (inj_idx st)"
  unfolding inject_ok_def by (metis length_map length_upt minus_nat.diff_0)

lemma refDir_ok:
  assumes "inject_ok st" "kind \<in> {''cm'', ''sec''}" "refDir st kind name = (st', dir)"
  shows "inject_ok st' \<and> serves st' dir kind name \<and> (\<exists>vs. inj_vols st' = inj_vols st @ vs)"
proof (cases "map_of (inj_idx st) (kind @ ''/'' @ name)")
  case (Some i)
  then have "st' = st" "dir = ref_path i" using assms(3) by (auto simp: refDir_def ref_path_def)
  moreover have "i < length (inj_vols st)" "vol_source (inj_vols st ! i) = ref_source kind name"
    using assms(1,2) Some inject_ok_lengths [OF assms(1)] unfolding inject_ok_def by auto
  ultimately show ?thesis using assms(1) by (auto simp: serves_def)
next
  case None
  let ?n = "length (inj_idx st)"
  let ?v = "\<lparr>vol_name = ref_volume ?n, vol_source = ref_source kind name\<rparr>"
  have st': "st' = \<lparr>inj_idx = inj_idx st @ [(kind @ ''/'' @ name, ?n)], inj_vols = inj_vols st @ [?v],
      inj_mounts = inj_mounts st @ [\<lparr>vm_name = ref_volume ?n, vm_path = ref_path ?n, vm_read_only = True\<rparr>]\<rparr>"
    and dir: "dir = ref_path ?n"
    using assms(3) None by (auto simp: refDir_def ref_path_def ref_volume_def ref_source_def Let_def)
  have len: "length (inj_vols st) = ?n" by (rule inject_ok_lengths [OF assms(1)])
  have old: "i < ?n" if "map_of (inj_idx st) k = Some i" for k i
    using assms(1) that unfolding inject_ok_def by blast
  have "vol_source (inj_vols st' ! i) = ref_source kind' name'"
    if "kind' \<in> {''cm'', ''sec''}" "map_of (inj_idx st') (kind' @ ''/'' @ name') = Some i" for kind' name' i
  proof (cases "map_of (inj_idx st) (kind' @ ''/'' @ name')")
    case (Some j)
    then have "j = i" using that(2) by (simp add: st' map_add_def)
    then have "vol_source (inj_vols st ! i) = ref_source kind' name'"
      using assms(1) that(1) Some unfolding inject_ok_def by blast
    then show ?thesis using old [OF Some] \<open>j = i\<close> by (simp add: st' nth_append len)
  next
    case None
    then have "kind' = kind \<and> name' = name" "i = ?n"
      using that ref_key_inject [OF that(1) assms(2)] by (auto simp: st' map_add_def split: if_splits)
    then show ?thesis by (simp add: st' nth_append len)
  qed
  moreover have "i < length (inj_idx st')" if "map_of (inj_idx st') k = Some i" for k i
  proof (cases "map_of (inj_idx st) k")
    case (Some j)
    then show ?thesis using that old [OF Some] by (simp add: st' map_add_def)
  next
    case None
    then show ?thesis using that by (simp add: st' map_add_def split: if_splits)
  qed
  ultimately have "inject_ok st'"
    using assms(1) unfolding inject_ok_def by (simp add: st' ref_mounts_def)
  moreover have "serves st' dir kind name"
    unfolding serves_def by (rule exI [of _ ?n]) (simp add: dir st' len nth_append)
  ultimately show ?thesis by (simp add: st')
qed

lemma file_source_kind: "file_source cm i f = (kind, name, key) \<Longrightarrow> kind \<in> {''cm'', ''sec''}"
  by (auto simp: file_source_def split: option.splits)

lemma serves_append: "inj_vols st' = inj_vols st @ vs \<Longrightarrow> serves st dir kind name \<Longrightarrow> serves st' dir kind name"
  by (auto simp: serves_def nth_append)

text \<open>The lines of the script: file number \<open>i + j\<close> is copied from a directory that serves its source.\<close>

definition source_served :: "inject_state \<Rightarrow> string \<Rightarrow> nat \<Rightarrow> nix_file \<Rightarrow> string \<Rightarrow> bool" where
  "source_served st cm i f dir =
     (case file_source cm i f of (kind, name, _) \<Rightarrow> serves st dir kind name)"

definition source_key :: "string \<Rightarrow> nat \<Rightarrow> nix_file \<Rightarrow> string" where
  "source_key cm i f = snd (snd (file_source cm i f))"

lemma inject_lines_ok:
  assumes "inject_ok st" "inject_lines cm i fs st = (st', body)"
  shows "\<exists>dirs. inject_ok st' \<and> (\<exists>vs. inj_vols st' = inj_vols st @ vs) \<and> length dirs = length fs \<and>
    (\<forall>j < length fs. source_served st' cm (i + j) (fs ! j) (dirs ! j)) \<and>
    body = concat (map (\<lambda>j. inject_line (dirs ! j) (source_key cm (i + j) (fs ! j)) (fs ! j)) [0..<length fs])"
  using assms
proof (induction fs arbitrary: i st st' body)
  case (Cons f fs)
  obtain kind name key where src: "file_source cm i f = (kind, name, key)" by (metis prod_cases3)
  obtain st1 dir where ref: "refDir st kind name = (st1, dir)" by force
  obtain st2 rest where rec: "inject_lines cm (Suc i) fs st1 = (st2, rest)" by force
  have st': "st' = st2" "body = inject_line dir key f @ rest"
    using Cons.prems(2) src ref rec by auto
  note ok1 = refDir_ok [OF Cons.prems(1) file_source_kind [OF src] ref]
  obtain dirs where IH: "inject_ok st2" "\<exists>vs. inj_vols st2 = inj_vols st1 @ vs" "length dirs = length fs"
    "\<forall>j < length fs. source_served st2 cm (Suc i + j) (fs ! j) (dirs ! j)"
    "rest = concat (map (\<lambda>j. inject_line (dirs ! j) (source_key cm (Suc i + j) (fs ! j)) (fs ! j)) [0..<length fs])"
    using Cons.IH [OF conjunct1 [OF ok1] rec] by blast
  let ?line = "\<lambda>fs dirs i j. inject_line (dirs ! j) (source_key cm (i + j) (fs ! j)) (fs ! j)"
  obtain vs where vs: "inj_vols st2 = inj_vols st1 @ vs" using IH(2) by blast
  have "serves st1 dir kind name" using ok1 by blast
  then have first: "source_served st2 cm i f dir"
    using serves_append [OF vs] by (simp add: source_served_def src)
  have served: "source_served st2 cm (i + j) ((f # fs) ! j) ((dir # dirs) ! j)" if "j < length (f # fs)" for j
    using that first IH(4) by (cases j) auto
  have upt: "[0..<length (f # fs)] = 0 # map Suc [0..<length fs]"
    by (simp add: upt_conv_Cons map_Suc_upt del: upt_Suc)
  have "concat (map (?line (f # fs) (dir # dirs) i) [0..<length (f # fs)]) =
      inject_line dir key f @ concat (map (?line fs dirs (Suc i)) [0..<length fs])"
    unfolding upt by (simp add: comp_def source_key_def src)
  then have body: "body = concat (map (?line (f # fs) (dir # dirs) i) [0..<length (f # fs)])"
    by (simp only: st' IH(5))
  have vols: "\<exists>vs. inj_vols st' = inj_vols st @ vs" using ok1 vs st'(1) by force
  show ?case
    by (intro exI [of _ "dir # dirs"] conjI allI impI) (use IH(1,3) served body vols st'(1) in simp_all)
qed auto

text \<open>The starting state and the two name sets.\<close>

lemma inject_start: "inject_ok \<lparr>inj_idx = [], inj_vols = [], inj_mounts = nix_and_workspace\<rparr>"
  by (simp add: inject_ok_def ref_mounts_def)

lemma ref_names_inject [simp]: "ref_volume i = ref_volume j \<longleftrightarrow> i = j" "ref_path i = ref_path j \<longleftrightarrow> i = j"
  by (simp_all add: ref_volume_def ref_path_def)

lemma injection_result:
  assumes "additionalFilesInjection files img cm cfg = Some (c, vols)"
  shows "\<exists>st dirs. inject_ok st \<and> vols = inj_vols st \<and> ct_mounts c = inj_mounts st \<and> ct_name c = initInjectFiles \<and>
    length dirs = length files \<and> (\<forall>j < length files. source_served st cm j (files ! j) (dirs ! j)) \<and>
    last (ct_command c) = script [''set -eu'', ''cd '' @ workspaceMountPath] @
      concat (map (\<lambda>j. inject_line (dirs ! j) (source_key cm j (files ! j)) (files ! j)) [0..<length files]) @
      ''git add --force --'' @ concat (map (\<lambda>f. '' '' @ dq (nf_path f)) files) @ [CHR 0x0A]"
proof -
  let ?st0 = "\<lparr>inj_idx = [], inj_vols = [], inj_mounts = nix_and_workspace\<rparr>"
  obtain st body where run: "inject_lines cm 0 files ?st0 = (st, body)" by force
  obtain dirs where "inject_ok st" "length dirs = length files"
    "\<forall>j < length files. source_served st cm (0 + j) (files ! j) (dirs ! j)"
    "body = concat (map (\<lambda>j. inject_line (dirs ! j) (source_key cm (0 + j) (files ! j)) (files ! j)) [0..<length files])"
    using inject_lines_ok [OF inject_start run] by blast
  then show ?thesis
    using assms run
    by (intro exI [of _ st] exI [of _ dirs])
      (auto simp: additionalFilesInjection_def Let_def split: if_splits)
qed

text \<open>C22. Every injected file is copied from an object that is mounted where the script reads it: there
  is an init container exactly when there are files; its script copies each file, in order, from a
  directory that is the mount of a volume of the referenced ConfigMap or Secret (the operator's own
  ConfigMap for inline content), and force-stages exactly the listed paths.\<close>

theorem injected_files_served:
  "case additionalFilesInjection files img cm cfg of
     None \<Rightarrow> files = []
   | Some (c, vols) \<Rightarrow> files \<noteq> [] \<and>
       (\<exists>dirs. last (ct_command c) = script [''set -eu'', ''cd '' @ workspaceMountPath] @
            concat (map (\<lambda>j. inject_line (dirs ! j) (source_key cm j (files ! j)) (files ! j)) [0..<length files]) @
            ''git add --force --'' @ concat (map (\<lambda>f. '' '' @ dq (nf_path f)) files) @ [CHR 0x0A] \<and>
          list_all (\<lambda>j. case file_source cm j (files ! j) of (kind, name, _) \<Rightarrow>
            \<exists>m \<in> set (ct_mounts c). \<exists>v \<in> set vols. vm_path m = dirs ! j \<and> vm_name m = vol_name v \<and>
              vol_source v = ref_source kind name) [0..<length files])"
proof (cases "additionalFilesInjection files img cm cfg")
  case None
  then show ?thesis by (auto simp: additionalFilesInjection_def Let_def split: if_splits prod.splits)
next
  case (Some r)
  then obtain c vols where r: "additionalFilesInjection files img cm cfg = Some (c, vols)" by (cases r) simp
  obtain st dirs where ok: "inject_ok st" "vols = inj_vols st" "ct_mounts c = inj_mounts st"
      "\<forall>j < length files. source_served st cm j (files ! j) (dirs ! j)" and
    cmd: "last (ct_command c) = script [''set -eu'', ''cd '' @ workspaceMountPath] @
      concat (map (\<lambda>j. inject_line (dirs ! j) (source_key cm j (files ! j)) (files ! j)) [0..<length files]) @
      ''git add --force --'' @ concat (map (\<lambda>f. '' '' @ dq (nf_path f)) files) @ [CHR 0x0A]"
    using injection_result [OF r] by blast
  have "\<exists>m \<in> set (ct_mounts c). \<exists>v \<in> set vols. vm_path m = dir \<and> vm_name m = vol_name v \<and>
      vol_source v = ref_source kind name" if sv: "serves st dir kind name" for dir kind name
  proof -
    obtain i where i: "dir = ref_path i" "i < length (inj_vols st)" "vol_source (inj_vols st ! i) = ref_source kind name"
      using sv unfolding serves_def by blast
    let ?m = "\<lparr>vm_name = ref_volume i, vm_path = ref_path i, vm_read_only = True\<rparr>"
    have "map vol_name (inj_vols st) ! i = map ref_volume [0..<length (inj_idx st)] ! i"
      using ok(1) unfolding inject_ok_def by metis
    then have "vol_name (inj_vols st ! i) = ref_volume i" using i(2) inject_ok_lengths [OF ok(1)] by simp
    moreover have "?m \<in> set (ct_mounts c)"
      using ok(1,3) i(2) inject_ok_lengths [OF ok(1)] by (auto simp: inject_ok_def ref_mounts_def)
    moreover have "inj_vols st ! i \<in> set vols" using i(2) ok(2) by simp
    ultimately show ?thesis using i by (intro bexI [of _ ?m] bexI [of _ "inj_vols st ! i"]) simp_all
  qed
  then have "list_all (\<lambda>j. case file_source cm j (files ! j) of (kind, name, _) \<Rightarrow>
      \<exists>m \<in> set (ct_mounts c). \<exists>v \<in> set vols. vm_path m = dirs ! j \<and> vm_name m = vol_name v \<and>
        vol_source v = ref_source kind name) [0..<length files]"
    using ok(4) by (auto simp: list_all_iff source_served_def split: prod.splits)
  moreover have "files \<noteq> []" using r by (auto simp: additionalFilesInjection_def)
  ultimately show ?thesis using cmd by (auto simp: r)
qed

section \<open>Rendering twice\<close>

lemma app_container_name [simp]: "ct_name (app_container inp img cfg u) = ct_name u"
  by (simp add: app_container_def Let_def)

lemma findOrNewContainer_name [simp]: "ct_name (findOrNewContainer cs n) = n"
  by (auto simp: findOrNewContainer_def find_Some_iff split: option.split)

lemma build_mounts_distinct: "distinct (map vm_path (build_mounts inp))"
  by (simp add: build_mounts_def nix_and_workspace_def const_defs)

lemma nix_config_env_name [simp]: "ev_name (nix_config_env c) = ''NIX_CONFIG''"
  by (simp add: nix_config_env_def)

text \<open>The environment of the app container.\<close>

definition app_env :: "render_input \<Rightarrow> string \<Rightarrow> env_var list \<Rightarrow> env_var list" where
  "app_env inp cfg env0 =
     (let env = upsertEnv env0 (nix_config_env cfg) in
      if \<not> hasEnvVar env ''NIX_SSHOPTS'' \<and> ri_ssh_secret inp \<noteq> []
      then upsertEnv env \<lparr>ev_name = ''NIX_SSHOPTS'', ev_value = sshHostKeyOpts\<rparr> else env)"

lemma app_env_has: "hasEnvVar (app_env inp cfg env) ''NIX_SSHOPTS'' \<longleftrightarrow>
    ri_ssh_secret inp \<noteq> [] \<or> hasEnvVar env ''NIX_SSHOPTS''"
  by (simp add: app_env_def Let_def)

lemma app_env_again: "app_env inp cfg (app_env inp cfg env) = app_env inp cfg env"
proof -
  have "find (\<lambda>y. ev_name y = ev_name (nix_config_env cfg)) (app_env inp cfg env) = Some (nix_config_env cfg)"
    by (simp add: app_env_def Let_def envs.upsert_find)
  then have "upsertEnv (app_env inp cfg env) (nix_config_env cfg) = app_env inp cfg env"
    by (rule envs.upsert_same)
  then show ?thesis using app_env_has [of inp cfg env] by (auto simp: app_env_def [of inp cfg "app_env inp cfg env"] Let_def)
qed

lemma app_container_eq:
  "app_container inp img cfg u = u\<lparr>ct_image := img, ct_workdir := work_dir (ri_spec inp),
     ct_command := wrapSSH (runCommand (nx_run (ri_spec inp)) (nx_args (ri_spec inp)) (nx_flags (ri_spec inp)))
       (ri_ssh_secret inp \<noteq> [] \<or> hasEnvVar (ct_env u) ''NIX_SSHOPTS''),
     ct_args := [], ct_env := app_env inp cfg (ct_env u),
     ct_mounts := upsertMounts (ct_mounts u) (build_mounts inp)\<rparr>"
  by (simp add: app_container_def app_env_def Let_def)

lemma app_container_again:
  "app_container inp img cfg (app_container inp img cfg u) = app_container inp img cfg u"
  unfolding app_container_eq
  by (simp add: app_env_again app_env_has upsertMounts_again [OF build_mounts_distinct])

text \<open>The volumes the renderer upserts have distinct names.\<close>

lemma injected_volume_names:
  "\<exists>n. map vol_name (injected_volumes inp img cfg) = map ref_volume [0..<n]"
proof (cases "additionalFilesInjection (nx_files (ri_spec inp)) img (additionalFilesConfigMapName (ri_name inp)) cfg")
  case None
  then show ?thesis by (auto simp: injected_volumes_def intro: exI [of _ 0])
next
  case (Some r)
  then show ?thesis
    using injection_result unfolding injected_volumes_def inject_ok_def
    by (cases r) (force split: option.splits)
qed

lemma ref_volume_not_owned: "ref_volume i \<notin> vol_name ` set (owned_volumes inp)"
  by (auto simp: owned_volumes_def nixStoreVolume_def Let_def ref_volume_def const_defs)

lemma rendered_volumes_distinct:
  "distinct (map vol_name (owned_volumes inp @ injected_volumes inp img cfg))"
proof -
  obtain n where n: "map vol_name (injected_volumes inp img cfg) = map ref_volume [0..<n]"
    using injected_volume_names by blast
  have "distinct (map ref_volume [0..<n])" by (simp add: distinct_map inj_on_def)
  moreover have "distinct (map vol_name (owned_volumes inp))"
    by (auto simp: owned_volumes_def nixStoreVolume_def Let_def const_defs)
  moreover have "set (map vol_name (owned_volumes inp)) \<inter> set (map ref_volume [0..<n]) = {}"
    using ref_volume_not_owned by (force simp: disjoint_iff)
  ultimately show ?thesis unfolding map_append n distinct_append by blast
qed

lemma rendered_init_names:
  "map ct_name (rendered_inits inp img cfg) =
     (if nx_files (ri_spec inp) = [] then [initBootstrap, initFetchSource, initInstantiate] else owned_inits)"
proof -
  let ?inj = "additionalFilesInjection (nx_files (ri_spec inp)) img (additionalFilesConfigMapName (ri_name inp)) cfg"
  have names: "ct_name (bootstrap_container img) = initBootstrap" "ct_name (fetch_container inp img cfg) = initFetchSource"
    "ct_name (instantiate_container inp img cfg) = initInstantiate"
    by (simp_all add: bootstrap_container_def fetch_container_def instantiate_container_def Let_def)
  show ?thesis
  proof (cases ?inj)
    case None
    then have "nx_files (ri_spec inp) = []"
      by (auto simp: additionalFilesInjection_def Let_def split: if_splits prod.splits)
    then show ?thesis using None by (simp add: rendered_inits_def names)
  next
    case (Some r)
    then obtain c vs where r: "?inj = Some (c, vs)" by (cases r) simp
    then have "nx_files (ri_spec inp) \<noteq> []" by (auto simp: additionalFilesInjection_def)
    moreover have "ct_name c = initInjectFiles" using injection_result [OF r] by blast
    ultimately show ?thesis by (simp add: rendered_inits_def names r owned_inits_def)
  qed
qed

lemma filterOut_rendered:
  "filterOutContainers (rendered_inits inp img cfg @ filterOutContainers cs owned_inits) owned_inits =
     filterOutContainers cs owned_inits"
proof -
  have "ct_name c \<in> set owned_inits" if "c \<in> set (rendered_inits inp img cfg)" for c
  proof -
    have "ct_name c \<in> set (map ct_name (rendered_inits inp img cfg))" using that by simp
    then show ?thesis unfolding rendered_init_names by (auto simp: owned_inits_def split: if_splits)
  qed
  then show ?thesis by (auto simp: filterOutContainers_def filter_empty_conv)
qed

lemma map_add_again: "((m ++ l)(k \<mapsto> v) ++ l)(k \<mapsto> v) = (m ++ (l :: labels))(k \<mapsto> v)"
  by (auto simp: map_add_def fun_eq_iff split: option.split)

text \<open>C26. Rendering is idempotent: rendering a template that was already rendered from the same input
  returns it unchanged, so repeated reconciles never roll a workload by themselves.\<close>

theorem renderPodTemplate_idempotent:
  "renderPodTemplate inp (renderPodTemplate inp base) = renderPodTemplate inp base"
proof -
  let ?n = "app_name (ri_spec inp)"
  have app: "findOrNewContainer (setContainer cs (app_container inp img cfg (findOrNewContainer cs ?n))) ?n =
      app_container inp img cfg (findOrNewContainer cs ?n)" for cs img cfg
    by (simp add: findOrNewContainer_def [of "setContainer _ _"] containers.upsert_find)
  have set_app: "setContainer (setContainer cs c) c = setContainer cs c" for cs c
    by (rule containers.upsert_same) (simp add: containers.upsert_find)
  show ?thesis
    by (simp add: renderPodTemplate_def Let_def app app_container_again set_app filterOut_rendered
        volumes.upserts_again [OF rendered_volumes_distinct] map_add_again del: foldl_append)
qed

section \<open>Well-formed pods\<close>

text \<open>
  What the API server checks of a pod: volume names are unique, container names are unique across
  init and main containers, and in each container the mount paths are unique and every mount names a
  volume of the pod.
\<close>

definition mounts_ok :: "string set \<Rightarrow> container \<Rightarrow> bool" where
  "mounts_ok V c \<longleftrightarrow> distinct (map vm_path (ct_mounts c)) \<and> vm_name ` set (ct_mounts c) \<subseteq> V"

definition pod_ok :: "pod_spec \<Rightarrow> bool" where
  "pod_ok p \<longleftrightarrow>
     distinct (map vol_name (ps_volumes p)) \<and>
     distinct (map ct_name (ps_init p @ ps_containers p)) \<and>
     list_all (mounts_ok (vol_name ` set (ps_volumes p))) (ps_init p @ ps_containers p)"

text \<open>No user container takes a name of the operator's init containers, and the app container is not
  one of the user's init containers.\<close>

definition names_free :: "string \<Rightarrow> pod_spec \<Rightarrow> bool" where
  "names_free app p \<longleftrightarrow> app \<notin> set owned_inits \<and> app \<notin> ct_name ` set (ps_init p) \<and>
     list_all (\<lambda>c. ct_name c \<notin> set owned_inits) (ps_containers p)"

lemma mounts_ok_mono: "mounts_ok V c \<Longrightarrow> V \<subseteq> W \<Longrightarrow> mounts_ok W c"
  by (auto simp: mounts_ok_def)

definition rendered_volumes :: "render_input \<Rightarrow> string \<Rightarrow> string \<Rightarrow> string set" where
  "rendered_volumes inp img cfg = vol_name ` set (owned_volumes inp @ injected_volumes inp img cfg)"

lemma owned_volume_names:
  "nixStorePodVolume \<in> rendered_volumes inp img cfg" "workspaceVolume \<in> rendered_volumes inp img cfg"
  "ri_ssh_secret inp \<noteq> [] \<Longrightarrow> sshVolumeName \<in> rendered_volumes inp img cfg"
  "creds_secret (ri_spec inp) \<noteq> [] \<Longrightarrow> gitCredsVolumeName \<in> rendered_volumes inp img cfg"
  by (auto simp: rendered_volumes_def owned_volumes_def nixStoreVolume_def Let_def)

lemma build_mounts_names: "vm_name ` set (build_mounts inp) \<subseteq> rendered_volumes inp img cfg"
  using owned_volume_names [of inp img cfg] by (auto simp: build_mounts_def nix_and_workspace_def)

lemma inject_container_ok:
  assumes "additionalFilesInjection (nx_files (ri_spec inp)) img (additionalFilesConfigMapName (ri_name inp)) cfg = Some (c, vs)"
  shows "mounts_ok (rendered_volumes inp img cfg) c"
proof -
  obtain st where st: "inject_ok st" "vs = inj_vols st" "ct_mounts c = inj_mounts st"
    using injection_result [OF assms] by blast
  let ?n = "length (inj_idx st)"
  have mounts: "ct_mounts c = nix_and_workspace @ ref_mounts ?n" and names: "map vol_name vs = map ref_volume [0..<?n]"
    using st by (simp_all add: inject_ok_def)
  have "vol_name ` set vs \<subseteq> rendered_volumes inp img cfg"
    using assms by (auto simp: rendered_volumes_def injected_volumes_def)
  moreover have "vol_name ` set vs = ref_volume ` {0..<?n}" using arg_cong [OF names, of set] by simp
  ultimately have "vm_name ` set (ct_mounts c) \<subseteq> rendered_volumes inp img cfg"
    using owned_volume_names(1,2) [of inp img cfg] by (auto simp: mounts nix_and_workspace_def ref_mounts_def)
  moreover have "map vm_path (ref_mounts ?n) = map ref_path [0..<?n]" by (simp add: ref_mounts_def)
  moreover have "distinct (map ref_path [0..<?n])" by (simp add: distinct_map inj_on_def)
  moreover have "nixMountPath \<noteq> ref_path i" "workspaceMountPath \<noteq> ref_path i" for i
    by (simp_all add: const_defs ref_path_def)
  ultimately show ?thesis
    by (auto simp: mounts_ok_def mounts nix_and_workspace_def ref_mounts_def const_defs distinct_map comp_def)
qed

lemma rendered_inits_ok: "list_all (mounts_ok (rendered_volumes inp img cfg)) (rendered_inits inp img cfg)"
proof -
  have "mounts_ok (rendered_volumes inp img cfg) (bootstrap_container img)"
    using owned_volume_names(1) [of inp img cfg] by (simp add: mounts_ok_def bootstrap_container_def)
  moreover have "mounts_ok (rendered_volumes inp img cfg) (fetch_container inp img cfg)"
    using owned_volume_names [of inp img cfg]
    by (auto simp: mounts_ok_def fetch_container_def Let_def nix_and_workspace_def const_defs)
  moreover have "mounts_ok (rendered_volumes inp img cfg) (instantiate_container inp img cfg)"
    using build_mounts_names [of inp img cfg] build_mounts_distinct [of inp]
    by (simp add: mounts_ok_def instantiate_container_def)
  ultimately show ?thesis
    using inject_container_ok [of inp img cfg] by (auto simp: rendered_inits_def split: option.split)
qed

lemma app_container_ok:
  assumes "mounts_ok V u" "rendered_volumes inp img cfg \<subseteq> V"
  shows "mounts_ok V (app_container inp img cfg u)"
proof -
  note laws = upsertMounts_laws(3,4) [OF build_mounts_distinct, of "ct_mounts u" inp]
  have "vm_name ` set (upsertMounts (ct_mounts u) (build_mounts inp)) \<subseteq>
      vm_name ` set (ct_mounts u) \<union> vm_name ` set (build_mounts inp)"
    using image_mono [OF laws(1), of vm_name] by (simp only: image_Un)
  also have "\<dots> \<subseteq> V"
    using build_mounts_names [of inp img cfg] assms unfolding mounts_ok_def by blast
  finally have "vm_name ` set (upsertMounts (ct_mounts u) (build_mounts inp)) \<subseteq> V" .
  then show ?thesis using laws(2) assms(1) by (simp add: mounts_ok_def app_container_eq)
qed

lemma findOrNewContainer_cases:
  "findOrNewContainer cs n \<in> set cs \<or> findOrNewContainer cs n = zero_container\<lparr>ct_name := n\<rparr>"
  by (auto simp: findOrNewContainer_def find_Some_iff split: option.split)

lemma user_container_ok:
  "list_all (mounts_ok V) cs \<Longrightarrow> mounts_ok V (findOrNewContainer cs n)"
  using findOrNewContainer_cases [of cs n] by (auto simp: mounts_ok_def zero_container_def list_all_iff)

lemma rendered_names_distinct:
  assumes "distinct (map ct_name (ps_init p @ ps_containers p))" "names_free app p"
    and c: "ct_name c = app"
  shows "distinct (map ct_name ((rendered_inits inp img cfg @ filterOutContainers (ps_init p) owned_inits) @
    setContainer (ps_containers p) c))"
proof -
  have sub: "set (map ct_name (rendered_inits inp img cfg)) \<subseteq> set owned_inits"
    and d: "distinct (map ct_name (rendered_inits inp img cfg))"
    unfolding rendered_init_names by (auto simp: owned_inits_def const_defs)
  have "distinct (map ct_name (filterOutContainers (ps_init p) owned_inits))"
    using assms(1) by (simp add: filterOutContainers_def distinct_map_filter)
  moreover have "distinct (map ct_name (setContainer (ps_containers p) c))"
    using assms(1) by (intro containers.distinct_upsert) simp
  moreover have "ct_name ` set (setContainer (ps_containers p) c) = insert app (ct_name ` set (ps_containers p))"
    by (simp add: containers.keys_upsert c)
  ultimately show ?thesis
    using assms(1,2) sub d
    by (auto simp: names_free_def filterOutContainers_def list_all_iff simp del: distinct_map)
qed

lemma rendered_pod_ok:
  assumes "pod_ok (pt_spec base)" "names_free (app_name (ri_spec inp)) (pt_spec base)"
  shows "pod_ok (pt_spec (renderPodTemplate inp base))"
proof -
  let ?p = "pt_spec base" and ?img = "runner_image (ri_spec inp)" and ?cfg = "buildNixConfig (ri_store inp) (ri_builder inp)"
  let ?u = "findOrNewContainer (ps_containers ?p) (app_name (ri_spec inp))"
  let ?vs = "foldl upsertVolume (ps_volumes ?p) (owned_volumes inp @ injected_volumes inp ?img ?cfg)"
  let ?V = "vol_name ` set ?vs"
  have V: "?V = vol_name ` set (ps_volumes ?p) \<union> rendered_volumes inp ?img ?cfg"
    unfolding rendered_volumes_def by (rule volumes.keys_upserts)
  have base: "list_all (mounts_ok ?V) (ps_init ?p)" "list_all (mounts_ok ?V) (ps_containers ?p)"
    using assms(1) unfolding V by (auto simp: pod_ok_def list_all_iff intro: mounts_ok_mono)
  have inits: "list_all (mounts_ok ?V) (rendered_inits inp ?img ?cfg)"
    using rendered_inits_ok [of inp ?img ?cfg] unfolding V by (auto simp: list_all_iff intro: mounts_ok_mono)
  have app: "mounts_ok ?V (app_container inp ?img ?cfg ?u)"
    by (rule app_container_ok) (use user_container_ok [OF base(2)] V in auto)
  have "list_all (mounts_ok ?V) (setContainer (ps_containers ?p) (app_container inp ?img ?cfg ?u))"
    using containers.upsert_set [of "ps_containers ?p" "app_container inp ?img ?cfg ?u"] base(2) app
    by (auto simp: list_all_iff)
  moreover have "list_all (mounts_ok ?V) (filterOutContainers (ps_init ?p) owned_inits)"
    using base(1) by (auto simp: filterOutContainers_def list_all_iff)
  moreover have "distinct (map vol_name ?vs)"
    using assms(1) by (intro volumes.distinct_upserts) (simp add: pod_ok_def)
  moreover have "distinct (map ct_name ((rendered_inits inp ?img ?cfg @ filterOutContainers (ps_init ?p) owned_inits) @
      setContainer (ps_containers ?p) (app_container inp ?img ?cfg ?u)))"
    by (rule rendered_names_distinct [where app = "app_name (ri_spec inp)"]) (use assms in \<open>auto simp: pod_ok_def\<close>)
  ultimately show ?thesis
    using inits by (simp add: renderPodTemplate_def Let_def pod_ok_def)
qed

text \<open>C24. Rendering keeps pods well formed: from a template whose volumes, containers and mounts the API
  server would accept, whatever sidecars, volumes and mounts the user put there, it renders one whose
  volume and container names are still unique and in which every mount, the user's and the operator's,
  still has its volume and its own path. Container names of the operator must be free.\<close>

theorem render_well_formed:
  assumes "pod_ok (pt_spec base)" "names_free (app_name (ri_spec inp)) (pt_spec base)"
  shows "pod_ok (pt_spec (renderPodTemplate inp base))"
  by (rule rendered_pod_ok [OF assms])

definition sample_input :: render_input where
  "sample_input = \<lparr>ri_spec = zero_nix_spec\<lparr>nx_run := ''.#app'', nx_files := [\<lparr>nf_path = ''a.nix'',
       nf_inline = Some ''{ }'', nf_configmap = None, nf_secret = None\<rparr>]\<rparr>,
     ri_revision = ''abc'', ri_artifact = [], ri_store = None, ri_builder = None, ri_ssh_secret = ''st-ssh'',
     ri_kind = ''NixJob'', ri_name = ''job''\<rparr>"

lemma render_well_formed_witness: "pod_ok (pt_spec (renderPodTemplate sample_input zero_pod_template))"
  by (rule render_well_formed)
    (simp_all add: pod_ok_def names_free_def zero_pod_template_def zero_pod_spec_def sample_input_def zero_nix_spec_def
      app_name_def owned_inits_def const_defs defaultAppContainer_def)

end
