(* ===== verification/Git_Source.thy ===== *)
theory Git_Source
  imports Render
begin

text \<open>
  Turning a flake source into an immutable revision (\<open>nixresolve.go\<close>, \<open>gitauth.go\<close>): reading
  credentials, the environment and temporary files of \<open>git ls-remote\<close>, parsing its answer, and
  the Flux artifact. The cleanup function that \<open>Creds.Env\<close> returns is the directory it removes,
  \<open>None\<close> for the no-op; \<open>defer cleanup()\<close> is the removal after the process has answered.
\<close>

section \<open>Credentials\<close>

definition data_value :: "labels \<Rightarrow> string \<Rightarrow> string" where
  "data_value d k = (case d k of None \<Rightarrow> [] | Some v \<Rightarrow> v)"

definition CredsIsZero :: "git_creds option \<Rightarrow> bool" where
  "CredsIsZero c = (case c of None \<Rightarrow> True
     | Some x \<Rightarrow> gc_username x = [] \<and> gc_password x = [] \<and> gc_ssh_key x = [])"

definition askpass_script :: string where
  \<open>askpass_script = script
     [''#!/bin/sh'',
      ''case "$1" in'',
      ''*Username*) printf '' @ [CHR 0x27] @ ''%s'' @ [CHR 0x27] @ '' "$GIT_ASKPASS_USER" ;;'',
      ''*) printf '' @ [CHR 0x27] @ ''%s'' @ [CHR 0x27] @ '' "$GIT_ASKPASS_PASS" ;;'',
      ''esac'']\<close>

text \<open>The failed write of a credential file: clean up, then report.\<close>

definition abandon_dir :: "'w env \<Rightarrow> string \<Rightarrow> err \<Rightarrow> ('w, err + string list \<times> string option) prog" where
  "abandon_dir E dir e = do { host_remove_all E dir; State_Monad.return (Inl e) }"

definition ssh_command_env :: "string \<Rightarrow> string \<Rightarrow> string list" where
  "ssh_command_env keyPath rest = [''GIT_SSH_COMMAND=ssh -i '' @ keyPath @ '' -o IdentitiesOnly=yes'' @ rest]"

definition ssh_creds_env :: "'w env \<Rightarrow> git_creds \<Rightarrow> string \<Rightarrow> string \<Rightarrow> ('w, err + string list \<times> string option) prog" where
  "ssh_creds_env E c repo dir =
     (if gc_ssh_key c = []
      then abandon_dir E dir (mk_err (''ssh repo '' @ go_quote repo @ '' requires an '' @ [CHR 0x27] @
        ''ssh-privatekey'' @ [CHR 0x27] @ '' credential''))
      else do {
        let keyPath = path_join2 dir ''id'';
        w \<leftarrow> host_write_file E keyPath (gc_ssh_key c) 384;
        (case w of
           Some e \<Rightarrow> abandon_dir E dir (wrap_err ''write ssh key: '' e)
         | None \<Rightarrow>
             if gc_known_hosts c \<noteq> [] then do {
               let khPath = path_join2 dir ''known_hosts'';
               k \<leftarrow> host_write_file E khPath (gc_known_hosts c) 384;
               (case k of
                  Some e \<Rightarrow> abandon_dir E dir (wrap_err ''write known_hosts: '' e)
                | None \<Rightarrow> State_Monad.return (Inr (ssh_command_env keyPath
                    ('' -o StrictHostKeyChecking=yes -o UserKnownHostsFile='' @ khPath), Some dir)))
             }
             else State_Monad.return (Inr (ssh_command_env keyPath
                    '' -o StrictHostKeyChecking=no -o UserKnownHostsFile=/dev/null'', Some dir)))
      })"

definition https_creds_env :: "'w env \<Rightarrow> git_creds \<Rightarrow> string \<Rightarrow> ('w, err + string list \<times> string option) prog" where
  "https_creds_env E c dir = do {
     let askPath = path_join2 dir ''askpass.sh'';
     w \<leftarrow> host_write_file E askPath askpass_script 448;
     (case w of
        Some e \<Rightarrow> abandon_dir E dir (wrap_err ''write askpass helper: '' e)
      | None \<Rightarrow> State_Monad.return (Inr (
          [''GIT_ASKPASS='' @ askPath,
           ''GIT_ASKPASS_USER='' @ (if gc_username c = [] then ''git'' else gc_username c),
           ''GIT_ASKPASS_PASS='' @ gc_password c], Some dir)))
   }"

definition CredsEnv :: "'w env \<Rightarrow> git_creds \<Rightarrow> string \<Rightarrow> ('w, err + string list \<times> string option) prog" where
  "CredsEnv E c repo =
     (if CredsIsZero (Some c) then State_Monad.return (Inr ([], None))
      else do {
        d \<leftarrow> host_mkdir_temp E ''nio-gitauth-'';
        (case d of
           Inl e \<Rightarrow> State_Monad.return (Inl (wrap_err ''create temp dir: '' e))
         | Inr dir \<Rightarrow> if IsSSHRepo repo then ssh_creds_env E c repo dir else https_creds_env E c dir)
      })"

section \<open>git ls-remote\<close>

record ls_acc =
  la_head :: string
  la_tag :: string
  la_peeled :: string
  la_first :: string

definition ls_line :: "string \<Rightarrow> ls_acc \<Rightarrow> string \<Rightarrow> ls_acc" where
  "ls_line ref acc line =
     (case Go_Std.fields line of
        sha # name # _ \<Rightarrow>
          (let acc1 = (if la_first acc = [] then acc\<lparr>la_first := sha\<rparr> else acc) in
           if name = ''refs/tags/'' @ ref @ ''^{}'' then acc1\<lparr>la_peeled := sha\<rparr>
           else if name = ''refs/heads/'' @ ref then acc1\<lparr>la_head := sha\<rparr>
           else if name = ''refs/tags/'' @ ref then acc1\<lparr>la_tag := sha\<rparr>
           else acc1)
      | _ \<Rightarrow> acc)"

definition parseLsRemote :: "string \<Rightarrow> string \<Rightarrow> err + string" where
  "parseLsRemote out ref =
     (let lines = split_on (CHR 0x0A) (trim_space out) in
      if lines = [] \<or> hd lines = [] then Inl (mk_err (''ref '' @ go_quote ref @ '' not found''))
      else
        (let acc = foldl (ls_line ref) \<lparr>la_head = [], la_tag = [], la_peeled = [], la_first = []\<rparr> lines in
         if la_peeled acc \<noteq> [] then Inr (la_peeled acc)
         else if la_head acc \<noteq> [] then Inr (la_head acc)
         else if la_tag acc \<noteq> [] then Inr (la_tag acc)
         else if la_first acc \<noteq> [] then Inr (la_first acc)
         else Inl (mk_err (''ref '' @ go_quote ref @ '' not found in ls-remote output''))))"

definition ls_argv :: "string \<Rightarrow> string \<Rightarrow> string list" where
  "ls_argv repo ref = [''git'', ''ls-remote'', repo, ref]"

text \<open>Running the process and parsing its output.\<close>

definition run_ls_remote :: "'w env \<Rightarrow> string \<Rightarrow> string \<Rightarrow> string list \<Rightarrow> ('w, err + string) prog" where
  "run_ls_remote E repo ref env = do {
     out \<leftarrow> host_exec E (ls_argv repo ref) (''GIT_TERMINAL_PROMPT=0'' # env);
     State_Monad.return (case out of
        Inl e \<Rightarrow> Inl (wrap_err (''git ls-remote '' @ repo @ '' '' @ ref @ '': '') e)
      | Inr text \<Rightarrow> parseLsRemote text ref)
   }"

definition ExecLsRemote :: "'w env \<Rightarrow> string \<Rightarrow> string \<Rightarrow> git_creds option \<Rightarrow> ('w, err + string) prog" where
  "ExecLsRemote E repo ref creds =
     (if repo = [] then State_Monad.return (Inl (mk_err ''gitRepo is empty''))
      else
        (case creds of
           None \<Rightarrow> run_ls_remote E repo ref []
         | Some c \<Rightarrow> do {
             ce \<leftarrow> CredsEnv E c repo;
             (case ce of
                Inl e \<Rightarrow> State_Monad.return (Inl e)
              | Inr (env, cleanup) \<Rightarrow> do {
                  r \<leftarrow> run_ls_remote E repo ref env;
                  (case cleanup of
                     None \<Rightarrow> State_Monad.return r
                   | Some dir \<Rightarrow> do { host_remove_all E dir; State_Monad.return r })
                })
           }))"

text \<open>The resolver a reconciler uses: its own when one is set, else \<open>ExecGitResolver\<close>.\<close>

definition gitLsRemote :: "'w env \<Rightarrow> string \<Rightarrow> string \<Rightarrow> git_creds option \<Rightarrow> ('w, err + string) prog" where
  "gitLsRemote E repo ref creds =
     (case h_git (e_host E) of
        Some f \<Rightarrow> api_call (f repo ref creds) (\<lambda>r. EvHost (GitAsked repo ref r))
      | None \<Rightarrow> ExecLsRemote E repo ref creds)"

section \<open>Resolving\<close>

record resolved_source =
  rs_revision :: string
  rs_artifact :: string

definition defaultGitRef :: string where
  "defaultGitRef = ''main''"

definition defaultFluxAPIVersion :: string where
  "defaultFluxAPIVersion = ''source.toolkit.fluxcd.io/v1''"

definition creds_of_secret :: "secret \<Rightarrow> git_creds" where
  "creds_of_secret sec =
     (let d = sec_data sec;
          password = trim_space (data_value d ''password'')
      in \<lparr>gc_username = trim_space (data_value d ''username''),
          gc_password = (if password = []
            then (case d ''token'' of Some t \<Rightarrow> trim_space t | None \<Rightarrow> password) else password),
          gc_ssh_key = data_value d ''ssh-privatekey'',
          gc_known_hosts = data_value d ''known_hosts''\<rparr>)"

definition readGitCreds :: "'w env \<Rightarrow> string \<Rightarrow> string \<Rightarrow> ('w, err + git_creds) prog" where
  "readGitCreds E ns name = do {
     r \<leftarrow> api_get (e_secrets E) EvSecret \<lparr>k_ns = ns, k_name = name\<rparr>;
     State_Monad.return (case r of
        Inl e \<Rightarrow> Inl (wrap_err (''read git credentials secret '' @ go_quote name @ '': '') e)
      | Inr sec \<Rightarrow> Inr (creds_of_secret sec))
   }"

text \<open>\<open>strings.LastIndex(rev, ":")\<close> and the rest after it.\<close>

definition normalizeFluxRevision :: "string \<Rightarrow> string" where
  "normalizeFluxRevision r = last (split_on (CHR '':'') r)"

definition resolveFluxArtifact :: "'w env \<Rightarrow> string \<Rightarrow> flux_source_ref \<Rightarrow> ('w, err + resolved_source) prog" where
  "resolveFluxArtifact E ns ref = do {
     let apiVersion = (if fx_api_version ref = [] then defaultFluxAPIVersion else fx_api_version ref);
     let what = fx_kind ref @ ''/'' @ fx_name ref;
     r \<leftarrow> api_get (e_flux E apiVersion (fx_kind ref)) EvFlux \<lparr>k_ns = ns, k_name = fx_name ref\<rparr>;
     State_Monad.return (case r of
        Inl e \<Rightarrow> Inl (wrap_err (''reading flux source '' @ what @ '': '') e)
      | Inr obj \<Rightarrow>
          (case fxo_revision obj of
             NestedFound (c # cs) \<Rightarrow>
               (case fxo_url obj of
                  NestedFound (d # ds) \<Rightarrow>
                    Inr \<lparr>rs_revision = normalizeFluxRevision (c # cs), rs_artifact = d # ds\<rparr>
                | _ \<Rightarrow> Inl (mk_err (''flux source '' @ what @ '' has no status.artifact.url yet'')))
           | _ \<Rightarrow> Inl (mk_err (''flux source '' @ what @ '' has no status.artifact.revision yet''))))
   }"

text \<open>Polling the git remote, with the credentials of the source's Secret.\<close>

definition resolve_ref :: "'w env \<Rightarrow> string \<Rightarrow> nix_source \<Rightarrow> ('w, err + resolved_source) prog" where
  "resolve_ref E ns src = do {
     let ref = (if src_ref src = [] then defaultGitRef else src_ref src);
     creds \<leftarrow> (case src_credentials src of
        None \<Rightarrow> State_Monad.return (Inr None)
      | Some name \<Rightarrow> do {
          c \<leftarrow> readGitCreds E ns name;
          State_Monad.return (map_sum (\<lambda>e. e) Some c)
        });
     (case creds of
        Inl e \<Rightarrow> State_Monad.return (Inl e)
      | Inr cs \<Rightarrow> do {
          r \<leftarrow> gitLsRemote E (src_git_repo src) ref cs;
          State_Monad.return (map_sum (\<lambda>e. e) (\<lambda>sha. \<lparr>rs_revision = sha, rs_artifact = []\<rparr>) r)
        })
   }"

definition resolveRevision :: "'w env \<Rightarrow> string \<Rightarrow> nix_source \<Rightarrow> ('w, err + resolved_source) prog" where
  "resolveRevision E ns src =
     (if src_rev src \<noteq> [] then State_Monad.return (Inr \<lparr>rs_revision = src_rev src, rs_artifact = []\<rparr>)
      else (case src_flux src of
        Some ref \<Rightarrow> resolveFluxArtifact E ns ref
      | None \<Rightarrow> resolve_ref E ns src))"

section \<open>What parseLsRemote picks\<close>

















section \<open>Temporary credential files\<close>

text \<open>Writing a credential file of the directory readable by its owner only, or running git.\<close>

definition creds_files :: "string \<Rightarrow> string set" where
  "creds_files d = {path_join2 d ''id'', path_join2 d ''known_hosts'', path_join2 d ''askpass.sh''}"

fun creds_step :: "string \<Rightarrow> string list \<Rightarrow> event \<Rightarrow> bool" where
  "creds_step d argv (EvHost (WriteFile p c mode r)) \<longleftrightarrow> p \<in> creds_files d \<and> (mode = 384 \<or> mode = 448)"
| "creds_step d argv (EvHost (Ran a env r)) \<longleftrightarrow> a = argv"
| "creds_step d argv _ \<longleftrightarrow> False"

fun runs_git :: "string list \<Rightarrow> event \<Rightarrow> bool" where
  "runs_git argv (EvHost (Ran a env r)) \<longleftrightarrow> a = argv"
| "runs_git argv (EvHost (MkdirTemp p (Inl e))) \<longleftrightarrow> True"
| "runs_git argv _ \<longleftrightarrow> False"

definition leaves_no_files :: "string list \<Rightarrow> event list \<Rightarrow> bool" where
  "leaves_no_files argv es \<longleftrightarrow> list_all (runs_git argv) es \<or>
     (\<exists>p d mid. es = EvHost (MkdirTemp p (Inr d)) # mid @ [EvHost (RemoveAll d)] \<and> list_all (creds_step d argv) mid)"

lemma leaves_no_filesI:
  "list_all (creds_step d argv) mid \<Longrightarrow> leaves_no_files argv (EvHost (MkdirTemp p (Inr d)) # mid @ [EvHost (RemoveAll d)])"
  unfolding leaves_no_files_def by blast

lemma run_ls_remote_runs:
  assumes "\<And>r out. R r [EvHost (Ran (ls_argv repo ref) (''GIT_TERMINAL_PROMPT=0'' # env) out)]"
  shows "runs (run_ls_remote E repo ref env) R"
  unfolding run_ls_remote_def by (auto intro!: runs_intros assms)

text \<open>What \<open>CredsEnv\<close> does: nothing, a failed directory, a directory it removes again after an error, or
  one with credential files that it hands over for cleanup.\<close>

lemma CredsEnv_runs:
  assumes "R (Inr ([], None)) []"
    and "\<And>e p e'. R (Inl e) [EvHost (MkdirTemp p (Inl e'))]"
    and "\<And>e p d mid. list_all (creds_step d argv) mid \<Longrightarrow>
      R (Inl e) (EvHost (MkdirTemp p (Inr d)) # mid @ [EvHost (RemoveAll d)])"
    and "\<And>env p d mid. list_all (creds_step d argv) mid \<Longrightarrow>
      R (Inr (env, Some d)) (EvHost (MkdirTemp p (Inr d)) # mid)"
  shows "runs (CredsEnv E c repo) R"
proof -
  have ssh: "runs (ssh_creds_env E c repo d) (\<lambda>r es. R r (EvHost (MkdirTemp p (Inr d)) # es))" for d p
    unfolding ssh_creds_env_def abandon_dir_def Let_def
    using assms(3) [of d "[]"] assms(3) [of d "[_]"] assms(3) [of d "[_, _]"] assms(4) [of d "[_]"] assms(4) [of d "[_, _]"]
    by (auto intro!: runs_intros simp: creds_files_def)
  have https: "runs (https_creds_env E c d) (\<lambda>r es. R r (EvHost (MkdirTemp p (Inr d)) # es))" for d p
    unfolding https_creds_env_def abandon_dir_def Let_def
    using assms(3) [of d "[_]"] assms(4) [of d "[_]"] by (auto intro!: runs_intros simp: creds_files_def)
  show ?thesis
    unfolding CredsEnv_def
    by (auto intro!: runs_intros runs_mono [OF ssh] runs_mono [OF https] assms(1,2))
qed

text \<open>C27. No credential outlives the query: whenever \<open>git ls-remote\<close> gets a temporary directory, its
  last action is to remove that directory, on every path, errors of a write or of git included; in
  between it only writes the three credential files there, readable by their owner only, and runs
  git on exactly the repository and the reference, so no secret is ever part of the command line.\<close>

theorem ls_remote_cleans_up:
  "runs (ExecLsRemote E repo ref creds) (\<lambda>_ es. leaves_no_files (ls_argv repo ref) es)"
proof (cases creds)
  case None
  then show ?thesis
    unfolding ExecLsRemote_def
    by (auto intro!: runs_intros run_ls_remote_runs simp: leaves_no_files_def)
next
  case (Some c)
  have "runs (CredsEnv E c repo) (\<lambda>a es. runs
      (case a of Inl e \<Rightarrow> State_Monad.return (Inl e)
       | Inr (env, cleanup) \<Rightarrow> do {
           r \<leftarrow> run_ls_remote E repo ref env;
           (case cleanup of None \<Rightarrow> State_Monad.return r
            | Some dir \<Rightarrow> do { host_remove_all E dir; State_Monad.return r })
         }) (\<lambda>_ es'. leaves_no_files (ls_argv repo ref) (es @ es')))"
  proof (rule CredsEnv_runs [where argv = "ls_argv repo ref"])
    fix env p d mid
    assume mid: "list_all (creds_step d (ls_argv repo ref)) mid"
    have "leaves_no_files (ls_argv repo ref) (EvHost (MkdirTemp p (Inr d)) #
        (mid @ [EvHost (Ran (ls_argv repo ref) env' out)]) @ [EvHost (RemoveAll d)])" for env' out
      by (rule leaves_no_filesI) (use mid in simp)
    then show "runs (case Inr (env, Some d) of Inl e \<Rightarrow> State_Monad.return (Inl e)
       | Inr (env, cleanup) \<Rightarrow> do {
           r \<leftarrow> run_ls_remote E repo ref env;
           (case cleanup of None \<Rightarrow> State_Monad.return r
            | Some dir \<Rightarrow> do { host_remove_all E dir; State_Monad.return r })
         }) (\<lambda>_ es'. leaves_no_files (ls_argv repo ref) ((EvHost (MkdirTemp p (Inr d)) # mid) @ es'))"
      by (auto intro!: runs_intros run_ls_remote_runs)
  qed (auto intro!: runs_intros run_ls_remote_runs leaves_no_filesI simp: leaves_no_files_def)
  then show ?thesis
    unfolding ExecLsRemote_def Some by (auto intro!: runs_intros simp: leaves_no_files_def)
qed

end
