(* ===== verification/Workload.thy ===== *)
theory Workload
  imports Git_Source
begin

text \<open>
  What the workload controllers share (\<open>nixworkload.go\<close>, \<open>nix_sshkey.go\<close>,
  \<open>nixworkload_watches.go\<close>): the infrastructure preflight \<open>resolveInfra\<close>, the ConfigMap of
  inline files, the dedicated builder, the status transitions, the health of init containers, the
  finalizer, the SSH key Secret of a store and the watch indexes. An owner object is its metadata.
\<close>

section \<open>Constants\<close>

text \<open>Intervals in seconds.\<close>

definition defaultPollInterval :: int where "defaultPollInterval = 60"
definition infraRequeue :: int where "infraRequeue = 15"

definition sshSecretPrivateKey :: string where "sshSecretPrivateKey = ''ssh-privatekey''"
definition sshSecretPublicKey :: string where "sshSecretPublicKey = ''ssh-authorized-key''"

definition sshSecretName :: "string \<Rightarrow> string" where
  "sshSecretName storeName = storeName @ ''-ssh''"

section \<open>Infrastructure\<close>

record infra_deps =
  id_store :: "store_info option"
  id_builder :: "builder_info option"
  id_not_ready :: string
  id_ssh_secret :: string

definition no_deps :: infra_deps where
  "no_deps = \<lparr>id_store = None, id_builder = None, id_not_ready = [], id_ssh_secret = []\<rparr>"

text \<open>The data of the inline files, keyed \<open>file-<index>\<close>.\<close>

fun inline_data :: "nat \<Rightarrow> nix_file list \<Rightarrow> (string \<times> string) list" where
  "inline_data i [] = []"
| "inline_data i (f # fs) =
     (case nf_inline f of None \<Rightarrow> [] | Some c \<Rightarrow> [(''file-'' @ show_nat i, c)]) @ inline_data (Suc i) fs"

definition err_of :: "err + 'a \<Rightarrow> err option" where
  "err_of r = (case r of Inl e \<Rightarrow> Some e | Inr _ \<Rightarrow> None)"

text \<open>The function handed to \<open>CreateOrUpdate\<close>.\<close>

definition files_mutate :: "lib \<Rightarrow> meta \<Rightarrow> (string \<times> string) list \<Rightarrow> config_map \<Rightarrow> err + config_map" where
  "files_mutate L owner data cm =
     (case lib_set_controller_ref L owner (cmap_meta cm) of
        Inl e \<Rightarrow> Inl e
      | Inr m \<Rightarrow> Inr (cm\<lparr>cmap_data := map_of data, cmap_meta := m\<rparr>))"

definition ensureAdditionalFilesConfigMap :: "'w env \<Rightarrow> meta \<Rightarrow> nix_spec \<Rightarrow> ('w, err option) prog" where
  "ensureAdditionalFilesConfigMap E owner nix =
     (let name = additionalFilesConfigMapName (m_name owner);
          k = \<lparr>k_ns = m_ns owner, k_name = name\<rparr>;
          data = inline_data 0 (nx_files nix)
      in if data = [] then do {
           g \<leftarrow> api_get (e_configmaps E) EvConfigMap k;
           (case g of
              Inl e \<Rightarrow> State_Monad.return (ignore_not_found (Some e))
            | Inr existing \<Rightarrow> do {
                d \<leftarrow> api_delete (e_configmaps E) EvConfigMap existing;
                State_Monad.return (ignore_not_found d)
              })
         }
         else api_create_or_update (e_configmaps E) EvConfigMap
           \<lparr>cmap_meta = zero_meta\<lparr>m_name := name, m_ns := m_ns owner\<rparr>, cmap_data = Map.empty\<rparr>
           (files_mutate (e_lib E) owner data))"

text \<open>Only called with a builder template; the source would dereference nil otherwise.\<close>

definition ensureOwnedBuilder :: "'w env \<Rightarrow> meta \<Rightarrow> nix_spec \<Rightarrow> nix_builder_spec \<Rightarrow> ('w, err + string) prog" where
  "ensureOwnedBuilder E owner nix template = do {
     let name = m_name owner @ ''-builder'';
     g \<leftarrow> api_get (e_builders E) EvBuilder \<lparr>k_ns = m_ns owner, k_name = name\<rparr>;
     (case g of
        Inr _ \<Rightarrow> State_Monad.return (Inr name)
      | Inl e \<Rightarrow>
          if \<not> IsNotFound e then State_Monad.return (Inl e)
          else
            (let spec = (if bs_store_ref template = None then template\<lparr>bs_store_ref := nx_store_ref nix\<rparr> else template)
             in case lib_set_controller_ref (e_lib E) owner (zero_meta\<lparr>m_name := name, m_ns := m_ns owner\<rparr>) of
                  Inl e \<Rightarrow> State_Monad.return (Inl e)
                | Inr m \<Rightarrow> do {
                    c \<leftarrow> api_create (e_builders E) EvBuilder (zero_builder\<lparr>nb_meta := m, nb_spec := spec\<rparr>);
                    State_Monad.return (case c of
                       Inl e \<Rightarrow> if IsAlreadyExists e then Inr name else Inl e
                     | Inr _ \<Rightarrow> Inr name)
                  }))
   }"

text \<open>The store part of \<open>resolveInfra\<close>: an API error, why the store is not ready, or its endpoints.\<close>

definition resolve_store :: "'w env \<Rightarrow> string \<Rightarrow> string \<Rightarrow> ('w, err + string + store_info) prog" where
  "resolve_store E ns name = do {
     g \<leftarrow> api_get (e_stores E) EvStore \<lparr>k_ns = ns, k_name = name\<rparr>;
     State_Monad.return (case g of
        Inl e \<Rightarrow> if IsNotFound e then Inr (Inl (''NixStore '' @ go_quote name @ '' not found'')) else Inl e
      | Inr store \<Rightarrow>
          if sts_phase (sto_status store) \<noteq> PhaseReady \<or> sts_substituter_url (sto_status store) = []
          then Inr (Inl (''NixStore '' @ go_quote name @ '' not ready''))
          else Inr (Inr \<lparr>si_substituter = sts_substituter_url (sto_status store),
                  si_key = sts_public_key (sto_status store),
                  si_push = ''ssh-ng://root@'' @ m_name (sto_meta store) @ ''.'' @ ns @ ''.svc''\<rparr>))
   }"

text \<open>The name of the builder to use, empty for none.\<close>

definition builder_name :: "'w env \<Rightarrow> meta \<Rightarrow> nix_spec \<Rightarrow> ('w, err + string) prog" where
  "builder_name E owner nix =
     (case nx_builder_ref nix of
        Some name \<Rightarrow> State_Monad.return (Inr name)
      | None \<Rightarrow> (case nx_builder_template nix of
          Some template \<Rightarrow> ensureOwnedBuilder E owner nix template
        | None \<Rightarrow> State_Monad.return (Inr [])))"

definition resolve_builder :: "'w env \<Rightarrow> string \<Rightarrow> nix_spec \<Rightarrow> string \<Rightarrow> infra_deps \<Rightarrow> ('w, err + infra_deps) prog" where
  "resolve_builder E ns nix name deps = do {
     g \<leftarrow> api_get (e_builders E) EvBuilder \<lparr>k_ns = ns, k_name = name\<rparr>;
     State_Monad.return (case g of
        Inl e \<Rightarrow> if IsNotFound e
          then Inr (deps\<lparr>id_not_ready := ''NixBuilder '' @ go_quote name @ '' not found''\<rparr>) else Inl e
      | Inr b \<Rightarrow>
          if \<not> bst_ready (nb_status b) \<or> bst_endpoint (nb_status b) = []
          then Inr (deps\<lparr>id_not_ready := ''NixBuilder '' @ go_quote name @ '' not ready''\<rparr>)
          else
            (let storeForSSH = (case bs_store_ref (nb_spec b) of Some s \<Rightarrow> Some s | None \<Rightarrow> nx_store_ref nix);
                 info = \<lparr>bi_endpoint = bst_endpoint (nb_status b), bi_systems = bs_systems (nb_spec b),
                   bi_ssh_key = (if storeForSSH = None then [] else sshPrivateKeyPath)\<rparr>
             in Inr (deps\<lparr>id_builder := Some info,
                  id_ssh_secret := (case storeForSSH of None \<Rightarrow> [] | Some s \<Rightarrow> sshSecretName s)\<rparr>)))
   }"

text \<open>The part of \<open>resolveInfra\<close> after the store.\<close>

definition resolve_with_store :: "'w env \<Rightarrow> meta \<Rightarrow> nix_spec \<Rightarrow> infra_deps \<Rightarrow> ('w, err + infra_deps) prog" where
  "resolve_with_store E owner nix deps = do {
     n \<leftarrow> builder_name E owner nix;
     (case n of
        Inl e \<Rightarrow> State_Monad.return (Inl e)
      | Inr name \<Rightarrow>
          if name = [] then State_Monad.return (Inr deps)
          else resolve_builder E (m_ns owner) nix name deps)
   }"

text \<open>The validation errors, reported as not ready.\<close>

definition invalid_paths :: "nix_spec \<Rightarrow> string" where
  "invalid_paths nix =
     (case (if src_dir (nx_source nix) = [] then None else validateFilePath (src_dir (nx_source nix))) of
        Some e \<Rightarrow> ''source.dir: '' @ e_msg e
      | None \<Rightarrow> (case validateAdditionalFiles (nx_files nix) of Some e \<Rightarrow> e_msg e | None \<Rightarrow> []))"

definition resolveInfra :: "'w env \<Rightarrow> meta \<Rightarrow> nix_spec \<Rightarrow> ('w, err + infra_deps) prog" where
  "resolveInfra E owner nix =
     (if invalid_paths nix \<noteq> [] then State_Monad.return (Inr (no_deps\<lparr>id_not_ready := invalid_paths nix\<rparr>))
      else do {
        f \<leftarrow> ensureAdditionalFilesConfigMap E owner nix;
        (case f of
           Some e \<Rightarrow> State_Monad.return (Inl e)
         | None \<Rightarrow>
             (case nx_store_ref nix of
                None \<Rightarrow> resolve_with_store E owner nix no_deps
              | Some s \<Rightarrow> do {
                  r \<leftarrow> resolve_store E (m_ns owner) s;
                  (case r of
                     Inl e \<Rightarrow> State_Monad.return (Inl e)
                   | Inr (Inl why) \<Rightarrow> State_Monad.return (Inr (no_deps\<lparr>id_not_ready := why\<rparr>))
                   | Inr (Inr info) \<Rightarrow> resolve_with_store E owner nix (no_deps\<lparr>id_store := Some info\<rparr>))
                }))
      })"

section \<open>Polling and triggers\<close>

definition pollInterval :: "nix_spec \<Rightarrow> int" where
  "pollInterval nix =
     (case src_poll_interval (nx_source nix) of
        Some d \<Rightarrow> if d > 0 then d else defaultPollInterval
      | None \<Rightarrow> defaultPollInterval)"

definition triggerOnChange :: "nix_spec \<Rightarrow> bool \<Rightarrow> bool" where
  "triggerOnChange nix defaultVal = (case nx_trigger nix of Some b \<Rightarrow> b | None \<Rightarrow> defaultVal)"

section \<open>Status transitions\<close>

type_synonym 's wstatus = "'s workload_status_scheme"

definition setCondition ::
    "lib \<Rightarrow> 's wstatus \<Rightarrow> cond_type \<Rightarrow> cond_status \<Rightarrow> reason \<Rightarrow> string \<Rightarrow> int \<Rightarrow> 's wstatus" where
  "setCondition L st t s rsn msg gen = st\<lparr>ws_conditions := lib_set_cond L (ws_conditions st)
     \<lparr>c_type = t, c_status = s, c_gen = gen, c_reason = rsn, c_message = msg\<rparr>\<rparr>"

definition markStalled :: "lib \<Rightarrow> 's wstatus \<Rightarrow> reason \<Rightarrow> string \<Rightarrow> int \<Rightarrow> 's wstatus" where
  "markStalled L st rsn msg gen =
     (let st1 = setCondition L (st\<lparr>ws_phase := PhaseDegraded\<rparr>) ConditionStalled ConditionTrue rsn msg gen
      in setCondition L st1 ConditionReady ConditionFalse rsn msg gen)"

definition clearStalled :: "lib \<Rightarrow> 's wstatus \<Rightarrow> 's wstatus" where
  "clearStalled L st = st\<lparr>ws_conditions := lib_remove_cond L (ws_conditions st) ConditionStalled\<rparr>"

definition markReady :: "lib \<Rightarrow> 's wstatus \<Rightarrow> string \<Rightarrow> int \<Rightarrow> 's wstatus" where
  "markReady L st rolledOut gen =
     (let st1 = st\<lparr>ws_phase := PhaseReady, ws_rolled_out := rolledOut\<rparr>;
          st2 = setCondition L st1 ConditionReady ConditionTrue ReasonReady ''workload is ready'' gen;
          st3 = setCondition L st2 ConditionProgressing ConditionFalse ReasonReady ''rollout complete'' gen
      in clearStalled L st3)"

definition markProgressing :: "lib \<Rightarrow> 's wstatus \<Rightarrow> phase \<Rightarrow> string \<Rightarrow> int \<Rightarrow> 's wstatus" where
  "markProgressing L st ph msg gen =
     (let st1 = setCondition L (st\<lparr>ws_phase := ph\<rparr>) ConditionProgressing ConditionTrue ReasonProgressing msg gen
      in setCondition L st1 ConditionReady ConditionFalse ReasonProgressing msg gen)"

section \<open>Init containers\<close>

record pod_init_state =
  pis_building :: bool
  pis_failing :: bool

definition init_status_step :: "pod_init_state \<Rightarrow> container_status \<Rightarrow> pod_init_state" where
  "init_status_step st ics =
     (if ics_name ics \<noteq> initInstantiate then st
      else
        (let failing = (pis_failing st \<or>
               (case ics_terminated ics of Some code \<Rightarrow> code \<noteq> 0 | None \<Rightarrow> False) \<or>
               ics_waiting ics = Some ''CrashLoopBackOff'' \<or> ics_waiting ics = Some ''Error'')
         in \<lparr>pis_building = pis_building st \<or> ics_running ics \<or> (ics_waiting ics \<noteq> None \<and> \<not> failing),
             pis_failing = failing\<rparr>))"

definition observePodInit :: "'w env \<Rightarrow> string \<Rightarrow> string \<Rightarrow> string \<Rightarrow> string \<Rightarrow> ('w, err + pod_init_state) prog" where
  "observePodInit E ns kind name revision = do {
     r \<leftarrow> api_list (e_pods E) EvPod \<lparr>lo_ns = ns,
            lo_labels = [(LabelWorkloadKind, kind), (LabelWorkloadName, name), (LabelRevision, revision)], lo_fields = []\<rparr>;
     State_Monad.return (case r of
        Inl e \<Rightarrow> Inl e
      | Inr pods \<Rightarrow> Inr (foldl init_status_step \<lparr>pis_building = False, pis_failing = False\<rparr>
          (concat (map pod_init_statuses pods))))
   }"

section \<open>The SSH key of a store\<close>

definition sshdBringUp :: "bool \<Rightarrow> string" where
  \<open>sshdBringUp fg =
     (let launch0 = ''dropbear -F -E -s -p 22 -r /etc/dropbear/hostkey'';
          launch = (if fg then ''exec '' @ launch0 else launch0);
          amp = (if fg then [] else '' &'')
      in script
         [''mkdir -p /etc/dropbear /root/.ssh'',
          ''chmod 700 /root/.ssh'',
          ''# dropbear rejects a login whose shell is not an accepted user shell; publish'',
          ''# root'' @ [CHR 0x27] @ ''s shell (from the image passwd) via /etc/shells so getusershell accepts'',
          ''# it. Use shell builtins only '' @ [CHR 0xE2, CHR 0x80, CHR 0x94] @ '' the bare nix image has no grep/awk on PATH.'',
          '': > /etc/shells 2>/dev/null || true'',
          ''while IFS=: read -r u _ _ _ _ _ sh; do [ "$u" = root ] && [ -n "$sh" ] && echo "$sh" >> /etc/shells; done < /etc/passwd 2>/dev/null || true'',
          ''echo /bin/sh >> /etc/shells 2>/dev/null || true''] @
         ''nix shell nixpkgs#dropbear --command sh -c '' @ [CHR 0x27] @ ''dropbearkey -t ed25519 -f /etc/dropbear/hostkey >/dev/null 2>&1 || true; '' @ launch @ [CHR 0x27] @ amp @ [CHR 0x0A])\<close>

definition generateOpenSSHKeyPair :: "'w env \<Rightarrow> string \<Rightarrow> ('w, err + string \<times> string) prog" where
  "generateOpenSSHKeyPair E comment = do {
     k \<leftarrow> host_ed25519 E;
     State_Monad.return (case k of
        Inl e \<Rightarrow> Inl (wrap_err ''generating ed25519 key: '' e)
      | Inr (pub, priv) \<Rightarrow>
     (case lib_marshal_private_key (e_lib E) priv comment of
        Inl e \<Rightarrow> Inl (wrap_err ''marshaling private key: '' e)
      | Inr block \<Rightarrow>
     (case lib_new_public_key (e_lib E) pub of
        Inl e \<Rightarrow> Inl (wrap_err ''building ssh public key: '' e)
      | Inr sshPub \<Rightarrow> Inr (lib_pem_encode (e_lib E) block, lib_authorized_key (e_lib E) sshPub))))
   }"

text \<open>The created Secret, and the answer to the error of its creation.\<close>

definition ssh_secret :: "meta \<Rightarrow> string \<Rightarrow> string \<Rightarrow> secret" where
  "ssh_secret m priv pub = \<lparr>sec_meta = m, sec_type = ''Opaque'',
     sec_data = [sshSecretPrivateKey \<mapsto> priv, sshSecretPublicKey \<mapsto> pub]\<rparr>"

definition create_ssh_secret :: "'w env \<Rightarrow> key \<Rightarrow> secret \<Rightarrow> string \<Rightarrow> ('w, err + string) prog" where
  "create_ssh_secret E k sec pub = do {
     c \<leftarrow> api_create (e_secrets E) EvSecret sec;
     (case c of
        Inr _ \<Rightarrow> State_Monad.return (Inr pub)
      | Inl e \<Rightarrow>
          if IsAlreadyExists e then do {
            g \<leftarrow> api_get (e_secrets E) EvSecret k;
            State_Monad.return (case g of
               Inr other \<Rightarrow> Inr (data_value (sec_data other) sshSecretPublicKey)
             | Inl _ \<Rightarrow> Inl (wrap_err ''creating ssh secret: '' e))
          }
          else State_Monad.return (Inl (wrap_err ''creating ssh secret: '' e)))
   }"

definition ensureSSHKeySecret :: "'w env \<Rightarrow> meta \<Rightarrow> string \<Rightarrow> ('w, err + string) prog" where
  "ensureSSHKeySecret E owner storeName = do {
     let name = sshSecretName storeName;
     let k = \<lparr>k_ns = m_ns owner, k_name = name\<rparr>;
     g \<leftarrow> api_get (e_secrets E) EvSecret k;
     (case g of
        Inr sec \<Rightarrow> State_Monad.return
          (if data_value (sec_data sec) sshSecretPublicKey \<noteq> [] then Inr (data_value (sec_data sec) sshSecretPublicKey)
           else Inl (mk_err (''ssh secret '' @ go_quote name @ '' missing '' @ go_quote sshSecretPublicKey)))
      | Inl e \<Rightarrow>
          if \<not> IsNotFound e then State_Monad.return (Inl (wrap_err ''getting ssh secret: '' e))
          else do {
            kp \<leftarrow> generateOpenSSHKeyPair E ''nio-remote-build'';
            (case kp of
               Inl e \<Rightarrow> State_Monad.return (Inl e)
             | Inr (priv, pub) \<Rightarrow>
                 (case lib_set_controller_ref (e_lib E) owner
                         (zero_meta\<lparr>m_name := name, m_ns := m_ns owner, m_labels := managedLabels ''NixStore'' storeName\<rparr>) of
                    Inl e \<Rightarrow> State_Monad.return (Inl e)
                  | Inr m \<Rightarrow> create_ssh_secret E k (ssh_secret m priv pub) pub))
          })
   }"

section \<open>Watches\<close>

definition IndexByCredentialsSecret :: string where
  "IndexByCredentialsSecret = ''spec.nix.source.credentialsRef.name''"

definition IndexByFluxSource :: string where
  "IndexByFluxSource = ''spec.nix.source.fluxSourceRef.name''"

text \<open>The two functions \<open>registerWorkloadIndexes\<close> registers.\<close>

definition workload_indexes :: "nix_source \<Rightarrow> string \<Rightarrow> string list" where
  "workload_indexes src index =
     (if index = IndexByCredentialsSecret then (case src_credentials src of None \<Rightarrow> [] | Some n \<Rightarrow> [n])
      else if index = IndexByFluxSource then (case src_flux src of None \<Rightarrow> [] | Some r \<Rightarrow> [fx_name r])
      else [])"

definition enqueueByIndex ::
    "('w, 'o) kind_api \<Rightarrow> ('o api_event \<Rightarrow> event) \<Rightarrow> ('o \<Rightarrow> meta) \<Rightarrow> string \<Rightarrow> meta \<Rightarrow> ('w, key list) prog" where
  "enqueueByIndex K tag meta_of index obj = do {
     r \<leftarrow> api_list K tag \<lparr>lo_ns = m_ns obj, lo_labels = [], lo_fields = [(index, m_name obj)]\<rparr>;
     State_Monad.return (case r of Inl _ \<Rightarrow> [] | Inr items \<Rightarrow> map (\<lambda>x. key_of (meta_of x)) items)
   }"

definition fluxSourceKinds :: "string list" where
  "fluxSourceKinds = [''GitRepository'', ''OCIRepository'', ''Bucket'']"

text \<open>The kinds that get a watch, by what the REST mapper knows.\<close>

definition addFluxSourceWatches :: "(string \<Rightarrow> bool) \<Rightarrow> string list" where
  "addFluxSourceWatches mapped = filter mapped fluxSourceKinds"

end
