(* ===== verification/Pipeline.thy ===== *)
theory Pipeline
  imports Workload
begin

text \<open>
  The reconcile flow of the four workload kinds. The source repeats it in \<open>nixjob_controller.go\<close>,
  \<open>nixcronjob_controller.go\<close>, \<open>nixdeployment_controller.go\<close> and
  \<open>nixstatefulset_controller.go\<close>; here it is one definition over the record \<open>workload_kind\<close>
  of what the kinds differ in: their object type and the step after the preflight, \<open>wk_rollout\<close>,
  which projects the native object and observes it. The theories of the kinds instantiate it.
\<close>

section \<open>Kinds\<close>

record ('w, 'o, 's) workload_kind =
  wk_api :: "'w env \<Rightarrow> ('w, 'o) kind_api"
  wk_tag :: "'o api_event \<Rightarrow> event"
  wk_meta :: "'o \<Rightarrow> meta"
  wk_set_meta :: "meta \<Rightarrow> 'o \<Rightarrow> 'o"
  wk_nix :: "'o \<Rightarrow> nix_spec"
  wk_status :: "'o \<Rightarrow> 's wstatus"
  wk_set_status :: "'s wstatus \<Rightarrow> 'o \<Rightarrow> 'o"
  wk_rollout :: "'w env \<Rightarrow> 'o \<Rightarrow> resolved_source \<Rightarrow> infra_deps \<Rightarrow> ('w, err + 'o) prog"

definition wk_get :: "('w, 'o, 's) workload_kind \<Rightarrow> 'w env \<Rightarrow> key \<Rightarrow> ('w, err + 'o) prog" where
  "wk_get K E k = api_get (wk_api K E) (wk_tag K) k"

definition wk_update :: "('w, 'o, 's) workload_kind \<Rightarrow> 'w env \<Rightarrow> 'o \<Rightarrow> ('w, err + 'o) prog" where
  "wk_update K E x = api_update (wk_api K E) (wk_tag K) x"

definition wk_store_status :: "('w, 'o, 's) workload_kind \<Rightarrow> 'w env \<Rightarrow> 'o \<Rightarrow> ('w, err + 'o) prog" where
  "wk_store_status K E x = api_status_update (wk_api K E) (wk_tag K) x"

definition wk_gen :: "('w, 'o, 's) workload_kind \<Rightarrow> 'o \<Rightarrow> int" where
  "wk_gen K x = m_gen (wk_meta K x)"

text \<open>A change of the workload status in place.\<close>

definition wk_with :: "('w, 'o, 's) workload_kind \<Rightarrow> ('s wstatus \<Rightarrow> 's wstatus) \<Rightarrow> 'o \<Rightarrow> 'o" where
  "wk_with K f x = wk_set_status K (f (wk_status K x)) x"

section \<open>The finalizer\<close>

definition ensureFinalizer :: "('w, 'o, 's) workload_kind \<Rightarrow> 'w env \<Rightarrow> 'o \<Rightarrow> ('w, err + 'o) prog" where
  "ensureFinalizer K E x =
     (let m = wk_meta K x in
      if lib_contains_finalizer (e_lib E) (m_finalizers m) WorkloadFinalizer then State_Monad.return (Inr x)
      else wk_update K E (wk_set_meta K
        (m\<lparr>m_finalizers := lib_add_finalizer (e_lib E) (m_finalizers m) WorkloadFinalizer\<rparr>) x))"

definition removeFinalizer :: "('w, 'o, 's) workload_kind \<Rightarrow> 'w env \<Rightarrow> 'o \<Rightarrow> ('w, err option) prog" where
  "removeFinalizer K E x =
     (let m = wk_meta K x in
      if \<not> lib_contains_finalizer (e_lib E) (m_finalizers m) WorkloadFinalizer then State_Monad.return None
      else do {
        u \<leftarrow> wk_update K E (wk_set_meta K
          (m\<lparr>m_finalizers := lib_remove_finalizer (e_lib E) (m_finalizers m) WorkloadFinalizer\<rparr>) x);
        State_Monad.return (err_of u)
      })"

section \<open>The status before the rollout\<close>

definition mark_reconciling :: "lib \<Rightarrow> int \<Rightarrow> 's wstatus \<Rightarrow> 's wstatus" where
  "mark_reconciling L gen st =
     setCondition L (st\<lparr>ws_observed_gen := gen\<rparr>) ConditionReconciling ConditionTrue ReasonProgressing ''reconciling'' gen"

definition mark_git_error :: "lib \<Rightarrow> err \<Rightarrow> int \<Rightarrow> 's wstatus \<Rightarrow> 's wstatus" where
  "mark_git_error L e gen st =
     markStalled L (setCondition L st ConditionGitSynced ConditionFalse ReasonGitError (e_msg e) gen)
       ReasonGitError (e_msg e) gen"

definition mark_resolved :: "lib \<Rightarrow> resolved_source \<Rightarrow> int \<Rightarrow> int \<Rightarrow> 's wstatus \<Rightarrow> 's wstatus" where
  "mark_resolved L res now gen st =
     setCondition L (st\<lparr>ws_resolved := rs_revision res, ws_last_polled := Some now\<rparr>)
       ConditionGitSynced ConditionTrue ReasonReady ''revision resolved'' gen"

section \<open>Reconcile\<close>

text \<open>The end of a reconcile: the status is stored, a conflict requeues.\<close>

definition store_rollout :: "('w, 'o, 's) workload_kind \<Rightarrow> 'w env \<Rightarrow> int \<Rightarrow> 'o \<Rightarrow> ('w, reconcile_end) prog" where
  "store_rollout K E interval x = do {
     u \<leftarrow> wk_store_status K E x;
     State_Monad.return (case u of
        Inl e \<Rightarrow> if IsConflict e then (requeue_res, None) else (done_res, Some e)
      | Inr _ \<Rightarrow> (after_res interval, None))
   }"

text \<open>From the infrastructure preflight on.\<close>

definition preflight_rollout :: "('w, 'o, 's) workload_kind \<Rightarrow> 'w env \<Rightarrow> 'o \<Rightarrow> resolved_source \<Rightarrow> ('w, reconcile_end) prog" where
  "preflight_rollout K E x res = do {
     d \<leftarrow> resolveInfra E (wk_meta K x) (wk_nix K x);
     (case d of
        Inl e \<Rightarrow> State_Monad.return (done_res, Some e)
      | Inr deps \<Rightarrow>
          if id_not_ready deps \<noteq> [] then do {
            u \<leftarrow> wk_store_status K E (wk_with K (\<lambda>st.
                   markStalled (e_lib E) st ReasonInfraNotReady (id_not_ready deps) (wk_gen K x)) x);
            State_Monad.return (case u of
               Inl e \<Rightarrow> (done_res, Some e) | Inr _ \<Rightarrow> (after_res infraRequeue, None))
          }
          else do {
            r \<leftarrow> wk_rollout K E x res deps;
            (case r of
               Inl e \<Rightarrow> State_Monad.return (done_res, Some e)
             | Inr x' \<Rightarrow> store_rollout K E (pollInterval (wk_nix K x)) x')
          })
   }"

text \<open>From the resolution of the revision on; the object has its finalizer.\<close>

definition resolve_rollout :: "('w, 'o, 's) workload_kind \<Rightarrow> 'w env \<Rightarrow> 'o \<Rightarrow> ('w, reconcile_end) prog" where
  "resolve_rollout K E x = do {
     r \<leftarrow> resolveRevision E (m_ns (wk_meta K x)) (nx_source (wk_nix K x));
     (case r of
        Inl e \<Rightarrow> do {
          wk_store_status K E (wk_with K (mark_git_error (e_lib E) e (wk_gen K x)) x);
          State_Monad.return (after_res infraRequeue, None)
        }
      | Inr res \<Rightarrow> do {
          now \<leftarrow> host_now E;
          preflight_rollout K E (wk_with K (mark_resolved (e_lib E) res now (wk_gen K x)) x) res
        })
   }"

definition workload_live :: "('w, 'o, 's) workload_kind \<Rightarrow> 'w env \<Rightarrow> 'o \<Rightarrow> ('w, reconcile_end) prog" where
  "workload_live K E x0 =
     (let x = wk_with K (mark_reconciling (e_lib E) (wk_gen K x0)) x0 in
      if nx_suspend (wk_nix K x) then do {
        u \<leftarrow> wk_store_status K E (wk_with K (\<lambda>st. st\<lparr>ws_phase := PhaseSuspended\<rparr>) x);
        State_Monad.return (done_res, err_of u)
      }
      else resolve_rollout K E x)"

definition workload_reconcile :: "('w, 'o, 's) workload_kind \<Rightarrow> 'w env \<Rightarrow> key \<Rightarrow> ('w, reconcile_end) prog" where
  "workload_reconcile K E k = do {
     g \<leftarrow> wk_get K E k;
     (case g of
        Inl e \<Rightarrow> State_Monad.return (done_res, ignore_not_found (Some e))
      | Inr x \<Rightarrow>
          if m_deletion (wk_meta K x) \<noteq> None then do {
            r \<leftarrow> removeFinalizer K E x;
            State_Monad.return (done_res, r)
          }
          else do {
            f \<leftarrow> ensureFinalizer K E x;
            (case f of
               Inl e \<Rightarrow> State_Monad.return (done_res, Some e)
             | Inr x' \<Rightarrow> workload_live K E x')
          })
   }"

end
