(* ===== verification/Job_Controller.thy ===== *)
theory Job_Controller
  imports Pipeline Run_Outcome
begin

text \<open>
  The NixJob controller (\<open>nixjob_controller.go\<close>): one immutable run-Job per composite revision, its
  observation, and the garbage collection of old runs.
\<close>

section \<open>The run-Job\<close>

definition kindNixJob :: string where "kindNixJob = ''NixJob''"
definition jobHistoryLimit :: nat where "jobHistoryLimit = 3"

definition ensureBatchRestartPolicy :: "pod_template \<Rightarrow> pod_template" where
  "ensureBatchRestartPolicy tmpl =
     (if ps_restart_policy (pt_spec tmpl) = []
      then tmpl\<lparr>pt_spec := (pt_spec tmpl)\<lparr>ps_restart_policy := ''Never''\<rparr>\<rparr> else tmpl)"

text \<open>The input of the renderer, as every kind builds it.\<close>

definition render_input_of :: "string \<Rightarrow> string \<Rightarrow> nix_spec \<Rightarrow> resolved_source \<Rightarrow> infra_deps \<Rightarrow> render_input" where
  "render_input_of kind name nix res deps =
     \<lparr>ri_spec = nix, ri_revision = rs_revision res, ri_artifact = rs_artifact res, ri_store = id_store deps,
      ri_builder = id_builder deps, ri_ssh_secret = id_ssh_secret deps, ri_kind = kind, ri_name = name\<rparr>"

definition desiredJob :: "nix_job \<Rightarrow> resolved_source \<Rightarrow> infra_deps \<Rightarrow> string \<Rightarrow> batch_job" where
  "desiredJob nj res deps jobName =
     (let name = m_name (nj_meta nj);
          spec = (case nj_template (nj_spec nj) of None \<Rightarrow> zero_job_spec | Some t \<Rightarrow> t);
          inp = render_input_of kindNixJob name (nj_nix (nj_spec nj)) res deps;
          spec' = spec\<lparr>js_template := ensureBatchRestartPolicy (renderPodTemplate inp (js_template spec))\<rparr>
      in zero_batch_job\<lparr>bj_meta := zero_meta\<lparr>m_name := jobName, m_ns := m_ns (nj_meta nj),
             m_labels := managedLabels kindNixJob name\<rparr>, bj_spec := spec'\<rparr>)"

definition run_job_name :: "nix_job \<Rightarrow> resolved_source \<Rightarrow> string" where
  "run_job_name nj res = m_name (nj_meta nj) @ ''-'' @
     compositeRevision (rs_revision res) (nx_run (nj_nix (nj_spec nj))) (nx_args (nj_nix (nj_spec nj)))"

definition run_jobs_of :: "nix_job \<Rightarrow> list_opts" where
  "run_jobs_of nj = \<lparr>lo_ns = m_ns (nj_meta nj),
     lo_labels = [(LabelWorkloadKind, kindNixJob), (LabelWorkloadName, m_name (nj_meta nj))], lo_fields = []\<rparr>"

definition listRunJobs :: "'w env \<Rightarrow> nix_job \<Rightarrow> ('w, err + batch_job list) prog" where
  "listRunJobs E nj = api_list (e_batch_jobs E) EvBatchJob (run_jobs_of nj)"

text \<open>Creating the run-Job; one that was created meanwhile is as good.\<close>

definition create_run_job :: "'w env \<Rightarrow> nix_job \<Rightarrow> batch_job \<Rightarrow> ('w, err option) prog" where
  "create_run_job E nj job =
     (case lib_set_controller_ref (e_lib E) (nj_meta nj) (bj_meta job) of
        Inl e \<Rightarrow> State_Monad.return (Some e)
      | Inr m \<Rightarrow> do {
          c \<leftarrow> api_create (e_batch_jobs E) EvBatchJob (job\<lparr>bj_meta := m\<rparr>);
          State_Monad.return (case c of
             Inl e \<Rightarrow> if IsAlreadyExists e then None else Some e
           | Inr _ \<Rightarrow> None)
        })"

definition ensureRunJob :: "'w env \<Rightarrow> nix_job \<Rightarrow> resolved_source \<Rightarrow> infra_deps \<Rightarrow> string \<Rightarrow> ('w, err option) prog" where
  "ensureRunJob E nj res deps jobName = do {
     g \<leftarrow> api_get (e_batch_jobs E) EvBatchJob \<lparr>k_ns = m_ns (nj_meta nj), k_name = jobName\<rparr>;
     (case g of
        Inr _ \<Rightarrow> State_Monad.return None
      | Inl e \<Rightarrow>
          if \<not> IsNotFound e then State_Monad.return (Some e)
          else if \<not> triggerOnChange (nj_nix (nj_spec nj)) True then do {
            l \<leftarrow> listRunJobs E nj;
            (case l of
               Inl e \<Rightarrow> State_Monad.return (Some e)
             | Inr owned \<Rightarrow>
                 if owned \<noteq> [] then State_Monad.return None
                 else create_run_job E nj (desiredJob nj res deps jobName))
          }
          else create_run_job E nj (desiredJob nj res deps jobName))
   }"

section \<open>Observation\<close>

definition job_with :: "(nix_job_status \<Rightarrow> nix_job_status) \<Rightarrow> nix_job \<Rightarrow> nix_job" where
  "job_with f nj = nj\<lparr>nj_status := f (nj_status nj)\<rparr>"

text \<open>The fields copied from the Job, and the verdict.\<close>

definition copy_job_status :: "batch_job \<Rightarrow> string \<Rightarrow> nix_job_status \<Rightarrow> nix_job_status" where
  "copy_job_status job jobName st = st\<lparr>nj_active_job := jobName, nj_succeeded := bj_succeeded job,
     nj_failed := bj_failed job,
     nj_last_run := (case bj_start job of None \<Rightarrow> nj_last_run st | Some t \<Rightarrow> Some t)\<rparr>"

definition job_verdict :: "lib \<Rightarrow> batch_job \<Rightarrow> int \<Rightarrow> nix_job_status \<Rightarrow> nix_job_status" where
  "job_verdict L job gen st =
     (if jobHasCondition job JobComplete then markReady L st (ws_resolved st) gen
      else if jobHasCondition job JobFailed then
        setCondition L (setCondition L (st\<lparr>ws_phase := PhaseFailed\<rparr>)
            ConditionReady ConditionFalse ReasonFailed ''run-Job failed'' gen)
          ConditionStalled ConditionTrue ReasonFailed ''run-Job exhausted its backoffLimit'' gen
      else markProgressing L st PhaseProgressing ''run-Job in progress'' gen)"

definition JobObserve :: "'w env \<Rightarrow> nix_job \<Rightarrow> string \<Rightarrow> ('w, err + nix_job) prog" where
  "JobObserve E nj jobName = do {
     let gen = m_gen (nj_meta nj);
     g \<leftarrow> api_get (e_batch_jobs E) EvBatchJob \<lparr>k_ns = m_ns (nj_meta nj), k_name = jobName\<rparr>;
     State_Monad.return (case g of
        Inl e \<Rightarrow> if IsNotFound e
          then Inr (job_with (\<lambda>st. markProgressing (e_lib E) st PhaseProgressing ''run-Job not created'' gen) nj)
          else Inl e
      | Inr job \<Rightarrow> Inr (job_with (\<lambda>st. job_verdict (e_lib E) job gen (copy_job_status job jobName st)) nj))
   }"

section \<open>Garbage collection\<close>

definition finished :: "batch_job \<Rightarrow> bool" where
  "finished j \<longleftrightarrow> jobHasCondition j JobComplete \<or> jobHasCondition j JobFailed"

text \<open>The finished runs other than the current one, newest first. Go sorts with \<open>sort.Slice\<close>, whose
  order of equally old Jobs is unspecified; here it is the order of the list.\<close>

definition completed_runs :: "string \<Rightarrow> batch_job list \<Rightarrow> batch_job list" where
  "completed_runs currentName jobs =
     sort_key (\<lambda>j. - m_creation (bj_meta j))
       (filter (\<lambda>j. m_name (bj_meta j) \<noteq> currentName \<and> finished j) jobs)"

fun delete_jobs :: "'w env \<Rightarrow> batch_job list \<Rightarrow> ('w, err option) prog" where
  "delete_jobs E [] = State_Monad.return None"
| "delete_jobs E (j # js) = do {
     d \<leftarrow> api_delete (e_batch_jobs E) EvBatchJob j;
     (case ignore_not_found d of
        Some e \<Rightarrow> State_Monad.return (Some e)
      | None \<Rightarrow> delete_jobs E js)
   }"

definition gcOldJobs :: "'w env \<Rightarrow> nix_job \<Rightarrow> string \<Rightarrow> ('w, err option) prog" where
  "gcOldJobs E nj currentName = do {
     l \<leftarrow> listRunJobs E nj;
     (case l of
        Inl e \<Rightarrow> State_Monad.return (Some e)
      | Inr jobs \<Rightarrow> delete_jobs E (drop jobHistoryLimit (completed_runs currentName jobs)))
   }"

section \<open>Reconcile\<close>

text \<open>After the preflight: ensure, observe, collect; an error of the collection is only logged.\<close>

definition job_rollout :: "'w env \<Rightarrow> nix_job \<Rightarrow> resolved_source \<Rightarrow> infra_deps \<Rightarrow> ('w, err + nix_job) prog" where
  "job_rollout E nj res deps = do {
     let jobName = run_job_name nj res;
     r \<leftarrow> ensureRunJob E nj res deps jobName;
     (case r of
        Some e \<Rightarrow> State_Monad.return (Inl e)
      | None \<Rightarrow> do {
          o' \<leftarrow> JobObserve E (job_with (\<lambda>st. st\<lparr>ws_workload_ref := jobName\<rparr>) nj) jobName;
          (case o' of
             Inl e \<Rightarrow> State_Monad.return (Inl e)
           | Inr nj' \<Rightarrow> do {
               gcOldJobs E nj' jobName;
               State_Monad.return (Inr nj')
             })
        })
   }"

definition job_kind :: "('w, nix_job, unit nix_job_status_ext) workload_kind" where
  "job_kind = \<lparr>wk_api = e_jobs, wk_tag = EvJob, wk_meta = nj_meta, wk_set_meta = (\<lambda>m x. x\<lparr>nj_meta := m\<rparr>),
     wk_nix = (\<lambda>x. nj_nix (nj_spec x)), wk_status = nj_status, wk_set_status = (\<lambda>st x. x\<lparr>nj_status := st\<rparr>),
     wk_rollout = job_rollout\<rparr>"

definition JobReconcile :: "'w env \<Rightarrow> key \<Rightarrow> ('w, reconcile_end) prog" where
  "JobReconcile = workload_reconcile job_kind"

end
