(* ===== verification/Cron_Controller.thy ===== *)
theory Cron_Controller
  imports Job_Controller
begin

text \<open>
  The NixCronJob controller (\<open>nixcronjob_controller.go\<close>): the projected CronJob, the one-off Job of a
  new revision, and the health read from finished runs (\<open>Run_Outcome\<close>).
\<close>

section \<open>The CronJob\<close>

definition kindNixCronJob :: string where "kindNixCronJob = ''NixCronJob''"
definition immediateJobTTLSeconds :: int32 where "immediateJobTTLSeconds = 24 * 60 * 60"

definition desiredCronJob :: "nix_cron_job \<Rightarrow> resolved_source \<Rightarrow> infra_deps \<Rightarrow> batch_cronjob" where
  "desiredCronJob ncj res deps =
     (let name = m_name (ncj_meta ncj);
          spec = ncj_template (ncj_spec ncj);
          inp = render_input_of kindNixCronJob name (ncj_nix (ncj_spec ncj)) res deps;
          job = cj_job spec;
          spec' = spec\<lparr>cj_job := job\<lparr>js_template := ensureBatchRestartPolicy (renderPodTemplate inp (js_template job))\<rparr>\<rparr>
      in zero_batch_cronjob\<lparr>bc_meta := zero_meta\<lparr>m_name := name, m_ns := m_ns (ncj_meta ncj),
             m_labels := managedLabels kindNixCronJob name\<rparr>, bc_spec := spec'\<rparr>)"

definition CronProject :: "'w env \<Rightarrow> nix_cron_job \<Rightarrow> resolved_source \<Rightarrow> infra_deps \<Rightarrow> ('w, err option) prog" where
  "CronProject E ncj res deps =
     (let desired = desiredCronJob ncj res deps in
      case lib_set_controller_ref (e_lib E) (ncj_meta ncj) (bc_meta desired) of
        Inl e \<Rightarrow> State_Monad.return (Some e)
      | Inr m \<Rightarrow> do {
          g \<leftarrow> api_get (e_batch_crons E) EvBatchCron (key_of (ncj_meta ncj));
          (case g of
             Inl e \<Rightarrow>
               if IsNotFound e then do {
                 c \<leftarrow> api_create (e_batch_crons E) EvBatchCron (desired\<lparr>bc_meta := m\<rparr>);
                 State_Monad.return (err_of c)
               }
               else State_Monad.return (Some e)
           | Inr existing \<Rightarrow> do {
               u \<leftarrow> api_update (e_batch_crons E) EvBatchCron (existing\<lparr>bc_spec := bc_spec desired\<rparr>);
               State_Monad.return (err_of u)
             })
        })"

section \<open>The one-off Job\<close>

definition immediate_job_name :: "nix_cron_job \<Rightarrow> resolved_source \<Rightarrow> string" where
  "immediate_job_name ncj res = m_name (ncj_meta ncj) @ ''-'' @
     compositeRevision (rs_revision res) (nx_run (ncj_nix (ncj_spec ncj))) (nx_args (ncj_nix (ncj_spec ncj))) @ ''-manual''"

definition immediateJob :: "nix_cron_job \<Rightarrow> resolved_source \<Rightarrow> infra_deps \<Rightarrow> batch_job" where
  "immediateJob ncj res deps =
     (let spec = cj_job (bc_spec (desiredCronJob ncj res deps));
          spec' = (if js_ttl spec = None then spec\<lparr>js_ttl := Some immediateJobTTLSeconds\<rparr> else spec)
      in zero_batch_job\<lparr>bj_meta := zero_meta\<lparr>m_name := immediate_job_name ncj res, m_ns := m_ns (ncj_meta ncj),
             m_labels := managedLabels kindNixCronJob (m_name (ncj_meta ncj))\<rparr>, bj_spec := spec'\<rparr>)"

definition fireImmediateJob :: "'w env \<Rightarrow> nix_cron_job \<Rightarrow> resolved_source \<Rightarrow> infra_deps \<Rightarrow> ('w, err option) prog" where
  "fireImmediateJob E ncj res deps =
     (if cj_concurrency (ncj_template (ncj_spec ncj)) = ForbidConcurrent \<and> ncj_active_jobs (ncj_status ncj) \<noteq> []
      then State_Monad.return None
      else do {
        g \<leftarrow> api_get (e_batch_jobs E) EvBatchJob \<lparr>k_ns = m_ns (ncj_meta ncj), k_name = immediate_job_name ncj res\<rparr>;
        (case g of
           Inr _ \<Rightarrow> State_Monad.return None
         | Inl e \<Rightarrow>
             if \<not> IsNotFound e then State_Monad.return (Some e)
             else
               (let job = immediateJob ncj res deps in
                case lib_set_controller_ref (e_lib E) (ncj_meta ncj) (bj_meta job) of
                  Inl e \<Rightarrow> State_Monad.return (Some e)
                | Inr m \<Rightarrow> do {
                    c \<leftarrow> api_create (e_batch_jobs E) EvBatchJob (job\<lparr>bj_meta := m\<rparr>);
                    State_Monad.return (case c of
                       Inl e \<Rightarrow> if IsAlreadyExists e then None else Some e
                     | Inr _ \<Rightarrow> None)
                  }))
      })"

section \<open>Observation\<close>

definition cron_with :: "(nix_cron_job_status \<Rightarrow> nix_cron_job_status) \<Rightarrow> nix_cron_job \<Rightarrow> nix_cron_job" where
  "cron_with f ncj = ncj\<lparr>ncj_status := f (ncj_status ncj)\<rparr>"

definition copy_cron_status :: "batch_cronjob \<Rightarrow> nix_cron_job_status \<Rightarrow> nix_cron_job_status" where
  "copy_cron_status cj st = st\<lparr>ncj_last_schedule := bc_last_schedule cj, ncj_active_jobs := bc_active cj\<rparr>"

text \<open>The verdict over the most recent failed and successful runs.\<close>

definition cron_verdict :: "lib \<Rightarrow> string \<Rightarrow> int option \<Rightarrow> int option \<Rightarrow> int \<Rightarrow> nix_cron_job_status \<Rightarrow> nix_cron_job_status" where
  "cron_verdict L revision lastFailed lastSucceeded gen st0 =
     (let st = st0\<lparr>ncj_last_failed := lastFailed, ncj_last_successful := lastSucceeded\<rparr> in
      case latestRunFailed lastFailed lastSucceeded of
        (True, msg) \<Rightarrow> clearStalled L
          ((setCondition L (st\<lparr>ws_phase := PhaseDegraded\<rparr>) ConditionReady ConditionFalse ReasonRunFailed msg gen)
             \<lparr>ws_rolled_out := revision\<rparr>)
      | (False, _) \<Rightarrow> markReady L st revision gen)"

definition CronObserve :: "'w env \<Rightarrow> nix_cron_job \<Rightarrow> resolved_source \<Rightarrow> ('w, nix_cron_job) prog" where
  "CronObserve E ncj res = do {
     let gen = m_gen (ncj_meta ncj);
     g \<leftarrow> api_get (e_batch_crons E) EvBatchCron (key_of (ncj_meta ncj));
     (case g of
        Inl _ \<Rightarrow> State_Monad.return
          (cron_with (\<lambda>st. markProgressing (e_lib E) st PhaseProgressing ''cronjob not yet created'' gen) ncj)
      | Inr cj \<Rightarrow> do {
          let ncj1 = cron_with (copy_cron_status cj) ncj;
          runs \<leftarrow> lastFinishedRuns E ncj1 cj;
          State_Monad.return (cron_with (cron_verdict (e_lib E) (rs_revision res) (fst runs) (snd runs) gen) ncj1)
        })
   }"

section \<open>Reconcile\<close>

text \<open>Firing the one-off Job on a new revision; its error is only logged.\<close>

definition fire_on_change :: "'w env \<Rightarrow> nix_cron_job \<Rightarrow> resolved_source \<Rightarrow> infra_deps \<Rightarrow> ('w, unit) prog" where
  "fire_on_change E ncj res deps =
     (if ws_rolled_out (ncj_status ncj) \<noteq> rs_revision res \<and> triggerOnChange (ncj_nix (ncj_spec ncj)) False
      then do { fireImmediateJob E ncj res deps; State_Monad.return () }
      else State_Monad.return ())"

definition cron_rollout :: "'w env \<Rightarrow> nix_cron_job \<Rightarrow> resolved_source \<Rightarrow> infra_deps \<Rightarrow> ('w, err + nix_cron_job) prog" where
  "cron_rollout E ncj res deps = do {
     p \<leftarrow> CronProject E ncj res deps;
     (case p of
        Some e \<Rightarrow> State_Monad.return (Inl e)
      | None \<Rightarrow> do {
          fire_on_change E ncj res deps;
          ncj' \<leftarrow> CronObserve E (cron_with (\<lambda>st. st\<lparr>ws_workload_ref := m_name (ncj_meta ncj)\<rparr>) ncj) res;
          State_Monad.return (Inr ncj')
        })
   }"

definition cron_kind :: "('w, nix_cron_job, unit nix_cron_job_status_ext) workload_kind" where
  "cron_kind = \<lparr>wk_api = e_crons, wk_tag = EvCron, wk_meta = ncj_meta, wk_set_meta = (\<lambda>m x. x\<lparr>ncj_meta := m\<rparr>),
     wk_nix = (\<lambda>x. ncj_nix (ncj_spec x)), wk_status = ncj_status, wk_set_status = (\<lambda>st x. x\<lparr>ncj_status := st\<rparr>),
     wk_rollout = cron_rollout\<rparr>"

definition CronReconcile :: "'w env \<Rightarrow> key \<Rightarrow> ('w, reconcile_end) prog" where
  "CronReconcile = workload_reconcile cron_kind"

end
