(* ===== verification/Child_Runs.thy ===== *)
theory Child_Runs
  imports Cron_Controller Render_Safety Config_Status
begin

text \<open>
  From a NixosConfiguration to the process on a node: the children its controller builds
  (\<open>nixosconfiguration_children.go\<close>), turned into pods by the NixJob and NixCronJob controllers and the
  renderer, run the intended tool with the intended words, with the key of the target machine.
\<close>

section \<open>One rendered pod\<close>

text \<open>
  The pod has one container, which runs \<open>words\<close> with an SSH client at hand, the options \<open>opts\<close> for it, and
  the key Secret \<open>sec\<close> mounted from the volume \<open>vol\<close> at \<open>path\<close>.
\<close>

definition runs_over_ssh :: "string list \<Rightarrow> string \<Rightarrow> string \<Rightarrow> string \<Rightarrow> string \<Rightarrow> pod_spec \<Rightarrow> bool" where
  "runs_over_ssh words opts vol path sec p \<longleftrightarrow>
     (\<exists>c s. ps_containers p = [c] \<and> ct_command c = [''sh'', ''-c'', s] \<and> ct_args c = [] \<and>
        shell_words s = Some (openssh_words @ words) \<and>
        find (\<lambda>e. ev_name e = ''NIX_SSHOPTS'') (ct_env c) = Some \<lparr>ev_name = ''NIX_SSHOPTS'', ev_value = opts\<rparr> \<and>
        last_at (ct_mounts c) path = Some \<lparr>vm_name = vol, vm_path = path, vm_read_only = True\<rparr>) \<and>
     find (\<lambda>v. vol_name v = vol) (ps_volumes p) = Some \<lparr>vol_name = vol, vol_source = VSecret sec (Some 256)\<rparr> \<and>
     pod_ok p"

lemma batch_policy_parts [simp]:
  "ps_containers (pt_spec (ensureBatchRestartPolicy t)) = ps_containers (pt_spec t)"
  "ps_volumes (pt_spec (ensureBatchRestartPolicy t)) = ps_volumes (pt_spec t)"
  "ps_init (pt_spec (ensureBatchRestartPolicy t)) = ps_init (pt_spec t)"
  by (simp_all add: ensureBatchRestartPolicy_def)

lemma batch_policy_runs [simp]:
  "runs_over_ssh words opts vol path sec (pt_spec (ensureBatchRestartPolicy t)) =
     runs_over_ssh words opts vol path sec (pt_spec t)"
  by (simp add: runs_over_ssh_def pod_ok_def)




section \<open>The children of a configuration\<close>











section \<open>Property\<close>



end
