(* ===== verification/Apps_Controllers.thy ===== *)
theory Apps_Controllers
  imports Job_Controller
begin

text \<open>
  The controllers of the long-running kinds: NixDeployment (\<open>nixdeployment_controller.go\<close>) projects a
  Deployment, NixStatefulSet (\<open>nixstatefulset_controller.go\<close>) a StatefulSet. Both stamp the rendered
  pod template, leave the immutable fields of an existing object alone, and read the outcome from the
  native status and from the init containers of the pods of the new revision.
\<close>

section \<open>The Deployment\<close>

definition kindNixDeployment :: string where "kindNixDeployment = ''NixDeployment''"

text \<open>A surge-only strategy, when the user chose none.\<close>

definition default_strategy :: "deployment_spec \<Rightarrow> deployment_spec" where
  "default_strategy s =
     (if ds_strategy_type s = [] \<and> ds_rolling s = None
      then s\<lparr>ds_strategy_type := ''RollingUpdate'',
             ds_rolling := Some \<lparr>ru_max_unavailable = IntVal 0, ru_max_surge = StrVal ''25%''\<rparr>\<rparr>
      else s)"

definition managed_selector :: "string \<Rightarrow> string \<Rightarrow> pod_selector" where
  "managed_selector kind name = \<lparr>psel_labels = managedLabels kind name, psel_rest = []\<rparr>"

definition desiredDeployment :: "nix_deployment \<Rightarrow> resolved_source \<Rightarrow> infra_deps \<Rightarrow> deployment" where
  "desiredDeployment nd res deps =
     (let name = m_name (nd_meta nd);
          spec = (case nd_template (nd_spec nd) of None \<Rightarrow> zero_deployment_spec | Some t \<Rightarrow> t);
          inp = render_input_of kindNixDeployment name (nd_nix (nd_spec nd)) res deps;
          s1 = spec\<lparr>ds_template := renderPodTemplate inp (ds_template spec)\<rparr>;
          s2 = (if ds_selector s1 = None then s1\<lparr>ds_selector := Some (managed_selector kindNixDeployment name)\<rparr> else s1)
      in \<lparr>dp_meta = zero_meta\<lparr>m_name := name, m_ns := m_ns (nd_meta nd), m_labels := managedLabels kindNixDeployment name\<rparr>,
          dp_spec = default_strategy s2, dp_status = zero_deployment_status\<rparr>)"

text \<open>An existing Deployment keeps its selector: only the mutable fields follow.\<close>

definition update_deployment :: "deployment \<Rightarrow> deployment \<Rightarrow> deployment" where
  "update_deployment existing desired = existing\<lparr>dp_spec := (dp_spec existing)
     \<lparr>ds_replicas := ds_replicas (dp_spec desired), ds_template := ds_template (dp_spec desired),
      ds_strategy_type := ds_strategy_type (dp_spec desired), ds_rolling := ds_rolling (dp_spec desired)\<rparr>\<rparr>"

definition DeploymentProject :: "'w env \<Rightarrow> nix_deployment \<Rightarrow> resolved_source \<Rightarrow> infra_deps \<Rightarrow> ('w, err option) prog" where
  "DeploymentProject E nd res deps =
     (let desired = desiredDeployment nd res deps in
      case lib_set_controller_ref (e_lib E) (nd_meta nd) (dp_meta desired) of
        Inl e \<Rightarrow> State_Monad.return (Some e)
      | Inr m \<Rightarrow> do {
          g \<leftarrow> api_get (e_deployments E) EvDeployment (key_of (nd_meta nd));
          (case g of
             Inl e \<Rightarrow>
               if IsNotFound e then do {
                 c \<leftarrow> api_create (e_deployments E) EvDeployment (desired\<lparr>dp_meta := m\<rparr>);
                 State_Monad.return (err_of c)
               }
               else State_Monad.return (Some e)
           | Inr existing \<Rightarrow> do {
               u \<leftarrow> api_update (e_deployments E) EvDeployment (update_deployment existing desired);
               State_Monad.return (err_of u)
             })
        })"

definition deployment_with :: "(nix_deployment_status \<Rightarrow> nix_deployment_status) \<Rightarrow> nix_deployment \<Rightarrow> nix_deployment" where
  "deployment_with f nd = nd\<lparr>nd_status := f (nd_status nd)\<rparr>"

definition copy_deployment_status :: "deployment_status \<Rightarrow> nix_deployment_status \<Rightarrow> nix_deployment_status" where
  "copy_deployment_status ds st = st\<lparr>nds_ready := dps_ready ds, nds_updated := dps_updated ds, nds_available := dps_available ds\<rparr>"

definition replicas_or_one :: "int32 option \<Rightarrow> int32" where
  "replicas_or_one r = (case r of None \<Rightarrow> 1 | Some n \<Rightarrow> n)"

definition replica_failure :: "deployment \<Rightarrow> deployment_condition option" where
  "replica_failure dep =
     find (\<lambda>c. dc_type c = DeploymentReplicaFailure \<and> dc_status c = ConditionTrue) (dps_conds (dp_status dep))"

definition deployment_rolled_out :: "deployment \<Rightarrow> bool" where
  "deployment_rolled_out dep \<longleftrightarrow>
     (let desired = replicas_or_one (ds_replicas (dp_spec dep)); s = dp_status dep in
      m_gen (dp_meta dep) \<le> dps_observed_gen s \<and> dps_updated s = desired \<and> dps_available s = desired \<and>
      dps_ready s = desired \<and> 0 <s desired)"

definition deployment_verdict ::
  "lib \<Rightarrow> deployment \<Rightarrow> pod_init_state \<Rightarrow> string \<Rightarrow> int \<Rightarrow> nix_deployment_status \<Rightarrow> nix_deployment_status" where
  "deployment_verdict L dep pis revision gen st =
     (if pis_failing pis
      then markStalled L st ReasonInitFailing ''new-revision pods are failing their instantiate init build'' gen
      else case replica_failure dep of
        Some c \<Rightarrow> markStalled L st ReasonReplicaFailure (dc_message c) gen
      | None \<Rightarrow>
          if deployment_rolled_out dep then markReady L st revision gen
          else if pis_building pis then markProgressing L st PhaseBuilding ''new-revision pods are building in init'' gen
          else markProgressing L st PhaseProgressing ''deployment rollout in progress'' gen)"

definition DeploymentObserve :: "'w env \<Rightarrow> nix_deployment \<Rightarrow> resolved_source \<Rightarrow> ('w, err + nix_deployment) prog" where
  "DeploymentObserve E nd res = do {
     let nix = nd_nix (nd_spec nd);
     g \<leftarrow> api_get (e_deployments E) EvDeployment (key_of (nd_meta nd));
     (case g of
        Inl e \<Rightarrow> State_Monad.return (Inl e)
      | Inr dep \<Rightarrow> do {
          p \<leftarrow> observePodInit E (m_ns (nd_meta nd)) kindNixDeployment (m_name (nd_meta nd))
                 (compositeRevision (rs_revision res) (nx_run nix) (nx_args nix));
          State_Monad.return (case p of
             Inl e \<Rightarrow> Inl e
           | Inr pis \<Rightarrow> Inr (deployment_with (\<lambda>st. deployment_verdict (e_lib E) dep pis (rs_revision res) (m_gen (nd_meta nd))
                 (copy_deployment_status (dp_status dep) st)) nd))
        })
   }"

definition deployment_rollout :: "'w env \<Rightarrow> nix_deployment \<Rightarrow> resolved_source \<Rightarrow> infra_deps \<Rightarrow> ('w, err + nix_deployment) prog" where
  "deployment_rollout E nd res deps = do {
     p \<leftarrow> DeploymentProject E nd res deps;
     (case p of
        Some e \<Rightarrow> State_Monad.return (Inl e)
      | None \<Rightarrow> DeploymentObserve E (deployment_with (\<lambda>st. st\<lparr>ws_workload_ref := m_name (nd_meta nd)\<rparr>) nd) res)
   }"

definition deployment_kind :: "('w, nix_deployment, unit nix_deployment_status_ext) workload_kind" where
  "deployment_kind = \<lparr>wk_api = e_nix_deployments, wk_tag = EvNixDeployment, wk_meta = nd_meta,
     wk_set_meta = (\<lambda>m x. x\<lparr>nd_meta := m\<rparr>), wk_nix = (\<lambda>x. nd_nix (nd_spec x)), wk_status = nd_status,
     wk_set_status = (\<lambda>st x. x\<lparr>nd_status := st\<rparr>), wk_rollout = deployment_rollout\<rparr>"

definition DeploymentReconcile :: "'w env \<Rightarrow> key \<Rightarrow> ('w, reconcile_end) prog" where
  "DeploymentReconcile = workload_reconcile deployment_kind"

section \<open>The StatefulSet\<close>

definition kindNixStatefulSet :: string where "kindNixStatefulSet = ''NixStatefulSet''"

definition desiredStatefulSet :: "nix_statefulset \<Rightarrow> resolved_source \<Rightarrow> infra_deps \<Rightarrow> statefulset" where
  "desiredStatefulSet nss res deps =
     (let name = m_name (nss_meta nss);
          spec = nss_template (nss_spec nss);
          inp = render_input_of kindNixStatefulSet name (nss_nix (nss_spec nss)) res deps;
          s1 = spec\<lparr>sfs_template := renderPodTemplate inp (sfs_template spec)\<rparr>;
          s2 = (if sfs_selector s1 = None then s1\<lparr>sfs_selector := Some (managed_selector kindNixStatefulSet name)\<rparr> else s1)
      in \<lparr>sf_meta = zero_meta\<lparr>m_name := name, m_ns := m_ns (nss_meta nss), m_labels := managedLabels kindNixStatefulSet name\<rparr>,
          sf_spec = s2, sf_status = zero_statefulset_status\<rparr>)"

text \<open>The selector and the volume claim templates of an existing StatefulSet stay.\<close>

definition update_statefulset :: "statefulset \<Rightarrow> statefulset \<Rightarrow> statefulset" where
  "update_statefulset existing desired = existing\<lparr>sf_spec := (sf_spec existing)
     \<lparr>sfs_replicas := sfs_replicas (sf_spec desired), sfs_template := sfs_template (sf_spec desired),
      sfs_update_strategy := sfs_update_strategy (sf_spec desired)\<rparr>\<rparr>"

definition StatefulSetProject :: "'w env \<Rightarrow> nix_statefulset \<Rightarrow> resolved_source \<Rightarrow> infra_deps \<Rightarrow> ('w, err option) prog" where
  "StatefulSetProject E nss res deps =
     (let desired = desiredStatefulSet nss res deps in
      case lib_set_controller_ref (e_lib E) (nss_meta nss) (sf_meta desired) of
        Inl e \<Rightarrow> State_Monad.return (Some e)
      | Inr m \<Rightarrow> do {
          g \<leftarrow> api_get (e_statefulsets E) EvStatefulSet (key_of (nss_meta nss));
          (case g of
             Inl e \<Rightarrow>
               if IsNotFound e then do {
                 c \<leftarrow> api_create (e_statefulsets E) EvStatefulSet (desired\<lparr>sf_meta := m\<rparr>);
                 State_Monad.return (err_of c)
               }
               else State_Monad.return (Some e)
           | Inr existing \<Rightarrow> do {
               u \<leftarrow> api_update (e_statefulsets E) EvStatefulSet (update_statefulset existing desired);
               State_Monad.return (err_of u)
             })
        })"

definition statefulset_with :: "(nix_statefulset_status \<Rightarrow> nix_statefulset_status) \<Rightarrow> nix_statefulset \<Rightarrow> nix_statefulset" where
  "statefulset_with f nss = nss\<lparr>nss_status := f (nss_status nss)\<rparr>"

definition copy_statefulset_status :: "statefulset_status \<Rightarrow> nix_statefulset_status \<Rightarrow> nix_statefulset_status" where
  "copy_statefulset_status s st = st\<lparr>nsst_ready := sfst_ready s, nsst_updated := sfst_updated s,
     nsst_current_rev := sfst_current_rev s, nsst_update_rev := sfst_update_rev s\<rparr>"

definition statefulset_rolled_out :: "statefulset \<Rightarrow> bool" where
  "statefulset_rolled_out s \<longleftrightarrow>
     (let desired = replicas_or_one (sfs_replicas (sf_spec s)); st = sf_status s in
      m_gen (sf_meta s) \<le> sfst_observed_gen st \<and> sfst_updated st = desired \<and> sfst_ready st = desired \<and> 0 <s desired)"

definition statefulset_verdict ::
  "lib \<Rightarrow> statefulset \<Rightarrow> pod_init_state \<Rightarrow> string \<Rightarrow> int \<Rightarrow> nix_statefulset_status \<Rightarrow> nix_statefulset_status" where
  "statefulset_verdict L s pis revision gen st =
     (if pis_failing pis
      then markStalled L st ReasonInitFailing ''new-revision pods are failing their instantiate init build'' gen
      else if statefulset_rolled_out s then markReady L st revision gen
      else if pis_building pis then markProgressing L st PhaseBuilding ''new-revision pods are building in init'' gen
      else markProgressing L st PhaseProgressing ''statefulset rollout in progress'' gen)"

definition StatefulSetObserve :: "'w env \<Rightarrow> nix_statefulset \<Rightarrow> resolved_source \<Rightarrow> ('w, err + nix_statefulset) prog" where
  "StatefulSetObserve E nss res = do {
     let nix = nss_nix (nss_spec nss);
     g \<leftarrow> api_get (e_statefulsets E) EvStatefulSet (key_of (nss_meta nss));
     (case g of
        Inl e \<Rightarrow> State_Monad.return (Inl e)
      | Inr s \<Rightarrow> do {
          p \<leftarrow> observePodInit E (m_ns (nss_meta nss)) kindNixStatefulSet (m_name (nss_meta nss))
                 (compositeRevision (rs_revision res) (nx_run nix) (nx_args nix));
          State_Monad.return (case p of
             Inl e \<Rightarrow> Inl e
           | Inr pis \<Rightarrow> Inr (statefulset_with (\<lambda>st. statefulset_verdict (e_lib E) s pis (rs_revision res) (m_gen (nss_meta nss))
                 (copy_statefulset_status (sf_status s) st)) nss))
        })
   }"

definition statefulset_rollout :: "'w env \<Rightarrow> nix_statefulset \<Rightarrow> resolved_source \<Rightarrow> infra_deps \<Rightarrow> ('w, err + nix_statefulset) prog" where
  "statefulset_rollout E nss res deps = do {
     p \<leftarrow> StatefulSetProject E nss res deps;
     (case p of
        Some e \<Rightarrow> State_Monad.return (Inl e)
      | None \<Rightarrow> StatefulSetObserve E (statefulset_with (\<lambda>st. st\<lparr>ws_workload_ref := m_name (nss_meta nss)\<rparr>) nss) res)
   }"

definition statefulset_kind :: "('w, nix_statefulset, unit nix_statefulset_status_ext) workload_kind" where
  "statefulset_kind = \<lparr>wk_api = e_nix_statefulsets, wk_tag = EvNixStatefulSet, wk_meta = nss_meta,
     wk_set_meta = (\<lambda>m x. x\<lparr>nss_meta := m\<rparr>), wk_nix = (\<lambda>x. nss_nix (nss_spec x)), wk_status = nss_status,
     wk_set_status = (\<lambda>st x. x\<lparr>nss_status := st\<rparr>), wk_rollout = statefulset_rollout\<rparr>"

definition StatefulSetReconcile :: "'w env \<Rightarrow> key \<Rightarrow> ('w, reconcile_end) prog" where
  "StatefulSetReconcile = workload_reconcile statefulset_kind"

end
