(* ===== verification/Rollout.thy ===== *)
theory Rollout
  imports Cron_Controller Apps_Controllers
begin

text \<open>
  What the shared reconcile flow guarantees for every workload kind. The locale
  \<open>workload_rollout\<close> states what the flow relies on: how the object's parts are read and written, and
  what the kind's own step (project and observe) may do. Inside it the three guarantees are proved once:
  native objects are written only for a resolved revision on ready infrastructure, a stored status tells
  the truth about what was observed, and a live workload is always reconciled again. The four kinds
  interpret it, which discharges its laws for their projection and observation code.
\<close>

section \<open>Events\<close>

fun is_write :: "'o api_event \<Rightarrow> bool" where
  "is_write (Got k r) = False"
| "is_write (Listed lo r) = False"
| "is_write _ = True"

text \<open>The writes of the objects the workload kinds project.\<close>

fun native_write :: "event \<Rightarrow> bool" where
  "native_write (EvBatchJob a) = is_write a"
| "native_write (EvBatchCron a) = is_write a"
| "native_write (EvDeployment a) = is_write a"
| "native_write (EvStatefulSet a) = is_write a"
| "native_write _ = False"

fun workload_event :: "event \<Rightarrow> bool" where
  "workload_event (EvJob a) = True"
| "workload_event (EvCron a) = True"
| "workload_event (EvNixDeployment a) = True"
| "workload_event (EvNixStatefulSet a) = True"
| "workload_event _ = False"

abbreviation calm :: "event \<Rightarrow> bool" where
  "calm ev \<equiv> \<not> native_write ev \<and> \<not> workload_event ev"

section \<open>A resolved revision\<close>

text \<open>The answer of the git remote, whichever resolver asked for it.\<close>

fun answered_sha :: "string \<Rightarrow> string \<Rightarrow> string \<Rightarrow> event \<Rightarrow> bool" where
  "answered_sha repo ref sha (EvHost (GitAsked repo' ref' (Inr s))) = (repo' = repo \<and> ref' = ref \<and> s = sha)"
| "answered_sha repo ref sha (EvHost (Ran argv env (Inr out))) = (argv = ls_argv repo ref \<and> parseLsRemote out ref = Inr sha)"
| "answered_sha repo ref sha _ = False"

fun answered_artifact :: "key \<Rightarrow> resolved_source \<Rightarrow> event \<Rightarrow> bool" where
  "answered_artifact k res (EvFlux (Got k' (Inr x))) =
     (k' = k \<and> fxo_url x = NestedFound (rs_artifact res) \<and>
      (case fxo_revision x of NestedFound r \<Rightarrow> r \<noteq> [] \<and> rs_revision res = normalizeFluxRevision r | _ \<Rightarrow> False))"
| "answered_artifact k res _ = False"

text \<open>Where a revision comes from: the pinned commit, the Flux artifact, or the git reference.\<close>

definition source_resolved :: "string \<Rightarrow> nix_source \<Rightarrow> resolved_source \<Rightarrow> event list \<Rightarrow> bool" where
  "source_resolved ns src res es \<longleftrightarrow>
     (if src_rev src \<noteq> [] then rs_revision res = src_rev src \<and> rs_artifact res = []
      else (case src_flux src of
        Some f \<Rightarrow> list_ex (answered_artifact \<lparr>k_ns = ns, k_name = fx_name f\<rparr> res) es
      | None \<Rightarrow> rs_artifact res = [] \<and>
          list_ex (answered_sha (src_git_repo src) (if src_ref src = [] then defaultGitRef else src_ref src)
            (rs_revision res)) es))"

lemma CredsEnv_calm [runs_intros]:
  assumes "\<And>r es. list_all calm es \<Longrightarrow> R r es"
  shows "runs (CredsEnv E c repo) R"
  unfolding CredsEnv_def ssh_creds_env_def https_creds_env_def abandon_dir_def Let_def
  by (auto intro!: runs_intros assms)

lemma run_ls_remote_answer [runs_intros]:
  assumes "\<And>r es. list_all calm es \<Longrightarrow> (\<And>sha. r = Inr sha \<Longrightarrow> list_ex (answered_sha repo ref sha) es) \<Longrightarrow> R r es"
  shows "runs (run_ls_remote E repo ref env) R"
  unfolding run_ls_remote_def by (auto intro!: runs_intros assms split: sum.splits)

lemma gitLsRemote_answer [runs_intros]:
  assumes "\<And>r es. list_all calm es \<Longrightarrow> (\<And>sha. r = Inr sha \<Longrightarrow> list_ex (answered_sha repo ref sha) es) \<Longrightarrow> R r es"
  shows "runs (gitLsRemote E repo ref creds) R"
  unfolding gitLsRemote_def ExecLsRemote_def
  by (auto intro!: runs_intros runs_call assms)

lemma readGitCreds_calm [runs_intros]:
  assumes "\<And>r es. list_all calm es \<Longrightarrow> R r es"
  shows "runs (readGitCreds E ns name) R"
  unfolding readGitCreds_def by (auto intro!: runs_intros assms)

lemma map_sum_Inr: "map_sum f g r = Inr y \<longleftrightarrow> (\<exists>x. r = Inr x \<and> g x = y)"
  by (cases r) auto

lemma resolveRevision_answer:
  assumes "\<And>r es. list_all calm es \<Longrightarrow> (\<And>res. r = Inr res \<Longrightarrow> source_resolved ns src res es) \<Longrightarrow> R r es"
  shows "runs (resolveRevision E ns src) R"
  unfolding resolveRevision_def resolve_ref_def resolveFluxArtifact_def Let_def
  by (auto intro!: runs_intros assms simp: source_resolved_def map_sum_Inr split: sum.splits nested_string.splits list.splits)

section \<open>Ready infrastructure\<close>

fun answered_store :: "key \<Rightarrow> store_info \<Rightarrow> event \<Rightarrow> bool" where
  "answered_store k info (EvStore (Got k' (Inr x))) =
     (k' = k \<and> sts_phase (sto_status x) = PhaseReady \<and> si_substituter info \<noteq> [] \<and>
      si_substituter info = sts_substituter_url (sto_status x) \<and> si_key info = sts_public_key (sto_status x))"
| "answered_store k info _ = False"

fun answered_builder :: "key \<Rightarrow> builder_info \<Rightarrow> event \<Rightarrow> bool" where
  "answered_builder k info (EvBuilder (Got k' (Inr x))) =
     (k' = k \<and> bst_ready (nb_status x) \<and> bi_endpoint info \<noteq> [] \<and>
      bi_endpoint info = bst_endpoint (nb_status x) \<and> bi_systems info = bs_systems (nb_spec x))"
| "answered_builder k info _ = False"

text \<open>The name of the builder a workload uses: the referenced one, its own one, or none.\<close>

definition used_builder :: "meta \<Rightarrow> nix_spec \<Rightarrow> string" where
  "used_builder owner nix =
     (case nx_builder_ref nix of Some name \<Rightarrow> name
      | None \<Rightarrow> if nx_builder_template nix = None then [] else m_name owner @ ''-builder'')"

definition infra_ready :: "meta \<Rightarrow> nix_spec \<Rightarrow> infra_deps \<Rightarrow> event list \<Rightarrow> bool" where
  "infra_ready owner nix deps es \<longleftrightarrow>
     invalid_paths nix = [] \<and>
     (case nx_store_ref nix of
        None \<Rightarrow> id_store deps = None
      | Some s \<Rightarrow> (case id_store deps of None \<Rightarrow> False
          | Some info \<Rightarrow> list_ex (answered_store \<lparr>k_ns = m_ns owner, k_name = s\<rparr> info) es)) \<and>
     (case id_builder deps of
        None \<Rightarrow> used_builder owner nix = [] \<and> id_ssh_secret deps = []
      | Some info \<Rightarrow> list_ex (answered_builder \<lparr>k_ns = m_ns owner, k_name = used_builder owner nix\<rparr> info) es)"

lemma ensureFiles_calm [runs_intros]:
  assumes "\<And>r es. list_all calm es \<Longrightarrow> R r es"
  shows "runs (ensureAdditionalFilesConfigMap E owner nix) R"
  unfolding ensureAdditionalFilesConfigMap_def Let_def by (auto intro!: runs_intros assms)

lemma builder_name_calm [runs_intros]:
  assumes "\<And>r es. list_all calm es \<Longrightarrow> (\<And>n. r = Inr n \<Longrightarrow> n = used_builder owner nix) \<Longrightarrow> R r es"
  shows "runs (builder_name E owner nix) R"
  unfolding builder_name_def ensureOwnedBuilder_def Let_def
  by (auto intro!: runs_intros assms simp: used_builder_def split: sum.splits option.splits if_splits)

lemma resolve_store_answer [runs_intros]:
  assumes "\<And>r es. list_all calm es \<Longrightarrow> (\<And>why. r = Inr (Inl why) \<Longrightarrow> why \<noteq> []) \<Longrightarrow>
    (\<And>info. r = Inr (Inr info) \<Longrightarrow> list_ex (answered_store \<lparr>k_ns = ns, k_name = s\<rparr> info) es) \<Longrightarrow> R r es"
  shows "runs (resolve_store E ns s) R"
  unfolding resolve_store_def by (auto intro!: runs_intros assms split: sum.splits if_splits)

definition builder_answered :: "string \<Rightarrow> string \<Rightarrow> infra_deps \<Rightarrow> infra_deps \<Rightarrow> event list \<Rightarrow> bool" where
  "builder_answered ns name deps deps' es \<longleftrightarrow> id_store deps' = id_store deps \<and>
     (if id_not_ready deps' \<noteq> [] then True
      else (case id_builder deps' of None \<Rightarrow> name = [] \<and> deps' = deps
        | Some info \<Rightarrow> list_ex (answered_builder \<lparr>k_ns = ns, k_name = name\<rparr> info) es))"

lemma resolve_builder_answer [runs_intros]:
  assumes "\<And>r es. list_all calm es \<Longrightarrow> (\<And>deps'. r = Inr deps' \<Longrightarrow> builder_answered ns name deps deps' es) \<Longrightarrow> R r es"
  shows "runs (resolve_builder E ns nix name deps) R"
  unfolding resolve_builder_def Let_def
  by (auto intro!: runs_intros assms simp: builder_answered_def split: sum.splits if_splits option.splits)

lemma resolve_with_store_answer [runs_intros]:
  assumes "id_builder deps = None"
    and "\<And>r es. list_all calm es \<Longrightarrow>
      (\<And>deps'. r = Inr deps' \<Longrightarrow> builder_answered (m_ns owner) (used_builder owner nix) deps deps' es) \<Longrightarrow> R r es"
  shows "runs (resolve_with_store E owner nix deps) R"
  unfolding resolve_with_store_def
  by (auto intro!: runs_intros assms(2) simp: builder_answered_def assms(1) split: option.splits if_splits)

lemma resolveInfra_answer:
  assumes "\<And>r es. list_all calm es \<Longrightarrow>
    (\<And>deps. r = Inr deps \<Longrightarrow> id_not_ready deps = [] \<Longrightarrow> infra_ready owner nix deps es) \<Longrightarrow> R r es"
  shows "runs (resolveInfra E owner nix) R"
  unfolding resolveInfra_def
  by (auto intro!: runs_intros assms simp: infra_ready_def no_deps_def builder_answered_def
      split: option.splits if_splits)

section \<open>The guarantees\<close>

abbreviation no_writes :: "event list \<Rightarrow> bool" where
  "no_writes es \<equiv> list_all (\<lambda>ev. \<not> native_write ev) es"

text \<open>\<open>ok\<close> is what the kind may write for an object, a revision and its infrastructure. A gated
  trace writes nothing native, or it first resolved the revision and found the infrastructure ready, and
  then wrote only that.\<close>

type_synonym 'o projection = "lib \<Rightarrow> 'o \<Rightarrow> resolved_source \<Rightarrow> infra_deps \<Rightarrow> event \<Rightarrow> bool"

definition gated_writes :: "lib \<Rightarrow> ('w, 'o, 's) workload_kind \<Rightarrow> 'o projection \<Rightarrow> 'o \<Rightarrow> event list \<Rightarrow> bool" where
  "gated_writes L K ok x es \<longleftrightarrow> no_writes es \<or>
     (\<exists>pre post res deps. es = pre @ post \<and> no_writes pre \<and> \<not> nx_suspend (wk_nix K x) \<and>
        source_resolved (m_ns (wk_meta K x)) (nx_source (wk_nix K x)) res pre \<and>
        infra_ready (wk_meta K x) (wk_nix K x) deps pre \<and>
        list_all (\<lambda>ev. native_write ev \<longrightarrow> ok L x res deps ev) post)"

text \<open>The object a reconcile works on: read alive, and read again from the answer to the update that
  added the finalizer. Only its status changes.\<close>

definition worked_on :: "('w, 'o, 's) workload_kind \<Rightarrow> key \<Rightarrow> 'o \<Rightarrow> event list \<Rightarrow> bool" where
  "worked_on K k z es \<longleftrightarrow>
     (\<exists>y es'. es = wk_tag K (Got k (Inr y)) # es' \<and> m_deletion (wk_meta K y) = None \<and>
        (z = y \<or> (\<exists>u es''. es' = wk_tag K (Updated u (Inr z)) # es'')))"

definition rollout_gated :: "'w env \<Rightarrow> ('w, 'o, 's) workload_kind \<Rightarrow> 'o projection \<Rightarrow> key \<Rightarrow> event list \<Rightarrow> bool" where
  "rollout_gated E K ok k es \<longleftrightarrow> no_writes es \<or>
     (\<exists>z x. worked_on K k z es \<and> wk_meta K x = wk_meta K z \<and> wk_nix K x = wk_nix K z \<and> gated_writes (e_lib E) K ok x es)"

text \<open>What a stored status says: \<open>seen\<close> and \<open>healthy\<close> are the kind's evidence that the native
  object is there, and that it is fully rolled out at a revision.\<close>

definition cond_is :: "lib \<Rightarrow> 's wstatus \<Rightarrow> cond_type \<Rightarrow> cond_status \<Rightarrow> bool" where
  "cond_is L st t v = (case lib_find_cond L (ws_conditions st) t of None \<Rightarrow> False | Some c \<Rightarrow> c_status c = v)"

type_synonym 'o evidence = "'o \<Rightarrow> string \<Rightarrow> event \<Rightarrow> bool"

definition status_verdict ::
    "lib \<Rightarrow> ('w, 'o, 's) workload_kind \<Rightarrow> 'o evidence \<Rightarrow> 'o evidence \<Rightarrow> string \<Rightarrow> 'o \<Rightarrow> event list \<Rightarrow> bool" where
  "status_verdict L K seen healthy rolled y es \<longleftrightarrow>
     (let st = wk_status K y in
      ws_observed_gen st = wk_gen K y \<and>
      (if ws_phase st = PhaseReady
       then cond_is L st ConditionReady ConditionTrue \<and> lib_find_cond L (ws_conditions st) ConditionStalled = None \<and>
         ws_rolled_out st = ws_resolved st \<and> list_ex (healthy y (ws_resolved st)) es
       else if ws_phase st = PhaseSuspended then nx_suspend (wk_nix K y)
       else cond_is L st ConditionReady ConditionFalse) \<and>
      (ws_rolled_out st = rolled \<or> ws_rolled_out st = ws_resolved st \<and> list_ex (seen y (ws_resolved st)) es))"

definition status_honest ::
    "'w env \<Rightarrow> ('w, 'o, 's) workload_kind \<Rightarrow> 'o evidence \<Rightarrow> 'o evidence \<Rightarrow> key \<Rightarrow> event list \<Rightarrow> bool" where
  "status_honest E K seen healthy k es \<longleftrightarrow>
     (\<forall>y r. wk_tag K (StatusUpdated y r) \<in> set es \<longrightarrow>
        (\<exists>z. worked_on K k z es \<and> status_verdict (e_lib E) K seen healthy (ws_rolled_out (wk_status K z)) y es))"

text \<open>A reconcile that leaves no follow-up behind: the object is gone, being deleted or suspended.\<close>

definition parked :: "('w, 'o, 's) workload_kind \<Rightarrow> key \<Rightarrow> event list \<Rightarrow> bool" where
  "parked K k es \<longleftrightarrow>
     (\<exists>e. es = [wk_tag K (Got k (Inl e))] \<and> IsNotFound e) \<or>
     (\<exists>y es'. es = wk_tag K (Got k (Inr y)) # es' \<and> m_deletion (wk_meta K y) \<noteq> None) \<or>
     (\<exists>z. worked_on K k z es \<and> nx_suspend (wk_nix K z))"

definition follows_up :: "('w, 'o, 's) workload_kind \<Rightarrow> key \<Rightarrow> reconcile_end \<Rightarrow> event list \<Rightarrow> bool" where
  "follows_up K k fin es \<longleftrightarrow>
     snd fin \<noteq> None \<or> res_requeue (fst fin) \<or> 0 < res_after (fst fin) \<or> parked K k es"

section \<open>Status transitions\<close>

lemma setCondition_fields [simp]:
  "ws_phase (setCondition L st t v rsn msg gen) = ws_phase st"
  "ws_observed_gen (setCondition L st t v rsn msg gen) = ws_observed_gen st"
  "ws_resolved (setCondition L st t v rsn msg gen) = ws_resolved st"
  "ws_rolled_out (setCondition L st t v rsn msg gen) = ws_rolled_out st"
  by (simp_all add: setCondition_def)

lemma cond_is_setCondition [simp]:
  "lib_ok L \<Longrightarrow> cond_is L (setCondition L st t v rsn msg gen) t' v' \<longleftrightarrow>
     (if t' = t then v = v' else cond_is L st t' v')"
  by (simp add: setCondition_def cond_is_def)

lemma mark_fields [simp]:
  "ws_phase (markStalled L st rsn msg gen) = PhaseDegraded"
  "ws_observed_gen (markStalled L st rsn msg gen) = ws_observed_gen st"
  "ws_resolved (markStalled L st rsn msg gen) = ws_resolved st"
  "ws_rolled_out (markStalled L st rsn msg gen) = ws_rolled_out st"
  "ws_phase (markProgressing L st ph msg gen) = ph"
  "ws_observed_gen (markProgressing L st ph msg gen) = ws_observed_gen st"
  "ws_resolved (markProgressing L st ph msg gen) = ws_resolved st"
  "ws_rolled_out (markProgressing L st ph msg gen) = ws_rolled_out st"
  "ws_phase (markReady L st rv gen) = PhaseReady"
  "ws_observed_gen (markReady L st rv gen) = ws_observed_gen st"
  "ws_resolved (markReady L st rv gen) = ws_resolved st"
  "ws_rolled_out (markReady L st rv gen) = rv"
  "ws_phase (clearStalled L st) = ws_phase st"
  "ws_observed_gen (clearStalled L st) = ws_observed_gen st"
  "ws_resolved (clearStalled L st) = ws_resolved st"
  "ws_rolled_out (clearStalled L st) = ws_rolled_out st"
  by (simp_all add: markStalled_def markProgressing_def markReady_def clearStalled_def Let_def)

lemma mark_conds [simp]:
  assumes "lib_ok L"
  shows "cond_is L (markStalled L st rsn msg gen) ConditionReady v \<longleftrightarrow> v = ConditionFalse"
    "cond_is L (markProgressing L st ph msg gen) ConditionReady v \<longleftrightarrow> v = ConditionFalse"
    "cond_is L (markReady L st rv gen) ConditionReady v \<longleftrightarrow> v = ConditionTrue"
    "lib_find_cond L (ws_conditions (markReady L st rv gen)) ConditionStalled = None"
    "t \<noteq> ConditionStalled \<Longrightarrow> cond_is L (clearStalled L st) t v \<longleftrightarrow> cond_is L st t v"
    "lib_find_cond L (ws_conditions (clearStalled L st)) ConditionStalled = None"
  using assms by (auto simp: markStalled_def markProgressing_def markReady_def clearStalled_def cond_is_def setCondition_def Let_def)

lemma mark_before_rollout [simp]:
  "ws_observed_gen (mark_reconciling L gen st) = gen"
  "ws_rolled_out (mark_reconciling L gen st) = ws_rolled_out st"
  "ws_observed_gen (mark_resolved L res now gen st) = ws_observed_gen st"
  "ws_rolled_out (mark_resolved L res now gen st) = ws_rolled_out st"
  "ws_resolved (mark_resolved L res now gen st) = rs_revision res"
  "ws_phase (mark_git_error L e gen st) = PhaseDegraded"
  "ws_observed_gen (mark_git_error L e gen st) = ws_observed_gen st"
  "ws_rolled_out (mark_git_error L e gen st) = ws_rolled_out st"
  "lib_ok L \<Longrightarrow> cond_is L (mark_git_error L e gen st) ConditionReady v \<longleftrightarrow> v = ConditionFalse"
  by (auto simp: mark_reconciling_def mark_resolved_def mark_git_error_def)

section \<open>The shared flow\<close>

lemma source_resolved_append: "source_resolved ns src res es \<Longrightarrow> source_resolved ns src res (es @ es')"
  by (auto simp: source_resolved_def split: option.splits if_splits)

lemma infra_ready_prepend: "infra_ready owner nix deps es' \<Longrightarrow> infra_ready owner nix deps (es @ es')"
  by (auto simp: infra_ready_def split: option.splits)

lemma source_resolved_prepend: "source_resolved ns src res es' \<Longrightarrow> source_resolved ns src res (es @ es')"
  by (auto simp: source_resolved_def split: option.splits if_splits)

lemma status_verdict_grow:
  "status_verdict L K seen healthy rolled y es \<Longrightarrow> status_verdict L K seen healthy rolled y (es0 @ es @ es1)"
  by (auto simp: status_verdict_def Let_def split: if_splits)

lemma pollInterval_pos: "0 < pollInterval nix"
  by (simp add: pollInterval_def defaultPollInterval_def split: option.split)

locale workload_rollout =
  fixes K :: "('w, 'o, 's) workload_kind"
    and ok :: "'o projection"
    and seen :: "'o evidence"
    and healthy :: "'o evidence"
  assumes tag: "workload_event (wk_tag K a)"
    and tag_inj: "wk_tag K a = wk_tag K b \<longleftrightarrow> a = b"
    and lens: "wk_status K (wk_set_status K st x) = st" "wk_meta K (wk_set_status K st x) = wk_meta K x"
      "wk_nix K (wk_set_status K st x) = wk_nix K x"
    and rollout_writes: "runs (wk_rollout K E x res deps) (\<lambda>r es.
      list_all (\<lambda>ev. \<not> workload_event ev \<and> (native_write ev \<longrightarrow> ok (e_lib E) x res deps ev)) es)"
    and rollout_status: "lib_ok (e_lib E) \<Longrightarrow> ws_resolved (wk_status K x) = rs_revision res \<Longrightarrow>
      ws_observed_gen (wk_status K x) = wk_gen K x \<Longrightarrow>
      runs (wk_rollout K E x res deps) (\<lambda>r es. \<forall>x'. r = Inr x' \<longrightarrow>
        status_verdict (e_lib E) K seen healthy (ws_rolled_out (wk_status K x)) x' es)"
begin

lemma with_simps [simp]:
  "wk_status K (wk_with K f x) = f (wk_status K x)" "wk_meta K (wk_with K f x) = wk_meta K x"
  "wk_nix K (wk_with K f x) = wk_nix K x" "wk_gen K (wk_with K f x) = wk_gen K x"
  by (simp_all add: wk_with_def wk_gen_def lens)

lemma tag_no_write [simp]: "\<not> native_write (wk_tag K a)"
  using tag [of a] by (cases "wk_tag K a") auto

lemma store_runs [runs_intros]: "(\<And>r. R r [wk_tag K (StatusUpdated x r)]) \<Longrightarrow> runs (wk_store_status K E x) R"
  unfolding wk_store_status_def by (rule runs_api)

lemma rollout_runs:
  assumes "\<And>r es. list_all (\<lambda>ev. \<not> workload_event ev \<and> (native_write ev \<longrightarrow> ok (e_lib E) x res deps ev)) es \<Longrightarrow> R r es"
  shows "runs (wk_rollout K E x res deps) R"
  by (rule runs_mono [OF rollout_writes]) (rule assms)

definition ready_writes :: "lib \<Rightarrow> 'o \<Rightarrow> resolved_source \<Rightarrow> event list \<Rightarrow> bool" where
  "ready_writes L x res es \<longleftrightarrow> no_writes es \<or>
     (\<exists>pre post deps. es = pre @ post \<and> no_writes pre \<and> infra_ready (wk_meta K x) (wk_nix K x) deps pre \<and>
        list_all (\<lambda>ev. native_write ev \<longrightarrow> ok L x res deps ev) post)"

lemma ready_writesI:
  assumes "no_writes pre" "infra_ready (wk_meta K x) (wk_nix K x) deps pre"
    "list_all (\<lambda>ev. native_write ev \<longrightarrow> ok L x res deps ev) post"
  shows "ready_writes L x res (pre @ post)"
  unfolding ready_writes_def using assms by blast

lemma ready_quiet: "no_writes es \<Longrightarrow> ready_writes L x res es"
  by (simp add: ready_writes_def)

lemma calm_quiet: "list_all calm es \<Longrightarrow> no_writes es"
  by (simp add: list_all_iff)

lemma store_rollout_quiet: "runs (store_rollout K E n x) (\<lambda>_ es. no_writes es)"
  unfolding store_rollout_def by (auto intro!: runs_intros)

lemma preflight_writes: "runs (preflight_rollout K E x res) (\<lambda>_. ready_writes (e_lib E) x res)"
proof -
  have go: "runs (State_Monad.bind (wk_rollout K E x res deps) (\<lambda>r. case r of Inl e \<Rightarrow> State_Monad.return (done_res, Some e)
        | Inr x' \<Rightarrow> store_rollout K E n x')) (\<lambda>b es'. ready_writes (e_lib E) x res (es @ es'))"
    if es: "list_all calm es" and d: "infra_ready (wk_meta K x) (wk_nix K x) deps es" for deps n es
  proof (rule runs_bind, rule rollout_runs)
    fix r es1
    assume es1: "list_all (\<lambda>ev. \<not> workload_event ev \<and> (native_write ev \<longrightarrow> ok (e_lib E) x res deps ev)) es1"
    have R: "ready_writes (e_lib E) x res (es @ es1 @ es2)" if "no_writes es2" for es2
      by (rule ready_writesI [OF calm_quiet [OF es] d]) (use es1 that in \<open>auto simp: list_all_iff\<close>)
    show "runs (case r of Inl e \<Rightarrow> State_Monad.return (done_res, Some e) | Inr x' \<Rightarrow> store_rollout K E n x')
        (\<lambda>b es2. ready_writes (e_lib E) x res (es @ es1 @ es2))"
      by (intro runs_intros R runs_mono [OF store_rollout_quiet]) simp_all
  qed
  show ?thesis
    unfolding preflight_rollout_def
    by (rule runs_bind, rule resolveInfra_answer)
      (intro go runs_case_sum runs_if runs_return runs_bind [where m = "wk_store_status _ _ _"] store_runs ready_quiet; simp add: calm_quiet)
qed

lemma gated_quiet: "no_writes es \<Longrightarrow> gated_writes L K ok x es"
  by (simp add: gated_writes_def)

lemma gated_ready:
  assumes "list_all calm es" "\<not> nx_suspend (wk_nix K x)"
    "source_resolved (m_ns (wk_meta K x)) (nx_source (wk_nix K x)) res es" "ready_writes L x res es'"
  shows "gated_writes L K ok x (es @ EvHost (ClockRead now) # es')"
  using assms(4) unfolding ready_writes_def
proof
  assume "no_writes es'"
  then show ?thesis by (intro gated_quiet) (use calm_quiet [OF assms(1)] in simp)
next
  assume "\<exists>pre post deps. es' = pre @ post \<and> no_writes pre \<and> infra_ready (wk_meta K x) (wk_nix K x) deps pre \<and>
    list_all (\<lambda>ev. native_write ev \<longrightarrow> ok L x res deps ev) post"
  then obtain pre post deps where p: "es' = pre @ post" "no_writes pre" "infra_ready (wk_meta K x) (wk_nix K x) deps pre"
    "list_all (\<lambda>ev. native_write ev \<longrightarrow> ok L x res deps ev) post" by blast
  show ?thesis
    unfolding gated_writes_def
    by (rule disjI2, intro exI [of _ "es @ EvHost (ClockRead now) # pre"] exI [of _ post] exI [of _ res] exI [of _ deps])
      (use p calm_quiet [OF assms(1)] assms(2) source_resolved_append [OF assms(3)]
        infra_ready_prepend [OF p(3), of "es @ [EvHost (ClockRead now)]"] in simp)
qed

text \<open>Up to its status, \<open>x\<close> is the object the rest of the flow works on.\<close>

definition gated_from :: "lib \<Rightarrow> 'o \<Rightarrow> event list \<Rightarrow> bool" where
  "gated_from L x es \<longleftrightarrow>
     (\<exists>x'. wk_meta K x' = wk_meta K x \<and> wk_nix K x' = wk_nix K x \<and> gated_writes L K ok x' es)"

lemma gated_from_quiet: "no_writes es \<Longrightarrow> gated_from L x es"
  unfolding gated_from_def by (auto intro: exI [of _ x] gated_quiet)

lemma gated_from_ready:
  assumes "list_all calm es" "\<not> nx_suspend (wk_nix K x)"
    "source_resolved (m_ns (wk_meta K x)) (nx_source (wk_nix K x)) res es" "ready_writes L (wk_with K f x) res es'"
  shows "gated_from L x (es @ [EvHost (ClockRead now)] @ es')"
  unfolding gated_from_def
  using gated_ready [of es "wk_with K f x" res L es' now] assms by (auto intro: exI [of _ "wk_with K f x"])

lemma resolve_writes:
  assumes "\<not> nx_suspend (wk_nix K x)"
  shows "runs (resolve_rollout K E x) (\<lambda>_. gated_from (e_lib E) x)"
  unfolding resolve_rollout_def
  by (rule runs_bind, rule resolveRevision_answer)
    (intro runs_intros runs_mono [OF preflight_writes] gated_from_ready gated_from_quiet;
      simp add: calm_quiet assms)

lemma live_writes: "runs (workload_live K E x) (\<lambda>_. gated_from (e_lib E) x)"
proof -
  have "runs (resolve_rollout K E (wk_with K f x)) (\<lambda>_. gated_from (e_lib E) x)" if "\<not> nx_suspend (wk_nix K x)" for f
    by (rule runs_mono [OF resolve_writes]) (use that in \<open>simp_all add: gated_from_def\<close>)
  then show ?thesis
    unfolding workload_live_def Let_def
    by (intro runs_if) (auto intro!: runs_intros gated_from_quiet)
qed

lemma wk_runs [runs_intros]:
  "(\<And>r. R r [wk_tag K (Got k r)]) \<Longrightarrow> runs (wk_get K E k) R"
  "(\<And>r. R r [wk_tag K (Updated x r)]) \<Longrightarrow> runs (wk_update K E x) R"
  unfolding wk_get_def wk_update_def by (rule runs_api; assumption)+

lemma removeFinalizer_runs [runs_intros]:
  assumes "\<And>r. R r []" "\<And>r u a. R r [wk_tag K (Updated u a)]"
  shows "runs (removeFinalizer K E x) R"
  unfolding removeFinalizer_def Let_def by (auto intro!: runs_intros assms)

lemma ensureFinalizer_runs:
  assumes "R (Inr x) []" "\<And>u r. R r [wk_tag K (Updated u r)]"
  shows "runs (ensureFinalizer K E x) R"
  unfolding ensureFinalizer_def Let_def by (auto intro!: runs_intros assms)

text \<open>The frame of a reconcile: what holds of the live part, for every object it may work on, holds of
  the whole, given what the other ends need.\<close>

lemma reconcile_frame:
  assumes "\<And>e. R (done_res, ignore_not_found (Some e)) [wk_tag K (Got k (Inl e))]"
    and "\<And>y es r. m_deletion (wk_meta K y) \<noteq> None \<Longrightarrow> no_writes es \<Longrightarrow> (\<And>z q. wk_tag K (StatusUpdated z q) \<notin> set es) \<Longrightarrow>
      R (done_res, r) (wk_tag K (Got k (Inr y)) # es)"
    and "\<And>y u e. R (done_res, Some e) [wk_tag K (Got k (Inr y)), wk_tag K (Updated u (Inl e))]"
    and "\<And>z pre. worked_on K k z pre \<Longrightarrow> no_writes pre \<Longrightarrow> (\<And>y q. wk_tag K (StatusUpdated y q) \<notin> set pre) \<Longrightarrow>
      runs (workload_live K E z) (\<lambda>fin es. R fin (pre @ es))"
  shows "runs (workload_reconcile K E k) R"
proof -
  have live: "runs (workload_live K E z) (\<lambda>fin es. R fin (wk_tag K (Got k (Inr y)) # pre @ es))"
    if "m_deletion (wk_meta K y) = None" "pre = [] \<and> z = y \<or> (\<exists>u. pre = [wk_tag K (Updated u (Inr z))])" for y z pre
    using assms(4) [of z "wk_tag K (Got k (Inr y)) # pre"] that by (auto simp: worked_on_def tag_inj)
  show ?thesis
    unfolding workload_reconcile_def
    using live [where pre = "[]"] live [where pre = "[_]"]
    by (auto intro!: runs_intros ensureFinalizer_runs assms(1-3) simp: tag_inj split: sum.split)
qed

lemma worked_on_append: "worked_on K k z es \<Longrightarrow> worked_on K k z (es @ es')"
  unfolding worked_on_def by (metis append_Cons)

lemma gated_prepend:
  assumes "no_writes es0" "gated_writes L K ok x es"
  shows "gated_writes L K ok x (es0 @ es)"
  using assms(2) unfolding gated_writes_def
proof (elim disjE exE conjE)
  fix pre post res deps
  assume "es = pre @ post" "no_writes pre" "\<not> nx_suspend (wk_nix K x)"
    "source_resolved (m_ns (wk_meta K x)) (nx_source (wk_nix K x)) res pre"
    "infra_ready (wk_meta K x) (wk_nix K x) deps pre"
    "list_all (\<lambda>ev. native_write ev \<longrightarrow> ok L x res deps ev) post"
  then show "no_writes (es0 @ es) \<or> (\<exists>pre post res deps. es0 @ es = pre @ post \<and> no_writes pre \<and>
      \<not> nx_suspend (wk_nix K x) \<and> source_resolved (m_ns (wk_meta K x)) (nx_source (wk_nix K x)) res pre \<and>
      infra_ready (wk_meta K x) (wk_nix K x) deps pre \<and> list_all (\<lambda>ev. native_write ev \<longrightarrow> ok L x res deps ev) post)"
    using assms(1)
    by (intro disjI2 exI [of _ "es0 @ pre"] exI [of _ post] exI [of _ res] exI [of _ deps])
      (simp add: source_resolved_prepend infra_ready_prepend)
qed (use assms(1) in simp)

lemma reconcile_gated: "runs (workload_reconcile K E k) (\<lambda>_. rollout_gated E K ok k)"
proof (rule reconcile_frame)
  fix z pre
  assume w: "worked_on K k z pre" and q: "no_writes pre"
  show "runs (workload_live K E z) (\<lambda>fin es. rollout_gated E K ok k (pre @ es))"
  proof (rule runs_mono [OF live_writes])
    fix es
    assume "gated_from (e_lib E) z es"
    then show "rollout_gated E K ok k (pre @ es)"
      using gated_prepend [OF q] worked_on_append [OF w]
      unfolding gated_from_def rollout_gated_def by blast
  qed
qed (auto simp: rollout_gated_def)

section \<open>Honest statuses\<close>

text \<open>Every status update of a part of the flow tells the truth.\<close>

definition tells :: "lib \<Rightarrow> string \<Rightarrow> event list \<Rightarrow> bool" where
  "tells L rolled es \<longleftrightarrow>
     (\<forall>y r. wk_tag K (StatusUpdated y r) \<in> set es \<longrightarrow> status_verdict L K seen healthy rolled y es)"

lemma calm_silent: "list_all calm es \<Longrightarrow> wk_tag K a \<notin> set es"
  using tag [of a] by (auto simp: list_all_iff)

lemma tells_silent: "(\<And>y r. wk_tag K (StatusUpdated y r) \<notin> set es) \<Longrightarrow> tells L rolled es"
  by (simp add: tells_def)

lemma tells_last:
  assumes "\<And>y r. wk_tag K (StatusUpdated y r) \<notin> set es" "status_verdict L K seen healthy rolled x es"
  shows "tells L rolled (es @ [wk_tag K (StatusUpdated x r)])"
  using assms status_verdict_grow [OF assms(2), of "[]"] by (auto simp: tells_def tag_inj)

lemma tells_prepend:
  assumes "\<And>y r. wk_tag K (StatusUpdated y r) \<notin> set es0" "tells L rolled es"
  shows "tells L rolled (es0 @ es)"
  using assms status_verdict_grow [where ?es1.0 = "[]"] by (fastforce simp: tells_def)

lemma stalled_verdict:
  assumes "lib_ok L" "ws_observed_gen (wk_status K x) = wk_gen K x" "ws_rolled_out (wk_status K x) = rolled"
  shows "status_verdict L K seen healthy rolled (wk_with K (\<lambda>st. markStalled L st rsn msg gen) x) es"
  using assms by (simp add: status_verdict_def Let_def)

lemma store_rollout_tells:
  assumes "\<And>y r. wk_tag K (StatusUpdated y r) \<notin> set es" "status_verdict L K seen healthy rolled x es"
  shows "runs (store_rollout K E n x) (\<lambda>_ es'. tells L rolled (es @ es'))"
  unfolding store_rollout_def
  using tells_last [OF assms] by (auto intro!: runs_intros)

lemma rollout_tells:
  assumes "lib_ok (e_lib E)" "ws_resolved (wk_status K x) = rs_revision res"
    "ws_observed_gen (wk_status K x) = wk_gen K x"
  shows "runs (State_Monad.bind (wk_rollout K E x res deps) (\<lambda>r. case r of Inl e \<Rightarrow> State_Monad.return (done_res, Some e)
        | Inr x' \<Rightarrow> store_rollout K E n x')) (\<lambda>_. tells (e_lib E) (ws_rolled_out (wk_status K x)))"
proof (rule runs_then [OF runs_conj [OF rollout_writes rollout_status [OF assms]]], elim conjE)
  fix r :: "err + 'o" and es
  assume q: "list_all (\<lambda>ev. \<not> workload_event ev \<and> (native_write ev \<longrightarrow> ok (e_lib E) x res deps ev)) es"
    and v: "\<forall>x'. r = Inr x' \<longrightarrow> status_verdict (e_lib E) K seen healthy (ws_rolled_out (wk_status K x)) x' es"
  have silent: "wk_tag K a \<notin> set es" for a using q tag [of a] by (auto simp: list_all_iff)
  show "runs (case r of Inl e \<Rightarrow> State_Monad.return (done_res, Some e) | Inr x' \<Rightarrow> store_rollout K E n x')
      (\<lambda>_ es'. tells (e_lib E) (ws_rolled_out (wk_status K x)) (es @ es'))"
    by (intro runs_intros store_rollout_tells) (use silent v in \<open>simp_all add: tells_silent\<close>)
qed

lemma preflight_tells:
  assumes "lib_ok (e_lib E)" "ws_resolved (wk_status K x) = rs_revision res"
    "ws_observed_gen (wk_status K x) = wk_gen K x" "ws_rolled_out (wk_status K x) = rolled"
  shows "runs (preflight_rollout K E x res) (\<lambda>_. tells (e_lib E) rolled)"
proof -
  have go: "runs (State_Monad.bind (wk_rollout K E x res deps) (\<lambda>r. case r of Inl e \<Rightarrow> State_Monad.return (done_res, Some e)
        | Inr x' \<Rightarrow> store_rollout K E n x')) (\<lambda>_ es'. tells (e_lib E) rolled (es @ es'))" if "list_all calm es" for deps n es
    by (rule runs_mono [OF rollout_tells [OF assms(1-3)]])
      (use assms(4) tells_prepend [OF calm_silent [OF that]] in blast)
  have stall: "tells (e_lib E) rolled (es @ [wk_tag K (StatusUpdated (wk_with K (\<lambda>st. markStalled (e_lib E) st rsn msg gen) x) r)])"
    if "list_all calm es" for es rsn msg gen r
    by (rule tells_last) (use calm_silent [OF that] stalled_verdict assms in auto)
  show ?thesis
    unfolding preflight_rollout_def
    by (rule runs_bind, rule resolveInfra_answer)
      (intro go runs_case_sum runs_if runs_return runs_bind [where m = "wk_store_status _ _ _"] store_runs;
        simp add: calm_silent tells_silent stall)
qed

lemma resolve_tells:
  assumes "lib_ok (e_lib E)" "ws_observed_gen (wk_status K x) = wk_gen K x" "ws_rolled_out (wk_status K x) = rolled"
  shows "runs (resolve_rollout K E x) (\<lambda>_. tells (e_lib E) rolled)"
proof -
  have err: "tells (e_lib E) rolled (es @ [wk_tag K (StatusUpdated (wk_with K (mark_git_error (e_lib E) e gen) x) r)])"
    if "list_all calm es" for es e gen r
    by (rule tells_last) (use calm_silent [OF that] assms in \<open>auto simp: status_verdict_def Let_def\<close>)
  have go: "runs (preflight_rollout K E (wk_with K (mark_resolved (e_lib E) res now (wk_gen K x)) x) res)
      (\<lambda>_ es'. tells (e_lib E) rolled (es @ [EvHost (ClockRead now)] @ es'))" if "list_all calm es" for es now res
    by (rule runs_mono [OF preflight_tells [OF assms(1), where rolled = rolled]])
      (use assms(2,3) in \<open>auto intro!: tells_prepend [of "es @ [EvHost (ClockRead now)]", simplified] simp: calm_silent [OF that]
        calm_silent [of "[EvHost (ClockRead now)]", simplified]\<close>)
  show ?thesis
    unfolding resolve_rollout_def
    by (rule runs_bind, rule resolveRevision_answer) (intro runs_intros go; simp add: err)
qed

lemma live_tells:
  assumes "lib_ok (e_lib E)"
  shows "runs (workload_live K E z) (\<lambda>_. tells (e_lib E) (ws_rolled_out (wk_status K z)))"
proof -
  let ?x = "wk_with K (mark_reconciling (e_lib E) (wk_gen K z)) z"
  have susp: "tells (e_lib E) (ws_rolled_out (wk_status K z))
      [wk_tag K (StatusUpdated (wk_with K (\<lambda>st. st\<lparr>ws_phase := PhaseSuspended\<rparr>) ?x) r)]" if "nx_suspend (wk_nix K z)" for r
    by (rule tells_last [where es = "[]", simplified]) (use that in \<open>simp add: status_verdict_def Let_def\<close>)
  have "runs (resolve_rollout K E ?x) (\<lambda>_. tells (e_lib E) (ws_rolled_out (wk_status K z)))"
    by (rule resolve_tells [OF assms]) simp_all
  then show ?thesis
    unfolding workload_live_def Let_def by (auto intro!: runs_intros susp)
qed

lemma reconcile_honest:
  assumes "lib_ok (e_lib E)"
  shows "runs (workload_reconcile K E k) (\<lambda>_. status_honest E K seen healthy k)"
proof (rule reconcile_frame)
  fix z pre
  assume w: "worked_on K k z pre" and n: "\<And>y q. wk_tag K (StatusUpdated y q) \<notin> set pre"
  show "runs (workload_live K E z) (\<lambda>fin es. status_honest E K seen healthy k (pre @ es))"
  proof (rule runs_mono [OF live_tells [OF assms]])
    fix es
    assume "tells (e_lib E) (ws_rolled_out (wk_status K z)) es"
    then show "status_honest E K seen healthy k (pre @ es)"
      using tells_prepend [OF n] worked_on_append [OF w] unfolding status_honest_def tells_def by blast
  qed
qed (auto simp: status_honest_def tag_inj)

section \<open>No lost workload\<close>

abbreviation comes_back :: "reconcile_end \<Rightarrow> bool" where
  "comes_back fin \<equiv> snd fin \<noteq> None \<or> res_requeue (fst fin) \<or> 0 < res_after (fst fin)"

lemma live_follows: "runs (workload_live K E z) (\<lambda>fin _. comes_back fin \<or> nx_suspend (wk_nix K z))"
  unfolding workload_live_def resolve_rollout_def preflight_rollout_def store_rollout_def Let_def
  by (intro runs_intros resolveRevision_answer resolveInfra_answer rollout_runs)
    (auto simp: after_res_def requeue_res_def infraRequeue_def pollInterval_pos split: sum.split)

lemma reconcile_follows: "runs (workload_reconcile K E k) (follows_up K k)"
proof (rule reconcile_frame)
  fix z pre
  assume w: "worked_on K k z pre"
  show "runs (workload_live K E z) (\<lambda>fin es. follows_up K k fin (pre @ es))"
    by (rule runs_mono [OF live_follows]) (use worked_on_append [OF w] in \<open>auto simp: follows_up_def parked_def\<close>)
qed (auto simp: follows_up_def parked_def ignore_not_found_def)

end

end
