(* ===== verification/Workload_Kinds.thy ===== *)
theory Workload_Kinds
  imports Rollout
begin

text \<open>
  The four workload kinds as interpretations of \<open>workload_rollout\<close>: what each may write for a
  revision on ready infrastructure, and what each takes as evidence that a revision is rolled out. The
  properties of the shared flow follow for all four.
\<close>

section \<open>NixJob\<close>

text \<open>The run-Job of the revision is created; finished Jobs of other revisions are deleted; nothing is
  updated.\<close>

fun job_writes :: "nix_job projection" where
  "job_writes L x res deps (EvBatchJob (Created j r)) =
     (let d = desiredJob x res deps (run_job_name x res) in
      case lib_set_controller_ref L (nj_meta x) (bj_meta d) of Inl _ \<Rightarrow> False | Inr m \<Rightarrow> j = d\<lparr>bj_meta := m\<rparr>)"
| "job_writes L x res deps (EvBatchJob (Deleted j r)) = (finished j \<and> m_name (bj_meta j) \<noteq> run_job_name x res)"
| "job_writes L x res deps _ = False"

fun job_complete :: "nix_job evidence" where
  "job_complete x rv (EvBatchJob (Got k (Inr j))) =
     (k = \<lparr>k_ns = m_ns (nj_meta x), k_name = run_job_name x \<lparr>rs_revision = rv, rs_artifact = []\<rparr>\<rparr> \<and>
      jobHasCondition j JobComplete)"
| "job_complete x rv _ = False"

lemma delete_jobs_runs [runs_intros]:
  assumes "\<And>r es. list_all (\<lambda>ev. \<exists>j \<in> set js. \<exists>d. ev = EvBatchJob (Deleted j d)) es \<Longrightarrow> R r es"
  shows "runs (delete_jobs E js) R"
  using assms
proof (induction js arbitrary: R)
  case (Cons j js)
  have "runs (delete_jobs E js) (\<lambda>b es'. R b (EvBatchJob (Deleted j d) # es'))" for d
    by (rule Cons.IH) (use Cons.prems in \<open>fastforce simp: list_all_iff\<close>)
  then show ?case by (auto intro!: runs_intros Cons.prems)
qed (auto intro!: runs_intros)

abbreviation job_step :: "lib \<Rightarrow> nix_job \<Rightarrow> resolved_source \<Rightarrow> infra_deps \<Rightarrow> event \<Rightarrow> bool" where
  "job_step L x res deps ev \<equiv> \<not> workload_event ev \<and> (native_write ev \<longrightarrow> job_writes L x res deps ev)"

lemma ensureRunJob_runs [runs_intros]:
  assumes "\<And>r es. list_all (job_step (e_lib E) nj res deps) es \<Longrightarrow> R r es"
  shows "runs (ensureRunJob E nj res deps (run_job_name nj res)) R"
  unfolding ensureRunJob_def create_run_job_def listRunJobs_def
  by (auto intro!: runs_intros assms simp: Let_def split: sum.splits)

lemma set_completed_runs: "set (completed_runs name jobs) = {j \<in> set jobs. m_name (bj_meta j) \<noteq> name \<and> finished j}"
  by (auto simp: completed_runs_def)

lemma gcOldJobs_runs [runs_intros]:
  assumes "name = run_job_name x res" "\<And>r es. list_all (job_step L x res deps) es \<Longrightarrow> R r es"
  shows "runs (gcOldJobs E nj name) R"
proof -
  have del: "list_all (job_step L x res deps) es"
    if "list_all (\<lambda>ev. \<exists>j \<in> set (drop n (completed_runs name jobs)). \<exists>d. ev = EvBatchJob (Deleted j d)) es" for es n jobs
    using that set_completed_runs [of name jobs] assms(1) by (auto simp: list_all_iff dest!: bspec in_set_dropD)
  show ?thesis
    unfolding gcOldJobs_def listRunJobs_def
    by (auto intro!: runs_intros assms(2) dest: del)
qed

lemma job_with_simps [simp]:
  "nj_meta (job_with f nj) = nj_meta nj" "nj_spec (job_with f nj) = nj_spec nj"
  "nj_status (job_with f nj) = f (nj_status nj)"
  by (simp_all add: job_with_def)

lemma run_job_name_cong:
  "nj_meta x = nj_meta y \<Longrightarrow> nj_spec x = nj_spec y \<Longrightarrow> rs_revision res = rs_revision res' \<Longrightarrow>
     run_job_name x res = run_job_name y res'"
  by (simp add: run_job_name_def)

lemma copy_job_status_fields [simp]:
  "ws_phase (copy_job_status job n st) = ws_phase st" "ws_observed_gen (copy_job_status job n st) = ws_observed_gen st"
  "ws_resolved (copy_job_status job n st) = ws_resolved st" "ws_rolled_out (copy_job_status job n st) = ws_rolled_out st"
  by (simp_all add: copy_job_status_def)

lemma job_verdict_told:
  assumes "lib_ok L" "ws_resolved (nj_status nj) = rs_revision res"
    "ws_observed_gen (nj_status nj) = m_gen (nj_meta nj)" "ws_rolled_out (nj_status nj) = rolled"
    and x': "x' = job_with (\<lambda>st. job_verdict L job gen (copy_job_status job n st)) nj"
  shows "status_verdict L job_kind job_complete job_complete rolled x'
    [EvBatchJob (Got \<lparr>k_ns = m_ns (nj_meta nj), k_name = run_job_name nj res\<rparr> (Inr job))]"
proof -
  have "run_job_name x' \<lparr>rs_revision = rs_revision res, rs_artifact = []\<rparr> = run_job_name nj res"
    unfolding x' by (rule run_job_name_cong) simp_all
  then show ?thesis
    using assms(1-4)
    by (cases "jobHasCondition job JobComplete"; cases "jobHasCondition job JobFailed")
      (simp_all add: status_verdict_def wk_gen_def job_kind_def Let_def x' job_verdict_def)
qed

lemma JobObserve_verdict:
  assumes "lib_ok (e_lib E)" "ws_resolved (nj_status nj) = rs_revision res"
    "ws_observed_gen (nj_status nj) = m_gen (nj_meta nj)" "ws_rolled_out (nj_status nj) = rolled"
  shows "runs (JobObserve E nj (run_job_name nj res)) (\<lambda>r es. \<forall>x'. r = Inr x' \<longrightarrow>
    status_verdict (e_lib E) job_kind job_complete job_complete rolled x' es)"
proof -
  have "status_verdict (e_lib E) job_kind job_complete job_complete rolled
      (job_with (\<lambda>st. markProgressing (e_lib E) st PhaseProgressing msg gen) nj) es" for msg gen es
    using assms by (simp add: status_verdict_def wk_gen_def job_kind_def Let_def)
  then show ?thesis
    unfolding JobObserve_def Let_def
    by (auto intro!: runs_intros job_verdict_told [OF assms refl] split: sum.splits if_splits)
qed

lemma job_rollout_verdict:
  assumes "lib_ok (e_lib E)" "ws_resolved (nj_status nj) = rs_revision res"
    "ws_observed_gen (nj_status nj) = m_gen (nj_meta nj)"
  shows "runs (job_rollout E nj res deps) (\<lambda>r es. \<forall>x'. r = Inr x' \<longrightarrow>
    status_verdict (e_lib E) job_kind job_complete job_complete (ws_rolled_out (nj_status nj)) x' es)"
proof -
  let ?nj = "job_with (\<lambda>st. st\<lparr>ws_workload_ref := run_job_name nj res\<rparr>) nj"
  have name: "run_job_name ?nj res = run_job_name nj res" by (rule run_job_name_cong) simp_all
  have obs: "runs (JobObserve E ?nj (run_job_name nj res)) (\<lambda>r es. \<forall>x'. r = Inr x' \<longrightarrow>
    status_verdict (e_lib E) job_kind job_complete job_complete (ws_rolled_out (nj_status nj)) x' es)"
    by (rule JobObserve_verdict [where nj = ?nj and res = res, unfolded name]) (use assms in simp_all)
  show ?thesis
    unfolding job_rollout_def Let_def
    by (intro runs_intros runs_then [OF obs] refl) (auto intro: status_verdict_grow)
qed

interpretation job: workload_rollout job_kind job_writes job_complete job_complete
proof unfold_locales
  fix E :: "'w env" and x :: nix_job and res :: resolved_source and deps
  show "runs (wk_rollout job_kind E x res deps) (\<lambda>r es. list_all (job_step (e_lib E) x res deps) es)"
    unfolding job_kind_def job_rollout_def JobObserve_def Let_def
    by (auto intro!: runs_intros simp: list_all_iff)
next
  fix E :: "'w env" and x :: nix_job and res :: resolved_source and deps
  assume "lib_ok (e_lib E)" "ws_resolved (wk_status job_kind x) = rs_revision res"
    "ws_observed_gen (wk_status job_kind x) = wk_gen job_kind x"
  then show "runs (wk_rollout job_kind E x res deps) (\<lambda>r es. \<forall>x'. r = Inr x' \<longrightarrow>
      status_verdict (e_lib E) job_kind job_complete job_complete (ws_rolled_out (wk_status job_kind x)) x' es)"
    using job_rollout_verdict by (simp add: job_kind_def wk_gen_def)
qed (auto simp: job_kind_def)

section \<open>NixCronJob\<close>

text \<open>The CronJob follows the rendered spec; a one-off Job is created when the trigger asks for it.\<close>

fun cron_writes :: "nix_cron_job projection" where
  "cron_writes L x res deps (EvBatchCron (Created c r)) =
     (let d = desiredCronJob x res deps in
      case lib_set_controller_ref L (ncj_meta x) (bc_meta d) of Inl _ \<Rightarrow> False | Inr m \<Rightarrow> c = d\<lparr>bc_meta := m\<rparr>)"
| "cron_writes L x res deps (EvBatchCron (Updated c r)) = (bc_spec c = bc_spec (desiredCronJob x res deps))"
| "cron_writes L x res deps (EvBatchJob (Created j r)) =
     (triggerOnChange (ncj_nix (ncj_spec x)) False \<and> ws_rolled_out (ncj_status x) \<noteq> rs_revision res \<and>
      (let d = immediateJob x res deps in
       case lib_set_controller_ref L (ncj_meta x) (bj_meta d) of Inl _ \<Rightarrow> False | Inr m \<Rightarrow> j = d\<lparr>bj_meta := m\<rparr>))"
| "cron_writes L x res deps _ = False"

fun cron_seen :: "nix_cron_job evidence" where
  "cron_seen x rv (EvBatchCron (Got k (Inr c))) = (k = key_of (ncj_meta x))"
| "cron_seen x rv _ = False"

text \<open>Healthy: the CronJob is there and the latest finished run did not fail.\<close>

definition cron_healthy :: "nix_cron_job evidence" where
  "cron_healthy x rv ev \<longleftrightarrow> cron_seen x rv ev \<and>
     \<not> fst (latestRunFailed (ncj_last_failed (ncj_status x)) (ncj_last_successful (ncj_status x)))"

lemma cron_with_simps [simp]:
  "ncj_meta (cron_with f x) = ncj_meta x" "ncj_spec (cron_with f x) = ncj_spec x"
  "ncj_status (cron_with f x) = f (ncj_status x)"
  by (simp_all add: cron_with_def)

lemma lastFinishedRuns_runs [runs_intros]:
  assumes "\<And>r a. R r [EvBatchJob (Listed lo a)]" "lo = \<lparr>lo_ns = m_ns (ncj_meta x), lo_labels = [], lo_fields = []\<rparr>"
  shows "runs (lastFinishedRuns E x cj) R"
  unfolding lastFinishedRuns_def Let_def by (intro runs_intros; simp add: assms(1) flip: assms(2))

lemma setCondition_runs_fields [simp]:
  "ncj_last_failed (setCondition L st t v rsn msg gen) = ncj_last_failed st"
  "ncj_last_successful (setCondition L st t v rsn msg gen) = ncj_last_successful st"
  "ncj_last_failed (clearStalled L st) = ncj_last_failed st"
  "ncj_last_successful (clearStalled L st) = ncj_last_successful st"
  "ncj_last_failed (markReady L st rv gen) = ncj_last_failed st"
  "ncj_last_successful (markReady L st rv gen) = ncj_last_successful st"
  by (simp_all add: setCondition_def clearStalled_def markReady_def Let_def)

lemma cron_verdict_cases:
  assumes "lib_ok L"
  shows "ws_observed_gen (cron_verdict L rv lf ls gen st) = ws_observed_gen st"
    "ws_resolved (cron_verdict L rv lf ls gen st) = ws_resolved st"
    "ws_rolled_out (cron_verdict L rv lf ls gen st) = rv"
    "ncj_last_failed (cron_verdict L rv lf ls gen st) = lf"
    "ncj_last_successful (cron_verdict L rv lf ls gen st) = ls"
    "ws_phase (cron_verdict L rv lf ls gen st) = (if fst (latestRunFailed lf ls) then PhaseDegraded else PhaseReady)"
    "cond_is L (cron_verdict L rv lf ls gen st) ConditionReady
       (if fst (latestRunFailed lf ls) then ConditionFalse else ConditionTrue)"
    "lib_find_cond L (ws_conditions (cron_verdict L rv lf ls gen st)) ConditionStalled = None"
proof -
  obtain b msg where v: "latestRunFailed lf ls = (b, msg)" by force
  have roll: "cond_is L (x\<lparr>ws_rolled_out := r\<rparr>) t c = cond_is L x t c" for x :: nix_cron_job_status and r t c
    by (simp add: cond_is_def)
  show "ws_observed_gen (cron_verdict L rv lf ls gen st) = ws_observed_gen st"
    "ws_resolved (cron_verdict L rv lf ls gen st) = ws_resolved st"
    "ws_rolled_out (cron_verdict L rv lf ls gen st) = rv"
    "ncj_last_failed (cron_verdict L rv lf ls gen st) = lf"
    "ncj_last_successful (cron_verdict L rv lf ls gen st) = ls"
    "ws_phase (cron_verdict L rv lf ls gen st) = (if fst (latestRunFailed lf ls) then PhaseDegraded else PhaseReady)"
    "cond_is L (cron_verdict L rv lf ls gen st) ConditionReady
       (if fst (latestRunFailed lf ls) then ConditionFalse else ConditionTrue)"
    "lib_find_cond L (ws_conditions (cron_verdict L rv lf ls gen st)) ConditionStalled = None"
    using assms by (cases b; simp add: cron_verdict_def v Let_def roll)+
qed

lemma CronObserve_verdict:
  assumes "lib_ok (e_lib E)" "ws_resolved (ncj_status x) = rs_revision res"
    "ws_observed_gen (ncj_status x) = m_gen (ncj_meta x)" "ws_rolled_out (ncj_status x) = rolled"
  shows "runs (CronObserve E x res) (\<lambda>x' es. status_verdict (e_lib E) cron_kind cron_seen cron_healthy rolled x' es)"
proof -
  have prog: "status_verdict (e_lib E) cron_kind cron_seen cron_healthy rolled
      (cron_with (\<lambda>st. markProgressing (e_lib E) st PhaseProgressing msg gen) x) es" for msg gen es
    using assms by (simp add: status_verdict_def wk_gen_def cron_kind_def Let_def)
  have seen: "status_verdict (e_lib E) cron_kind cron_seen cron_healthy rolled
      (cron_with (cron_verdict (e_lib E) (rs_revision res) lf ls gen) (cron_with (copy_cron_status cj) x))
      [EvBatchCron (Got (key_of (ncj_meta x)) (Inr cj)), ev]" for lf ls gen cj ev
  proof -
    have copy: "ws_observed_gen (copy_cron_status cj (ncj_status x)) = m_gen (ncj_meta x)"
      "ws_resolved (copy_cron_status cj (ncj_status x)) = rs_revision res"
      by (simp_all add: copy_cron_status_def assms)
    show ?thesis
      using copy cron_verdict_cases [OF assms(1), of "rs_revision res" lf ls gen "copy_cron_status cj (ncj_status x)"]
      by (auto simp: status_verdict_def wk_gen_def cron_kind_def Let_def cron_healthy_def)
  qed
  show ?thesis
    unfolding CronObserve_def Let_def by (auto intro!: runs_intros prog seen)
qed

abbreviation cron_step :: "lib \<Rightarrow> nix_cron_job \<Rightarrow> resolved_source \<Rightarrow> infra_deps \<Rightarrow> event \<Rightarrow> bool" where
  "cron_step L x res deps ev \<equiv> \<not> workload_event ev \<and> (native_write ev \<longrightarrow> cron_writes L x res deps ev)"

lemma CronProject_runs [runs_intros]:
  assumes "\<And>r es. list_all (cron_step (e_lib E) x res deps) es \<Longrightarrow> R r es"
  shows "runs (CronProject E x res deps) R"
  unfolding CronProject_def Let_def by (auto intro!: runs_intros assms)

lemma fire_on_change_runs [runs_intros]:
  assumes "\<And>es. list_all (cron_step (e_lib E) x res deps) es \<Longrightarrow> R () es"
  shows "runs (fire_on_change E x res deps) R"
  unfolding fire_on_change_def fireImmediateJob_def Let_def
  by (auto intro!: runs_intros assms split: sum.split)

lemma cron_rollout_verdict:
  assumes "lib_ok (e_lib E)" "ws_resolved (ncj_status x) = rs_revision res"
    "ws_observed_gen (ncj_status x) = m_gen (ncj_meta x)"
  shows "runs (cron_rollout E x res deps) (\<lambda>r es. \<forall>x'. r = Inr x' \<longrightarrow>
    status_verdict (e_lib E) cron_kind cron_seen cron_healthy (ws_rolled_out (ncj_status x)) x' es)"
    (is "runs _ (\<lambda>r es. \<forall>x'. _ \<longrightarrow> ?V x' es)")
proof -
  have obs: "runs (CronObserve E (cron_with (\<lambda>st. st\<lparr>ws_workload_ref := n\<rparr>) x) res) ?V" for n
    by (rule CronObserve_verdict) (use assms in simp_all)
  have told: "?V y (es0 @ es1 @ es)" if "?V y es" for y es0 es1 es
    using status_verdict_grow [OF that, of "es0 @ es1" "[]"] by simp
  show ?thesis
    unfolding cron_rollout_def
    by (rule runs_bind, rule CronProject_runs, rule runs_case_option, rule runs_bind, rule fire_on_change_runs,
        rule runs_then [OF obs], rule runs_return, simp add: told, rule runs_return, simp)
qed

lemma CronObserve_runs [runs_intros]:
  assumes "\<And>r es. list_all calm es \<Longrightarrow> R r es"
  shows "runs (CronObserve E x res) R"
  unfolding CronObserve_def Let_def by (auto intro!: runs_intros assms)

interpretation cron: workload_rollout cron_kind cron_writes cron_seen cron_healthy
proof unfold_locales
  fix E :: "'w env" and x :: nix_cron_job and res :: resolved_source and deps
  show "runs (wk_rollout cron_kind E x res deps) (\<lambda>r es. list_all (cron_step (e_lib E) x res deps) es)"
    unfolding cron_kind_def cron_rollout_def
    by (auto intro!: runs_intros simp: list_all_iff)
next
  fix E :: "'w env" and x :: nix_cron_job and res :: resolved_source and deps
  assume "lib_ok (e_lib E)" "ws_resolved (wk_status cron_kind x) = rs_revision res"
    "ws_observed_gen (wk_status cron_kind x) = wk_gen cron_kind x"
  then show "runs (wk_rollout cron_kind E x res deps) (\<lambda>r es. \<forall>x'. r = Inr x' \<longrightarrow>
      status_verdict (e_lib E) cron_kind cron_seen cron_healthy (ws_rolled_out (wk_status cron_kind x)) x' es)"
    using cron_rollout_verdict by (simp add: cron_kind_def wk_gen_def)
qed (auto simp: cron_kind_def)

section \<open>NixDeployment\<close>

text \<open>An update follows replicas, template and strategy of the desired Deployment.\<close>

fun deployment_writes :: "nix_deployment projection" where
  "deployment_writes L x res deps (EvDeployment (Created d r)) =
     (let w = desiredDeployment x res deps in
      case lib_set_controller_ref L (nd_meta x) (dp_meta w) of Inl _ \<Rightarrow> False | Inr m \<Rightarrow> d = w\<lparr>dp_meta := m\<rparr>)"
| "deployment_writes L x res deps (EvDeployment (Updated d r)) = (update_deployment d (desiredDeployment x res deps) = d)"
| "deployment_writes L x res deps _ = False"

fun deployment_complete :: "nix_deployment evidence" where
  "deployment_complete x rv (EvDeployment (Got k (Inr d))) =
     (k = key_of (nd_meta x) \<and> deployment_rolled_out d \<and> replica_failure d = None)"
| "deployment_complete x rv _ = False"

lemma deployment_with_simps [simp]:
  "nd_meta (deployment_with f x) = nd_meta x" "nd_spec (deployment_with f x) = nd_spec x"
  "nd_status (deployment_with f x) = f (nd_status x)"
  by (simp_all add: deployment_with_def)

lemma update_deployment_idem [simp]: "update_deployment (update_deployment d w) w = update_deployment d w"
  by (simp add: update_deployment_def)

lemma observePodInit_runs [runs_intros]:
  assumes "\<And>r lo a. R r [EvPod (Listed lo a)]"
  shows "runs (observePodInit E ns kind name rv) R"
  unfolding observePodInit_def by (auto intro!: runs_intros assms)

lemma copy_deployment_status_fields [simp]:
  "ws_observed_gen (copy_deployment_status ds st) = ws_observed_gen st"
  "ws_resolved (copy_deployment_status ds st) = ws_resolved st"
  "ws_rolled_out (copy_deployment_status ds st) = ws_rolled_out st"
  by (simp_all add: copy_deployment_status_def)

lemma deployment_verdict_told:
  assumes "lib_ok L" "ws_resolved (nd_status nd) = rs_revision res"
    "ws_observed_gen (nd_status nd) = m_gen (nd_meta nd)" "ws_rolled_out (nd_status nd) = rolled"
  shows "status_verdict L deployment_kind deployment_complete deployment_complete rolled
    (deployment_with (\<lambda>st. deployment_verdict L dep pis (rs_revision res) gen (copy_deployment_status (dp_status dep) st)) nd)
    [EvDeployment (Got (key_of (nd_meta nd)) (Inr dep)), ev]"
  using assms
  by (cases "pis_failing pis"; cases "replica_failure dep"; cases "deployment_rolled_out dep"; cases "pis_building pis")
    (simp_all add: status_verdict_def wk_gen_def deployment_kind_def Let_def deployment_verdict_def)

lemma DeploymentObserve_verdict:
  assumes "lib_ok (e_lib E)" "ws_resolved (nd_status nd) = rs_revision res"
    "ws_observed_gen (nd_status nd) = m_gen (nd_meta nd)" "ws_rolled_out (nd_status nd) = rolled"
  shows "runs (DeploymentObserve E nd res) (\<lambda>r es. \<forall>x'. r = Inr x' \<longrightarrow>
    status_verdict (e_lib E) deployment_kind deployment_complete deployment_complete rolled x' es)"
  unfolding DeploymentObserve_def Let_def
  by (auto intro!: runs_intros deployment_verdict_told [OF assms] split: sum.splits)

abbreviation deployment_step :: "lib \<Rightarrow> nix_deployment \<Rightarrow> resolved_source \<Rightarrow> infra_deps \<Rightarrow> event \<Rightarrow> bool" where
  "deployment_step L x res deps ev \<equiv> \<not> workload_event ev \<and> (native_write ev \<longrightarrow> deployment_writes L x res deps ev)"

lemma DeploymentProject_runs [runs_intros]:
  assumes "\<And>r es. list_all (deployment_step (e_lib E) x res deps) es \<Longrightarrow> R r es"
  shows "runs (DeploymentProject E x res deps) R"
  unfolding DeploymentProject_def Let_def by (auto intro!: runs_intros assms)

lemma deployment_rollout_verdict:
  assumes "lib_ok (e_lib E)" "ws_resolved (nd_status x) = rs_revision res"
    "ws_observed_gen (nd_status x) = m_gen (nd_meta x)"
  shows "runs (deployment_rollout E x res deps) (\<lambda>r es. \<forall>x'. r = Inr x' \<longrightarrow>
    status_verdict (e_lib E) deployment_kind deployment_complete deployment_complete (ws_rolled_out (nd_status x)) x' es)"
    (is "runs _ (\<lambda>r es. \<forall>x'. _ \<longrightarrow> ?V x' es)")
proof -
  have obs: "runs (DeploymentObserve E (deployment_with (\<lambda>st. st\<lparr>ws_workload_ref := n\<rparr>) x) res)
      (\<lambda>r es. \<forall>x'. r = Inr x' \<longrightarrow> ?V x' es)" for n
    by (rule DeploymentObserve_verdict) (use assms in simp_all)
  have told: "?V y (es0 @ es)" if "?V y es" for y es0 es
    using status_verdict_grow [OF that, of es0 "[]"] by simp
  show ?thesis
    unfolding deployment_rollout_def
    by (rule runs_bind, rule DeploymentProject_runs, rule runs_case_option, rule runs_mono [OF obs], simp add: told,
        rule runs_return, simp)
qed

lemma DeploymentObserve_runs [runs_intros]:
  assumes "\<And>r es. list_all calm es \<Longrightarrow> R r es"
  shows "runs (DeploymentObserve E x res) R"
  unfolding DeploymentObserve_def Let_def by (auto intro!: runs_intros assms)

interpretation deployment: workload_rollout deployment_kind deployment_writes deployment_complete deployment_complete
proof unfold_locales
  fix E :: "'w env" and x :: nix_deployment and res :: resolved_source and deps
  show "runs (wk_rollout deployment_kind E x res deps) (\<lambda>r es. list_all (deployment_step (e_lib E) x res deps) es)"
    unfolding deployment_kind_def deployment_rollout_def
    by (auto intro!: runs_intros simp: list_all_iff)
next
  fix E :: "'w env" and x :: nix_deployment and res :: resolved_source and deps
  assume "lib_ok (e_lib E)" "ws_resolved (wk_status deployment_kind x) = rs_revision res"
    "ws_observed_gen (wk_status deployment_kind x) = wk_gen deployment_kind x"
  then show "runs (wk_rollout deployment_kind E x res deps) (\<lambda>r es. \<forall>x'. r = Inr x' \<longrightarrow>
      status_verdict (e_lib E) deployment_kind deployment_complete deployment_complete
        (ws_rolled_out (wk_status deployment_kind x)) x' es)"
    using deployment_rollout_verdict by (simp add: deployment_kind_def wk_gen_def)
qed (auto simp: deployment_kind_def)

section \<open>NixStatefulSet\<close>

text \<open>An update follows replicas, template and update strategy of the desired StatefulSet.\<close>

fun statefulset_writes :: "nix_statefulset projection" where
  "statefulset_writes L x res deps (EvStatefulSet (Created d r)) =
     (let w = desiredStatefulSet x res deps in
      case lib_set_controller_ref L (nss_meta x) (sf_meta w) of Inl _ \<Rightarrow> False | Inr m \<Rightarrow> d = w\<lparr>sf_meta := m\<rparr>)"
| "statefulset_writes L x res deps (EvStatefulSet (Updated d r)) = (update_statefulset d (desiredStatefulSet x res deps) = d)"
| "statefulset_writes L x res deps _ = False"

fun statefulset_complete :: "nix_statefulset evidence" where
  "statefulset_complete x rv (EvStatefulSet (Got k (Inr d))) =
     (k = key_of (nss_meta x) \<and> statefulset_rolled_out d)"
| "statefulset_complete x rv _ = False"

lemma statefulset_with_simps [simp]:
  "nss_meta (statefulset_with f x) = nss_meta x" "nss_spec (statefulset_with f x) = nss_spec x"
  "nss_status (statefulset_with f x) = f (nss_status x)"
  by (simp_all add: statefulset_with_def)

lemma update_statefulset_idem [simp]: "update_statefulset (update_statefulset d w) w = update_statefulset d w"
  by (simp add: update_statefulset_def)

lemma copy_statefulset_status_fields [simp]:
  "ws_observed_gen (copy_statefulset_status ds st) = ws_observed_gen st"
  "ws_resolved (copy_statefulset_status ds st) = ws_resolved st"
  "ws_rolled_out (copy_statefulset_status ds st) = ws_rolled_out st"
  by (simp_all add: copy_statefulset_status_def)

lemma statefulset_verdict_told:
  assumes "lib_ok L" "ws_resolved (nss_status nss) = rs_revision res"
    "ws_observed_gen (nss_status nss) = m_gen (nss_meta nss)" "ws_rolled_out (nss_status nss) = rolled"
  shows "status_verdict L statefulset_kind statefulset_complete statefulset_complete rolled
    (statefulset_with (\<lambda>st. statefulset_verdict L dep pis (rs_revision res) gen (copy_statefulset_status (sf_status dep) st)) nss)
    [EvStatefulSet (Got (key_of (nss_meta nss)) (Inr dep)), ev]"
  using assms
  by (cases "pis_failing pis"; cases "statefulset_rolled_out dep"; cases "pis_building pis")
    (simp_all add: status_verdict_def wk_gen_def statefulset_kind_def Let_def statefulset_verdict_def)

lemma StatefulSetObserve_verdict:
  assumes "lib_ok (e_lib E)" "ws_resolved (nss_status nss) = rs_revision res"
    "ws_observed_gen (nss_status nss) = m_gen (nss_meta nss)" "ws_rolled_out (nss_status nss) = rolled"
  shows "runs (StatefulSetObserve E nss res) (\<lambda>r es. \<forall>x'. r = Inr x' \<longrightarrow>
    status_verdict (e_lib E) statefulset_kind statefulset_complete statefulset_complete rolled x' es)"
  unfolding StatefulSetObserve_def Let_def
  by (auto intro!: runs_intros statefulset_verdict_told [OF assms] split: sum.splits)

abbreviation statefulset_step :: "lib \<Rightarrow> nix_statefulset \<Rightarrow> resolved_source \<Rightarrow> infra_deps \<Rightarrow> event \<Rightarrow> bool" where
  "statefulset_step L x res deps ev \<equiv> \<not> workload_event ev \<and> (native_write ev \<longrightarrow> statefulset_writes L x res deps ev)"

lemma StatefulSetProject_runs [runs_intros]:
  assumes "\<And>r es. list_all (statefulset_step (e_lib E) x res deps) es \<Longrightarrow> R r es"
  shows "runs (StatefulSetProject E x res deps) R"
  unfolding StatefulSetProject_def Let_def by (auto intro!: runs_intros assms)

lemma statefulset_rollout_verdict:
  assumes "lib_ok (e_lib E)" "ws_resolved (nss_status x) = rs_revision res"
    "ws_observed_gen (nss_status x) = m_gen (nss_meta x)"
  shows "runs (statefulset_rollout E x res deps) (\<lambda>r es. \<forall>x'. r = Inr x' \<longrightarrow>
    status_verdict (e_lib E) statefulset_kind statefulset_complete statefulset_complete (ws_rolled_out (nss_status x)) x' es)"
    (is "runs _ (\<lambda>r es. \<forall>x'. _ \<longrightarrow> ?V x' es)")
proof -
  have obs: "runs (StatefulSetObserve E (statefulset_with (\<lambda>st. st\<lparr>ws_workload_ref := n\<rparr>) x) res)
      (\<lambda>r es. \<forall>x'. r = Inr x' \<longrightarrow> ?V x' es)" for n
    by (rule StatefulSetObserve_verdict) (use assms in simp_all)
  have told: "?V y (es0 @ es)" if "?V y es" for y es0 es
    using status_verdict_grow [OF that, of es0 "[]"] by simp
  show ?thesis
    unfolding statefulset_rollout_def
    by (rule runs_bind, rule StatefulSetProject_runs, rule runs_case_option, rule runs_mono [OF obs], simp add: told,
        rule runs_return, simp)
qed

lemma StatefulSetObserve_runs [runs_intros]:
  assumes "\<And>r es. list_all calm es \<Longrightarrow> R r es"
  shows "runs (StatefulSetObserve E x res) R"
  unfolding StatefulSetObserve_def Let_def by (auto intro!: runs_intros assms)

interpretation statefulset: workload_rollout statefulset_kind statefulset_writes statefulset_complete statefulset_complete
proof unfold_locales
  fix E :: "'w env" and x :: nix_statefulset and res :: resolved_source and deps
  show "runs (wk_rollout statefulset_kind E x res deps) (\<lambda>r es. list_all (statefulset_step (e_lib E) x res deps) es)"
    unfolding statefulset_kind_def statefulset_rollout_def
    by (auto intro!: runs_intros simp: list_all_iff)
next
  fix E :: "'w env" and x :: nix_statefulset and res :: resolved_source and deps
  assume "lib_ok (e_lib E)" "ws_resolved (wk_status statefulset_kind x) = rs_revision res"
    "ws_observed_gen (wk_status statefulset_kind x) = wk_gen statefulset_kind x"
  then show "runs (wk_rollout statefulset_kind E x res deps) (\<lambda>r es. \<forall>x'. r = Inr x' \<longrightarrow>
      status_verdict (e_lib E) statefulset_kind statefulset_complete statefulset_complete
        (ws_rolled_out (wk_status statefulset_kind x)) x' es)"
    using statefulset_rollout_verdict by (simp add: statefulset_kind_def wk_gen_def)
qed (auto simp: statefulset_kind_def)

section \<open>Properties\<close>

text \<open>C3. A rollout needs a resolved revision and ready infrastructure: a reconcile of any workload kind
  writes native objects (Jobs, CronJobs, Deployments, StatefulSets) only for a live object that is not
  suspended, after the revision was answered in the same reconcile (the pinned commit, the Flux
  artifact or the git reference) and the referenced NixStore and NixBuilder were read ready; and what
  it writes is rendered from exactly these answers. A NixJob never updates a Job and deletes only
  finished Jobs of other revisions; a one-off cron Job is created only for a changed revision with the
  trigger on.\<close>

theorem rollouts_are_gated:
  "runs (JobReconcile E k) (\<lambda>_. rollout_gated E job_kind job_writes k) \<and>
   runs (CronReconcile E k) (\<lambda>_. rollout_gated E cron_kind cron_writes k) \<and>
   runs (DeploymentReconcile E k) (\<lambda>_. rollout_gated E deployment_kind deployment_writes k) \<and>
   runs (StatefulSetReconcile E k) (\<lambda>_. rollout_gated E statefulset_kind statefulset_writes k)"
  unfolding JobReconcile_def CronReconcile_def DeploymentReconcile_def StatefulSetReconcile_def
  by (intro conjI job.reconcile_gated cron.reconcile_gated deployment.reconcile_gated statefulset.reconcile_gated)



text \<open>C18. No live workload is lost: every reconcile ends with an error, an immediate requeue or a positive
  requeue delay (the poll interval, or 15 seconds while the source or the infrastructure is not
  ready), unless the object is gone, being deleted or suspended.\<close>

theorem live_workload_comes_back:
  fixes E :: "'w env"
  shows "runs (JobReconcile E k) (follows_up (job_kind :: ('w, _, _) workload_kind) k) \<and>
    runs (CronReconcile E k) (follows_up (cron_kind :: ('w, _, _) workload_kind) k) \<and>
    runs (DeploymentReconcile E k) (follows_up (deployment_kind :: ('w, _, _) workload_kind) k) \<and>
    runs (StatefulSetReconcile E k) (follows_up (statefulset_kind :: ('w, _, _) workload_kind) k)"
  unfolding JobReconcile_def CronReconcile_def DeploymentReconcile_def StatefulSetReconcile_def
  by (intro conjI job.reconcile_follows cron.reconcile_follows deployment.reconcile_follows statefulset.reconcile_follows)

end
