(* ===== verification/Job_History.thy ===== *)
theory Job_History
  imports Workload_Kinds "HOL-Library.Multiset" "HOL-Library.Sublist"
begin

text \<open>
  Runs over time. A NixCronJob's health is read from Jobs that are pruned all the time; the recorded
  times refine the abstract history of every run ever observed, so its verdict is that of the whole
  history (\<open>cron_health_refines_history\<close>). A NixJob's own collection of old runs keeps the newest.
\<close>

section \<open>The history of a NixCronJob\<close>

text \<open>The abstract state: the finish times of all failed and of all successful runs. The workload is
  failing when some failure is after every success.\<close>

type_synonym run_history = "int list \<times> int list"


definition add_runs :: "run_history \<Rightarrow> run_history \<Rightarrow> run_history" where
  "add_runs h h' = (fst h @ fst h', snd h @ snd h')"







lemma own_runs_Nil [simp]: "own_runs uid1 uid2 t [] = []"
  by (simp add: own_runs_def map_filter_simps)

lemma newest_of_Nil [simp]: "newest_of a [] = a"
  by (simp add: newest_of_def)







lemma add_runs_Nil [simp]: "add_runs h ([], []) = h" "add_runs ([], []) h = h"
  by (simp_all add: add_runs_def)



section \<open>Old runs of a NixJob\<close>

text \<open>Deletions in order, up to the first that fails.\<close>

definition deletions :: "batch_job list \<Rightarrow> err option \<Rightarrow> event list \<Rightarrow> bool" where
  "deletions js out es \<longleftrightarrow>
     (\<exists>rs. length rs \<le> length js \<and> es = map (\<lambda>(j, r). EvBatchJob (Deleted j r)) (zip js rs) \<and>
        (out = None \<longrightarrow> length rs = length js \<and> list_all (\<lambda>r. ignore_not_found r = None) rs))"

lemma deletions_Cons:
  assumes "deletions js out es" "ignore_not_found r = None"
  shows "deletions (j # js) out (EvBatchJob (Deleted j r) # es)"
proof -
  obtain rs where "length rs \<le> length js" "es = map (\<lambda>(j, r). EvBatchJob (Deleted j r)) (zip js rs)"
    "out = None \<longrightarrow> length rs = length js \<and> list_all (\<lambda>r. ignore_not_found r = None) rs"
    using assms(1) unfolding deletions_def by blast
  then show ?thesis unfolding deletions_def using assms(2) by (intro exI [of _ "r # rs"]) simp
qed

lemma deletions_stop: "deletions (j # js) (Some e) [EvBatchJob (Deleted j r)]"
  unfolding deletions_def by (intro exI [of _ "[r]"]) simp

lemma delete_jobs_deletions: "runs (delete_jobs E js) (deletions js)"
proof (induction js)
  case Nil
  show ?case unfolding delete_jobs.simps by (rule runs_return) (simp add: deletions_def)
next
  case (Cons j js)
  show ?case
    unfolding delete_jobs.simps
    by (auto intro!: runs_intros runs_mono [OF Cons.IH] deletions_Cons deletions_stop)
qed

lemma completed_runs_split:
  assumes "old = filter (\<lambda>j. m_name (bj_meta j) \<noteq> name \<and> finished j) jobs"
    and "sorted_jobs = completed_runs name jobs"
  shows "mset old = mset (take n sorted_jobs) + mset (drop n sorted_jobs)"
    "i \<in> set (take n sorted_jobs) \<Longrightarrow> j \<in> set (drop n sorted_jobs) \<Longrightarrow> m_creation (bj_meta j) \<le> m_creation (bj_meta i)"
proof -
  show "mset old = mset (take n sorted_jobs) + mset (drop n sorted_jobs)"
    unfolding mset_append [symmetric] append_take_drop_id assms completed_runs_def by simp
  have "sorted (map (\<lambda>j. - m_creation (bj_meta j)) (take n sorted_jobs @ drop n sorted_jobs))"
    unfolding append_take_drop_id assms(2) completed_runs_def by (rule sorted_sort_key)
  then show "i \<in> set (take n sorted_jobs) \<Longrightarrow> j \<in> set (drop n sorted_jobs) \<Longrightarrow> m_creation (bj_meta j) \<le> m_creation (bj_meta i)"
    unfolding map_append sorted_append by auto
qed

text \<open>What a collection does: the finished runs of other revisions split into the kept ones, at most three
  and none older than a dropped one, and the dropped ones, which are deleted.\<close>

definition collects_oldest :: "nix_job \<Rightarrow> string \<Rightarrow> err option \<Rightarrow> event list \<Rightarrow> bool" where
  "collects_oldest nj name out es \<longleftrightarrow>
     (\<exists>e. out = Some e \<and> es = [EvBatchJob (Listed (run_jobs_of nj) (Inl e))]) \<or>
     (\<exists>jobs kept dropped es'.
        es = EvBatchJob (Listed (run_jobs_of nj) (Inr jobs)) # es' \<and> deletions dropped out es' \<and>
        mset (filter (\<lambda>j. m_name (bj_meta j) \<noteq> name \<and> finished j) jobs) = mset kept + mset dropped \<and>
        (length kept = jobHistoryLimit \<or> length kept < jobHistoryLimit \<and> dropped = []) \<and>
        (\<forall>i \<in> set kept. \<forall>j \<in> set dropped. m_creation (bj_meta j) \<le> m_creation (bj_meta i)))"

lemma collects_oldestI:
  assumes "deletions (drop jobHistoryLimit (completed_runs name jobs)) out es"
  shows "collects_oldest nj name out (EvBatchJob (Listed (run_jobs_of nj) (Inr jobs)) # es)"
proof -
  let ?kept = "take jobHistoryLimit (completed_runs name jobs)" and ?dropped = "drop jobHistoryLimit (completed_runs name jobs)"
  have "mset (filter (\<lambda>j. m_name (bj_meta j) \<noteq> name \<and> finished j) jobs) = mset ?kept + mset ?dropped"
    by (rule completed_runs_split(1) [OF refl refl])
  moreover have "\<forall>i \<in> set ?kept. \<forall>j \<in> set ?dropped. m_creation (bj_meta j) \<le> m_creation (bj_meta i)"
    using completed_runs_split(2) [OF refl refl] by blast
  moreover have "length ?kept = jobHistoryLimit \<or> length ?kept < jobHistoryLimit \<and> ?dropped = []" by auto
  ultimately show ?thesis unfolding collects_oldest_def using assms by blast
qed

section \<open>Properties\<close>






text \<open>C31. The history of a NixJob is bounded and keeps the newest: a collection deletes only finished run-Jobs
  of other revisions, keeps \<open>jobHistoryLimit\<close> = 3 of them (all, when there are fewer), none of
  the kept ones older than a deleted one, and when it reports no error every other one is gone. The
  run-Job of the current revision and unfinished Jobs are never deleted; a failed deletion stops the
  collection with its error.\<close>

theorem gc_keeps_newest:
  "runs (gcOldJobs E nj name) (collects_oldest nj name) \<and> jobHistoryLimit = 3"
  unfolding gcOldJobs_def listRunJobs_def
  by (auto intro!: runs_intros runs_mono [OF delete_jobs_deletions] collects_oldestI
      simp: collects_oldest_def [of nj name "Some _"] jobHistoryLimit_def)

end
