(* ===== verification/Infra_Controllers.thy ===== *)
theory Infra_Controllers
  imports Workload
begin

text \<open>
  The controllers of the infrastructure objects: NixStore (\<open>nixstore_controller.go\<close>, a binary
  cache) and NixBuilder (\<open>nixbuilder_controller.go\<close>, a remote build worker), each a headless
  Service and a StatefulSet with its status, and the Secrets of a store. The random source and the
  key generation are host operations; \<open>base64.StdEncoding\<close> is written out.
\<close>

section \<open>Constants\<close>

definition SigningKeySecretPrivateField :: string where
  [const_defs]: "SigningKeySecretPrivateField = ''nix-signing-key''"
definition SigningKeySecretPublicField :: string where
  [const_defs]: "SigningKeySecretPublicField = ''nix-public-key''"
definition nixStoreVolumeName :: string where [const_defs]: "nixStoreVolumeName = ''nix-store''"
definition signingKeyVolumeName :: string where [const_defs]: "signingKeyVolumeName = ''signing-key''"
definition builderStoreVolumeName :: string where [const_defs]: "builderStoreVolumeName = ''nix-store''"
definition DefaultNixStoreImage :: string where "DefaultNixStoreImage = ''nixos/nix:latest''"
definition DefaultNixBuilderImage :: string where "DefaultNixBuilderImage = ''nixos/nix:latest''"
definition NixStoreHTTPPort :: nat where "NixStoreHTTPPort = 5000"
definition NixStoreSSHPort :: nat where "NixStoreSSHPort = 22"
definition NixBuilderSSHPort :: nat where "NixBuilderSSHPort = 22"
definition nixStoreRequeue :: int where "nixStoreRequeue = 30"
definition nixBuilderRequeue :: int where "nixBuilderRequeue = 30"

section \<open>Scripts\<close>

definition storeStartScript :: string where
  \<open>storeStartScript =
     script
       [''set -eu'',
        ''mkdir -p /etc/harmonia /etc/nix /root/.ssh /run/sshd'',
        ''# Accept pushes from the builder/pods over ssh-ng as a trusted user (so unsigned'',
        ''# store paths built remotely can be imported).'',
        ''cat > /etc/nix/nix.conf <<'' @ [CHR 0x27] @ ''NIXCFG'' @ [CHR 0x27],
        ''experimental-features = nix-command flakes'',
        ''trusted-users = root'',
        ''require-sigs = false'',
        ''NIXCFG'',
        ''# Authorize the shared remote-build key, then start sshd (ssh-ng runs'',
        ''# '' @ [CHR 0x27] @ ''nix daemon --stdio'' @ [CHR 0x27] @ '' per connection; no standalone daemon needed).'',
        ''cp /etc/nio/ssh/ssh-authorized-key /root/.ssh/authorized_keys'',
        ''chmod 600 /root/.ssh/authorized_keys''] @
     sshdBringUp False @
     script
       [[],
        ''# Serve the store over HTTP for substituter clients.'',
        ''cat > /etc/harmonia/config.toml <<'' @ [CHR 0x27] @ ''CFG'' @ [CHR 0x27],
        ''bind = "[::]:5000"'',
        ''workers = 4'',
        ''max_connection_rate = 256'',
        ''priority = 30'',
        ''sign_key_paths = ["/etc/nix/signing/nix-signing-key"]'',
        ''CFG'',
        ''exec nix run nixpkgs#harmonia'']\<close>

definition builderStartScript :: "bool \<Rightarrow> string" where
  \<open>builderStartScript hasStore =
     (let authSetup = (if hasStore
            then ''mkdir -p /root/.ssh && chmod 700 /root/.ssh'' @ [CHR 0x0A] @ ''cp '' @ sshKeyMountPath @ ''/'' @ sshSecretPublicKey @
              '' /root/.ssh/authorized_keys'' @ [CHR 0x0A] @ ''chmod 600 /root/.ssh/authorized_keys'' @ [CHR 0x0A]
            else [])
      in script
        [''set -eu'',
         ''mkdir -p /etc/nix'',
         ''cat > /etc/nix/nix.conf <<'' @ [CHR 0x27] @ ''NIXCFG'' @ [CHR 0x27],
         ''experimental-features = nix-command flakes'',
         ''trusted-users = root'',
         ''NIXCFG''] @
      authSetup @ sshdBringUp True)\<close>

section \<open>The signing key\<close>

definition base64_char :: "nat \<Rightarrow> char" where
  "base64_char n = (if n < 26 then char_of (65 + n) else if n < 52 then char_of (97 + (n - 26))
     else if n < 62 then char_of (48 + (n - 52)) else if n = 62 then CHR ''+'' else CHR ''/'')"

fun base64 :: "nat list \<Rightarrow> string" where
  "base64 [] = []"
| "base64 [a] = [base64_char (a div 4), base64_char (a mod 4 * 16), CHR ''='', CHR ''='']"
| "base64 [a, b] = [base64_char (a div 4), base64_char (a mod 4 * 16 + b div 16), base64_char (b mod 16 * 4), CHR ''='']"
| "base64 (a # b # c # bs) =
     [base64_char (a div 4), base64_char (a mod 4 * 16 + b div 16), base64_char (b mod 16 * 4 + c div 64), base64_char (c mod 64)]
     @ base64 bs"

definition base64_encode :: "string \<Rightarrow> string" where
  "base64_encode s = base64 (map of_char s)"

text \<open>\<open>(secretKey, publicKey)\<close>.\<close>

definition generateNixSigningKey :: "'w env \<Rightarrow> string \<Rightarrow> ('w, err + string \<times> string) prog" where
  "generateNixSigningKey E keyName = do {
     k \<leftarrow> host_ed25519 E;
     State_Monad.return (case k of
        Inl e \<Rightarrow> Inl (wrap_err ''generating ed25519 key: '' e)
      | Inr (pub, priv) \<Rightarrow> Inr (keyName @ '':'' @ base64_encode priv, keyName @ '':'' @ base64_encode pub))
   }"

definition signingKeySecretName :: "nix_store \<Rightarrow> string" where
  "signingKeySecretName store =
     (case sto_signing_ref (sto_spec store) of Some name \<Rightarrow> name | None \<Rightarrow> m_name (sto_meta store) @ ''-signing-key'')"

definition signing_secret :: "meta \<Rightarrow> string \<Rightarrow> string \<Rightarrow> secret" where
  "signing_secret m priv pub = \<lparr>sec_meta = m, sec_type = ''Opaque'',
     sec_data = [SigningKeySecretPrivateField \<mapsto> priv, SigningKeySecretPublicField \<mapsto> pub]\<rparr>"

definition create_signing_secret :: "'w env \<Rightarrow> key \<Rightarrow> secret \<Rightarrow> string \<Rightarrow> ('w, err + string) prog" where
  "create_signing_secret E k sec pub = do {
     c \<leftarrow> api_create (e_secrets E) EvSecret sec;
     (case c of
        Inr _ \<Rightarrow> State_Monad.return (Inr pub)
      | Inl e \<Rightarrow>
          if IsAlreadyExists e then do {
            g \<leftarrow> api_get (e_secrets E) EvSecret k;
            State_Monad.return (case g of
               Inr other \<Rightarrow> Inr (data_value (sec_data other) SigningKeySecretPublicField)
             | Inl _ \<Rightarrow> Inl (wrap_err ''creating signing-key secret: '' e))
          }
          else State_Monad.return (Inl (wrap_err ''creating signing-key secret: '' e)))
   }"

text \<open>The branch of a Secret that does not exist yet.\<close>

definition generate_signing_secret :: "'w env \<Rightarrow> nix_store \<Rightarrow> key \<Rightarrow> ('w, err + string) prog" where
  "generate_signing_secret E store k = do {
     kp \<leftarrow> generateNixSigningKey E (m_ns (sto_meta store) @ ''-'' @ m_name (sto_meta store) @ ''-1'');
     (case kp of
        Inl e \<Rightarrow> State_Monad.return (Inl e)
      | Inr (priv, pub) \<Rightarrow>
          (case lib_set_controller_ref (e_lib E) (sto_meta store)
                  (zero_meta\<lparr>m_name := k_name k, m_ns := k_ns k, m_labels := managedLabels ''NixStore'' (m_name (sto_meta store))\<rparr>) of
             Inl e \<Rightarrow> State_Monad.return (Inl e)
           | Inr m \<Rightarrow> create_signing_secret E k (signing_secret m priv pub) pub))
   }"

definition ensureSigningKey :: "'w env \<Rightarrow> nix_store \<Rightarrow> ('w, err + string) prog" where
  "ensureSigningKey E store =
     (let k = \<lparr>k_ns = m_ns (sto_meta store), k_name = signingKeySecretName store\<rparr> in
      case sto_signing_ref (sto_spec store) of
        Some name \<Rightarrow> do {
          g \<leftarrow> api_get (e_secrets E) EvSecret k;
          State_Monad.return (case g of
             Inl e \<Rightarrow> Inl (wrap_err (''reading signing-key secret '' @ go_quote name @ '': '') e)
           | Inr sec \<Rightarrow>
               if data_value (sec_data sec) SigningKeySecretPublicField = []
               then Inl (mk_err (''signing-key secret '' @ go_quote (m_name (sec_meta sec)) @ '' missing '' @
                      go_quote SigningKeySecretPublicField))
               else Inr (data_value (sec_data sec) SigningKeySecretPublicField))
        }
      | None \<Rightarrow> do {
          g \<leftarrow> api_get (e_secrets E) EvSecret k;
          (case g of
             Inr sec \<Rightarrow> State_Monad.return
               (if data_value (sec_data sec) SigningKeySecretPublicField \<noteq> []
                then Inr (data_value (sec_data sec) SigningKeySecretPublicField)
                else Inl (mk_err (''generated signing-key secret '' @ go_quote (k_name k) @ '' missing '' @
                       go_quote SigningKeySecretPublicField)))
           | Inl e \<Rightarrow>
               if \<not> IsNotFound e then State_Monad.return (Inl (wrap_err ''getting signing-key secret: '' e))
               else generate_signing_secret E store k)
        })"

section \<open>Services\<close>

text \<open>The function handed to \<open>CreateOrUpdate\<close>.\<close>

definition service_mutate :: "lib \<Rightarrow> meta \<Rightarrow> labels \<Rightarrow> service_port list \<Rightarrow> service \<Rightarrow> err + service" where
  "service_mutate L owner ls ports svc =
     (case lib_set_controller_ref L owner ((svc_meta svc)\<lparr>m_labels := m_labels (svc_meta svc) ++ ls\<rparr>) of
        Inl e \<Rightarrow> Inl e
      | Inr m \<Rightarrow> Inr (svc\<lparr>svc_meta := m, svc_cluster_ip := ''None'', svc_selector := ls, svc_ports := ports\<rparr>))"

definition service_of :: "meta \<Rightarrow> service" where
  "service_of m = \<lparr>svc_meta = zero_meta\<lparr>m_name := m_name m, m_ns := m_ns m\<rparr>, svc_cluster_ip = [],
     svc_selector = Map.empty, svc_ports = [], svc_rest = []\<rparr>"

definition service_port :: "string \<Rightarrow> nat \<Rightarrow> service_port" where
  "service_port name p = \<lparr>sp_name = name, sp_port = of_nat p, sp_target = IntVal (of_nat p)\<rparr>"

definition StoreEnsureService :: "'w env \<Rightarrow> nix_store \<Rightarrow> ('w, err option) prog" where
  "StoreEnsureService E store =
     api_create_or_update (e_services E) EvService (service_of (sto_meta store))
       (service_mutate (e_lib E) (sto_meta store) (managedLabels ''NixStore'' (m_name (sto_meta store)))
          [service_port ''http'' NixStoreHTTPPort, service_port ''ssh'' NixStoreSSHPort])"

definition BuilderEnsureService :: "'w env \<Rightarrow> nix_builder \<Rightarrow> ('w, err option) prog" where
  "BuilderEnsureService E builder =
     api_create_or_update (e_services E) EvService (service_of (nb_meta builder))
       (service_mutate (e_lib E) (nb_meta builder) (managedLabels ''NixBuilder'' (m_name (nb_meta builder)))
          [service_port ''ssh'' NixBuilderSSHPort])"

section \<open>StatefulSets\<close>

text \<open>The operator owns image, command, arguments, ports, environment and mounts of its container.\<close>

fun upsertContainer :: "container list \<Rightarrow> container \<Rightarrow> container list" where
  "upsertContainer [] c = [c]"
| "upsertContainer (d # ds) c =
     (if ct_name d = ct_name c
      then d\<lparr>ct_image := ct_image c, ct_command := ct_command c, ct_args := ct_args c, ct_ports := ct_ports c,
             ct_env := ct_env c, ct_mounts := ct_mounts c\<rparr> # ds
      else d # upsertContainer ds c)"

definition secret_volume :: "string \<Rightarrow> string \<Rightarrow> volume" where
  "secret_volume name sec = \<lparr>vol_name = name, vol_source = VSecret sec None\<rparr>"

definition mount_at :: "string \<Rightarrow> string \<Rightarrow> bool \<Rightarrow> volume_mount" where
  "mount_at name path ro = \<lparr>vm_name = name, vm_path = path, vm_read_only = ro\<rparr>"

text \<open>Both controllers seed the volume with the same init container.\<close>

definition seed_container :: "string \<Rightarrow> string \<Rightarrow> container" where
  "seed_container img vol = zero_container\<lparr>ct_name := ''bootstrap'', ct_image := img,
     ct_command := [''sh'', ''-c'', ''[ -e /nix-vol/store ] || cp --archive /nix/. /nix-vol/''],
     ct_mounts := [mount_at vol ''/nix-vol'' False]\<rparr>"

definition flakes_env :: env_var where
  "flakes_env = \<lparr>ev_name = ''NIX_CONFIG'', ev_value = ''experimental-features = nix-command flakes''\<rparr>"

definition template_spec :: "pod_template option \<Rightarrow> pod_spec" where
  "template_spec t = (case t of None \<Rightarrow> pt_spec zero_pod_template | Some tm \<Rightarrow> pt_spec tm)"

definition image_or :: "string \<Rightarrow> string \<Rightarrow> string" where
  "image_or img dflt = (if img = [] then dflt else img)"

definition store_container :: "string \<Rightarrow> container" where
  "store_container img = zero_container\<lparr>ct_name := ''store'', ct_image := img,
     ct_command := [''sh'', ''-c'', storeStartScript],
     ct_ports := [(''http'', int NixStoreHTTPPort)],
     ct_env := [flakes_env, \<lparr>ev_name = ''CONFIG_FILE'', ev_value = ''/etc/harmonia/config.toml''\<rparr>],
     ct_mounts := [mount_at nixStoreVolumeName ''/nix'' False, mount_at signingKeyVolumeName ''/etc/nix/signing'' True,
       mount_at sshVolumeName ''/etc/nio/ssh'' True]\<rparr>"

definition store_pod :: "nix_store \<Rightarrow> pod_spec" where
  "store_pod store =
     (let img = image_or (sto_image (sto_spec store)) DefaultNixStoreImage;
          spec = template_spec (sto_template (sto_spec store))
      in spec\<lparr>ps_init := seed_container img nixStoreVolumeName # filterOutContainers (ps_init spec) [''bootstrap''],
           ps_containers := upsertContainer (ps_containers spec) (store_container img),
           ps_volumes := upsertVolume (upsertVolume (ps_volumes spec)
               (secret_volume signingKeyVolumeName (signingKeySecretName store)))
             (secret_volume sshVolumeName (sshSecretName (m_name (sto_meta store))))\<rparr>)"

text \<open>A StatefulSet with the labels as selector and pod labels.\<close>

definition infra_statefulset :: "meta \<Rightarrow> labels \<Rightarrow> int32 \<Rightarrow> pod_spec \<Rightarrow> (string \<times> string) list \<Rightarrow> statefulset" where
  "infra_statefulset m ls replicas spec claims =
     \<lparr>sf_meta = zero_meta\<lparr>m_name := m_name m, m_ns := m_ns m, m_labels := ls\<rparr>,
      sf_spec = \<lparr>sfs_replicas = Some replicas, sfs_selector = Some \<lparr>psel_labels = ls, psel_rest = []\<rparr>,
        sfs_template = \<lparr>pt_labels = ls, pt_annotations = Map.empty, pt_spec = spec\<rparr>,
        sfs_service_name = m_name m, sfs_update_strategy = [], sfs_claims = claims, sfs_rest = []\<rparr>,
      sf_status = zero_statefulset_status\<rparr>"

definition StoreStatefulSet :: "nix_store \<Rightarrow> statefulset" where
  "StoreStatefulSet store = infra_statefulset (sto_meta store) (managedLabels ''NixStore'' (m_name (sto_meta store)))
     (case sto_replicas (sto_spec store) of None \<Rightarrow> 1 | Some r \<Rightarrow> r) (store_pod store)
     [(nixStoreVolumeName, sto_storage (sto_spec store))]"

definition builder_env :: "nix_builder \<Rightarrow> env_var list" where
  "builder_env builder = flakes_env # (case bs_max_jobs (nb_spec builder) of None \<Rightarrow> []
     | Some n \<Rightarrow> [\<lparr>ev_name = ''NIX_MAX_JOBS'', ev_value = show_int (sint n)\<rparr>])"

definition builder_mounts :: "nix_builder \<Rightarrow> volume_mount list" where
  "builder_mounts builder = mount_at builderStoreVolumeName ''/nix'' False #
     (if bs_store_ref (nb_spec builder) = None then [] else [mount_at sshVolumeName sshKeyMountPath True])"

definition builder_container :: "nix_builder \<Rightarrow> string \<Rightarrow> container" where
  "builder_container builder img = zero_container\<lparr>ct_name := ''builder'', ct_image := img,
     ct_command := [''sh'', ''-c'', builderStartScript (bs_store_ref (nb_spec builder) \<noteq> None)],
     ct_ports := [(''ssh'', int NixBuilderSSHPort)], ct_env := builder_env builder,
     ct_mounts := builder_mounts builder\<rparr>"

definition builder_volumes :: "nix_builder \<Rightarrow> volume list \<Rightarrow> volume list" where
  "builder_volumes builder vs =
     (let vs1 = (case bs_store_ref (nb_spec builder) of None \<Rightarrow> vs
                 | Some s \<Rightarrow> upsertVolume vs (secret_volume sshVolumeName (sshSecretName s)))
      in case bs_storage (nb_spec builder) of Some _ \<Rightarrow> vs1
         | None \<Rightarrow> upsertVolume vs1 \<lparr>vol_name = builderStoreVolumeName, vol_source = VEmptyDir [] None\<rparr>)"

definition builder_pod :: "nix_builder \<Rightarrow> pod_spec" where
  "builder_pod builder =
     (let img = image_or (bs_image (nb_spec builder)) DefaultNixBuilderImage;
          spec = template_spec (bs_template (nb_spec builder))
      in spec\<lparr>ps_init := seed_container img builderStoreVolumeName # filterOutContainers (ps_init spec) [''bootstrap''],
           ps_containers := upsertContainer (ps_containers spec) (builder_container builder img),
           ps_volumes := builder_volumes builder (ps_volumes spec)\<rparr>)"

definition BuilderStatefulSet :: "nix_builder \<Rightarrow> statefulset" where
  "BuilderStatefulSet builder = infra_statefulset (nb_meta builder) (managedLabels ''NixBuilder'' (m_name (nb_meta builder)))
     1 (builder_pod builder)
     (case bs_storage (nb_spec builder) of None \<Rightarrow> [] | Some st \<Rightarrow> [(builderStoreVolumeName, st)])"

text \<open>The mutable fields of an existing StatefulSet.\<close>

definition update_store_set :: "statefulset \<Rightarrow> statefulset \<Rightarrow> statefulset" where
  "update_store_set desired existing = existing\<lparr>sf_spec := (sf_spec existing)\<lparr>
     sfs_replicas := sfs_replicas (sf_spec desired), sfs_template := sfs_template (sf_spec desired)\<rparr>\<rparr>"

definition update_builder_set :: "statefulset \<Rightarrow> statefulset \<Rightarrow> statefulset" where
  "update_builder_set desired existing = existing\<lparr>sf_spec := (sf_spec existing)\<lparr>
     sfs_template := sfs_template (sf_spec desired)\<rparr>\<rparr>"

definition StoreEnsureStatefulSet :: "'w env \<Rightarrow> nix_store \<Rightarrow> ('w, err option) prog" where
  "StoreEnsureStatefulSet E store =
     (let desired0 = StoreStatefulSet store in
      case lib_set_controller_ref (e_lib E) (sto_meta store) (sf_meta desired0) of
        Inl e \<Rightarrow> State_Monad.return (Some e)
      | Inr m \<Rightarrow> do {
          let desired = desired0\<lparr>sf_meta := m\<rparr>;
          g \<leftarrow> api_get (e_statefulsets E) EvStatefulSet (key_of (sto_meta store));
          (case g of
             Inl e \<Rightarrow>
               if IsNotFound e then do {
                 c \<leftarrow> api_create (e_statefulsets E) EvStatefulSet desired;
                 State_Monad.return (err_of c)
               }
               else State_Monad.return (Some e)
           | Inr existing \<Rightarrow> do {
               u \<leftarrow> api_update (e_statefulsets E) EvStatefulSet (update_store_set desired existing);
               State_Monad.return (err_of u)
             })
        })"

definition BuilderEnsureStatefulSet :: "'w env \<Rightarrow> nix_builder \<Rightarrow> ('w, err option) prog" where
  "BuilderEnsureStatefulSet E builder =
     (let desired0 = BuilderStatefulSet builder in
      case lib_set_controller_ref (e_lib E) (nb_meta builder) (sf_meta desired0) of
        Inl e \<Rightarrow> State_Monad.return (Some e)
      | Inr m \<Rightarrow> do {
          let desired = desired0\<lparr>sf_meta := m\<rparr>;
          g \<leftarrow> api_get (e_statefulsets E) EvStatefulSet (key_of (nb_meta builder));
          (case g of
             Inl e \<Rightarrow>
               if IsNotFound e then do {
                 c \<leftarrow> api_create (e_statefulsets E) EvStatefulSet desired;
                 State_Monad.return (err_of c)
               }
               else State_Monad.return (Some e)
           | Inr existing \<Rightarrow> do {
               u \<leftarrow> api_update (e_statefulsets E) EvStatefulSet (update_builder_set desired existing);
               State_Monad.return (err_of u)
             })
        })"

section \<open>Reconcile of a NixStore\<close>

definition store_cond :: "lib \<Rightarrow> cond_type \<Rightarrow> cond_status \<Rightarrow> string \<Rightarrow> string \<Rightarrow> nix_store \<Rightarrow> nix_store" where
  "store_cond L ty st rsn msg x = x\<lparr>sto_status := (sto_status x)\<lparr>sts_conditions := lib_set_cond L (sts_conditions (sto_status x))
     \<lparr>c_type = ty, c_status = st, c_gen = m_gen (sto_meta x), c_reason = OtherReason rsn, c_message = msg\<rparr>\<rparr>\<rparr>"

definition failed_store :: "lib \<Rightarrow> nix_store \<Rightarrow> string \<Rightarrow> err \<Rightarrow> nix_store" where
  "failed_store L store rsn cause =
     store_cond L ConditionReady ConditionFalse rsn (e_msg cause)
       (store_cond L ConditionStalled ConditionTrue rsn (e_msg cause)
         (store\<lparr>sto_status := (sto_status store)\<lparr>sts_phase := PhaseDegraded\<rparr>\<rparr>))"

definition store_fail :: "'w env \<Rightarrow> nix_store \<Rightarrow> string \<Rightarrow> err \<Rightarrow> ('w, reconcile_end) prog" where
  "store_fail E store rsn cause = do {
     api_status_update (e_stores E) EvStore (failed_store (e_lib E) store rsn cause);
     State_Monad.return (done_res, Some cause)
   }"

definition store_address :: "meta \<Rightarrow> string" where
  "store_address m = m_name m @ ''.'' @ m_ns m @ ''.svc''"

definition published_store :: "string \<Rightarrow> statefulset \<Rightarrow> nix_store \<Rightarrow> nix_store" where
  "published_store publicKey sts store = store\<lparr>sto_status := (sto_status store)\<lparr>
     sts_ready_replicas := sfst_ready (sf_status sts), sts_public_key := publicKey,
     sts_substituter_url := ''http://'' @ store_address (sto_meta store) @ '':'' @ show_nat NixStoreHTTPPort,
     sts_store_uri := ''ssh-ng://root@'' @ store_address (sto_meta store)\<rparr>\<rparr>"

definition observed_store :: "lib \<Rightarrow> string \<Rightarrow> statefulset \<Rightarrow> nix_store \<Rightarrow> nix_store" where
  "observed_store L publicKey sts store =
     (let desired = (case sto_replicas (sto_spec store) of None \<Rightarrow> 1 | Some r \<Rightarrow> r);
          ready = sfst_ready (sf_status sts);
          x = published_store publicKey sts store
      in if desired \<le>s ready \<and> 0 <s desired
         then (let y = store_cond L ConditionReady ConditionTrue ''StoreReady'' ''store server is ready''
                     (x\<lparr>sto_status := (sto_status x)\<lparr>sts_phase := PhaseReady\<rparr>\<rparr>)
               in y\<lparr>sto_status := (sto_status y)\<lparr>sts_conditions := lib_remove_cond L (sts_conditions (sto_status y)) ConditionStalled\<rparr>\<rparr>)
         else store_cond L ConditionReady ConditionFalse ''StoreNotReady''
                (show_int (sint ready) @ ''/'' @ show_int (sint desired) @ '' server replicas ready'')
                (x\<lparr>sto_status := (sto_status x)\<lparr>sts_phase := PhasePending\<rparr>\<rparr>))"

text \<open>From the observation on.\<close>

definition store_observe :: "'w env \<Rightarrow> nix_store \<Rightarrow> string \<Rightarrow> ('w, reconcile_end) prog" where
  "store_observe E store publicKey = do {
     g \<leftarrow> api_get (e_statefulsets E) EvStatefulSet (key_of (sto_meta store));
     (case g of
        Inl e \<Rightarrow> store_fail E store ''StatefulSetError'' e
      | Inr sts \<Rightarrow> do {
          u \<leftarrow> api_status_update (e_stores E) EvStore (observed_store (e_lib E) publicKey sts store);
          State_Monad.return (case u of
             Inl e \<Rightarrow> if IsConflict e then (requeue_res, None) else (done_res, Some e)
           | Inr _ \<Rightarrow> (after_res nixStoreRequeue, None))
        })
   }"

definition StoreReconcile :: "'w env \<Rightarrow> key \<Rightarrow> ('w, reconcile_end) prog" where
  "StoreReconcile E k = do {
     g \<leftarrow> api_get (e_stores E) EvStore k;
     (case g of
        Inl e \<Rightarrow> State_Monad.return (done_res, ignore_not_found (Some e))
      | Inr store0 \<Rightarrow> do {
          let store = store0\<lparr>sto_status := (sto_status store0)\<lparr>sts_observed_gen := m_gen (sto_meta store0)\<rparr>\<rparr>;
          pk \<leftarrow> ensureSigningKey E store;
          (case pk of
             Inl e \<Rightarrow> store_fail E store ''SigningKeyError'' e
           | Inr publicKey \<Rightarrow> do {
               sk \<leftarrow> ensureSSHKeySecret E (sto_meta store) (m_name (sto_meta store));
               (case sk of
                  Inl e \<Rightarrow> store_fail E store ''SSHKeyError'' e
                | Inr _ \<Rightarrow> do {
                    sv \<leftarrow> StoreEnsureService E store;
                    (case sv of
                       Some e \<Rightarrow> store_fail E store ''ServiceError'' e
                     | None \<Rightarrow> do {
                         ss \<leftarrow> StoreEnsureStatefulSet E store;
                         (case ss of
                            Some e \<Rightarrow> store_fail E store ''StatefulSetError'' e
                          | None \<Rightarrow> store_observe E store publicKey)
                       })
                  })
             })
        })
   }"

section \<open>Reconcile of a NixBuilder\<close>

definition builder_cond :: "lib \<Rightarrow> cond_type \<Rightarrow> cond_status \<Rightarrow> string \<Rightarrow> string \<Rightarrow> nix_builder \<Rightarrow> nix_builder" where
  "builder_cond L ty st rsn msg x = x\<lparr>nb_status := (nb_status x)\<lparr>bst_conditions := lib_set_cond L (bst_conditions (nb_status x))
     \<lparr>c_type = ty, c_status = st, c_gen = m_gen (nb_meta x), c_reason = OtherReason rsn, c_message = msg\<rparr>\<rparr>\<rparr>"

definition failed_builder :: "lib \<Rightarrow> nix_builder \<Rightarrow> string \<Rightarrow> err \<Rightarrow> nix_builder" where
  "failed_builder L builder rsn cause =
     builder_cond L ConditionReady ConditionFalse rsn (e_msg cause)
       (builder_cond L ConditionStalled ConditionTrue rsn (e_msg cause)
         (builder\<lparr>nb_status := (nb_status builder)\<lparr>bst_phase := PhaseDegraded, bst_ready := False\<rparr>\<rparr>))"

definition builder_fail :: "'w env \<Rightarrow> nix_builder \<Rightarrow> string \<Rightarrow> err \<Rightarrow> ('w, reconcile_end) prog" where
  "builder_fail E builder rsn cause = do {
     api_status_update (e_builders E) EvBuilder (failed_builder (e_lib E) builder rsn cause);
     State_Monad.return (done_res, Some cause)
   }"

definition observed_builder :: "lib \<Rightarrow> statefulset \<Rightarrow> nix_builder \<Rightarrow> nix_builder" where
  "observed_builder L sts builder =
     (let ready = (1 \<le>s sfst_ready (sf_status sts));
          x = builder\<lparr>nb_status := (nb_status builder)\<lparr>
                bst_endpoint := ''ssh-ng://root@'' @ m_name (nb_meta builder) @ ''.'' @ m_ns (nb_meta builder) @ ''.svc'',
                bst_ready := ready\<rparr>\<rparr>
      in if ready
         then (let y = builder_cond L ConditionReady ConditionTrue ''BuilderReady'' ''builder worker is ready''
                     (x\<lparr>nb_status := (nb_status x)\<lparr>bst_phase := PhaseReady\<rparr>\<rparr>)
               in y\<lparr>nb_status := (nb_status y)\<lparr>bst_conditions := lib_remove_cond L (bst_conditions (nb_status y)) ConditionStalled\<rparr>\<rparr>)
         else builder_cond L ConditionReady ConditionFalse ''BuilderNotReady'' ''builder worker is not ready''
                (x\<lparr>nb_status := (nb_status x)\<lparr>bst_phase := PhasePending\<rparr>\<rparr>))"

definition builder_observe :: "'w env \<Rightarrow> nix_builder \<Rightarrow> ('w, reconcile_end) prog" where
  "builder_observe E builder = do {
     g \<leftarrow> api_get (e_statefulsets E) EvStatefulSet (key_of (nb_meta builder));
     (case g of
        Inl e \<Rightarrow> builder_fail E builder ''StatefulSetError'' e
      | Inr sts \<Rightarrow> do {
          u \<leftarrow> api_status_update (e_builders E) EvBuilder (observed_builder (e_lib E) sts builder);
          State_Monad.return (case u of
             Inl e \<Rightarrow> if IsConflict e then (requeue_res, None) else (done_res, Some e)
           | Inr _ \<Rightarrow> (after_res nixBuilderRequeue, None))
        })
   }"

definition BuilderReconcile :: "'w env \<Rightarrow> key \<Rightarrow> ('w, reconcile_end) prog" where
  "BuilderReconcile E k = do {
     g \<leftarrow> api_get (e_builders E) EvBuilder k;
     (case g of
        Inl e \<Rightarrow> State_Monad.return (done_res, ignore_not_found (Some e))
      | Inr builder0 \<Rightarrow> do {
          let builder = builder0\<lparr>nb_status := (nb_status builder0)\<lparr>bst_observed_gen := m_gen (nb_meta builder0)\<rparr>\<rparr>;
          sv \<leftarrow> BuilderEnsureService E builder;
          (case sv of
             Some e \<Rightarrow> builder_fail E builder ''ServiceError'' e
           | None \<Rightarrow> do {
               ss \<leftarrow> BuilderEnsureStatefulSet E builder;
               (case ss of
                  Some e \<Rightarrow> builder_fail E builder ''StatefulSetError'' e
                | None \<Rightarrow> builder_observe E builder)
             })
        })
   }"

end
