(* ===== verification/Infra_Safety.thy ===== *)
theory Infra_Safety
  imports Infra_Controllers Render_Safety
begin

text \<open>
  What the NixStore and NixBuilder controllers promise: every stored status says what the same reconcile
  ensured and read, errors are reported, signing keys are kept, the pods are well formed, and what a
  store publishes is what the workload controllers ask for.
\<close>

section \<open>Events\<close>

text \<open>The StatefulSet \<open>d\<close> was created, or its template put into the existing one, with the server's consent.\<close>

fun set_accepted :: "statefulset \<Rightarrow> event \<Rightarrow> bool" where
  "set_accepted d (EvStatefulSet (Created x (Inr y))) = (sf_spec x = sf_spec d)"
| "set_accepted d (EvStatefulSet (Updated x (Inr y))) = (sfs_template (sf_spec x) = sfs_template (sf_spec d))"
| "set_accepted d _ = False"

fun service_accepted :: "event \<Rightarrow> bool" where
  "service_accepted (EvService (CreateOrUpdated x f None)) = True"
| "service_accepted _ = False"

fun status_event :: "event \<Rightarrow> bool" where
  "status_event (EvStore (StatusUpdated x r)) = True"
| "status_event (EvBuilder (StatusUpdated x r)) = True"
| "status_event _ = False"

text \<open>The key of a Secret that was read, or created after the answer that there is none.\<close>

fun key_read :: "key \<Rightarrow> string \<Rightarrow> event \<Rightarrow> bool" where
  "key_read k pk (EvSecret (Got q (Inr sec))) = (q = k \<and> data_value (sec_data sec) SigningKeySecretPublicField = pk)"
| "key_read k pk _ = False"

fun key_created :: "key \<Rightarrow> string \<Rightarrow> event \<Rightarrow> bool" where
  "key_created k pk (EvSecret (Created sec (Inr y))) = (sec_data sec SigningKeySecretPublicField = Some pk)"
| "key_created k pk _ = False"

fun key_missing :: "key \<Rightarrow> event \<Rightarrow> bool" where
  "key_missing k (EvSecret (Got q (Inl e))) = (q = k \<and> IsNotFound e)"
| "key_missing k _ = False"

fun secret_changed :: "event \<Rightarrow> bool" where
  "secret_changed (EvSecret (Updated x r)) = True"
| "secret_changed (EvSecret (StatusUpdated x r)) = True"
| "secret_changed (EvSecret (Deleted x r)) = True"
| "secret_changed (EvSecret (CreateOrUpdated x f r)) = True"
| "secret_changed _ = False"

definition signing_key :: "nix_store \<Rightarrow> key" where
  "signing_key store = \<lparr>k_ns = m_ns (sto_meta store), k_name = signingKeySecretName store\<rparr>"

definition key_kept :: "nix_store \<Rightarrow> string \<Rightarrow> event list \<Rightarrow> bool" where
  "key_kept store pk es \<longleftrightarrow>
     list_ex (key_read (signing_key store) pk) es \<or>
     (list_ex (key_missing (signing_key store)) es \<and> list_ex (key_created (signing_key store) pk) es \<and>
      sto_signing_ref (sto_spec store) = None)"

section \<open>The shape of a reconcile\<close>

definition observing_store :: "nix_store \<Rightarrow> nix_store" where
  "observing_store s = s\<lparr>sto_status := (sto_status s)\<lparr>sts_observed_gen := m_gen (sto_meta s)\<rparr>\<rparr>"

definition no_status :: "event list \<Rightarrow> bool" where
  "no_status es \<longleftrightarrow> list_all (\<lambda>ev. \<not> status_event ev) es"

lemma no_status_simps [simp]:
  "no_status []" "no_status (ev # es) \<longleftrightarrow> \<not> status_event ev \<and> no_status es" "no_status (es @ es') \<longleftrightarrow> no_status es \<and> no_status es'"
  by (simp_all add: no_status_def)

text \<open>\<open>mid\<close>: what was done and read for the store \<open>s\<close> before its status was written.\<close>

definition store_ensured :: "nix_store \<Rightarrow> string \<Rightarrow> event list \<Rightarrow> bool" where
  "store_ensured s pk mid \<longleftrightarrow> key_kept s pk mid \<and> list_ex service_accepted mid \<and>
     list_ex (set_accepted (StoreStatefulSet s)) mid"

definition store_end :: "lib \<Rightarrow> nix_store \<Rightarrow> reconcile_end \<Rightarrow> event list \<Rightarrow> bool" where
  "store_end L s fin es \<longleftrightarrow>
     (\<exists>mid rsn cause u. es = mid @ [EvStore (StatusUpdated (failed_store L s rsn cause) u)] \<and> no_status mid \<and>
        fin = (done_res, Some cause)) \<or>
     (\<exists>mid sts pk u. es = mid @ [EvStatefulSet (Got (key_of (sto_meta s)) (Inr sts)),
          EvStore (StatusUpdated (observed_store L pk sts s) u)] \<and> no_status mid \<and> store_ensured s pk mid \<and>
        fin = (case u of Inl e \<Rightarrow> if IsConflict e then (requeue_res, None) else (done_res, Some e)
               | Inr _ \<Rightarrow> (after_res nixStoreRequeue, None)))"

lemma ensureSigningKey_keeps:
  "runs (ensureSigningKey E store) (\<lambda>r es. no_status es \<and> (\<forall>pk. r = Inr pk \<longrightarrow> key_kept store pk es))"
  unfolding ensureSigningKey_def generate_signing_secret_def generateNixSigningKey_def create_signing_secret_def Let_def
  by (auto intro!: runs_intros simp: key_kept_def signing_key_def signing_secret_def SigningKeySecretPublicField_def
      SigningKeySecretPrivateField_def split: sum.splits if_splits)

lemma ensureSSHKeySecret_quiet: "runs (ensureSSHKeySecret E owner name) (\<lambda>r es. no_status es)"
  unfolding ensureSSHKeySecret_def create_ssh_secret_def generateOpenSSHKeyPair_def Let_def
  by (auto intro!: runs_intros)

text \<open>\<open>ends_in P pre m\<close>: run after the events \<open>pre\<close>, \<open>m\<close> ends a reconcile as \<open>P\<close> says.\<close>

definition ends_in :: "('a \<Rightarrow> event list \<Rightarrow> bool) \<Rightarrow> event list \<Rightarrow> ('w, 'a) prog \<Rightarrow> bool" where
  "ends_in P pre m \<longleftrightarrow> runs m (\<lambda>a es. P a (pre @ es))"

lemma ends_bind: "runs m Q \<Longrightarrow> (\<And>a es. Q a es \<Longrightarrow> ends_in P (pre @ es) (f a)) \<Longrightarrow> ends_in P pre (State_Monad.bind m f)"
  unfolding ends_in_def by (rule runs_then, assumption) simp

lemma ends_sum:
  "(\<And>a. x = Inl a \<Longrightarrow> ends_in P pre (f a)) \<Longrightarrow> (\<And>b. x = Inr b \<Longrightarrow> ends_in P pre (g b)) \<Longrightarrow>
     ends_in P pre (case x of Inl a \<Rightarrow> f a | Inr b \<Rightarrow> g b)"
  by (cases x) simp_all

lemma ends_option:
  "(x = None \<Longrightarrow> ends_in P pre f) \<Longrightarrow> (\<And>b. x = Some b \<Longrightarrow> ends_in P pre (g b)) \<Longrightarrow>
     ends_in P pre (case x of None \<Rightarrow> f | Some b \<Rightarrow> g b)"
  by (cases x) simp_all

lemma get_event: "runs (api_get K tag k) (\<lambda>r es. es = [tag (Got k r)])"
  by (rule runs_api) simp

lemma status_update_event: "runs (api_status_update K tag x) (\<lambda>r es. es = [tag (StatusUpdated x r)])"
  by (rule runs_api) simp

lemma create_or_update_event: "runs (api_create_or_update K tag x f) (\<lambda>r es. es = [tag (CreateOrUpdated x f r)])"
  by (rule runs_api) simp

section \<open>NixStore\<close>

lemma store_fail_ends: "no_status pre \<Longrightarrow> ends_in (store_end (e_lib E) s) pre (store_fail E s rsn e)"
  unfolding store_fail_def ends_in_def
  by (intro runs_intros, unfold store_end_def, intro disjI1) auto

lemma store_observe_ends:
  assumes "no_status pre" "store_ensured s pk pre"
  shows "ends_in (store_end (e_lib E) s) pre (store_observe E s pk)"
  unfolding store_observe_def
proof (rule ends_bind [OF get_event], rule ends_sum)
  fix r :: "err + statefulset" and es e
  assume "es = [EvStatefulSet (Got (key_of (sto_meta s)) r)]"
  then show "ends_in (store_end (e_lib E) s) (pre @ es) (store_fail E s ''StatefulSetError'' e)"
    by (intro store_fail_ends) (use assms in simp)
next
  fix r :: "err + statefulset" and es sts
  assume "es = [EvStatefulSet (Got (key_of (sto_meta s)) r)]" "r = Inr sts"
  then show "ends_in (store_end (e_lib E) s) (pre @ es) (State_Monad.bind
      (api_status_update (e_stores E) EvStore (observed_store (e_lib E) pk sts s)) (\<lambda>u.
        State_Monad.return (case u of Inl e \<Rightarrow> if IsConflict e then (requeue_res, None) else (done_res, Some e)
          | Inr _ \<Rightarrow> (after_res nixStoreRequeue, None))))"
    unfolding ends_in_def by (intro runs_intros, unfold store_end_def, intro disjI2) (use assms in auto)
qed

lemma StoreEnsureStatefulSet_runs:
  "runs (StoreEnsureStatefulSet E s) (\<lambda>r es. no_status es \<and> (r = None \<longrightarrow> list_ex (set_accepted (StoreStatefulSet s)) es))"
  unfolding StoreEnsureStatefulSet_def Let_def
  by (auto intro!: runs_intros simp: err_of_def update_store_set_def split: sum.splits)

lemma StoreEnsureService_runs:
  "runs (StoreEnsureService E s) (\<lambda>r es. no_status es \<and> (r = None \<longrightarrow> list_ex service_accepted es))"
  unfolding StoreEnsureService_def by (rule runs_api) (auto split: option.splits)

lemma StoreReconcile_end:
  "runs (StoreReconcile E k) (\<lambda>fin es. (\<exists>e. es = [EvStore (Got k (Inl e))] \<and> fin = (done_res, ignore_not_found (Some e))) \<or>
     (\<exists>s es'. es = EvStore (Got k (Inr s)) # es' \<and> store_end (e_lib E) (observing_store s) fin es'))"
  unfolding StoreReconcile_def Let_def
proof (intro runs_bind runs_api, rule runs_case_sum, goal_cases)
  case (1 r e)
  then show ?case by (intro runs_return) simp
next
  case (2 r s0)
  let ?s = "observing_store s0" and ?P = "store_end (e_lib E) (observing_store s0)"
  have "ends_in ?P [] (State_Monad.bind (ensureSigningKey E ?s) (\<lambda>pk. case pk of
           Inl e \<Rightarrow> store_fail E ?s ''SigningKeyError'' e
         | Inr publicKey \<Rightarrow> State_Monad.bind (ensureSSHKeySecret E (sto_meta ?s) (m_name (sto_meta ?s))) (\<lambda>sk. case sk of
              Inl e \<Rightarrow> store_fail E ?s ''SSHKeyError'' e
            | Inr _ \<Rightarrow> State_Monad.bind (StoreEnsureService E ?s) (\<lambda>sv. case sv of
                 Some e \<Rightarrow> store_fail E ?s ''ServiceError'' e
               | None \<Rightarrow> State_Monad.bind (StoreEnsureStatefulSet E ?s) (\<lambda>ss. case ss of
                    Some e \<Rightarrow> store_fail E ?s ''StatefulSetError'' e
                  | None \<Rightarrow> store_observe E ?s publicKey)))))"
    by (rule ends_bind [OF ensureSigningKey_keeps], rule ends_sum, (rule store_fail_ends, simp),
        rule ends_bind [OF ensureSSHKeySecret_quiet], rule ends_sum, (rule store_fail_ends, simp),
        rule ends_bind [OF StoreEnsureService_runs], rule ends_option, rule ends_bind [OF StoreEnsureStatefulSet_runs],
        rule ends_option, rule store_observe_ends) (auto intro!: store_fail_ends simp: store_ensured_def key_kept_def)
  with 2 show ?case by (auto elim!: runs_mono simp: ends_in_def observing_store_def)
qed

section \<open>NixBuilder\<close>

definition observing_builder :: "nix_builder \<Rightarrow> nix_builder" where
  "observing_builder b = b\<lparr>nb_status := (nb_status b)\<lparr>bst_observed_gen := m_gen (nb_meta b)\<rparr>\<rparr>"

definition builder_ensured :: "nix_builder \<Rightarrow> event list \<Rightarrow> bool" where
  "builder_ensured b mid \<longleftrightarrow> list_ex service_accepted mid \<and> list_ex (set_accepted (BuilderStatefulSet b)) mid"

definition builder_end :: "lib \<Rightarrow> nix_builder \<Rightarrow> reconcile_end \<Rightarrow> event list \<Rightarrow> bool" where
  "builder_end L b fin es \<longleftrightarrow>
     (\<exists>mid rsn cause u. es = mid @ [EvBuilder (StatusUpdated (failed_builder L b rsn cause) u)] \<and> no_status mid \<and>
        fin = (done_res, Some cause)) \<or>
     (\<exists>mid sts u. es = mid @ [EvStatefulSet (Got (key_of (nb_meta b)) (Inr sts)),
          EvBuilder (StatusUpdated (observed_builder L sts b) u)] \<and> no_status mid \<and> builder_ensured b mid \<and>
        fin = (case u of Inl e \<Rightarrow> if IsConflict e then (requeue_res, None) else (done_res, Some e)
               | Inr _ \<Rightarrow> (after_res nixBuilderRequeue, None)))"

lemma builder_fail_ends: "no_status pre \<Longrightarrow> ends_in (builder_end (e_lib E) b) pre (builder_fail E b rsn e)"
  unfolding builder_fail_def ends_in_def
  by (intro runs_intros, unfold builder_end_def, intro disjI1) auto

lemma builder_observe_ends:
  assumes "no_status pre" "builder_ensured b pre"
  shows "ends_in (builder_end (e_lib E) b) pre (builder_observe E b)"
  unfolding builder_observe_def
proof (rule ends_bind [OF get_event], rule ends_sum)
  fix r :: "err + statefulset" and es e
  assume "es = [EvStatefulSet (Got (key_of (nb_meta b)) r)]"
  then show "ends_in (builder_end (e_lib E) b) (pre @ es) (builder_fail E b ''StatefulSetError'' e)"
    by (intro builder_fail_ends) (use assms in simp)
next
  fix r :: "err + statefulset" and es sts
  assume "es = [EvStatefulSet (Got (key_of (nb_meta b)) r)]" "r = Inr sts"
  then show "ends_in (builder_end (e_lib E) b) (pre @ es) (State_Monad.bind
      (api_status_update (e_builders E) EvBuilder (observed_builder (e_lib E) sts b)) (\<lambda>u.
        State_Monad.return (case u of Inl e \<Rightarrow> if IsConflict e then (requeue_res, None) else (done_res, Some e)
          | Inr _ \<Rightarrow> (after_res nixBuilderRequeue, None))))"
    unfolding ends_in_def by (intro runs_intros, unfold builder_end_def, intro disjI2) (use assms in auto)
qed

lemma BuilderEnsureStatefulSet_runs:
  "runs (BuilderEnsureStatefulSet E b) (\<lambda>r es. no_status es \<and> (r = None \<longrightarrow> list_ex (set_accepted (BuilderStatefulSet b)) es))"
  unfolding BuilderEnsureStatefulSet_def Let_def
  by (auto intro!: runs_intros simp: err_of_def update_builder_set_def split: sum.splits)

lemma BuilderEnsureService_runs:
  "runs (BuilderEnsureService E b) (\<lambda>r es. no_status es \<and> (r = None \<longrightarrow> list_ex service_accepted es))"
  unfolding BuilderEnsureService_def by (rule runs_api) (auto split: option.splits)

lemma BuilderReconcile_end:
  "runs (BuilderReconcile E k) (\<lambda>fin es. (\<exists>e. es = [EvBuilder (Got k (Inl e))] \<and> fin = (done_res, ignore_not_found (Some e))) \<or>
     (\<exists>b es'. es = EvBuilder (Got k (Inr b)) # es' \<and> builder_end (e_lib E) (observing_builder b) fin es'))"
  unfolding BuilderReconcile_def Let_def
proof (intro runs_bind runs_api, rule runs_case_sum, goal_cases)
  case (1 r e)
  then show ?case by (intro runs_return) simp
next
  case (2 r b0)
  let ?b = "observing_builder b0" and ?P = "builder_end (e_lib E) (observing_builder b0)"
  have "ends_in ?P [] (State_Monad.bind (BuilderEnsureService E ?b) (\<lambda>sv. case sv of
           Some e \<Rightarrow> builder_fail E ?b ''ServiceError'' e
         | None \<Rightarrow> State_Monad.bind (BuilderEnsureStatefulSet E ?b) (\<lambda>ss. case ss of
              Some e \<Rightarrow> builder_fail E ?b ''StatefulSetError'' e
            | None \<Rightarrow> builder_observe E ?b)))"
    by (rule ends_bind [OF BuilderEnsureService_runs], rule ends_option, rule ends_bind [OF BuilderEnsureStatefulSet_runs],
        rule ends_option, rule builder_observe_ends) (auto intro!: builder_fail_ends simp: builder_ensured_def)
  with 2 show ?case by (auto elim!: runs_mono simp: ends_in_def observing_builder_def)
qed

section \<open>What the statuses say\<close>

definition has_cond :: "lib \<Rightarrow> condition list \<Rightarrow> cond_type \<Rightarrow> cond_status \<Rightarrow> bool" where
  "has_cond L cs t v \<longleftrightarrow> (case lib_find_cond L cs t of None \<Rightarrow> False | Some c \<Rightarrow> c_status c = v)"

definition wanted_replicas :: "nix_store \<Rightarrow> int32" where
  "wanted_replicas s = (case sto_replicas (sto_spec s) of None \<Rightarrow> 1 | Some r \<Rightarrow> r)"

text \<open>The StatefulSet was read, with enough ready replicas, after it and the Service were put in place.\<close>

definition serving :: "meta \<Rightarrow> statefulset \<Rightarrow> int32 \<Rightarrow> event list \<Rightarrow> bool" where
  "serving m desired n es \<longleftrightarrow> (\<exists>mid sts post. es = mid @ EvStatefulSet (Got (key_of m) (Inr sts)) # post \<and>
     list_ex service_accepted mid \<and> list_ex (set_accepted desired) mid \<and> n \<le>s sfst_ready (sf_status sts))"

definition store_told :: "lib \<Rightarrow> key \<Rightarrow> event list \<Rightarrow> nix_store \<Rightarrow> bool" where
  "store_told L k es x \<longleftrightarrow> (\<exists>s. EvStore (Got k (Inr s)) \<in> set es \<and> sto_meta x = sto_meta s \<and> sto_spec x = sto_spec s \<and>
     sts_observed_gen (sto_status x) = m_gen (sto_meta s) \<and>
     (if sts_phase (sto_status x) = PhaseReady
      then has_cond L (sts_conditions (sto_status x)) ConditionReady ConditionTrue \<and>
        lib_find_cond L (sts_conditions (sto_status x)) ConditionStalled = None \<and>
        key_kept s (sts_public_key (sto_status x)) es \<and> 0 <s wanted_replicas s \<and>
        serving (sto_meta s) (StoreStatefulSet s) (wanted_replicas s) es
      else has_cond L (sts_conditions (sto_status x)) ConditionReady ConditionFalse))"

definition builder_told :: "lib \<Rightarrow> key \<Rightarrow> event list \<Rightarrow> nix_builder \<Rightarrow> bool" where
  "builder_told L k es x \<longleftrightarrow> (\<exists>b. EvBuilder (Got k (Inr b)) \<in> set es \<and> nb_meta x = nb_meta b \<and> nb_spec x = nb_spec b \<and>
     bst_observed_gen (nb_status x) = m_gen (nb_meta b) \<and> bst_ready (nb_status x) = (bst_phase (nb_status x) = PhaseReady) \<and>
     (if bst_ready (nb_status x)
      then has_cond L (bst_conditions (nb_status x)) ConditionReady ConditionTrue \<and>
        lib_find_cond L (bst_conditions (nb_status x)) ConditionStalled = None \<and>
        serving (nb_meta b) (BuilderStatefulSet b) 1 es
      else has_cond L (bst_conditions (nb_status x)) ConditionReady ConditionFalse))"

lemma observing_fields [simp]:
  "sto_meta (observing_store s) = sto_meta s" "sto_spec (observing_store s) = sto_spec s"
  "sts_observed_gen (sto_status (observing_store s)) = m_gen (sto_meta s)"
  "nb_meta (observing_builder b) = nb_meta b" "nb_spec (observing_builder b) = nb_spec b"
  "bst_observed_gen (nb_status (observing_builder b)) = m_gen (nb_meta b)"
  "StoreStatefulSet (observing_store s) = StoreStatefulSet s"
  "BuilderStatefulSet (observing_builder b) = BuilderStatefulSet b"
  "key_kept (observing_store s) = key_kept s"
  by (auto simp: observing_store_def observing_builder_def StoreStatefulSet_def BuilderStatefulSet_def store_pod_def
      signingKeySecretName_def builder_pod_def builder_container_def builder_mounts_def builder_env_def builder_volumes_def
      key_kept_def signing_key_def fun_eq_iff cong: option.case_cong)

lemma observed_store_fields:
  "sto_meta (observed_store L pk sts s) = sto_meta s" "sto_spec (observed_store L pk sts s) = sto_spec s"
  "sts_observed_gen (sto_status (observed_store L pk sts s)) = sts_observed_gen (sto_status s)"
  "sts_public_key (sto_status (observed_store L pk sts s)) = pk"
  "sts_substituter_url (sto_status (observed_store L pk sts s)) =
     ''http://'' @ store_address (sto_meta s) @ '':'' @ show_nat NixStoreHTTPPort"
  "sts_store_uri (sto_status (observed_store L pk sts s)) = ''ssh-ng://root@'' @ store_address (sto_meta s)"
  "sts_phase (sto_status (observed_store L pk sts s)) =
     (if wanted_replicas s \<le>s sfst_ready (sf_status sts) \<and> 0 <s wanted_replicas s then PhaseReady else PhasePending)"
  by (simp_all add: observed_store_def published_store_def store_cond_def wanted_replicas_def Let_def)

lemma observed_store_conds:
  assumes "lib_ok L"
  shows "if sts_phase (sto_status (observed_store L pk sts s)) = PhaseReady
    then has_cond L (sts_conditions (sto_status (observed_store L pk sts s))) ConditionReady ConditionTrue \<and>
      lib_find_cond L (sts_conditions (sto_status (observed_store L pk sts s))) ConditionStalled = None
    else has_cond L (sts_conditions (sto_status (observed_store L pk sts s))) ConditionReady ConditionFalse"
  using assms by (simp add: observed_store_def published_store_def store_cond_def has_cond_def Let_def)

lemma failed_store_fields:
  assumes "lib_ok L"
  shows "sto_meta (failed_store L s rsn e) = sto_meta s" "sto_spec (failed_store L s rsn e) = sto_spec s"
    "sts_observed_gen (sto_status (failed_store L s rsn e)) = sts_observed_gen (sto_status s)"
    "sts_phase (sto_status (failed_store L s rsn e)) = PhaseDegraded"
    "lib_find_cond L (sts_conditions (sto_status (failed_store L s rsn e))) ConditionStalled =
       Some \<lparr>c_type = ConditionStalled, c_status = ConditionTrue, c_gen = m_gen (sto_meta s), c_reason = OtherReason rsn, c_message = e_msg e\<rparr>"
    "has_cond L (sts_conditions (sto_status (failed_store L s rsn e))) ConditionReady ConditionFalse"
  using assms by (simp_all add: failed_store_def store_cond_def has_cond_def)

lemma observed_builder_fields:
  assumes "lib_ok L"
  shows "nb_meta (observed_builder L sts b) = nb_meta b" "nb_spec (observed_builder L sts b) = nb_spec b"
    "bst_observed_gen (nb_status (observed_builder L sts b)) = bst_observed_gen (nb_status b)"
    "bst_ready (nb_status (observed_builder L sts b)) = (1 \<le>s sfst_ready (sf_status sts))"
    "(bst_phase (nb_status (observed_builder L sts b)) = PhaseReady) = (1 \<le>s sfst_ready (sf_status sts))"
    "bst_endpoint (nb_status (observed_builder L sts b)) = ''ssh-ng://root@'' @ m_name (nb_meta b) @ ''.'' @ m_ns (nb_meta b) @ ''.svc''"
    "if bst_ready (nb_status (observed_builder L sts b))
     then has_cond L (bst_conditions (nb_status (observed_builder L sts b))) ConditionReady ConditionTrue \<and>
       lib_find_cond L (bst_conditions (nb_status (observed_builder L sts b))) ConditionStalled = None
     else has_cond L (bst_conditions (nb_status (observed_builder L sts b))) ConditionReady ConditionFalse"
  using assms by (simp_all add: observed_builder_def builder_cond_def has_cond_def Let_def)

lemma failed_builder_fields:
  assumes "lib_ok L"
  shows "nb_meta (failed_builder L b rsn e) = nb_meta b" "nb_spec (failed_builder L b rsn e) = nb_spec b"
    "bst_observed_gen (nb_status (failed_builder L b rsn e)) = bst_observed_gen (nb_status b)"
    "bst_phase (nb_status (failed_builder L b rsn e)) = PhaseDegraded" "\<not> bst_ready (nb_status (failed_builder L b rsn e))"
    "lib_find_cond L (bst_conditions (nb_status (failed_builder L b rsn e))) ConditionStalled =
       Some \<lparr>c_type = ConditionStalled, c_status = ConditionTrue, c_gen = m_gen (nb_meta b), c_reason = OtherReason rsn, c_message = e_msg e\<rparr>"
    "has_cond L (bst_conditions (nb_status (failed_builder L b rsn e))) ConditionReady ConditionFalse"
  using assms by (simp_all add: failed_builder_def builder_cond_def has_cond_def)

lemma no_status_stores: "no_status mid \<Longrightarrow> EvStore (StatusUpdated x r) \<notin> set mid \<and> EvBuilder (StatusUpdated y q) \<notin> set mid"
  by (auto simp: no_status_def list_all_iff)

lemma key_kept_mono: "key_kept s pk mid \<Longrightarrow> set mid \<subseteq> set es \<Longrightarrow> key_kept s pk es"
  by (auto simp: key_kept_def list_ex_iff)

lemma servingI:
  "list_ex service_accepted mid \<Longrightarrow> list_ex (set_accepted d) mid \<Longrightarrow> n \<le>s sfst_ready (sf_status sts) \<Longrightarrow>
     serving m d n (ev # mid @ EvStatefulSet (Got (key_of m) (Inr sts)) # post)"
  unfolding serving_def by (intro exI [of _ "ev # mid"] exI [of _ sts] exI [of _ post]) simp

lemma store_end_told:
  assumes "lib_ok L" "store_end L (observing_store s) fin es" "EvStore (StatusUpdated x r) \<in> set es"
  shows "store_told L k (EvStore (Got k (Inr s)) # es) x"
proof -
  consider (failed) rsn cause where "x = failed_store L (observing_store s) rsn cause"
    | (observed) mid sts pk u where "x = observed_store L pk sts (observing_store s)" "store_ensured (observing_store s) pk mid"
        "es = mid @ [EvStatefulSet (Got (key_of (sto_meta s)) (Inr sts)), EvStore (StatusUpdated x u)]"
    using assms(2,3) unfolding store_end_def by (auto dest: no_status_stores)
  then show ?thesis
  proof cases
    case failed
    then show ?thesis
      unfolding store_told_def by (intro exI [of _ s]) (simp add: failed_store_fields [OF assms(1)])
  next
    case observed
    let ?es = "EvStore (Got k (Inr s)) # es"
    have ens: "key_kept s pk mid" "list_ex service_accepted mid" "list_ex (set_accepted (StoreStatefulSet s)) mid"
      using observed(2) by (simp_all add: store_ensured_def)
    have key: "key_kept s pk ?es" by (rule key_kept_mono [OF ens(1)]) (auto simp: observed(3))
    have serve: "serving (sto_meta s) (StoreStatefulSet s) (wanted_replicas s) ?es"
      if "wanted_replicas s \<le>s sfst_ready (sf_status sts)"
      unfolding observed(3) append_Cons [symmetric]
      using servingI [OF ens(2,3) that] by simp
    have wanted: "wanted_replicas (observing_store s) = wanted_replicas s"
      by (simp add: wanted_replicas_def)
    show ?thesis
      unfolding store_told_def
      using observed_store_conds [OF assms(1), of pk sts "observing_store s"] key serve
      by (intro exI [of _ s]) (simp add: observed(1) observed_store_fields wanted split: if_splits)
  qed
qed

lemma builder_end_told:
  assumes "lib_ok L" "builder_end L (observing_builder b) fin es" "EvBuilder (StatusUpdated x r) \<in> set es"
  shows "builder_told L k (EvBuilder (Got k (Inr b)) # es) x"
proof -
  consider (failed) rsn cause where "x = failed_builder L (observing_builder b) rsn cause"
    | (observed) mid sts u where "x = observed_builder L sts (observing_builder b)" "builder_ensured (observing_builder b) mid"
        "es = mid @ [EvStatefulSet (Got (key_of (nb_meta b)) (Inr sts)), EvBuilder (StatusUpdated x u)]"
    using assms(2,3) unfolding builder_end_def by (auto dest: no_status_stores)
  then show ?thesis
  proof cases
    case failed
    then show ?thesis
      unfolding builder_told_def by (intro exI [of _ b]) (simp add: failed_builder_fields [OF assms(1)])
  next
    case observed
    let ?es = "EvBuilder (Got k (Inr b)) # es"
    have ens: "list_ex service_accepted mid" "list_ex (set_accepted (BuilderStatefulSet b)) mid"
      using observed(2) by (simp_all add: builder_ensured_def)
    have serve: "serving (nb_meta b) (BuilderStatefulSet b) 1 ?es" if "1 \<le>s sfst_ready (sf_status sts)"
      unfolding observed(3) using servingI [OF ens that] by simp
    show ?thesis
      unfolding builder_told_def
      using observed_builder_fields(7) [OF assms(1), of sts "observing_builder b"] serve
      by (intro exI [of _ b]) (simp add: observed(1) observed_builder_fields [OF assms(1)] split: if_splits)
  qed
qed

text \<open>An error is on record: the phase is Degraded, Stalled carries its message, Ready is false.\<close>

definition store_degraded :: "lib \<Rightarrow> err \<Rightarrow> nix_store \<Rightarrow> bool" where
  "store_degraded L e x \<longleftrightarrow> sts_phase (sto_status x) = PhaseDegraded \<and>
     has_cond L (sts_conditions (sto_status x)) ConditionReady ConditionFalse \<and>
     (\<exists>c. lib_find_cond L (sts_conditions (sto_status x)) ConditionStalled = Some c \<and> c_status c = ConditionTrue \<and> c_message c = e_msg e)"

definition builder_degraded :: "lib \<Rightarrow> err \<Rightarrow> nix_builder \<Rightarrow> bool" where
  "builder_degraded L e x \<longleftrightarrow> bst_phase (nb_status x) = PhaseDegraded \<and> \<not> bst_ready (nb_status x) \<and>
     has_cond L (bst_conditions (nb_status x)) ConditionReady ConditionFalse \<and>
     (\<exists>c. lib_find_cond L (bst_conditions (nb_status x)) ConditionStalled = Some c \<and> c_status c = ConditionTrue \<and> c_message c = e_msg e)"

definition store_reports :: "lib \<Rightarrow> key \<Rightarrow> reconcile_end \<Rightarrow> event list \<Rightarrow> bool" where
  "store_reports L k fin es \<longleftrightarrow> (case snd fin of
     None \<Rightarrow> res_requeue (fst fin) \<or> res_after (fst fin) = nixStoreRequeue \<or> (\<exists>e. es = [EvStore (Got k (Inl e))] \<and> IsNotFound e)
   | Some e \<Rightarrow> es = [EvStore (Got k (Inl e))] \<or> (\<exists>x. last es = EvStore (StatusUpdated x (Inl e))) \<or>
       (\<exists>x r. last es = EvStore (StatusUpdated x r) \<and> store_degraded L e x))"

definition builder_reports :: "lib \<Rightarrow> key \<Rightarrow> reconcile_end \<Rightarrow> event list \<Rightarrow> bool" where
  "builder_reports L k fin es \<longleftrightarrow> (case snd fin of
     None \<Rightarrow> res_requeue (fst fin) \<or> res_after (fst fin) = nixBuilderRequeue \<or> (\<exists>e. es = [EvBuilder (Got k (Inl e))] \<and> IsNotFound e)
   | Some e \<Rightarrow> es = [EvBuilder (Got k (Inl e))] \<or> (\<exists>x. last es = EvBuilder (StatusUpdated x (Inl e))) \<or>
       (\<exists>x r. last es = EvBuilder (StatusUpdated x r) \<and> builder_degraded L e x))"

lemma store_end_answered:
  assumes "lib_ok L" "store_end L s fin es"
  shows "store_reports L k fin (ev # es)"
proof -
  have bad: "store_degraded L e (failed_store L s rsn e)" for rsn e
    by (simp add: store_degraded_def failed_store_fields [OF assms(1)])
  from assms(2) show ?thesis
    unfolding store_end_def
  proof (elim disjE exE conjE)
    fix mid rsn cause u
    assume "es = mid @ [EvStore (StatusUpdated (failed_store L s rsn cause) u)]" "fin = (done_res, Some cause)"
    then show ?thesis using bad by (auto simp: store_reports_def)
  next
    fix mid sts pk u
    assume "es = mid @ [EvStatefulSet (Got (key_of (sto_meta s)) (Inr sts)), EvStore (StatusUpdated (observed_store L pk sts s) u)]"
      "fin = (case u of Inl e \<Rightarrow> if IsConflict e then (requeue_res, None) else (done_res, Some e)
        | Inr _ \<Rightarrow> (after_res nixStoreRequeue, None))"
    then show ?thesis
      by (cases u) (auto simp: store_reports_def after_res_def requeue_res_def)
  qed
qed

lemma builder_end_answered:
  assumes "lib_ok L" "builder_end L b fin es"
  shows "builder_reports L k fin (ev # es)"
proof -
  have bad: "builder_degraded L e (failed_builder L b rsn e)" for rsn e
    by (simp add: builder_degraded_def failed_builder_fields [OF assms(1)])
  from assms(2) show ?thesis
    unfolding builder_end_def
  proof (elim disjE exE conjE)
    fix mid rsn cause u
    assume "es = mid @ [EvBuilder (StatusUpdated (failed_builder L b rsn cause) u)]" "fin = (done_res, Some cause)"
    then show ?thesis using bad by (auto simp: builder_reports_def)
  next
    fix mid sts u
    assume "es = mid @ [EvStatefulSet (Got (key_of (nb_meta b)) (Inr sts)), EvBuilder (StatusUpdated (observed_builder L sts b) u)]"
      "fin = (case u of Inl e \<Rightarrow> if IsConflict e then (requeue_res, None) else (done_res, Some e)
        | Inr _ \<Rightarrow> (after_res nixBuilderRequeue, None))"
    then show ?thesis
      by (cases u) (auto simp: builder_reports_def after_res_def requeue_res_def)
  qed
qed

section \<open>Properties\<close>

text \<open>C17. The status of the infrastructure is honest: whatever a reconcile of a NixStore or NixBuilder stores,
  the observed generation is that of the object read; it says Ready (and nothing stalled) only after
  the Service and the StatefulSet of the current specification were accepted by the server and the
  StatefulSet was then read with enough ready replicas, and for a store the published key is that of
  the Secret read or created after the server said there was none; otherwise Ready is false.\<close>

theorem infra_status_is_honest:
  assumes "lib_ok (e_lib E)"
  shows "runs (StoreReconcile E k) (\<lambda>_ es. \<forall>x r. EvStore (StatusUpdated x r) \<in> set es \<longrightarrow> store_told (e_lib E) k es x) \<and>
    runs (BuilderReconcile E k) (\<lambda>_ es. \<forall>x r. EvBuilder (StatusUpdated x r) \<in> set es \<longrightarrow> builder_told (e_lib E) k es x)"
  by (auto intro!: runs_mono [OF StoreReconcile_end] runs_mono [OF BuilderReconcile_end]
      store_end_told [OF assms] builder_end_told [OF assms])

lemma infra_status_is_honest_witness:
  "runs (StoreReconcile (sample_env :: unit env) \<lparr>k_ns = ''ns'', k_name = ''s''\<rparr>)
     (\<lambda>_ es. \<forall>x r. EvStore (StatusUpdated x r) \<in> set es \<longrightarrow>
        store_told (e_lib (sample_env :: unit env)) \<lparr>k_ns = ''ns'', k_name = ''s''\<rparr> es x)"
  by (rule infra_status_is_honest [THEN conjunct1]) (simp add: sample_env_def ref_lib_ok)

text \<open>C23. No error of the infrastructure is lost: a reconcile that returns an error ended with an attempt to
  store that very error (phase Degraded, Stalled with its message, Ready false), unless the object
  could not be read or the status could not be stored; and one that returns no error asks to be run
  again, unless the object is gone.\<close>

theorem infra_errors_reported:
  assumes "lib_ok (e_lib E)"
  shows "runs (StoreReconcile E k) (store_reports (e_lib E) k) \<and> runs (BuilderReconcile E k) (builder_reports (e_lib E) k)"
proof
  have gone: "store_reports (e_lib E) k (done_res, ignore_not_found (Some e)) [EvStore (Got k (Inl e))]"
    "builder_reports (e_lib E) k (done_res, ignore_not_found (Some e)) [EvBuilder (Got k (Inl e))]" for e
    by (auto simp: store_reports_def builder_reports_def ignore_not_found_def)
  show "runs (StoreReconcile E k) (store_reports (e_lib E) k)"
    by (rule runs_mono [OF StoreReconcile_end]) (auto intro: gone store_end_answered [OF assms])
  show "runs (BuilderReconcile E k) (builder_reports (e_lib E) k)"
    by (rule runs_mono [OF BuilderReconcile_end]) (auto intro: gone builder_end_answered [OF assms])
qed

lemma infra_errors_reported_witness:
  "runs (StoreReconcile (sample_env :: unit env) \<lparr>k_ns = ''ns'', k_name = ''s''\<rparr>)
     (store_reports (e_lib (sample_env :: unit env)) \<lparr>k_ns = ''ns'', k_name = ''s''\<rparr>)"
  by (rule infra_errors_reported [THEN conjunct1]) (simp add: sample_env_def ref_lib_ok)

section \<open>What the workload controllers make of it\<close>

definition mounts_key :: "pod_spec \<Rightarrow> string \<Rightarrow> bool" where
  "mounts_key p sec \<longleftrightarrow> secret_volume sshVolumeName sec \<in> set (ps_volumes p)"

lemma upsertVolume_mem: "v \<in> set (upsertVolume vs v)"
  by (induction vs) auto

lemma upsertVolume_other: "w \<in> set vs \<Longrightarrow> vol_name w \<noteq> vol_name v \<Longrightarrow> w \<in> set (upsertVolume vs v)"
  by (induction vs) auto

lemma store_mounts_key: "mounts_key (store_pod x) (sshSecretName (m_name (sto_meta x)))"
  by (simp add: mounts_key_def store_pod_def Let_def upsertVolume_mem)

lemma builder_mounts_key:
  assumes "bs_store_ref (nb_spec x) = Some st"
  shows "mounts_key (builder_pod x) (sshSecretName st)"
proof -
  have "vol_name (secret_volume sshVolumeName sec) \<noteq> builderStoreVolumeName" for sec
    by (simp add: secret_volume_def const_defs)
  then show ?thesis
    using assms by (simp add: mounts_key_def builder_pod_def builder_volumes_def Let_def upsertVolume_mem upsertVolume_other
        split: option.split)
qed

text \<open>The answer of the workload controllers when they read a Ready store, or a ready builder.\<close>

definition store_usable :: "nix_store \<Rightarrow> err + string + store_info \<Rightarrow> bool" where
  "store_usable x ans \<longleftrightarrow> ans = Inr (Inr \<lparr>si_substituter = sts_substituter_url (sto_status x),
     si_key = sts_public_key (sto_status x), si_push = sts_store_uri (sto_status x)\<rparr>)"

definition builder_usable :: "nix_builder \<Rightarrow> infra_deps \<Rightarrow> err + infra_deps \<Rightarrow> bool" where
  "builder_usable x deps ans \<longleftrightarrow> (\<exists>deps'. ans = Inr deps' \<and> id_not_ready deps' = id_not_ready deps \<and>
     map_option bi_endpoint (id_builder deps') = Some (bst_endpoint (nb_status x)) \<and>
     (\<forall>st. bs_store_ref (nb_spec x) = Some st \<longrightarrow> mounts_key (builder_pod x) (id_ssh_secret deps')))"

lemma store_told_usable:
  assumes "x = observed_store L pk sts s" "sts_phase (sto_status x) = PhaseReady"
  shows "runs (resolve_store E (m_ns (sto_meta x)) (m_name (sto_meta x))) (\<lambda>ans es.
    es = [EvStore (Got (key_of (sto_meta x)) (Inr x))] \<longrightarrow> store_usable x ans)"
  unfolding resolve_store_def key_of_def [symmetric]
  by (intro runs_intros) (use assms in \<open>auto simp: store_usable_def observed_store_fields store_address_def\<close>)

lemma builder_told_usable:
  assumes "lib_ok L" "x = observed_builder L sts b" "bst_ready (nb_status x)"
  shows "runs (resolve_builder E (m_ns (nb_meta x)) nix (m_name (nb_meta x)) deps) (\<lambda>ans es.
    es = [EvBuilder (Got (key_of (nb_meta x)) (Inr x))] \<longrightarrow> builder_usable x deps ans)"
  unfolding resolve_builder_def key_of_def [symmetric] Let_def
  by (intro runs_intros) (use assms builder_mounts_key [of x] in \<open>auto simp: builder_usable_def observed_builder_fields [OF assms(1)]\<close>)

text \<open>C20. What the infrastructure publishes is what the workloads ask for: a status of a NixStore stored with
  phase Ready, or of a NixBuilder stored as ready, is accepted by the preflight of the workload
  controllers; they push to the very address the store publishes and build at the endpoint the builder
  publishes, and the key Secret mounted into the runner pods is the one mounted into the pod of a
  builder that names its store.\<close>

theorem published_infra_usable:
  assumes "lib_ok (e_lib E)"
  shows "runs (StoreReconcile E k) (\<lambda>_ es. \<forall>x r. EvStore (StatusUpdated x r) \<in> set es \<and> sts_phase (sto_status x) = PhaseReady \<longrightarrow>
      runs (resolve_store E' (m_ns (sto_meta x)) (m_name (sto_meta x))) (\<lambda>ans es'.
        es' = [EvStore (Got (key_of (sto_meta x)) (Inr x))] \<longrightarrow> store_usable x ans)) \<and>
    runs (BuilderReconcile E k) (\<lambda>_ es. \<forall>x r. EvBuilder (StatusUpdated x r) \<in> set es \<and> bst_ready (nb_status x) \<longrightarrow>
      runs (resolve_builder E' (m_ns (nb_meta x)) nix (m_name (nb_meta x)) deps) (\<lambda>ans es'.
        es' = [EvBuilder (Got (key_of (nb_meta x)) (Inr x))] \<longrightarrow> builder_usable x deps ans))"
proof
  have obs: "\<exists>pk sts. x = observed_store (e_lib E) pk sts s"
    if "store_end (e_lib E) s fin es" "EvStore (StatusUpdated x r) \<in> set es" "sts_phase (sto_status x) = PhaseReady" for s fin es x r
    using that failed_store_fields(4) [OF assms] no_status_stores unfolding store_end_def by fastforce
  show "runs (StoreReconcile E k) (\<lambda>_ es. \<forall>x r. EvStore (StatusUpdated x r) \<in> set es \<and> sts_phase (sto_status x) = PhaseReady \<longrightarrow>
      runs (resolve_store E' (m_ns (sto_meta x)) (m_name (sto_meta x))) (\<lambda>ans es'.
        es' = [EvStore (Got (key_of (sto_meta x)) (Inr x))] \<longrightarrow> store_usable x ans))"
    by (rule runs_mono [OF StoreReconcile_end]) (auto dest!: obs intro: store_told_usable)
  have obs: "\<exists>sts. x = observed_builder (e_lib E) sts b"
    if "builder_end (e_lib E) b fin es" "EvBuilder (StatusUpdated x r) \<in> set es" "bst_ready (nb_status x)" for b fin es x r
    using that failed_builder_fields(5) [OF assms] no_status_stores unfolding builder_end_def by fastforce
  show "runs (BuilderReconcile E k) (\<lambda>_ es. \<forall>x r. EvBuilder (StatusUpdated x r) \<in> set es \<and> bst_ready (nb_status x) \<longrightarrow>
      runs (resolve_builder E' (m_ns (nb_meta x)) nix (m_name (nb_meta x)) deps) (\<lambda>ans es'.
        es' = [EvBuilder (Got (key_of (nb_meta x)) (Inr x))] \<longrightarrow> builder_usable x deps ans))"
    by (rule runs_mono [OF BuilderReconcile_end]) (auto dest!: obs intro: builder_told_usable [OF assms])
qed

lemma published_infra_usable_witness:
  "runs (StoreReconcile (sample_env :: unit env) \<lparr>k_ns = ''ns'', k_name = ''s''\<rparr>)
     (\<lambda>_ es. \<forall>x r. EvStore (StatusUpdated x r) \<in> set es \<and> sts_phase (sto_status x) = PhaseReady \<longrightarrow>
      runs (resolve_store (sample_env :: unit env) (m_ns (sto_meta x)) (m_name (sto_meta x))) (\<lambda>ans es'.
        es' = [EvStore (Got (key_of (sto_meta x)) (Inr x))] \<longrightarrow> store_usable x ans))"
  by (rule published_infra_usable [THEN conjunct1]) (simp add: sample_env_def ref_lib_ok)

section \<open>The pods\<close>

text \<open>A StatefulSet is well formed when its selector and Service name are the ones of its pods, volume and
  container names are distinct, and every mount has a volume or a claim and a path of its own.\<close>

definition frame_ok :: "string set \<Rightarrow> pod_spec \<Rightarrow> bool" where
  "frame_ok W p \<longleftrightarrow> distinct (map vol_name (ps_volumes p)) \<and> distinct (map ct_name (ps_init p @ ps_containers p)) \<and>
     list_all (mounts_ok (vol_name ` set (ps_volumes p) \<union> W)) (ps_init p @ ps_containers p)"

definition set_ok :: "statefulset \<Rightarrow> bool" where
  "set_ok d \<longleftrightarrow> frame_ok (fst ` set (sfs_claims (sf_spec d))) (pt_spec (sfs_template (sf_spec d))) \<and>
     sfs_selector (sf_spec d) = Some \<lparr>psel_labels = pt_labels (sfs_template (sf_spec d)), psel_rest = []\<rparr>"

text \<open>A user template whose mounts are served by its own volumes or the operator's, and that keeps clear
  of the names of the operator's containers.\<close>

definition template_ok :: "string \<Rightarrow> string set \<Rightarrow> pod_spec \<Rightarrow> bool" where
  "template_ok name W p \<longleftrightarrow> frame_ok W p \<and> name \<notin> ct_name ` set (ps_init p) \<and> ''bootstrap'' \<notin> ct_name ` set (ps_containers p)"

definition store_volumes :: "string set" where
  "store_volumes = {nixStoreVolumeName, signingKeyVolumeName, sshVolumeName}"

definition builder_volume_names :: "nix_builder \<Rightarrow> string set" where
  "builder_volume_names b = insert builderStoreVolumeName (if bs_store_ref (nb_spec b) = None then {} else {sshVolumeName})"

definition same_frame :: "statefulset \<Rightarrow> statefulset \<Rightarrow> bool" where
  "same_frame d existing \<longleftrightarrow> fst ` set (sfs_claims (sf_spec existing)) = fst ` set (sfs_claims (sf_spec d)) \<and>
     sfs_selector (sf_spec existing) = sfs_selector (sf_spec d)"

lemma upsertContainer_names:
  "map ct_name (upsertContainer cs c) = (if ct_name c \<in> ct_name ` set cs then map ct_name cs else map ct_name cs @ [ct_name c])"
  by (induction cs) auto

lemma upsertContainer_owned: "d \<in> set (upsertContainer cs c) \<Longrightarrow> d \<in> set cs \<or> ct_name d = ct_name c \<and> ct_mounts d = ct_mounts c"
  by (induction cs) (auto split: if_splits)

lemma upsertContainer_mounts:
  "list_all (mounts_ok V) cs \<Longrightarrow> mounts_ok V c \<Longrightarrow> list_all (mounts_ok V) (upsertContainer cs c)"
  unfolding list_all_iff by (auto dest!: upsertContainer_owned simp: mounts_ok_def)

lemma infra_pod_ok:
  assumes "template_ok (ct_name c) W p" "ct_name c \<noteq> ''bootstrap''" "mounts_ok V c" "nix \<in> V"
    and "distinct (map vol_name vs)" "V = vol_name ` set vs \<union> claims" "vol_name ` set (ps_volumes p) \<union> W \<subseteq> V"
  shows "frame_ok claims (p\<lparr>ps_init := seed_container img nix # filterOutContainers (ps_init p) [''bootstrap''],
    ps_containers := upsertContainer (ps_containers p) c, ps_volumes := vs\<rparr>)"
proof -
  have "mounts_ok V d" if "mounts_ok (vol_name ` set (ps_volumes p) \<union> W) d" for d
    by (rule mounts_ok_mono [OF that assms(7)])
  then have user: "list_all (mounts_ok V) (ps_init p)" "list_all (mounts_ok V) (ps_containers p)"
    using assms(1) by (simp_all add: template_ok_def frame_ok_def list_all_iff)
  have names: "distinct (map ct_name (ps_init p @ ps_containers p))"
    using assms(1) by (simp add: template_ok_def frame_ok_def)
  have "mounts_ok V (seed_container img nix)"
    using assms(4) by (simp add: mounts_ok_def seed_container_def mount_at_def)
  moreover have "list_all (mounts_ok V) (filterOutContainers (ps_init p) [''bootstrap''])"
    using user(1) by (auto simp: filterOutContainers_def list_all_iff)
  moreover have "list_all (mounts_ok V) (upsertContainer (ps_containers p) c)"
    by (rule upsertContainer_mounts) (use user assms(3) in auto)
  moreover have "set (map ct_name (upsertContainer (ps_containers p) c)) = insert (ct_name c) (ct_name ` set (ps_containers p))"
    unfolding upsertContainer_names by auto
  moreover have "distinct (map ct_name (upsertContainer (ps_containers p) c))"
    unfolding upsertContainer_names using names by auto
  ultimately show ?thesis
    using assms names
    by (auto simp: frame_ok_def template_ok_def seed_container_def filterOutContainers_def distinct_map_filter)
qed

lemma store_set_ok:
  assumes "template_ok ''store'' store_volumes (template_spec (sto_template (sto_spec s)))"
  shows "set_ok (StoreStatefulSet s)"
proof -
  let ?p = "template_spec (sto_template (sto_spec s))" and ?img = "image_or (sto_image (sto_spec s)) DefaultNixStoreImage"
  let ?vs = "upsertVolume (upsertVolume (ps_volumes ?p) (secret_volume signingKeyVolumeName (signingKeySecretName s)))
    (secret_volume sshVolumeName (sshSecretName (m_name (sto_meta s))))"
  have vs: "vol_name ` set ?vs = insert sshVolumeName (insert signingKeyVolumeName (vol_name ` set (ps_volumes ?p)))"
    by (simp add: volumes.keys_upsert secret_volume_def)
  have "frame_ok {nixStoreVolumeName} (?p\<lparr>ps_init := seed_container ?img nixStoreVolumeName #
      filterOutContainers (ps_init ?p) [''bootstrap''],
      ps_containers := upsertContainer (ps_containers ?p) (store_container ?img), ps_volumes := ?vs\<rparr>)"
  proof (rule infra_pod_ok [where W = store_volumes and V = "vol_name ` set ?vs \<union> {nixStoreVolumeName}"])
    show "template_ok (ct_name (store_container ?img)) store_volumes ?p"
      using assms by (simp add: store_container_def)
    show "mounts_ok (vol_name ` set ?vs \<union> {nixStoreVolumeName}) (store_container ?img)"
      unfolding vs by (simp add: mounts_ok_def store_container_def mount_at_def)
    show "distinct (map vol_name ?vs)"
      using assms by (intro volumes.distinct_upsert) (simp add: template_ok_def frame_ok_def)
    show "vol_name ` set (ps_volumes ?p) \<union> store_volumes \<subseteq> vol_name ` set ?vs \<union> {nixStoreVolumeName}"
      unfolding vs by (auto simp: store_volumes_def)
  qed (simp_all add: store_container_def)
  then show ?thesis
    by (simp add: set_ok_def StoreStatefulSet_def infra_statefulset_def store_pod_def Let_def)
qed

lemma builder_volumes_keys:
  "vol_name ` set (builder_volumes b vs) =
     vol_name ` set vs \<union> (if bs_store_ref (nb_spec b) = None then {} else {sshVolumeName}) \<union>
     (if bs_storage (nb_spec b) = None then {builderStoreVolumeName} else {})"
  by (auto simp: builder_volumes_def Let_def volumes.keys_upsert secret_volume_def split: option.splits)

lemma builder_set_ok:
  assumes "template_ok ''builder'' (builder_volume_names b) (template_spec (bs_template (nb_spec b)))"
  shows "set_ok (BuilderStatefulSet b)"
proof -
  let ?p = "template_spec (bs_template (nb_spec b))" and ?img = "image_or (bs_image (nb_spec b)) DefaultNixBuilderImage"
  let ?vs = "builder_volumes b (ps_volumes ?p)" and ?claims = "if bs_storage (nb_spec b) = None then {} else {builderStoreVolumeName}"
  have "frame_ok ?claims (?p\<lparr>ps_init := seed_container ?img builderStoreVolumeName #
      filterOutContainers (ps_init ?p) [''bootstrap''],
      ps_containers := upsertContainer (ps_containers ?p) (builder_container b ?img), ps_volumes := ?vs\<rparr>)"
  proof (rule infra_pod_ok [where W = "builder_volume_names b" and V = "vol_name ` set ?vs \<union> ?claims"])
    show "template_ok (ct_name (builder_container b ?img)) (builder_volume_names b) ?p"
      using assms by (simp add: builder_container_def)
    show "mounts_ok (vol_name ` set ?vs \<union> ?claims) (builder_container b ?img)"
      unfolding builder_volumes_keys by (auto simp: mounts_ok_def builder_container_def builder_mounts_def mount_at_def const_defs)
    show "distinct (map vol_name ?vs)"
      using assms by (auto simp: template_ok_def frame_ok_def builder_volumes_def Let_def intro!: volumes.distinct_upsert
          split: option.split)
    show "vol_name ` set (ps_volumes ?p) \<union> builder_volume_names b \<subseteq> vol_name ` set ?vs \<union> ?claims"
      unfolding builder_volumes_keys by (auto simp: builder_volume_names_def)
  qed (auto simp: builder_container_def builder_volumes_keys)
  then show ?thesis
    by (cases "bs_storage (nb_spec b)") (simp_all add: set_ok_def BuilderStatefulSet_def infra_statefulset_def builder_pod_def Let_def)
qed

lemma update_keeps_frame:
  "same_frame d existing \<Longrightarrow> set_ok d \<Longrightarrow> set_ok (update_store_set d existing) \<and> set_ok (update_builder_set d existing)"
  by (simp add: set_ok_def same_frame_def update_store_set_def update_builder_set_def)

text \<open>C25. The infrastructure pods are well formed: for a user template that is, the StatefulSet of a NixStore
  or NixBuilder selects its own pods, has distinct volume and container names, and every mount has its
  volume or claim and its own path; putting the template into an existing StatefulSet with the same
  claims keeps that.\<close>

theorem infra_pods_well_formed:
  "(template_ok ''store'' store_volumes (template_spec (sto_template (sto_spec s))) \<longrightarrow>
      set_ok (StoreStatefulSet s) \<and> (same_frame (StoreStatefulSet s) old \<longrightarrow> set_ok (update_store_set (StoreStatefulSet s) old))) \<and>
    (template_ok ''builder'' (builder_volume_names b) (template_spec (bs_template (nb_spec b))) \<longrightarrow>
      set_ok (BuilderStatefulSet b) \<and> (same_frame (BuilderStatefulSet b) old \<longrightarrow> set_ok (update_builder_set (BuilderStatefulSet b) old)))"
  by (simp_all add: store_set_ok builder_set_ok update_keeps_frame)

definition sample_builder :: "string option \<Rightarrow> nix_builder" where
  "sample_builder storage = zero_builder\<lparr>nb_meta := zero_meta\<lparr>m_name := ''b'', m_ns := ''ns''\<rparr>,
     nb_spec := (nb_spec zero_builder)\<lparr>bs_storage := storage, bs_store_ref := Some ''st''\<rparr>\<rparr>"

lemma sample_template_ok:
  "template_ok ''builder'' (builder_volume_names (sample_builder st)) (template_spec (bs_template (nb_spec (sample_builder st))))"
  by (simp add: sample_builder_def zero_builder_def template_ok_def frame_ok_def template_spec_def zero_pod_template_def zero_pod_spec_def)

lemma infra_pods_well_formed_witness: "set_ok (BuilderStatefulSet (sample_builder None))"
  using infra_pods_well_formed [of undefined undefined "sample_builder None"] sample_template_ok [of None] by blast

text \<open>Where the hypothesis on the claims fails: storage added to a builder after its creation. Only the
  template is put into the StatefulSet, whose pods then mount a volume that neither they nor the claims have.\<close>

lemma storage_added_later:
  "\<not> set_ok (update_builder_set (BuilderStatefulSet (sample_builder (Some ''10Gi''))) (BuilderStatefulSet (sample_builder None)))"
  by (simp add: set_ok_def frame_ok_def mounts_ok_def update_builder_set_def BuilderStatefulSet_def infra_statefulset_def
      sample_builder_def zero_builder_def builder_pod_def builder_volumes_def template_spec_def zero_pod_template_def
      zero_pod_spec_def seed_container_def mount_at_def secret_volume_def const_defs Let_def)

text \<open>A builder without a store authorizes no key: its start script installs none, whatever it is called with.\<close>

lemma storeless_builder_no_key:
  assumes "bs_store_ref (nb_spec b) = None" "bs_template (nb_spec b) = None"
  shows "\<not> mounts_key (builder_pod b) sec"
  using assms by (simp add: mounts_key_def builder_pod_def builder_volumes_def template_spec_def zero_pod_template_def
      zero_pod_spec_def secret_volume_def const_defs Let_def split: option.split)

end
