(* ===== verification/Deep_Copy.thy ===== *)
theory Deep_Copy
  imports Nio_Prelude "HOL-Library.State_Monad" "HOL-Library.Monad_Syntax"
begin

text \<open>
  A heap of Go values and the statements the generated deep copies are made of
  (\<open>zz_generated.deepcopy.go\<close>). A struct is a value; a pointer, slice or map is a reference to a cell.
  A type says which values are looked up how deep; \<open>look\<close> unfolds a value to the tree that can be reached
  from it, with the addresses on the way. \<open>copies t c\<close> is the contract of a deep copy \<open>c\<close> at type \<open>t\<close>: the
  same tree, all of it in fresh cells, and no other cell changed.
\<close>

section \<open>Values and cells\<close>

datatype gval =
    Plain string
  | Struct "(string \<times> gval) list"
  | Ref "nat option"

datatype cell = One gval | Many "gval list" | Table "(string \<times> gval) list"

type_synonym heap = "nat \<rightharpoonup> cell"

text \<open>The heap and its first free address.\<close>

type_synonym store = "heap \<times> nat"

type_synonym copier = "gval \<Rightarrow> (store, gval) state"

definition alloc :: "cell \<Rightarrow> (store, nat) state" where
  "alloc c = State (\<lambda>(h, n). (n, (h(n \<mapsto> c), Suc n)))"

definition write_cell :: "nat \<Rightarrow> cell \<Rightarrow> (store, unit) state" where
  "write_cell a c = State (\<lambda>(h, n). ((), (h(a \<mapsto> c), n)))"

definition read_cell :: "nat \<Rightarrow> (store, cell option) state" where
  "read_cell a = State (\<lambda>(h, n). (h a, (h, n)))"

section \<open>The statements of a deep copy\<close>

text \<open>\<open>*out = *in\<close>, and \<open>**out = **in\<close>.\<close>

definition shallow :: copier where
  "shallow v = State_Monad.return v"

text \<open>\<open>if in.F != nil { *out = new(T); (*in).DeepCopyInto(*out) }\<close>.\<close>

definition new_ptr :: "copier \<Rightarrow> copier" where
  "new_ptr c v = (case v of
     Ref (Some a) \<Rightarrow> do {
       x \<leftarrow> read_cell a;
       (case x of
          Some (One u) \<Rightarrow> do {
            b \<leftarrow> alloc (One (Plain []));
            w \<leftarrow> c u;
            write_cell b (One w);
            State_Monad.return (Ref (Some b))
          }
        | _ \<Rightarrow> State_Monad.return v)
     }
   | _ \<Rightarrow> State_Monad.return v)"

fun copy_all :: "copier \<Rightarrow> gval list \<Rightarrow> (store, gval list) state" where
  "copy_all c [] = State_Monad.return []"
| "copy_all c (v # vs) = do {
     w \<leftarrow> c v;
     ws \<leftarrow> copy_all c vs;
     State_Monad.return (w # ws)
   }"

text \<open>\<open>*out = make([]T, len(*in))\<close> and the loop over the elements; \<open>copy(*out, *in)\<close> is the loop with \<open>shallow\<close>.\<close>

definition new_slice :: "copier \<Rightarrow> copier" where
  "new_slice c v = (case v of
     Ref (Some a) \<Rightarrow> do {
       x \<leftarrow> read_cell a;
       (case x of
          Some (Many us) \<Rightarrow> do {
            b \<leftarrow> alloc (Many (map (\<lambda>_. Plain []) us));
            ws \<leftarrow> copy_all c us;
            write_cell b (Many ws);
            State_Monad.return (Ref (Some b))
          }
        | _ \<Rightarrow> State_Monad.return v)
     }
   | _ \<Rightarrow> State_Monad.return v)"

text \<open>\<open>*out = make(map[string]T, len(*in))\<close> and the loop over the entries.\<close>

definition new_map :: "copier \<Rightarrow> copier" where
  "new_map c v = (case v of
     Ref (Some a) \<Rightarrow> do {
       x \<leftarrow> read_cell a;
       (case x of
          Some (Table kus) \<Rightarrow> do {
            b \<leftarrow> alloc (Table []);
            ws \<leftarrow> copy_all c (map snd kus);
            write_cell b (Table (zip (map fst kus) ws));
            State_Monad.return (Ref (Some b))
          }
        | _ \<Rightarrow> State_Monad.return v)
     }
   | _ \<Rightarrow> State_Monad.return v)"

text \<open>\<open>*out = *in\<close>, then the fields with a statement of their own, in the order of the struct.\<close>

fun copy_fields :: "(string \<times> copier) list \<Rightarrow> (string \<times> gval) list \<Rightarrow> (store, (string \<times> gval) list) state" where
  "copy_fields cs [] = State_Monad.return []"
| "copy_fields cs ((f, v) # fvs) = do {
     w \<leftarrow> (case map_of cs f of None \<Rightarrow> shallow v | Some c \<Rightarrow> c v);
     ws \<leftarrow> copy_fields cs fvs;
     State_Monad.return ((f, w) # ws)
   }"

definition fields :: "(string \<times> copier) list \<Rightarrow> copier" where
  "fields cs v = (case v of
     Struct fvs \<Rightarrow> do { ws \<leftarrow> copy_fields cs fvs; State_Monad.return (Struct ws) }
   | _ \<Rightarrow> State_Monad.return v)"

section \<open>What can be reached\<close>

datatype ty = TPlain | TStruct "(string \<times> ty) list" | TPtr ty | TSlice ty | TMap ty

datatype tree = Leaf string | Node "(string \<times> tree) list" | Nowhere | At nat "(string \<times> tree) list"

text \<open>The unfolding of a value of a type; \<open>None\<close> when it is not of the type. The elements of a slice have
  no names.\<close>

fun look :: "ty \<Rightarrow> heap \<Rightarrow> gval \<Rightarrow> tree option"
and look_fields :: "(string \<times> ty) list \<Rightarrow> heap \<Rightarrow> (string \<times> gval) list \<Rightarrow> (string \<times> tree) list option"
where
  "look TPlain h (Plain s) = Some (Leaf s)"
| "look (TStruct fts) h (Struct fvs) = map_option Node (look_fields fts h fvs)"
| "look (TPtr t) h (Ref None) = Some Nowhere"
| "look (TPtr t) h (Ref (Some a)) =
     (case h a of Some (One v) \<Rightarrow> map_option (\<lambda>x. At a [([], x)]) (look t h v) | _ \<Rightarrow> None)"
| "look (TSlice t) h (Ref None) = Some Nowhere"
| "look (TSlice t) h (Ref (Some a)) =
     (case h a of Some (Many vs) \<Rightarrow> map_option (\<lambda>xs. At a (map (Pair []) xs)) (those (map (look t h) vs)) | _ \<Rightarrow> None)"
| "look (TMap t) h (Ref None) = Some Nowhere"
| "look (TMap t) h (Ref (Some a)) =
     (case h a of Some (Table kvs) \<Rightarrow>
        map_option (\<lambda>xs. At a (zip (map fst kvs) xs)) (those (map (look t h) (map snd kvs))) | _ \<Rightarrow> None)"
| "look _ h _ = None"
| "look_fields [] h [] = Some []"
| "look_fields ((f, t) # fts) h ((g, v) # fvs) =
     (if f = g then (case (look t h v, look_fields fts h fvs) of (Some x, Some xs) \<Rightarrow> Some ((f, x) # xs) | _ \<Rightarrow> None)
      else None)"
| "look_fields _ h _ = None"

text \<open>The content without the addresses, and the addresses.\<close>

fun content :: "tree \<Rightarrow> tree" where
  "content (Leaf s) = Leaf s"
| "content (Node fs) = Node (map (\<lambda>(f, x). (f, content x)) fs)"
| "content Nowhere = Nowhere"
| "content (At a fs) = At 0 (map (\<lambda>(f, x). (f, content x)) fs)"

fun addresses :: "tree \<Rightarrow> nat set" where
  "addresses (Leaf s) = {}"
| "addresses (Node fs) = (\<Union>(f, x) \<in> set fs. addresses x)"
| "addresses Nowhere = {}"
| "addresses (At a fs) = insert a (\<Union>(f, x) \<in> set fs. addresses x)"

text \<open>The contract of a deep copy.\<close>

definition grew :: "heap \<Rightarrow> nat \<Rightarrow> heap \<Rightarrow> nat \<Rightarrow> bool" where
  "grew h n h' n' \<longleftrightarrow> n \<le> n' \<and> (\<forall>a \<ge> n'. h' a = None) \<and> (\<forall>a < n. h' a = h a)"

definition copied :: "ty \<Rightarrow> heap \<Rightarrow> nat \<Rightarrow> tree \<Rightarrow> gval \<Rightarrow> store \<Rightarrow> bool" where
  "copied t h n x w s \<longleftrightarrow> (case s of (h', n') \<Rightarrow> grew h n h' n' \<and>
     (\<exists>y. look t h' w = Some y \<and> content y = content x \<and> addresses y \<subseteq> {n..<n'}))"

definition copies :: "ty \<Rightarrow> copier \<Rightarrow> bool" where
  "copies t c \<longleftrightarrow> (\<forall>h n v x. (\<forall>a \<ge> n. h a = None) \<longrightarrow> look t h v = Some x \<longrightarrow>
     (case run_state (c v) (h, n) of (w, s) \<Rightarrow> copied t h n x w s))"

text \<open>A type without references.\<close>

fun flat :: "ty \<Rightarrow> bool" where
  "flat TPlain = True"
| "flat (TStruct fts) = list_all (\<lambda>(f, t). flat t) fts"
| "flat _ = False"

section \<open>Unfolding\<close>

lemma those_Some: "those xs = Some ys \<longleftrightarrow> xs = map Some ys"
proof (induction xs arbitrary: ys)
  case (Cons x xs)
  then show ?case by (cases ys; cases x) (auto split: option.splits)
qed auto

lemma map_zip_entry: "length ks = length xs \<Longrightarrow> map (\<lambda>(f, x). (f, g x)) (zip ks xs) = zip ks (map g xs)"
  by (induction ks xs rule: list_induct2) auto

lemma those_map_mono:
  "those (map f vs) = Some xs \<Longrightarrow> (\<And>v x. v \<in> set vs \<Longrightarrow> x \<in> set xs \<Longrightarrow> f v = Some x \<Longrightarrow> g v = Some x) \<Longrightarrow>
     those (map g vs) = Some xs"
proof (induction vs arbitrary: xs)
  case (Cons v vs)
  then obtain y ys where y: "f v = Some y" "those (map f vs) = Some ys" "xs = y # ys"
    by (auto split: option.splits)
  then have "g v = Some y" "those (map g vs) = Some ys"
    using Cons.prems(2) by (auto intro: Cons.IH [OF y(2)])
  with y(3) show ?case by simp
qed simp

lemma those_map_length: "those (map f vs) = Some xs \<Longrightarrow> length xs = length vs"
  by (induction vs arbitrary: xs) (auto split: option.splits)

lemma those_map_in: "those (map f vs) = Some xs \<Longrightarrow> x \<in> set xs \<Longrightarrow> \<exists>v \<in> set vs. f v = Some x"
  by (induction vs arbitrary: xs) (auto split: option.splits)

text \<open>The trees below a node.\<close>

definition below :: "(string \<times> tree) list \<Rightarrow> nat set" where
  "below fs = \<Union> (addresses ` snd ` set fs)"

lemma addresses_below [simp]: "addresses (Node fs) = below fs" "addresses (At a fs) = insert a (below fs)"
  by (force simp: below_def)+

lemma below_simps [simp]: "below [] = {}" "below ((f, x) # fs) = addresses x \<union> below fs"
  "below (map (Pair []) xs) = \<Union> (addresses ` set xs)"
  by (auto simp: below_def)

lemma below_zip [simp]: "length ks = length xs \<Longrightarrow> below (zip ks xs) = \<Union> (addresses ` set xs)"
  by (induction ks xs rule: list_induct2) auto

declare addresses.simps(2,4) [simp del]

lemma look_frame:
  "look t h v = Some x \<Longrightarrow> (\<And>a. a \<in> addresses x \<Longrightarrow> h' a = h a) \<Longrightarrow> look t h' v = Some x"
  "look_fields fts h fvs = Some xs \<Longrightarrow> (\<And>a. a \<in> below xs \<Longrightarrow> h' a = h a) \<Longrightarrow> look_fields fts h' fvs = Some xs"
proof (induction t h v and fts h fvs arbitrary: x and xs rule: look_look_fields.induct)
  case (6 t h a)
  then obtain vs xs where vs: "h a = Some (Many vs)" "those (map (look t h) vs) = Some xs" "x = At a (map (Pair []) xs)"
    by (auto split: option.splits cell.splits)
  have "look t h' v = Some y" if "v \<in> set vs" "y \<in> set xs" "look t h v = Some y" for v y
    by (rule 6(1) [OF vs(1) refl that(1,3)]) (use 6(3) vs(3) that(2) in auto)
  then have "those (map (look t h') vs) = Some xs"
    by (rule those_map_mono [OF vs(2)])
  moreover have "h' a = h a" using 6(3) vs(3) by simp
  ultimately show ?case using vs by simp
next
  case (8 t h a)
  then obtain kvs xs where vs: "h a = Some (Table kvs)" "those (map (look t h) (map snd kvs)) = Some xs"
      "x = At a (zip (map fst kvs) xs)"
    by (auto split: option.splits cell.splits simp del: map_map)
  then have len: "length (map fst kvs) = length xs" using those_map_length [OF vs(2)] by simp
  have "look t h' v = Some y" if "v \<in> set (map snd kvs)" "y \<in> set xs" "look t h v = Some y" for v y
    by (rule 8(1) [OF vs(1) refl that(1,3)]) (use 8(3) vs(3) that(2) len in auto)
  then have "those (map (look t h') (map snd kvs)) = Some xs"
    by (rule those_map_mono [OF vs(2)])
  moreover have "h' a = h a" using 8(3) vs(3) by simp
  ultimately show ?case using vs by (simp del: map_map)
qed (auto split: option.splits cell.splits if_splits)

lemma look_dom:
  "look t h v = Some x \<Longrightarrow> addresses x \<subseteq> dom h"
  "look_fields fts h fvs = Some xs \<Longrightarrow> below xs \<subseteq> dom h"
proof (induction t h v and fts h fvs arbitrary: x and xs rule: look_look_fields.induct)
  case (4 t h a)
  then show ?case by (fastforce split: option.splits cell.splits dest: subsetD)
next
  case (6 t h a)
  then show ?case by (fastforce split: option.splits cell.splits dest: those_map_in)
next
  case (8 t h a)
  then obtain kvs xs where vs: "h a = Some (Table kvs)" "those (map (look t h) (map snd kvs)) = Some xs"
      "x = At a (zip (map fst kvs) xs)"
    by (auto split: option.splits cell.splits simp del: map_map)
  then have "length (map fst kvs) = length xs" using those_map_length [OF vs(2)] by simp
  moreover have "addresses y \<subseteq> dom h" if "y \<in> set xs" for y
    using those_map_in [OF vs(2) that] 8(1) [OF vs(1) refl] by auto
  ultimately show ?case using vs(1,3) by auto
qed (auto split: option.splits cell.splits if_splits)

lemma look_flat:
  "look t h v = Some x \<Longrightarrow> flat t \<Longrightarrow> addresses x = {}"
  "look_fields fts h fvs = Some xs \<Longrightarrow> list_all (\<lambda>(f, t). flat t) fts \<Longrightarrow> below xs = {}"
  by (induction t h v and fts h fvs arbitrary: x and xs rule: look_look_fields.induct)
    (auto split: option.splits if_splits)

section \<open>The statements keep the contract\<close>

lemma grew_refl: "(\<forall>a \<ge> n. h a = None) \<Longrightarrow> grew h n h n"
  by (simp add: grew_def)

lemma grew_trans: "grew h n h1 n1 \<Longrightarrow> grew h1 n1 h2 n2 \<Longrightarrow> grew h n h2 n2"
  by (auto simp: grew_def)

lemma grew_free: "grew h n h' n' \<Longrightarrow> \<forall>a \<ge> n'. h' a = None"
  by (simp add: grew_def)

lemma look_below: "\<forall>a \<ge> n. h a = None \<Longrightarrow> look t h v = Some x \<Longrightarrow> addresses x \<subseteq> {..<n}"
  using look_dom(1) [of t h v x] by (force simp: not_le [symmetric])

text \<open>What was there is still there; what has been copied stays while more is copied.\<close>

lemma look_grew:
  assumes "\<forall>a \<ge> n. h a = None" "grew h n h' n'" "look t h v = Some x"
  shows "look t h' v = Some x"
proof (rule look_frame(1) [OF assms(3)])
  fix a
  assume "a \<in> addresses x"
  then have "a < n" using look_below [OF assms(1,3)] by auto
  then show "h' a = h a" using assms(2) by (simp add: grew_def)
qed

lemma those_look_grew:
  assumes "\<forall>a \<ge> n. h a = None" "grew h n h' n'" "those (map (look t h) vs) = Some xs"
  shows "those (map (look t h') vs) = Some xs"
  by (rule those_map_mono [OF assms(3)]) (rule look_grew [OF assms(1,2)])

lemma look_fields_grew:
  assumes "\<forall>a \<ge> n. h a = None" "grew h n h' n'" "look_fields fts h fvs = Some xs"
  shows "look_fields fts h' fvs = Some xs"
proof (rule look_frame(2) [OF assms(3)])
  fix a
  assume "a \<in> below xs"
  then have "a \<in> dom h" using look_dom(2) [OF assms(3)] by auto
  then have "a < n" using assms(1) by (force simp: not_le [symmetric])
  then show "h' a = h a" using assms(2) by (simp add: grew_def)
qed

text \<open>A cell allocated before its content is copied and written after.\<close>

lemma grew_alloc: "\<forall>a \<ge> n. h a = None \<Longrightarrow> grew h n (h(n \<mapsto> c)) (Suc n)"
  by (simp add: grew_def)

lemma grew_around: "grew (h(n \<mapsto> c0)) (Suc n) h' n' \<Longrightarrow> grew h n (h'(n \<mapsto> c)) n'"
  by (auto simp: grew_def)

lemma look_around: "look t h' w = Some y \<Longrightarrow> addresses y \<subseteq> {Suc n..<n'} \<Longrightarrow> look t (h'(n \<mapsto> c)) w = Some y"
  by (erule look_frame(1)) auto

lemma copies_flat:
  assumes "flat t"
  shows "copies t shallow"
  unfolding copies_def
proof (intro allI impI)
  fix h n v x
  assume free: "\<forall>a \<ge> n. h a = None" and x: "look t h v = Some x"
  have "copied t h n x v (h, n)"
    using x look_flat(1) [OF x assms] grew_refl [OF free] by (simp add: copied_def)
  then show "case run_state (shallow v) (h, n) of (w, s) \<Rightarrow> copied t h n x w s"
    by (simp add: shallow_def State_Monad.return_def)
qed

lemma copies_run:
  assumes "copies t c" "\<forall>a \<ge> n. h a = None" "look t h v = Some x"
  shows "copied t h n x (fst (run_state (c v) (h, n))) (snd (run_state (c v) (h, n)))"
proof -
  have "case run_state (c v) (h, n) of (w, s) \<Rightarrow> copied t h n x w s"
    by (rule assms(1) [unfolded copies_def, rule_format, OF _ assms(3)]) (use assms(2) in blast)
  then show ?thesis by (simp add: case_prod_beta)
qed

lemma copiesD:
  assumes "copies t c" "\<forall>a \<ge> n. h a = None" "look t h v = Some x"
  obtains w h' n' y where "run_state (c v) (h, n) = (w, (h', n'))" "grew h n h' n'" "look t h' w = Some y"
    "content y = content x" "addresses y \<subseteq> {n..<n'}"
proof -
  obtain w h' n' where run: "run_state (c v) (h, n) = (w, (h', n'))" by (metis surj_pair)
  have "copied t h n x w (h', n')" using copies_run [OF assms] run by simp
  then show thesis using run that by (auto simp: copied_def)
qed

lemma copiesI:
  assumes "\<And>h n v x. \<forall>a \<ge> n. h a = None \<Longrightarrow> look t h v = Some x \<Longrightarrow>
     \<exists>w h' n' y. run_state (c v) (h, n) = (w, (h', n')) \<and> grew h n h' n' \<and> look t h' w = Some y \<and>
       content y = content x \<and> addresses y \<subseteq> {n..<n'}"
  shows "copies t c"
  unfolding copies_def
proof (intro allI impI)
  fix h n v x
  assume "\<forall>a \<ge> n. h a = None" "look t h v = Some x"
  from assms [OF this] show "case run_state (c v) (h, n) of (w, s) \<Rightarrow> copied t h n x w s"
    by (auto simp: copied_def)
qed

lemmas state_defs = State_Monad.return_def State_Monad.bind_def alloc_def write_cell_def read_cell_def

lemma copies_ptr:
  assumes c: "copies t c"
  shows "copies (TPtr t) (new_ptr c)"
proof (rule copiesI)
  fix h :: heap and n v x
  assume free: "\<forall>a \<ge> n. h a = None" and x: "look (TPtr t) h v = Some x"
  show "\<exists>w h' n' y. run_state (new_ptr c v) (h, n) = (w, (h', n')) \<and> grew h n h' n' \<and> look (TPtr t) h' w = Some y \<and>
       content y = content x \<and> addresses y \<subseteq> {n..<n'}"
  proof (cases "v = Ref None")
    case True
    then show ?thesis using x by (auto simp: new_ptr_def state_defs grew_refl free)
  next
    case False
    with x obtain a u z where a: "v = Ref (Some a)" "h a = Some (One u)" "look t h u = Some z" "x = At a [([], z)]"
      by (cases v) (auto split: option.splits cell.splits)
    let ?h = "h(n \<mapsto> One (Plain []))"
    have new: "grew h n ?h (Suc n)" by (rule grew_alloc [OF free])
    obtain w h' n' y where w: "run_state (c u) (?h, Suc n) = (w, (h', n'))" "grew ?h (Suc n) h' n'"
        "look t h' w = Some y" "content y = content z" "addresses y \<subseteq> {Suc n..<n'}"
      by (rule copiesD [OF c grew_free [OF new] look_grew [OF free new a(3)]])
    have "n < n'" using w(2) by (simp add: grew_def)
    moreover have "look t (h'(n \<mapsto> One w)) w = Some y" by (rule look_around [OF w(3,5)])
    ultimately show ?thesis
      using w(1,4,5) a grew_around [OF w(2)] by (fastforce simp: new_ptr_def state_defs)
  qed
qed

lemma copy_all_copies:
  assumes c: "copies t c"
  shows "\<forall>a \<ge> n. h a = None \<Longrightarrow> those (map (look t h) vs) = Some xs \<Longrightarrow>
    \<exists>ws h' n' ys. run_state (copy_all c vs) (h, n) = (ws, (h', n')) \<and> grew h n h' n' \<and>
      those (map (look t h') ws) = Some ys \<and> map content ys = map content xs \<and> \<Union> (addresses ` set ys) \<subseteq> {n..<n'}"
proof (induction vs arbitrary: h n xs)
  case Nil
  then show ?case by (simp add: state_defs grew_refl)
next
  case (Cons v vs)
  then obtain x xs' where x: "look t h v = Some x" "those (map (look t h) vs) = Some xs'" "xs = x # xs'"
    by (auto split: option.splits)
  obtain w h1 n1 y where w: "run_state (c v) (h, n) = (w, (h1, n1))" "grew h n h1 n1"
      "look t h1 w = Some y" "content y = content x" "addresses y \<subseteq> {n..<n1}"
    by (rule copiesD [OF c Cons.prems(1) x(1)])
  obtain ws h' n' ys where ws: "run_state (copy_all c vs) (h1, n1) = (ws, (h', n'))" "grew h1 n1 h' n'"
      "those (map (look t h') ws) = Some ys" "map content ys = map content xs'" "\<Union> (addresses ` set ys) \<subseteq> {n1..<n'}"
    using Cons.IH [OF grew_free [OF w(2)] those_look_grew [OF Cons.prems(1) w(2) x(2)]] by blast
  have y: "look t h' w = Some y" by (rule look_grew [OF grew_free [OF w(2)] ws(2) w(3)])
  have n: "n \<le> n1" "n1 \<le> n'" using w(2) ws(2) by (simp_all add: grew_def)
  have run: "run_state (copy_all c (v # vs)) (h, n) = (w # ws, (h', n'))"
    using w(1) ws(1) by (simp add: state_defs)
  have "those (map (look t h') (w # ws)) = Some (y # ys)" using y ws(3) by simp
  moreover have "\<Union> (addresses ` set (y # ys)) \<subseteq> {n..<n'}" using w(5) ws(5) n by fastforce
  moreover have "map content (y # ys) = map content xs" using w(4) ws(4) x(3) by simp
  ultimately show ?case using run grew_trans [OF w(2) ws(2)] by blast
qed

lemma content_At: "content (At a (map (Pair []) xs)) = At 0 (map (Pair []) (map content xs))"
  "length ks = length xs \<Longrightarrow> content (At a (zip ks xs)) = At 0 (zip ks (map content xs))"
  by (simp_all add: map_zip_entry)

text \<open>A new cell filled with copies of the elements of another.\<close>

lemma fill_cell:
  assumes c: "copies t c" and free: "\<forall>a \<ge> n. h a = None" and xs: "those (map (look t h) vs) = Some xs"
  obtains ws h' n' ys where "run_state (copy_all c vs) (h(n \<mapsto> d), Suc n) = (ws, (h', n'))"
    "\<forall>c1. grew h n (h'(n \<mapsto> c1)) n'" "\<forall>c1. those (map (look t (h'(n \<mapsto> c1))) ws) = Some ys"
    "map content ys = map content xs" "\<Union> (addresses ` set ys) \<subseteq> {n..<n'}" "n < n'"
proof -
  have new: "grew h n (h(n \<mapsto> d)) (Suc n)" by (rule grew_alloc [OF free])
  obtain ws h' n' ys where ws: "run_state (copy_all c vs) (h(n \<mapsto> d), Suc n) = (ws, (h', n'))"
      "grew (h(n \<mapsto> d)) (Suc n) h' n'" "those (map (look t h') ws) = Some ys" "map content ys = map content xs"
      "\<Union> (addresses ` set ys) \<subseteq> {Suc n..<n'}"
    using copy_all_copies [OF c grew_free [OF new] those_look_grew [OF free new xs]] by blast
  have "those (map (look t (h'(n \<mapsto> c1))) ws) = Some ys" for c1
    by (rule those_map_mono [OF ws(3)], rule look_around, assumption) (use ws(5) in blast)
  moreover have "\<Union> (addresses ` set ys) \<subseteq> {n..<n'}" using ws(5) by fastforce
  moreover have "n < n'" using ws(2) by (simp add: grew_def)
  ultimately show thesis using that ws(1,4) grew_around [OF ws(2)] by blast
qed

lemma copies_slice:
  assumes c: "copies t c"
  shows "copies (TSlice t) (new_slice c)"
proof (rule copiesI)
  fix h :: heap and n v x
  assume free: "\<forall>a \<ge> n. h a = None" and x: "look (TSlice t) h v = Some x"
  show "\<exists>w h' n' y. run_state (new_slice c v) (h, n) = (w, (h', n')) \<and> grew h n h' n' \<and> look (TSlice t) h' w = Some y \<and>
       content y = content x \<and> addresses y \<subseteq> {n..<n'}"
  proof (cases "v = Ref None")
    case True
    then show ?thesis using x by (auto simp: new_slice_def state_defs grew_refl free)
  next
    case False
    with x obtain a vs xs where a: "v = Ref (Some a)" "h a = Some (Many vs)" "those (map (look t h) vs) = Some xs"
        "x = At a (map (Pair []) xs)"
      by (cases v) (auto split: option.splits cell.splits)
    obtain ws h' n' ys where ws:
        "run_state (copy_all c vs) (h(n \<mapsto> Many (map (\<lambda>_. Plain []) vs)), Suc n) = (ws, (h', n'))"
        "\<forall>c1. grew h n (h'(n \<mapsto> c1)) n'" "\<forall>c1. those (map (look t (h'(n \<mapsto> c1))) ws) = Some ys"
        "map content ys = map content xs" "\<Union> (addresses ` set ys) \<subseteq> {n..<n'}" "n < n'"
      by (rule fill_cell [OF c free a(3), where d = "Many (map (\<lambda>_. Plain []) vs)"])
    have "run_state (new_slice c v) (h, n) = (Ref (Some n), (h'(n \<mapsto> Many ws), n'))"
      using a(1,2) ws(1) by (simp add: new_slice_def state_defs)
    moreover have "look (TSlice t) (h'(n \<mapsto> Many ws)) (Ref (Some n)) = Some (At n (map (Pair []) ys))"
      using ws(3) by simp
    moreover have "content (At n (map (Pair []) ys)) = content x" unfolding a(4) content_At ws(4) ..
    moreover have "addresses (At n (map (Pair []) ys)) \<subseteq> {n..<n'}" using ws(5,6) by simp
    ultimately show ?thesis using ws(2) by blast
  qed
qed

lemma copies_map:
  assumes c: "copies t c"
  shows "copies (TMap t) (new_map c)"
proof (rule copiesI)
  fix h :: heap and n v x
  assume free: "\<forall>a \<ge> n. h a = None" and x: "look (TMap t) h v = Some x"
  show "\<exists>w h' n' y. run_state (new_map c v) (h, n) = (w, (h', n')) \<and> grew h n h' n' \<and> look (TMap t) h' w = Some y \<and>
       content y = content x \<and> addresses y \<subseteq> {n..<n'}"
  proof (cases "v = Ref None")
    case True
    then show ?thesis using x by (auto simp: new_map_def state_defs grew_refl free)
  next
    case False
    with x obtain a kvs xs where a: "v = Ref (Some a)" "h a = Some (Table kvs)"
        "those (map (look t h) (map snd kvs)) = Some xs" "x = At a (zip (map fst kvs) xs)"
      by (cases v) (auto split: option.splits cell.splits simp del: map_map)
    obtain ws h' n' ys where ws:
        "run_state (copy_all c (map snd kvs)) (h(n \<mapsto> Table []), Suc n) = (ws, (h', n'))"
        "\<forall>c1. grew h n (h'(n \<mapsto> c1)) n'" "\<forall>c1. those (map (look t (h'(n \<mapsto> c1))) ws) = Some ys"
        "map content ys = map content xs" "\<Union> (addresses ` set ys) \<subseteq> {n..<n'}" "n < n'"
      by (rule fill_cell [OF c free a(3), where d = "Table []"])
    let ?ks = "map fst kvs" and ?h = "h'(n \<mapsto> Table (zip (map fst kvs) ws))"
    have xs: "length ?ks = length xs" using those_map_length [OF a(3)] by simp
    then have ys: "length ?ks = length ys" using map_eq_imp_length_eq [OF ws(4)] by simp
    then have len: "length ?ks = length ws" using those_map_length [OF ws(3) [rule_format]] by simp
    have "run_state (new_map c v) (h, n) = (Ref (Some n), (?h, n'))"
      using a(1,2) ws(1) by (simp add: new_map_def state_defs)
    moreover have "look (TMap t) ?h (Ref (Some n)) = Some (At n (zip ?ks ys))"
      using ws(3) len by (simp del: map_map)
    moreover have "content (At n (zip ?ks ys)) = content x" unfolding a(4) content_At(2) [OF xs] content_At(2) [OF ys] ws(4) ..
    moreover have "addresses (At n (zip ?ks ys)) \<subseteq> {n..<n'}" using ws(5,6) ys by simp
    ultimately show ?thesis using ws(2) by blast
  qed
qed

lemma copy_fields_copies:
  assumes "\<And>f t. (f, t) \<in> set fts \<Longrightarrow> copies t (case map_of cs f of None \<Rightarrow> shallow | Some c \<Rightarrow> c)"
    and "\<forall>a \<ge> n. h a = None" and "look_fields fts h fvs = Some xs"
  shows "\<exists>ws h' n' ys. run_state (copy_fields cs fvs) (h, n) = (ws, (h', n')) \<and> grew h n h' n' \<and>
      look_fields fts h' ws = Some ys \<and> content (Node ys) = content (Node xs) \<and> below ys \<subseteq> {n..<n'}"
  using assms
proof (induction fts arbitrary: fvs h n xs)
  case Nil
  then show ?case by (cases fvs) (simp_all add: state_defs grew_refl)
next
  case (Cons ft fts)
  obtain f t where ft: "ft = (f, t)" by (cases ft)
  with Cons.prems(3) obtain v fvs' x xs' where x: "fvs = (f, v) # fvs'" "look t h v = Some x"
      "look_fields fts h fvs' = Some xs'" "xs = (f, x) # xs'"
    by (cases fvs) (auto split: option.splits if_splits)
  let ?c = "case map_of cs f of None \<Rightarrow> shallow | Some c \<Rightarrow> c"
  have c: "copies t ?c" using Cons.prems(1) ft by simp
  obtain w h1 n1 y where w: "run_state (?c v) (h, n) = (w, (h1, n1))" "grew h n h1 n1"
      "look t h1 w = Some y" "content y = content x" "addresses y \<subseteq> {n..<n1}"
    by (rule copiesD [OF c Cons.prems(2) x(2)])
  obtain ws h' n' ys where ws: "run_state (copy_fields cs fvs') (h1, n1) = (ws, (h', n'))" "grew h1 n1 h' n'"
      "look_fields fts h' ws = Some ys" "content (Node ys) = content (Node xs')" "below ys \<subseteq> {n1..<n'}"
    using Cons.IH [OF Cons.prems(1) grew_free [OF w(2)] look_fields_grew [OF Cons.prems(2) w(2) x(3)]] by auto
  have y: "look t h' w = Some y" by (rule look_grew [OF grew_free [OF w(2)] ws(2) w(3)])
  have n: "n \<le> n1" "n1 \<le> n'" using w(2) ws(2) by (simp_all add: grew_def)
  have "run_state (copy_fields cs fvs) (h, n) = ((f, w) # ws, (h', n'))"
    using w(1) ws(1) x(1) by (simp add: state_defs split: option.splits)
  moreover have "look_fields (ft # fts) h' ((f, w) # ws) = Some ((f, y) # ys)" using y ws(3) ft by simp
  moreover have "below ((f, y) # ys) \<subseteq> {n..<n'}" using w(5) ws(5) n by fastforce
  moreover have "content (Node ((f, y) # ys)) = content (Node xs)" using w(4) ws(4) x(4) by simp
  ultimately show ?case using grew_trans [OF w(2) ws(2)] by blast
qed

lemma copies_struct:
  assumes "\<And>f t. (f, t) \<in> set fts \<Longrightarrow> copies t (case map_of cs f of None \<Rightarrow> shallow | Some c \<Rightarrow> c)"
  shows "copies (TStruct fts) (fields cs)"
proof (rule copiesI)
  fix h :: heap and n v x
  assume free: "\<forall>a \<ge> n. h a = None" and x: "look (TStruct fts) h v = Some x"
  then obtain fvs xs where fvs: "v = Struct fvs" "look_fields fts h fvs = Some xs" "x = Node xs"
    by (cases v) auto
  obtain ws h' n' ys where "run_state (copy_fields cs fvs) (h, n) = (ws, (h', n'))" "grew h n h' n'"
      "look_fields fts h' ws = Some ys" "content (Node ys) = content (Node xs)" "below ys \<subseteq> {n..<n'}"
    using copy_fields_copies [OF assms free fvs(2)] by blast
  then show "\<exists>w h' n' y. run_state (fields cs v) (h, n) = (w, (h', n')) \<and> grew h n h' n' \<and>
       look (TStruct fts) h' w = Some y \<and> content y = content x \<and> addresses y \<subseteq> {n..<n'}"
    using fvs by (auto simp: fields_def state_defs)
qed

lemma copies_fields:
  "list_all (\<lambda>(f, t). copies t (case map_of cs f of None \<Rightarrow> shallow | Some c \<Rightarrow> c)) fts \<Longrightarrow> copies (TStruct fts) (fields cs)"
  by (rule copies_struct) (auto simp: list_all_iff)

lemmas copies_rules = copies_fields copies_ptr copies_slice copies_map copies_flat

section \<open>What the contract gives\<close>

lemma look_nil: "look (TPtr t) h v = Some x \<Longrightarrow> v = Ref None \<longleftrightarrow> content x = Nowhere"
proof (cases v)
  case (Ref a)
  then show "look (TPtr t) h v = Some x \<Longrightarrow> v = Ref None \<longleftrightarrow> content x = Nowhere"
    by (cases a) (auto split: option.splits cell.splits)
qed simp_all

text \<open>The copy has the content of the original and lives in cells that were free. Whatever is written to the
  cells there were, the copy stays; whatever is written to others, the original stays.\<close>

definition stands_alone :: "ty \<Rightarrow> store \<Rightarrow> gval \<Rightarrow> tree \<Rightarrow> gval \<Rightarrow> store \<Rightarrow> bool" where
  "stands_alone t s v x w s' \<longleftrightarrow> (\<exists>y. look t (fst s') w = Some y \<and> content y = content x \<and>
     addresses y \<inter> dom (fst s) = {} \<and>
     (\<forall>h. (\<forall>a. a \<notin> dom (fst s) \<longrightarrow> h a = fst s' a) \<longrightarrow> look t h w = Some y) \<and>
     (\<forall>h. (\<forall>a \<in> dom (fst s). h a = fst s' a) \<longrightarrow> look t h v = Some x))"

lemma copies_alone:
  assumes "copies t c" "\<forall>a \<ge> n. h a = None" "look t h v = Some x" "run_state (c v) (h, n) = (w, s')"
  shows "stands_alone t (h, n) v x w s'"
proof -
  obtain h' n' y where w: "s' = (h', n')" "grew h n h' n'" "look t h' w = Some y" "content y = content x"
      "addresses y \<subseteq> {n..<n'}"
    by (rule copiesD [OF assms(1-3)]) (use assms(4) in auto)
  have fresh: "addresses y \<inter> dom h = {}" using w(5) assms(2) by force
  have old: "a < n" if "a \<in> dom h" for a using that assms(2) by (force simp: not_le [symmetric])
  have "look t g w = Some y" if "\<forall>a. a \<notin> dom h \<longrightarrow> g a = h' a" for g
    by (rule look_frame(1) [OF w(3)]) (use that fresh in blast)
  moreover have "look t g v = Some x" if g: "\<forall>a \<in> dom h. g a = h' a" for g
  proof (rule look_frame(1) [OF assms(3)])
    fix a
    assume "a \<in> addresses x"
    then have "a \<in> dom h" using look_dom(1) [OF assms(3)] by blast
    then show "g a = h a" using g old w(2) by (simp add: grew_def)
  qed
  ultimately show ?thesis using w(1,3,4) fresh by (auto simp: stands_alone_def)
qed

end
