(* ===== verification/Api_Copies.thy ===== *)
theory Api_Copies
  imports Deep_Copy
begin

text \<open>
  The types of \<open>api/v1alpha1\<close> and their generated deep copies (\<open>zz_generated.deepcopy.go\<close>), function by
  function: \<open>T_type X\<close> is the struct \<open>T\<close>, \<open>T_DeepCopyInto D\<close>, \<open>T_DeepCopy D\<close> and \<open>T_DeepCopyObject D\<close> its methods.
  The types of other packages and their \<open>DeepCopyInto\<close> are parameters, \<open>X ''pkg.T''\<close> and \<open>D ''pkg.T''\<close>.
  \<open>foreign_copies\<close> is what their documentation promises: a deep copy each, and no references in the two types
  the code assigns. (\<open>metav1.Time\<close> holds a pointer to a location that is never changed and is assigned
  by its own deep copy; it counts as a plain value.) Each layer of types is proved from the layers below it.
\<close>

section \<open>The types\<close>

type_synonym foreign_types = "string \<Rightarrow> ty"
type_synonym foreign_copiers = "string \<Rightarrow> copier"

definition SecretKeyReference_type :: "foreign_types \<Rightarrow> ty" where
  "SecretKeyReference_type X = TStruct [
     (''Name'', TPlain), (''Key'', TPlain)]"

definition AdditionalFile_type :: "foreign_types \<Rightarrow> ty" where
  "AdditionalFile_type X = TStruct [
     (''Path'', TPlain), (''ValueType'', TPlain), (''Inline'', TPlain),
     (''SecretRef'', TPtr (SecretKeyReference_type X)), (''NixosFacter'', TPlain)]"

definition CPUInfo_type :: "foreign_types \<Rightarrow> ty" where
  "CPUInfo_type X = TStruct [
     (''Model'', TPlain), (''Cores'', TPlain)]"

definition ConfigMapKeyReference_type :: "foreign_types \<Rightarrow> ty" where
  "ConfigMapKeyReference_type X = TStruct [
     (''Name'', TPlain), (''Key'', TPlain)]"

definition FluxSourceRef_type :: "foreign_types \<Rightarrow> ty" where
  "FluxSourceRef_type X = TStruct [
     (''Kind'', TPlain), (''Name'', TPlain), (''APIVersion'', TPlain)]"

definition KernelInfo_type :: "foreign_types \<Rightarrow> ty" where
  "KernelInfo_type X = TStruct [
     (''Version'', TPlain)]"

definition MemoryInfo_type :: "foreign_types \<Rightarrow> ty" where
  "MemoryInfo_type X = TStruct [
     (''MB'', TPlain)]"

definition OSInfo_type :: "foreign_types \<Rightarrow> ty" where
  "OSInfo_type X = TStruct [
     (''Name'', TPlain), (''ID'', TPlain)]"

definition VirtualizationInfo_type :: "foreign_types \<Rightarrow> ty" where
  "VirtualizationInfo_type X = TStruct [
     (''Type'', TPlain), (''ContainerEngine'', TPlain)]"

definition HardwareFacts_type :: "foreign_types \<Rightarrow> ty" where
  "HardwareFacts_type X = TStruct [
     (''OS'', TPtr (OSInfo_type X)), (''Kernel'', TPtr (KernelInfo_type X)), (''CPU'', TPtr (CPUInfo_type X)),
     (''Memory'', TPtr (MemoryInfo_type X)), (''Architecture'', TPlain), (''Hostname'', TPlain),
     (''Virtualization'', TPtr (VirtualizationInfo_type X)), (''Disks'', TMap TPlain),
     (''Interfaces'', TMap TPlain)]"

definition JobTemplate_type :: "foreign_types \<Rightarrow> ty" where
  "JobTemplate_type X = TStruct [
     (''Image'', TPlain), (''NodeSelector'', TMap TPlain), (''Tolerations'', TSlice (X ''corev1.Toleration'')),
     (''Resources'', TPtr (X ''corev1.ResourceRequirements'')), (''ServiceAccountName'', TPlain)]"

definition LocalObjectReference_type :: "foreign_types \<Rightarrow> ty" where
  "LocalObjectReference_type X = TStruct [
     (''Name'', TPlain)]"

definition SSHPasswordSecretRef_type :: "foreign_types \<Rightarrow> ty" where
  "SSHPasswordSecretRef_type X = TStruct [
     (''Name'', TPlain), (''Key'', TPlain)]"

definition SecretReference_type :: "foreign_types \<Rightarrow> ty" where
  "SecretReference_type X = TStruct [
     (''Name'', TPlain)]"

definition MachineSpec_type :: "foreign_types \<Rightarrow> ty" where
  "MachineSpec_type X = TStruct [
     (''Host'', TPlain), (''SSHUser'', TPlain), (''SSHKeySecretRef'', TPtr (SecretReference_type X)),
     (''SSHPasswordSecretRef'', TPtr (SSHPasswordSecretRef_type X))]"

definition MachineStatus_type :: "foreign_types \<Rightarrow> ty" where
  "MachineStatus_type X = TStruct [
     (''ObservedGeneration'', TPlain), (''Discoverable'', TPlain), (''HasConfiguration'', TPlain),
     (''AppliedConfiguration'', TPlain), (''AppliedCommit'', TPlain),
     (''LastAppliedTime'', TPtr (X ''metav1.Time'')), (''LastHardwareScanTime'', TPtr (X ''metav1.Time'')),
     (''HardwareFacts'', TPtr (HardwareFacts_type X)),
     (''NixFacterResult'', TPtr (X ''runtime.RawExtension'')), (''Conditions'', TSlice (X ''metav1.Condition''))]"

definition Machine_type :: "foreign_types \<Rightarrow> ty" where
  "Machine_type X = TStruct [
     (''TypeMeta'', X ''metav1.TypeMeta''), (''ObjectMeta'', X ''metav1.ObjectMeta''),
     (''Spec'', MachineSpec_type X), (''Status'', MachineStatus_type X)]"

definition MachineList_type :: "foreign_types \<Rightarrow> ty" where
  "MachineList_type X = TStruct [
     (''TypeMeta'', X ''metav1.TypeMeta''), (''ListMeta'', X ''metav1.ListMeta''),
     (''Items'', TSlice (Machine_type X))]"

definition MachineReference_type :: "foreign_types \<Rightarrow> ty" where
  "MachineReference_type X = TStruct [
     (''Name'', TPlain)]"

definition MemberStatus_type :: "foreign_types \<Rightarrow> ty" where
  "MemberStatus_type X = TStruct [
     (''Name'', TPlain), (''Status'', TPlain)]"

definition NixBuilderSpec_type :: "foreign_types \<Rightarrow> ty" where
  "NixBuilderSpec_type X = TStruct [
     (''StoreRef'', TPtr (LocalObjectReference_type X)), (''Image'', TPlain), (''Systems'', TSlice TPlain),
     (''MaxJobs'', TPtr TPlain), (''Storage'', TPtr (X ''corev1.PersistentVolumeClaimSpec'')),
     (''Template'', TPtr (X ''corev1.PodTemplateSpec''))]"

definition NixBuilderStatus_type :: "foreign_types \<Rightarrow> ty" where
  "NixBuilderStatus_type X = TStruct [
     (''ObservedGeneration'', TPlain), (''Phase'', TPlain), (''BuilderEndpoint'', TPlain), (''Ready'', TPlain),
     (''Conditions'', TSlice (X ''metav1.Condition''))]"

definition NixBuilder_type :: "foreign_types \<Rightarrow> ty" where
  "NixBuilder_type X = TStruct [
     (''TypeMeta'', X ''metav1.TypeMeta''), (''ObjectMeta'', X ''metav1.ObjectMeta''),
     (''Spec'', NixBuilderSpec_type X), (''Status'', NixBuilderStatus_type X)]"

definition NixBuilderList_type :: "foreign_types \<Rightarrow> ty" where
  "NixBuilderList_type X = TStruct [
     (''TypeMeta'', X ''metav1.TypeMeta''), (''ListMeta'', X ''metav1.ListMeta''),
     (''Items'', TSlice (NixBuilder_type X))]"

definition NixSource_type :: "foreign_types \<Rightarrow> ty" where
  "NixSource_type X = TStruct [
     (''GitRepo'', TPlain), (''Ref'', TPlain), (''Rev'', TPlain), (''Dir'', TPlain),
     (''CredentialsRef'', TPtr (SecretReference_type X)), (''FluxSourceRef'', TPtr (FluxSourceRef_type X)),
     (''PollInterval'', TPtr (X ''metav1.Duration''))]"

definition NodeGroup_type :: "foreign_types \<Rightarrow> ty" where
  "NodeGroup_type X = TStruct [
     (''Name'', TPlain), (''Selector'', X ''metav1.LabelSelector''), (''Count'', TPtr TPlain),
     (''Values'', TPtr (X ''apiextensionsv1.JSON''))]"

definition NixClusterSpec_type :: "foreign_types \<Rightarrow> ty" where
  "NixClusterSpec_type X = TStruct [
     (''Source'', NixSource_type X), (''SSHKeyRef'', TPtr (SecretReference_type X)),
     (''AgeKeyRef'', TPtr (SecretReference_type X)), (''StoreRef'', TPtr (LocalObjectReference_type X)),
     (''BuilderRef'', TPtr (LocalObjectReference_type X)), (''DayTwoSchedule'', TPlain),
     (''NodeGroups'', TSlice (NodeGroup_type X))]"

definition NodeGroupStatus_type :: "foreign_types \<Rightarrow> ty" where
  "NodeGroupStatus_type X = TStruct [
     (''Name'', TPlain), (''Members'', TSlice (MemberStatus_type X)), (''Desired'', TPlain),
     (''Selected'', TPlain)]"

definition NixClusterStatus_type :: "foreign_types \<Rightarrow> ty" where
  "NixClusterStatus_type X = TStruct [
     (''Phase'', TPlain), (''NodeGroups'', TSlice (NodeGroupStatus_type X)), (''ConvergeJobRef'', TPlain),
     (''Conditions'', TSlice (X ''metav1.Condition'')), (''ObservedGeneration'', TPlain)]"

definition NixCluster_type :: "foreign_types \<Rightarrow> ty" where
  "NixCluster_type X = TStruct [
     (''TypeMeta'', X ''metav1.TypeMeta''), (''ObjectMeta'', X ''metav1.ObjectMeta''),
     (''Spec'', NixClusterSpec_type X), (''Status'', NixClusterStatus_type X)]"

definition NixClusterList_type :: "foreign_types \<Rightarrow> ty" where
  "NixClusterList_type X = TStruct [
     (''TypeMeta'', X ''metav1.TypeMeta''), (''ListMeta'', X ''metav1.ListMeta''),
     (''Items'', TSlice (NixCluster_type X))]"

definition NixFile_type :: "foreign_types \<Rightarrow> ty" where
  "NixFile_type X = TStruct [
     (''Path'', TPlain), (''Inline'', TPtr TPlain), (''ConfigMapRef'', TPtr (ConfigMapKeyReference_type X)),
     (''SecretRef'', TPtr (SecretKeyReference_type X))]"

definition NixLocalStore_type :: "foreign_types \<Rightarrow> ty" where
  "NixLocalStore_type X = TStruct [
     (''Medium'', TPlain), (''SizeLimit'', TPtr (X ''resource.Quantity'')), (''StorageClassName'', TPlain)]"

definition NixSpec_type :: "foreign_types \<Rightarrow> ty" where
  "NixSpec_type X = TStruct [
     (''Source'', NixSource_type X), (''Run'', TPlain), (''Args'', TSlice TPlain),
     (''Prebuild'', TSlice TPlain), (''Image'', TPlain), (''ContainerName'', TPlain),
     (''NixFlags'', TSlice TPlain), (''StoreRef'', TPtr (LocalObjectReference_type X)),
     (''BuilderRef'', TPtr (LocalObjectReference_type X)), (''BuilderTemplate'', TPtr (NixBuilderSpec_type X)),
     (''LocalStore'', TPtr (NixLocalStore_type X)), (''TriggerOnChange'', TPtr TPlain), (''Suspend'', TPlain),
     (''AdditionalFiles'', TSlice (NixFile_type X))]"

definition NixCronJobSpec_type :: "foreign_types \<Rightarrow> ty" where
  "NixCronJobSpec_type X = TStruct [
     (''Nix'', NixSpec_type X), (''CronJobTemplate'', X ''batchv1.CronJobSpec'')]"

definition NixWorkloadStatus_type :: "foreign_types \<Rightarrow> ty" where
  "NixWorkloadStatus_type X = TStruct [
     (''ObservedGeneration'', TPlain), (''Phase'', TPlain), (''ResolvedRevision'', TPlain),
     (''LastPolledTime'', TPtr (X ''metav1.Time'')), (''RolledOutRevision'', TPlain),
     (''WorkloadRef'', TPlain), (''Conditions'', TSlice (X ''metav1.Condition''))]"

definition NixCronJobStatus_type :: "foreign_types \<Rightarrow> ty" where
  "NixCronJobStatus_type X = TStruct [
     (''NixWorkloadStatus'', NixWorkloadStatus_type X), (''LastScheduleTime'', TPtr (X ''metav1.Time'')),
     (''LastSuccessfulTime'', TPtr (X ''metav1.Time'')), (''LastFailedTime'', TPtr (X ''metav1.Time'')),
     (''ActiveJobs'', TSlice TPlain)]"

definition NixCronJob_type :: "foreign_types \<Rightarrow> ty" where
  "NixCronJob_type X = TStruct [
     (''TypeMeta'', X ''metav1.TypeMeta''), (''ObjectMeta'', X ''metav1.ObjectMeta''),
     (''Spec'', NixCronJobSpec_type X), (''Status'', NixCronJobStatus_type X)]"

definition NixCronJobList_type :: "foreign_types \<Rightarrow> ty" where
  "NixCronJobList_type X = TStruct [
     (''TypeMeta'', X ''metav1.TypeMeta''), (''ListMeta'', X ''metav1.ListMeta''),
     (''Items'', TSlice (NixCronJob_type X))]"

definition NixDeploymentSpec_type :: "foreign_types \<Rightarrow> ty" where
  "NixDeploymentSpec_type X = TStruct [
     (''Nix'', NixSpec_type X), (''DeploymentTemplate'', TPtr (X ''appsv1.DeploymentSpec''))]"

definition NixDeploymentStatus_type :: "foreign_types \<Rightarrow> ty" where
  "NixDeploymentStatus_type X = TStruct [
     (''NixWorkloadStatus'', NixWorkloadStatus_type X), (''ReadyReplicas'', TPlain),
     (''UpdatedReplicas'', TPlain), (''AvailableReplicas'', TPlain)]"

definition NixDeployment_type :: "foreign_types \<Rightarrow> ty" where
  "NixDeployment_type X = TStruct [
     (''TypeMeta'', X ''metav1.TypeMeta''), (''ObjectMeta'', X ''metav1.ObjectMeta''),
     (''Spec'', NixDeploymentSpec_type X), (''Status'', NixDeploymentStatus_type X)]"

definition NixDeploymentList_type :: "foreign_types \<Rightarrow> ty" where
  "NixDeploymentList_type X = TStruct [
     (''TypeMeta'', X ''metav1.TypeMeta''), (''ListMeta'', X ''metav1.ListMeta''),
     (''Items'', TSlice (NixDeployment_type X))]"

definition NixJobSpec_type :: "foreign_types \<Rightarrow> ty" where
  "NixJobSpec_type X = TStruct [
     (''Nix'', NixSpec_type X), (''JobTemplate'', TPtr (X ''batchv1.JobSpec''))]"

definition NixJobStatus_type :: "foreign_types \<Rightarrow> ty" where
  "NixJobStatus_type X = TStruct [
     (''NixWorkloadStatus'', NixWorkloadStatus_type X), (''ActiveJob'', TPlain),
     (''LastRunTime'', TPtr (X ''metav1.Time'')), (''Succeeded'', TPlain), (''Failed'', TPlain)]"

definition NixJob_type :: "foreign_types \<Rightarrow> ty" where
  "NixJob_type X = TStruct [
     (''TypeMeta'', X ''metav1.TypeMeta''), (''ObjectMeta'', X ''metav1.ObjectMeta''),
     (''Spec'', NixJobSpec_type X), (''Status'', NixJobStatus_type X)]"

definition NixJobList_type :: "foreign_types \<Rightarrow> ty" where
  "NixJobList_type X = TStruct [
     (''TypeMeta'', X ''metav1.TypeMeta''), (''ListMeta'', X ''metav1.ListMeta''),
     (''Items'', TSlice (NixJob_type X))]"

definition NixStatefulSetSpec_type :: "foreign_types \<Rightarrow> ty" where
  "NixStatefulSetSpec_type X = TStruct [
     (''Nix'', NixSpec_type X), (''StatefulSetTemplate'', X ''appsv1.StatefulSetSpec'')]"

definition NixStatefulSetStatus_type :: "foreign_types \<Rightarrow> ty" where
  "NixStatefulSetStatus_type X = TStruct [
     (''NixWorkloadStatus'', NixWorkloadStatus_type X), (''ReadyReplicas'', TPlain),
     (''UpdatedReplicas'', TPlain), (''CurrentRevision'', TPlain), (''UpdateRevision'', TPlain)]"

definition NixStatefulSet_type :: "foreign_types \<Rightarrow> ty" where
  "NixStatefulSet_type X = TStruct [
     (''TypeMeta'', X ''metav1.TypeMeta''), (''ObjectMeta'', X ''metav1.ObjectMeta''),
     (''Spec'', NixStatefulSetSpec_type X), (''Status'', NixStatefulSetStatus_type X)]"

definition NixStatefulSetList_type :: "foreign_types \<Rightarrow> ty" where
  "NixStatefulSetList_type X = TStruct [
     (''TypeMeta'', X ''metav1.TypeMeta''), (''ListMeta'', X ''metav1.ListMeta''),
     (''Items'', TSlice (NixStatefulSet_type X))]"

definition NixStoreSpec_type :: "foreign_types \<Rightarrow> ty" where
  "NixStoreSpec_type X = TStruct [
     (''Replicas'', TPtr TPlain), (''Storage'', X ''corev1.PersistentVolumeClaimSpec''), (''Image'', TPlain),
     (''SigningKeySecretRef'', TPtr (SecretReference_type X)), (''UpstreamSubstituters'', TSlice TPlain),
     (''Template'', TPtr (X ''corev1.PodTemplateSpec''))]"

definition NixStoreStatus_type :: "foreign_types \<Rightarrow> ty" where
  "NixStoreStatus_type X = TStruct [
     (''ObservedGeneration'', TPlain), (''Phase'', TPlain), (''SubstituterURL'', TPlain),
     (''StoreURI'', TPlain), (''PublicKey'', TPlain), (''ReadyReplicas'', TPlain),
     (''Conditions'', TSlice (X ''metav1.Condition''))]"

definition NixStore_type :: "foreign_types \<Rightarrow> ty" where
  "NixStore_type X = TStruct [
     (''TypeMeta'', X ''metav1.TypeMeta''), (''ObjectMeta'', X ''metav1.ObjectMeta''),
     (''Spec'', NixStoreSpec_type X), (''Status'', NixStoreStatus_type X)]"

definition NixStoreList_type :: "foreign_types \<Rightarrow> ty" where
  "NixStoreList_type X = TStruct [
     (''TypeMeta'', X ''metav1.TypeMeta''), (''ListMeta'', X ''metav1.ListMeta''),
     (''Items'', TSlice (NixStore_type X))]"

definition NixosConfigurationSpec_type :: "foreign_types \<Rightarrow> ty" where
  "NixosConfigurationSpec_type X = TStruct [
     (''MachineRef'', MachineReference_type X), (''GitRepo'', TPlain), (''Ref'', TPlain),
     (''CredentialsRef'', TPtr (SecretReference_type X)), (''Flake'', TPlain), (''OnRemoveFlake'', TPlain),
     (''ConfigurationSubdir'', TPlain), (''DayTwoSchedule'', TPlain), (''FullInstall'', TPlain),
     (''AdditionalFiles'', TSlice (AdditionalFile_type X)), (''JobTemplate'', TPtr (JobTemplate_type X)),
     (''StoreRef'', TPtr (LocalObjectReference_type X)), (''BuilderRef'', TPtr (LocalObjectReference_type X))]"

definition NixosConfigurationStatus_type :: "foreign_types \<Rightarrow> ty" where
  "NixosConfigurationStatus_type X = TStruct [
     (''ObservedGeneration'', TPlain), (''Phase'', TPlain), (''FullDiskInstallCompleted'', TPlain),
     (''ResolvedRevision'', TPlain), (''LastAppliedTime'', TPtr (X ''metav1.Time'')),
     (''TargetMachine'', TPlain), (''InstallJobRef'', TPlain), (''DayTwoCronJobRef'', TPlain),
     (''DecommissionJobRef'', TPlain), (''InstallRetries'', TPlain), (''OnRemoveRetries'', TPlain),
     (''Conditions'', TSlice (X ''metav1.Condition''))]"

definition NixosConfiguration_type :: "foreign_types \<Rightarrow> ty" where
  "NixosConfiguration_type X = TStruct [
     (''TypeMeta'', X ''metav1.TypeMeta''), (''ObjectMeta'', X ''metav1.ObjectMeta''),
     (''Spec'', NixosConfigurationSpec_type X), (''Status'', NixosConfigurationStatus_type X)]"

definition NixosConfigurationList_type :: "foreign_types \<Rightarrow> ty" where
  "NixosConfigurationList_type X = TStruct [
     (''TypeMeta'', X ''metav1.TypeMeta''), (''ListMeta'', X ''metav1.ListMeta''),
     (''Items'', TSlice (NixosConfiguration_type X))]"

section \<open>The copies\<close>

text \<open>\<open>if in == nil { return nil }; out := new(T); in.DeepCopyInto(out); return out\<close> is \<open>new_ptr\<close>. As an object,
  a nil pointer is the nil interface.\<close>

definition as_object :: "gval \<Rightarrow> gval option" where
  "as_object c = (if c = Ref None then None else Some c)"

type_synonym object_copier = "gval \<Rightarrow> (store, gval option) state"

text \<open>\<open>if c := in.DeepCopy(); c != nil { return c }; return nil\<close>.\<close>

definition object_of :: "copier \<Rightarrow> object_copier" where
  "object_of c v = do { w \<leftarrow> c v; State_Monad.return (as_object w) }"

definition SecretKeyReference_DeepCopyInto :: "foreign_copiers \<Rightarrow> copier" where
  "SecretKeyReference_DeepCopyInto D = shallow"

definition SecretKeyReference_DeepCopy :: "foreign_copiers \<Rightarrow> copier" where
  "SecretKeyReference_DeepCopy D = new_ptr (SecretKeyReference_DeepCopyInto D)"

definition AdditionalFile_DeepCopyInto :: "foreign_copiers \<Rightarrow> copier" where
  "AdditionalFile_DeepCopyInto D = fields [
     (''SecretRef'', new_ptr shallow)]"

definition AdditionalFile_DeepCopy :: "foreign_copiers \<Rightarrow> copier" where
  "AdditionalFile_DeepCopy D = new_ptr (AdditionalFile_DeepCopyInto D)"

definition CPUInfo_DeepCopyInto :: "foreign_copiers \<Rightarrow> copier" where
  "CPUInfo_DeepCopyInto D = shallow"

definition CPUInfo_DeepCopy :: "foreign_copiers \<Rightarrow> copier" where
  "CPUInfo_DeepCopy D = new_ptr (CPUInfo_DeepCopyInto D)"

definition ConfigMapKeyReference_DeepCopyInto :: "foreign_copiers \<Rightarrow> copier" where
  "ConfigMapKeyReference_DeepCopyInto D = shallow"

definition ConfigMapKeyReference_DeepCopy :: "foreign_copiers \<Rightarrow> copier" where
  "ConfigMapKeyReference_DeepCopy D = new_ptr (ConfigMapKeyReference_DeepCopyInto D)"

definition FluxSourceRef_DeepCopyInto :: "foreign_copiers \<Rightarrow> copier" where
  "FluxSourceRef_DeepCopyInto D = shallow"

definition FluxSourceRef_DeepCopy :: "foreign_copiers \<Rightarrow> copier" where
  "FluxSourceRef_DeepCopy D = new_ptr (FluxSourceRef_DeepCopyInto D)"

definition KernelInfo_DeepCopyInto :: "foreign_copiers \<Rightarrow> copier" where
  "KernelInfo_DeepCopyInto D = shallow"

definition KernelInfo_DeepCopy :: "foreign_copiers \<Rightarrow> copier" where
  "KernelInfo_DeepCopy D = new_ptr (KernelInfo_DeepCopyInto D)"

definition MemoryInfo_DeepCopyInto :: "foreign_copiers \<Rightarrow> copier" where
  "MemoryInfo_DeepCopyInto D = shallow"

definition MemoryInfo_DeepCopy :: "foreign_copiers \<Rightarrow> copier" where
  "MemoryInfo_DeepCopy D = new_ptr (MemoryInfo_DeepCopyInto D)"

definition OSInfo_DeepCopyInto :: "foreign_copiers \<Rightarrow> copier" where
  "OSInfo_DeepCopyInto D = shallow"

definition OSInfo_DeepCopy :: "foreign_copiers \<Rightarrow> copier" where
  "OSInfo_DeepCopy D = new_ptr (OSInfo_DeepCopyInto D)"

definition VirtualizationInfo_DeepCopyInto :: "foreign_copiers \<Rightarrow> copier" where
  "VirtualizationInfo_DeepCopyInto D = shallow"

definition VirtualizationInfo_DeepCopy :: "foreign_copiers \<Rightarrow> copier" where
  "VirtualizationInfo_DeepCopy D = new_ptr (VirtualizationInfo_DeepCopyInto D)"

definition HardwareFacts_DeepCopyInto :: "foreign_copiers \<Rightarrow> copier" where
  "HardwareFacts_DeepCopyInto D = fields [
     (''OS'', new_ptr shallow), (''Kernel'', new_ptr shallow), (''CPU'', new_ptr shallow),
     (''Memory'', new_ptr shallow), (''Virtualization'', new_ptr shallow), (''Disks'', new_map shallow),
     (''Interfaces'', new_map shallow)]"

definition HardwareFacts_DeepCopy :: "foreign_copiers \<Rightarrow> copier" where
  "HardwareFacts_DeepCopy D = new_ptr (HardwareFacts_DeepCopyInto D)"

definition JobTemplate_DeepCopyInto :: "foreign_copiers \<Rightarrow> copier" where
  "JobTemplate_DeepCopyInto D = fields [
     (''NodeSelector'', new_map shallow), (''Tolerations'', new_slice (D ''corev1.Toleration'')),
     (''Resources'', new_ptr (D ''corev1.ResourceRequirements''))]"

definition JobTemplate_DeepCopy :: "foreign_copiers \<Rightarrow> copier" where
  "JobTemplate_DeepCopy D = new_ptr (JobTemplate_DeepCopyInto D)"

definition LocalObjectReference_DeepCopyInto :: "foreign_copiers \<Rightarrow> copier" where
  "LocalObjectReference_DeepCopyInto D = shallow"

definition LocalObjectReference_DeepCopy :: "foreign_copiers \<Rightarrow> copier" where
  "LocalObjectReference_DeepCopy D = new_ptr (LocalObjectReference_DeepCopyInto D)"

definition SSHPasswordSecretRef_DeepCopyInto :: "foreign_copiers \<Rightarrow> copier" where
  "SSHPasswordSecretRef_DeepCopyInto D = shallow"

definition SSHPasswordSecretRef_DeepCopy :: "foreign_copiers \<Rightarrow> copier" where
  "SSHPasswordSecretRef_DeepCopy D = new_ptr (SSHPasswordSecretRef_DeepCopyInto D)"

definition SecretReference_DeepCopyInto :: "foreign_copiers \<Rightarrow> copier" where
  "SecretReference_DeepCopyInto D = shallow"

definition SecretReference_DeepCopy :: "foreign_copiers \<Rightarrow> copier" where
  "SecretReference_DeepCopy D = new_ptr (SecretReference_DeepCopyInto D)"

definition MachineSpec_DeepCopyInto :: "foreign_copiers \<Rightarrow> copier" where
  "MachineSpec_DeepCopyInto D = fields [
     (''SSHKeySecretRef'', new_ptr shallow), (''SSHPasswordSecretRef'', new_ptr shallow)]"

definition MachineSpec_DeepCopy :: "foreign_copiers \<Rightarrow> copier" where
  "MachineSpec_DeepCopy D = new_ptr (MachineSpec_DeepCopyInto D)"

definition MachineStatus_DeepCopyInto :: "foreign_copiers \<Rightarrow> copier" where
  "MachineStatus_DeepCopyInto D = fields [
     (''LastAppliedTime'', new_ptr (D ''metav1.Time'')),
     (''LastHardwareScanTime'', new_ptr (D ''metav1.Time'')),
     (''HardwareFacts'', new_ptr (HardwareFacts_DeepCopyInto D)),
     (''NixFacterResult'', new_ptr (D ''runtime.RawExtension'')),
     (''Conditions'', new_slice (D ''metav1.Condition''))]"

definition MachineStatus_DeepCopy :: "foreign_copiers \<Rightarrow> copier" where
  "MachineStatus_DeepCopy D = new_ptr (MachineStatus_DeepCopyInto D)"

definition Machine_DeepCopyInto :: "foreign_copiers \<Rightarrow> copier" where
  "Machine_DeepCopyInto D = fields [
     (''TypeMeta'', shallow), (''ObjectMeta'', D ''metav1.ObjectMeta''),
     (''Spec'', MachineSpec_DeepCopyInto D), (''Status'', MachineStatus_DeepCopyInto D)]"

definition Machine_DeepCopy :: "foreign_copiers \<Rightarrow> copier" where
  "Machine_DeepCopy D = new_ptr (Machine_DeepCopyInto D)"

definition Machine_DeepCopyObject :: "foreign_copiers \<Rightarrow> object_copier" where
  "Machine_DeepCopyObject D = object_of (Machine_DeepCopy D)"

definition MachineList_DeepCopyInto :: "foreign_copiers \<Rightarrow> copier" where
  "MachineList_DeepCopyInto D = fields [
     (''TypeMeta'', shallow), (''ListMeta'', D ''metav1.ListMeta''),
     (''Items'', new_slice (Machine_DeepCopyInto D))]"

definition MachineList_DeepCopy :: "foreign_copiers \<Rightarrow> copier" where
  "MachineList_DeepCopy D = new_ptr (MachineList_DeepCopyInto D)"

definition MachineList_DeepCopyObject :: "foreign_copiers \<Rightarrow> object_copier" where
  "MachineList_DeepCopyObject D = object_of (MachineList_DeepCopy D)"

definition MachineReference_DeepCopyInto :: "foreign_copiers \<Rightarrow> copier" where
  "MachineReference_DeepCopyInto D = shallow"

definition MachineReference_DeepCopy :: "foreign_copiers \<Rightarrow> copier" where
  "MachineReference_DeepCopy D = new_ptr (MachineReference_DeepCopyInto D)"

definition MemberStatus_DeepCopyInto :: "foreign_copiers \<Rightarrow> copier" where
  "MemberStatus_DeepCopyInto D = shallow"

definition MemberStatus_DeepCopy :: "foreign_copiers \<Rightarrow> copier" where
  "MemberStatus_DeepCopy D = new_ptr (MemberStatus_DeepCopyInto D)"

definition NixBuilderSpec_DeepCopyInto :: "foreign_copiers \<Rightarrow> copier" where
  "NixBuilderSpec_DeepCopyInto D = fields [
     (''StoreRef'', new_ptr shallow), (''Systems'', new_slice shallow), (''MaxJobs'', new_ptr shallow),
     (''Storage'', new_ptr (D ''corev1.PersistentVolumeClaimSpec'')),
     (''Template'', new_ptr (D ''corev1.PodTemplateSpec''))]"

definition NixBuilderSpec_DeepCopy :: "foreign_copiers \<Rightarrow> copier" where
  "NixBuilderSpec_DeepCopy D = new_ptr (NixBuilderSpec_DeepCopyInto D)"

definition NixBuilderStatus_DeepCopyInto :: "foreign_copiers \<Rightarrow> copier" where
  "NixBuilderStatus_DeepCopyInto D = fields [
     (''Conditions'', new_slice (D ''metav1.Condition''))]"

definition NixBuilderStatus_DeepCopy :: "foreign_copiers \<Rightarrow> copier" where
  "NixBuilderStatus_DeepCopy D = new_ptr (NixBuilderStatus_DeepCopyInto D)"

definition NixBuilder_DeepCopyInto :: "foreign_copiers \<Rightarrow> copier" where
  "NixBuilder_DeepCopyInto D = fields [
     (''TypeMeta'', shallow), (''ObjectMeta'', D ''metav1.ObjectMeta''),
     (''Spec'', NixBuilderSpec_DeepCopyInto D), (''Status'', NixBuilderStatus_DeepCopyInto D)]"

definition NixBuilder_DeepCopy :: "foreign_copiers \<Rightarrow> copier" where
  "NixBuilder_DeepCopy D = new_ptr (NixBuilder_DeepCopyInto D)"

definition NixBuilder_DeepCopyObject :: "foreign_copiers \<Rightarrow> object_copier" where
  "NixBuilder_DeepCopyObject D = object_of (NixBuilder_DeepCopy D)"

definition NixBuilderList_DeepCopyInto :: "foreign_copiers \<Rightarrow> copier" where
  "NixBuilderList_DeepCopyInto D = fields [
     (''TypeMeta'', shallow), (''ListMeta'', D ''metav1.ListMeta''),
     (''Items'', new_slice (NixBuilder_DeepCopyInto D))]"

definition NixBuilderList_DeepCopy :: "foreign_copiers \<Rightarrow> copier" where
  "NixBuilderList_DeepCopy D = new_ptr (NixBuilderList_DeepCopyInto D)"

definition NixBuilderList_DeepCopyObject :: "foreign_copiers \<Rightarrow> object_copier" where
  "NixBuilderList_DeepCopyObject D = object_of (NixBuilderList_DeepCopy D)"

definition NixSource_DeepCopyInto :: "foreign_copiers \<Rightarrow> copier" where
  "NixSource_DeepCopyInto D = fields [
     (''CredentialsRef'', new_ptr shallow), (''FluxSourceRef'', new_ptr shallow),
     (''PollInterval'', new_ptr shallow)]"

definition NixSource_DeepCopy :: "foreign_copiers \<Rightarrow> copier" where
  "NixSource_DeepCopy D = new_ptr (NixSource_DeepCopyInto D)"

definition NodeGroup_DeepCopyInto :: "foreign_copiers \<Rightarrow> copier" where
  "NodeGroup_DeepCopyInto D = fields [
     (''Selector'', D ''metav1.LabelSelector''), (''Count'', new_ptr shallow),
     (''Values'', new_ptr (D ''apiextensionsv1.JSON''))]"

definition NodeGroup_DeepCopy :: "foreign_copiers \<Rightarrow> copier" where
  "NodeGroup_DeepCopy D = new_ptr (NodeGroup_DeepCopyInto D)"

definition NixClusterSpec_DeepCopyInto :: "foreign_copiers \<Rightarrow> copier" where
  "NixClusterSpec_DeepCopyInto D = fields [
     (''Source'', NixSource_DeepCopyInto D), (''SSHKeyRef'', new_ptr shallow),
     (''AgeKeyRef'', new_ptr shallow), (''StoreRef'', new_ptr shallow), (''BuilderRef'', new_ptr shallow),
     (''NodeGroups'', new_slice (NodeGroup_DeepCopyInto D))]"

definition NixClusterSpec_DeepCopy :: "foreign_copiers \<Rightarrow> copier" where
  "NixClusterSpec_DeepCopy D = new_ptr (NixClusterSpec_DeepCopyInto D)"

definition NodeGroupStatus_DeepCopyInto :: "foreign_copiers \<Rightarrow> copier" where
  "NodeGroupStatus_DeepCopyInto D = fields [
     (''Members'', new_slice shallow)]"

definition NodeGroupStatus_DeepCopy :: "foreign_copiers \<Rightarrow> copier" where
  "NodeGroupStatus_DeepCopy D = new_ptr (NodeGroupStatus_DeepCopyInto D)"

definition NixClusterStatus_DeepCopyInto :: "foreign_copiers \<Rightarrow> copier" where
  "NixClusterStatus_DeepCopyInto D = fields [
     (''NodeGroups'', new_slice (NodeGroupStatus_DeepCopyInto D)),
     (''Conditions'', new_slice (D ''metav1.Condition''))]"

definition NixClusterStatus_DeepCopy :: "foreign_copiers \<Rightarrow> copier" where
  "NixClusterStatus_DeepCopy D = new_ptr (NixClusterStatus_DeepCopyInto D)"

definition NixCluster_DeepCopyInto :: "foreign_copiers \<Rightarrow> copier" where
  "NixCluster_DeepCopyInto D = fields [
     (''TypeMeta'', shallow), (''ObjectMeta'', D ''metav1.ObjectMeta''),
     (''Spec'', NixClusterSpec_DeepCopyInto D), (''Status'', NixClusterStatus_DeepCopyInto D)]"

definition NixCluster_DeepCopy :: "foreign_copiers \<Rightarrow> copier" where
  "NixCluster_DeepCopy D = new_ptr (NixCluster_DeepCopyInto D)"

definition NixCluster_DeepCopyObject :: "foreign_copiers \<Rightarrow> object_copier" where
  "NixCluster_DeepCopyObject D = object_of (NixCluster_DeepCopy D)"

definition NixClusterList_DeepCopyInto :: "foreign_copiers \<Rightarrow> copier" where
  "NixClusterList_DeepCopyInto D = fields [
     (''TypeMeta'', shallow), (''ListMeta'', D ''metav1.ListMeta''),
     (''Items'', new_slice (NixCluster_DeepCopyInto D))]"

definition NixClusterList_DeepCopy :: "foreign_copiers \<Rightarrow> copier" where
  "NixClusterList_DeepCopy D = new_ptr (NixClusterList_DeepCopyInto D)"

definition NixClusterList_DeepCopyObject :: "foreign_copiers \<Rightarrow> object_copier" where
  "NixClusterList_DeepCopyObject D = object_of (NixClusterList_DeepCopy D)"

definition NixFile_DeepCopyInto :: "foreign_copiers \<Rightarrow> copier" where
  "NixFile_DeepCopyInto D = fields [
     (''Inline'', new_ptr shallow), (''ConfigMapRef'', new_ptr shallow), (''SecretRef'', new_ptr shallow)]"

definition NixFile_DeepCopy :: "foreign_copiers \<Rightarrow> copier" where
  "NixFile_DeepCopy D = new_ptr (NixFile_DeepCopyInto D)"

definition NixLocalStore_DeepCopyInto :: "foreign_copiers \<Rightarrow> copier" where
  "NixLocalStore_DeepCopyInto D = fields [
     (''SizeLimit'', new_ptr (D ''resource.Quantity''))]"

definition NixLocalStore_DeepCopy :: "foreign_copiers \<Rightarrow> copier" where
  "NixLocalStore_DeepCopy D = new_ptr (NixLocalStore_DeepCopyInto D)"

definition NixSpec_DeepCopyInto :: "foreign_copiers \<Rightarrow> copier" where
  "NixSpec_DeepCopyInto D = fields [
     (''Source'', NixSource_DeepCopyInto D), (''Args'', new_slice shallow), (''Prebuild'', new_slice shallow),
     (''NixFlags'', new_slice shallow), (''StoreRef'', new_ptr shallow), (''BuilderRef'', new_ptr shallow),
     (''BuilderTemplate'', new_ptr (NixBuilderSpec_DeepCopyInto D)),
     (''LocalStore'', new_ptr (NixLocalStore_DeepCopyInto D)), (''TriggerOnChange'', new_ptr shallow),
     (''AdditionalFiles'', new_slice (NixFile_DeepCopyInto D))]"

definition NixSpec_DeepCopy :: "foreign_copiers \<Rightarrow> copier" where
  "NixSpec_DeepCopy D = new_ptr (NixSpec_DeepCopyInto D)"

definition NixCronJobSpec_DeepCopyInto :: "foreign_copiers \<Rightarrow> copier" where
  "NixCronJobSpec_DeepCopyInto D = fields [
     (''Nix'', NixSpec_DeepCopyInto D), (''CronJobTemplate'', D ''batchv1.CronJobSpec'')]"

definition NixCronJobSpec_DeepCopy :: "foreign_copiers \<Rightarrow> copier" where
  "NixCronJobSpec_DeepCopy D = new_ptr (NixCronJobSpec_DeepCopyInto D)"

definition NixWorkloadStatus_DeepCopyInto :: "foreign_copiers \<Rightarrow> copier" where
  "NixWorkloadStatus_DeepCopyInto D = fields [
     (''LastPolledTime'', new_ptr (D ''metav1.Time'')), (''Conditions'', new_slice (D ''metav1.Condition''))]"

definition NixWorkloadStatus_DeepCopy :: "foreign_copiers \<Rightarrow> copier" where
  "NixWorkloadStatus_DeepCopy D = new_ptr (NixWorkloadStatus_DeepCopyInto D)"

definition NixCronJobStatus_DeepCopyInto :: "foreign_copiers \<Rightarrow> copier" where
  "NixCronJobStatus_DeepCopyInto D = fields [
     (''NixWorkloadStatus'', NixWorkloadStatus_DeepCopyInto D),
     (''LastScheduleTime'', new_ptr (D ''metav1.Time'')),
     (''LastSuccessfulTime'', new_ptr (D ''metav1.Time'')), (''LastFailedTime'', new_ptr (D ''metav1.Time'')),
     (''ActiveJobs'', new_slice shallow)]"

definition NixCronJobStatus_DeepCopy :: "foreign_copiers \<Rightarrow> copier" where
  "NixCronJobStatus_DeepCopy D = new_ptr (NixCronJobStatus_DeepCopyInto D)"

definition NixCronJob_DeepCopyInto :: "foreign_copiers \<Rightarrow> copier" where
  "NixCronJob_DeepCopyInto D = fields [
     (''TypeMeta'', shallow), (''ObjectMeta'', D ''metav1.ObjectMeta''),
     (''Spec'', NixCronJobSpec_DeepCopyInto D), (''Status'', NixCronJobStatus_DeepCopyInto D)]"

definition NixCronJob_DeepCopy :: "foreign_copiers \<Rightarrow> copier" where
  "NixCronJob_DeepCopy D = new_ptr (NixCronJob_DeepCopyInto D)"

definition NixCronJob_DeepCopyObject :: "foreign_copiers \<Rightarrow> object_copier" where
  "NixCronJob_DeepCopyObject D = object_of (NixCronJob_DeepCopy D)"

definition NixCronJobList_DeepCopyInto :: "foreign_copiers \<Rightarrow> copier" where
  "NixCronJobList_DeepCopyInto D = fields [
     (''TypeMeta'', shallow), (''ListMeta'', D ''metav1.ListMeta''),
     (''Items'', new_slice (NixCronJob_DeepCopyInto D))]"

definition NixCronJobList_DeepCopy :: "foreign_copiers \<Rightarrow> copier" where
  "NixCronJobList_DeepCopy D = new_ptr (NixCronJobList_DeepCopyInto D)"

definition NixCronJobList_DeepCopyObject :: "foreign_copiers \<Rightarrow> object_copier" where
  "NixCronJobList_DeepCopyObject D = object_of (NixCronJobList_DeepCopy D)"

definition NixDeploymentSpec_DeepCopyInto :: "foreign_copiers \<Rightarrow> copier" where
  "NixDeploymentSpec_DeepCopyInto D = fields [
     (''Nix'', NixSpec_DeepCopyInto D), (''DeploymentTemplate'', new_ptr (D ''appsv1.DeploymentSpec''))]"

definition NixDeploymentSpec_DeepCopy :: "foreign_copiers \<Rightarrow> copier" where
  "NixDeploymentSpec_DeepCopy D = new_ptr (NixDeploymentSpec_DeepCopyInto D)"

definition NixDeploymentStatus_DeepCopyInto :: "foreign_copiers \<Rightarrow> copier" where
  "NixDeploymentStatus_DeepCopyInto D = fields [
     (''NixWorkloadStatus'', NixWorkloadStatus_DeepCopyInto D)]"

definition NixDeploymentStatus_DeepCopy :: "foreign_copiers \<Rightarrow> copier" where
  "NixDeploymentStatus_DeepCopy D = new_ptr (NixDeploymentStatus_DeepCopyInto D)"

definition NixDeployment_DeepCopyInto :: "foreign_copiers \<Rightarrow> copier" where
  "NixDeployment_DeepCopyInto D = fields [
     (''TypeMeta'', shallow), (''ObjectMeta'', D ''metav1.ObjectMeta''),
     (''Spec'', NixDeploymentSpec_DeepCopyInto D), (''Status'', NixDeploymentStatus_DeepCopyInto D)]"

definition NixDeployment_DeepCopy :: "foreign_copiers \<Rightarrow> copier" where
  "NixDeployment_DeepCopy D = new_ptr (NixDeployment_DeepCopyInto D)"

definition NixDeployment_DeepCopyObject :: "foreign_copiers \<Rightarrow> object_copier" where
  "NixDeployment_DeepCopyObject D = object_of (NixDeployment_DeepCopy D)"

definition NixDeploymentList_DeepCopyInto :: "foreign_copiers \<Rightarrow> copier" where
  "NixDeploymentList_DeepCopyInto D = fields [
     (''TypeMeta'', shallow), (''ListMeta'', D ''metav1.ListMeta''),
     (''Items'', new_slice (NixDeployment_DeepCopyInto D))]"

definition NixDeploymentList_DeepCopy :: "foreign_copiers \<Rightarrow> copier" where
  "NixDeploymentList_DeepCopy D = new_ptr (NixDeploymentList_DeepCopyInto D)"

definition NixDeploymentList_DeepCopyObject :: "foreign_copiers \<Rightarrow> object_copier" where
  "NixDeploymentList_DeepCopyObject D = object_of (NixDeploymentList_DeepCopy D)"

definition NixJobSpec_DeepCopyInto :: "foreign_copiers \<Rightarrow> copier" where
  "NixJobSpec_DeepCopyInto D = fields [
     (''Nix'', NixSpec_DeepCopyInto D), (''JobTemplate'', new_ptr (D ''batchv1.JobSpec''))]"

definition NixJobSpec_DeepCopy :: "foreign_copiers \<Rightarrow> copier" where
  "NixJobSpec_DeepCopy D = new_ptr (NixJobSpec_DeepCopyInto D)"

definition NixJobStatus_DeepCopyInto :: "foreign_copiers \<Rightarrow> copier" where
  "NixJobStatus_DeepCopyInto D = fields [
     (''NixWorkloadStatus'', NixWorkloadStatus_DeepCopyInto D), (''LastRunTime'', new_ptr (D ''metav1.Time''))]"

definition NixJobStatus_DeepCopy :: "foreign_copiers \<Rightarrow> copier" where
  "NixJobStatus_DeepCopy D = new_ptr (NixJobStatus_DeepCopyInto D)"

definition NixJob_DeepCopyInto :: "foreign_copiers \<Rightarrow> copier" where
  "NixJob_DeepCopyInto D = fields [
     (''TypeMeta'', shallow), (''ObjectMeta'', D ''metav1.ObjectMeta''), (''Spec'', NixJobSpec_DeepCopyInto D),
     (''Status'', NixJobStatus_DeepCopyInto D)]"

definition NixJob_DeepCopy :: "foreign_copiers \<Rightarrow> copier" where
  "NixJob_DeepCopy D = new_ptr (NixJob_DeepCopyInto D)"

definition NixJob_DeepCopyObject :: "foreign_copiers \<Rightarrow> object_copier" where
  "NixJob_DeepCopyObject D = object_of (NixJob_DeepCopy D)"

definition NixJobList_DeepCopyInto :: "foreign_copiers \<Rightarrow> copier" where
  "NixJobList_DeepCopyInto D = fields [
     (''TypeMeta'', shallow), (''ListMeta'', D ''metav1.ListMeta''),
     (''Items'', new_slice (NixJob_DeepCopyInto D))]"

definition NixJobList_DeepCopy :: "foreign_copiers \<Rightarrow> copier" where
  "NixJobList_DeepCopy D = new_ptr (NixJobList_DeepCopyInto D)"

definition NixJobList_DeepCopyObject :: "foreign_copiers \<Rightarrow> object_copier" where
  "NixJobList_DeepCopyObject D = object_of (NixJobList_DeepCopy D)"

definition NixStatefulSetSpec_DeepCopyInto :: "foreign_copiers \<Rightarrow> copier" where
  "NixStatefulSetSpec_DeepCopyInto D = fields [
     (''Nix'', NixSpec_DeepCopyInto D), (''StatefulSetTemplate'', D ''appsv1.StatefulSetSpec'')]"

definition NixStatefulSetSpec_DeepCopy :: "foreign_copiers \<Rightarrow> copier" where
  "NixStatefulSetSpec_DeepCopy D = new_ptr (NixStatefulSetSpec_DeepCopyInto D)"

definition NixStatefulSetStatus_DeepCopyInto :: "foreign_copiers \<Rightarrow> copier" where
  "NixStatefulSetStatus_DeepCopyInto D = fields [
     (''NixWorkloadStatus'', NixWorkloadStatus_DeepCopyInto D)]"

definition NixStatefulSetStatus_DeepCopy :: "foreign_copiers \<Rightarrow> copier" where
  "NixStatefulSetStatus_DeepCopy D = new_ptr (NixStatefulSetStatus_DeepCopyInto D)"

definition NixStatefulSet_DeepCopyInto :: "foreign_copiers \<Rightarrow> copier" where
  "NixStatefulSet_DeepCopyInto D = fields [
     (''TypeMeta'', shallow), (''ObjectMeta'', D ''metav1.ObjectMeta''),
     (''Spec'', NixStatefulSetSpec_DeepCopyInto D), (''Status'', NixStatefulSetStatus_DeepCopyInto D)]"

definition NixStatefulSet_DeepCopy :: "foreign_copiers \<Rightarrow> copier" where
  "NixStatefulSet_DeepCopy D = new_ptr (NixStatefulSet_DeepCopyInto D)"

definition NixStatefulSet_DeepCopyObject :: "foreign_copiers \<Rightarrow> object_copier" where
  "NixStatefulSet_DeepCopyObject D = object_of (NixStatefulSet_DeepCopy D)"

definition NixStatefulSetList_DeepCopyInto :: "foreign_copiers \<Rightarrow> copier" where
  "NixStatefulSetList_DeepCopyInto D = fields [
     (''TypeMeta'', shallow), (''ListMeta'', D ''metav1.ListMeta''),
     (''Items'', new_slice (NixStatefulSet_DeepCopyInto D))]"

definition NixStatefulSetList_DeepCopy :: "foreign_copiers \<Rightarrow> copier" where
  "NixStatefulSetList_DeepCopy D = new_ptr (NixStatefulSetList_DeepCopyInto D)"

definition NixStatefulSetList_DeepCopyObject :: "foreign_copiers \<Rightarrow> object_copier" where
  "NixStatefulSetList_DeepCopyObject D = object_of (NixStatefulSetList_DeepCopy D)"

definition NixStoreSpec_DeepCopyInto :: "foreign_copiers \<Rightarrow> copier" where
  "NixStoreSpec_DeepCopyInto D = fields [
     (''Replicas'', new_ptr shallow), (''Storage'', D ''corev1.PersistentVolumeClaimSpec''),
     (''SigningKeySecretRef'', new_ptr shallow), (''UpstreamSubstituters'', new_slice shallow),
     (''Template'', new_ptr (D ''corev1.PodTemplateSpec''))]"

definition NixStoreSpec_DeepCopy :: "foreign_copiers \<Rightarrow> copier" where
  "NixStoreSpec_DeepCopy D = new_ptr (NixStoreSpec_DeepCopyInto D)"

definition NixStoreStatus_DeepCopyInto :: "foreign_copiers \<Rightarrow> copier" where
  "NixStoreStatus_DeepCopyInto D = fields [
     (''Conditions'', new_slice (D ''metav1.Condition''))]"

definition NixStoreStatus_DeepCopy :: "foreign_copiers \<Rightarrow> copier" where
  "NixStoreStatus_DeepCopy D = new_ptr (NixStoreStatus_DeepCopyInto D)"

definition NixStore_DeepCopyInto :: "foreign_copiers \<Rightarrow> copier" where
  "NixStore_DeepCopyInto D = fields [
     (''TypeMeta'', shallow), (''ObjectMeta'', D ''metav1.ObjectMeta''),
     (''Spec'', NixStoreSpec_DeepCopyInto D), (''Status'', NixStoreStatus_DeepCopyInto D)]"

definition NixStore_DeepCopy :: "foreign_copiers \<Rightarrow> copier" where
  "NixStore_DeepCopy D = new_ptr (NixStore_DeepCopyInto D)"

definition NixStore_DeepCopyObject :: "foreign_copiers \<Rightarrow> object_copier" where
  "NixStore_DeepCopyObject D = object_of (NixStore_DeepCopy D)"

definition NixStoreList_DeepCopyInto :: "foreign_copiers \<Rightarrow> copier" where
  "NixStoreList_DeepCopyInto D = fields [
     (''TypeMeta'', shallow), (''ListMeta'', D ''metav1.ListMeta''),
     (''Items'', new_slice (NixStore_DeepCopyInto D))]"

definition NixStoreList_DeepCopy :: "foreign_copiers \<Rightarrow> copier" where
  "NixStoreList_DeepCopy D = new_ptr (NixStoreList_DeepCopyInto D)"

definition NixStoreList_DeepCopyObject :: "foreign_copiers \<Rightarrow> object_copier" where
  "NixStoreList_DeepCopyObject D = object_of (NixStoreList_DeepCopy D)"

definition NixosConfigurationSpec_DeepCopyInto :: "foreign_copiers \<Rightarrow> copier" where
  "NixosConfigurationSpec_DeepCopyInto D = fields [
     (''MachineRef'', shallow), (''CredentialsRef'', new_ptr shallow),
     (''AdditionalFiles'', new_slice (AdditionalFile_DeepCopyInto D)),
     (''JobTemplate'', new_ptr (JobTemplate_DeepCopyInto D)), (''StoreRef'', new_ptr shallow),
     (''BuilderRef'', new_ptr shallow)]"

definition NixosConfigurationSpec_DeepCopy :: "foreign_copiers \<Rightarrow> copier" where
  "NixosConfigurationSpec_DeepCopy D = new_ptr (NixosConfigurationSpec_DeepCopyInto D)"

definition NixosConfigurationStatus_DeepCopyInto :: "foreign_copiers \<Rightarrow> copier" where
  "NixosConfigurationStatus_DeepCopyInto D = fields [
     (''LastAppliedTime'', new_ptr (D ''metav1.Time'')), (''Conditions'', new_slice (D ''metav1.Condition''))]"

definition NixosConfigurationStatus_DeepCopy :: "foreign_copiers \<Rightarrow> copier" where
  "NixosConfigurationStatus_DeepCopy D = new_ptr (NixosConfigurationStatus_DeepCopyInto D)"

definition NixosConfiguration_DeepCopyInto :: "foreign_copiers \<Rightarrow> copier" where
  "NixosConfiguration_DeepCopyInto D = fields [
     (''TypeMeta'', shallow), (''ObjectMeta'', D ''metav1.ObjectMeta''),
     (''Spec'', NixosConfigurationSpec_DeepCopyInto D), (''Status'', NixosConfigurationStatus_DeepCopyInto D)]"

definition NixosConfiguration_DeepCopy :: "foreign_copiers \<Rightarrow> copier" where
  "NixosConfiguration_DeepCopy D = new_ptr (NixosConfiguration_DeepCopyInto D)"

definition NixosConfiguration_DeepCopyObject :: "foreign_copiers \<Rightarrow> object_copier" where
  "NixosConfiguration_DeepCopyObject D = object_of (NixosConfiguration_DeepCopy D)"

definition NixosConfigurationList_DeepCopyInto :: "foreign_copiers \<Rightarrow> copier" where
  "NixosConfigurationList_DeepCopyInto D = fields [
     (''TypeMeta'', shallow), (''ListMeta'', D ''metav1.ListMeta''),
     (''Items'', new_slice (NixosConfiguration_DeepCopyInto D))]"

definition NixosConfigurationList_DeepCopy :: "foreign_copiers \<Rightarrow> copier" where
  "NixosConfigurationList_DeepCopy D = new_ptr (NixosConfigurationList_DeepCopyInto D)"

definition NixosConfigurationList_DeepCopyObject :: "foreign_copiers \<Rightarrow> object_copier" where
  "NixosConfigurationList_DeepCopyObject D = object_of (NixosConfigurationList_DeepCopy D)"

section \<open>Other packages\<close>

text \<open>Every foreign deep copy is one, and the types the code assigns hold no references.\<close>

definition foreign_copies :: "foreign_types \<Rightarrow> foreign_copiers \<Rightarrow> bool" where
  "foreign_copies X D \<longleftrightarrow> (\<forall>e. copies (X e) (D e)) \<and> flat (X ''metav1.TypeMeta'') \<and> flat (X ''metav1.Duration'')"

lemma foreign_copiesD:
  assumes "foreign_copies X D"
  shows "copies (X e) (D e)" "flat (X ''metav1.TypeMeta'')" "flat (X ''metav1.Duration'')"
  using assms by (auto simp: foreign_copies_def)

section \<open>Layer by layer\<close>

lemma flat_types [simp]:
  "flat (SecretKeyReference_type X)"
  "flat (CPUInfo_type X)"
  "flat (ConfigMapKeyReference_type X)"
  "flat (FluxSourceRef_type X)"
  "flat (KernelInfo_type X)"
  "flat (MemoryInfo_type X)"
  "flat (OSInfo_type X)"
  "flat (VirtualizationInfo_type X)"
  "flat (LocalObjectReference_type X)"
  "flat (SSHPasswordSecretRef_type X)"
  "flat (SecretReference_type X)"
  "flat (MachineReference_type X)"
  "flat (MemberStatus_type X)"
  by (simp_all add: SecretKeyReference_type_def CPUInfo_type_def ConfigMapKeyReference_type_def FluxSourceRef_type_def KernelInfo_type_def MemoryInfo_type_def OSInfo_type_def VirtualizationInfo_type_def LocalObjectReference_type_def SSHPasswordSecretRef_type_def SecretReference_type_def MachineReference_type_def MemberStatus_type_def)

lemmas layer0_defs =
  JobTemplate_type_def JobTemplate_DeepCopyInto_def
  NixBuilderStatus_type_def NixBuilderStatus_DeepCopyInto_def
  NodeGroup_type_def NodeGroup_DeepCopyInto_def
  NixLocalStore_type_def NixLocalStore_DeepCopyInto_def
  NixWorkloadStatus_type_def NixWorkloadStatus_DeepCopyInto_def
  NixStoreStatus_type_def NixStoreStatus_DeepCopyInto_def
  NixosConfigurationStatus_type_def NixosConfigurationStatus_DeepCopyInto_def

lemma flat_into [simp]:
  "SecretKeyReference_DeepCopyInto D = shallow"
  "CPUInfo_DeepCopyInto D = shallow"
  "ConfigMapKeyReference_DeepCopyInto D = shallow"
  "FluxSourceRef_DeepCopyInto D = shallow"
  "KernelInfo_DeepCopyInto D = shallow"
  "MemoryInfo_DeepCopyInto D = shallow"
  "OSInfo_DeepCopyInto D = shallow"
  "VirtualizationInfo_DeepCopyInto D = shallow"
  "LocalObjectReference_DeepCopyInto D = shallow"
  "SSHPasswordSecretRef_DeepCopyInto D = shallow"
  "SecretReference_DeepCopyInto D = shallow"
  "MachineReference_DeepCopyInto D = shallow"
  "MemberStatus_DeepCopyInto D = shallow"
  by (simp_all add: SecretKeyReference_DeepCopyInto_def CPUInfo_DeepCopyInto_def ConfigMapKeyReference_DeepCopyInto_def FluxSourceRef_DeepCopyInto_def KernelInfo_DeepCopyInto_def MemoryInfo_DeepCopyInto_def OSInfo_DeepCopyInto_def VirtualizationInfo_DeepCopyInto_def LocalObjectReference_DeepCopyInto_def SSHPasswordSecretRef_DeepCopyInto_def SecretReference_DeepCopyInto_def MachineReference_DeepCopyInto_def MemberStatus_DeepCopyInto_def)

lemma layer0_copies:
  assumes "foreign_copies X D"
  shows
    "copies (SecretKeyReference_type X) (SecretKeyReference_DeepCopyInto D)"
    "copies (CPUInfo_type X) (CPUInfo_DeepCopyInto D)"
    "copies (ConfigMapKeyReference_type X) (ConfigMapKeyReference_DeepCopyInto D)"
    "copies (FluxSourceRef_type X) (FluxSourceRef_DeepCopyInto D)"
    "copies (KernelInfo_type X) (KernelInfo_DeepCopyInto D)"
    "copies (MemoryInfo_type X) (MemoryInfo_DeepCopyInto D)"
    "copies (OSInfo_type X) (OSInfo_DeepCopyInto D)"
    "copies (VirtualizationInfo_type X) (VirtualizationInfo_DeepCopyInto D)"
    "copies (JobTemplate_type X) (JobTemplate_DeepCopyInto D)"
    "copies (LocalObjectReference_type X) (LocalObjectReference_DeepCopyInto D)"
    "copies (SSHPasswordSecretRef_type X) (SSHPasswordSecretRef_DeepCopyInto D)"
    "copies (SecretReference_type X) (SecretReference_DeepCopyInto D)"
    "copies (MachineReference_type X) (MachineReference_DeepCopyInto D)"
    "copies (MemberStatus_type X) (MemberStatus_DeepCopyInto D)"
    "copies (NixBuilderStatus_type X) (NixBuilderStatus_DeepCopyInto D)"
    "copies (NodeGroup_type X) (NodeGroup_DeepCopyInto D)"
    "copies (NixLocalStore_type X) (NixLocalStore_DeepCopyInto D)"
    "copies (NixWorkloadStatus_type X) (NixWorkloadStatus_DeepCopyInto D)"
    "copies (NixStoreStatus_type X) (NixStoreStatus_DeepCopyInto D)"
    "copies (NixosConfigurationStatus_type X) (NixosConfigurationStatus_DeepCopyInto D)"
  by (simp_all add: layer0_defs copies_rules foreign_copiesD [OF assms])

lemmas layer1_defs =
  AdditionalFile_type_def AdditionalFile_DeepCopyInto_def
  HardwareFacts_type_def HardwareFacts_DeepCopyInto_def
  MachineSpec_type_def MachineSpec_DeepCopyInto_def
  NixBuilderSpec_type_def NixBuilderSpec_DeepCopyInto_def
  NixSource_type_def NixSource_DeepCopyInto_def
  NodeGroupStatus_type_def NodeGroupStatus_DeepCopyInto_def
  NixFile_type_def NixFile_DeepCopyInto_def
  NixCronJobStatus_type_def NixCronJobStatus_DeepCopyInto_def
  NixDeploymentStatus_type_def NixDeploymentStatus_DeepCopyInto_def
  NixJobStatus_type_def NixJobStatus_DeepCopyInto_def
  NixStatefulSetStatus_type_def NixStatefulSetStatus_DeepCopyInto_def
  NixStoreSpec_type_def NixStoreSpec_DeepCopyInto_def

lemma layer1_copies:
  assumes "foreign_copies X D"
  shows
    "copies (AdditionalFile_type X) (AdditionalFile_DeepCopyInto D)"
    "copies (HardwareFacts_type X) (HardwareFacts_DeepCopyInto D)"
    "copies (MachineSpec_type X) (MachineSpec_DeepCopyInto D)"
    "copies (NixBuilderSpec_type X) (NixBuilderSpec_DeepCopyInto D)"
    "copies (NixSource_type X) (NixSource_DeepCopyInto D)"
    "copies (NodeGroupStatus_type X) (NodeGroupStatus_DeepCopyInto D)"
    "copies (NixFile_type X) (NixFile_DeepCopyInto D)"
    "copies (NixCronJobStatus_type X) (NixCronJobStatus_DeepCopyInto D)"
    "copies (NixDeploymentStatus_type X) (NixDeploymentStatus_DeepCopyInto D)"
    "copies (NixJobStatus_type X) (NixJobStatus_DeepCopyInto D)"
    "copies (NixStatefulSetStatus_type X) (NixStatefulSetStatus_DeepCopyInto D)"
    "copies (NixStoreSpec_type X) (NixStoreSpec_DeepCopyInto D)"
  by (simp_all add: layer1_defs copies_rules foreign_copiesD [OF assms] layer0_copies [OF assms])

lemmas layer2_defs =
  MachineStatus_type_def MachineStatus_DeepCopyInto_def
  NixBuilder_type_def NixBuilder_DeepCopyInto_def
  NixClusterSpec_type_def NixClusterSpec_DeepCopyInto_def
  NixClusterStatus_type_def NixClusterStatus_DeepCopyInto_def
  NixSpec_type_def NixSpec_DeepCopyInto_def
  NixStore_type_def NixStore_DeepCopyInto_def
  NixosConfigurationSpec_type_def NixosConfigurationSpec_DeepCopyInto_def

lemma layer2_copies:
  assumes "foreign_copies X D"
  shows
    "copies (MachineStatus_type X) (MachineStatus_DeepCopyInto D)"
    "copies (NixBuilder_type X) (NixBuilder_DeepCopyInto D)"
    "copies (NixClusterSpec_type X) (NixClusterSpec_DeepCopyInto D)"
    "copies (NixClusterStatus_type X) (NixClusterStatus_DeepCopyInto D)"
    "copies (NixSpec_type X) (NixSpec_DeepCopyInto D)"
    "copies (NixStore_type X) (NixStore_DeepCopyInto D)"
    "copies (NixosConfigurationSpec_type X) (NixosConfigurationSpec_DeepCopyInto D)"
  by (simp_all add: layer2_defs copies_rules foreign_copiesD [OF assms] layer0_copies [OF assms] layer1_copies [OF assms])

lemmas layer3_defs =
  Machine_type_def Machine_DeepCopyInto_def
  NixBuilderList_type_def NixBuilderList_DeepCopyInto_def
  NixCluster_type_def NixCluster_DeepCopyInto_def
  NixCronJobSpec_type_def NixCronJobSpec_DeepCopyInto_def
  NixDeploymentSpec_type_def NixDeploymentSpec_DeepCopyInto_def
  NixJobSpec_type_def NixJobSpec_DeepCopyInto_def
  NixStatefulSetSpec_type_def NixStatefulSetSpec_DeepCopyInto_def
  NixStoreList_type_def NixStoreList_DeepCopyInto_def
  NixosConfiguration_type_def NixosConfiguration_DeepCopyInto_def

lemma layer3_copies:
  assumes "foreign_copies X D"
  shows
    "copies (Machine_type X) (Machine_DeepCopyInto D)"
    "copies (NixBuilderList_type X) (NixBuilderList_DeepCopyInto D)"
    "copies (NixCluster_type X) (NixCluster_DeepCopyInto D)"
    "copies (NixCronJobSpec_type X) (NixCronJobSpec_DeepCopyInto D)"
    "copies (NixDeploymentSpec_type X) (NixDeploymentSpec_DeepCopyInto D)"
    "copies (NixJobSpec_type X) (NixJobSpec_DeepCopyInto D)"
    "copies (NixStatefulSetSpec_type X) (NixStatefulSetSpec_DeepCopyInto D)"
    "copies (NixStoreList_type X) (NixStoreList_DeepCopyInto D)"
    "copies (NixosConfiguration_type X) (NixosConfiguration_DeepCopyInto D)"
  by (simp_all add: layer3_defs copies_rules foreign_copiesD [OF assms] layer0_copies [OF assms] layer1_copies [OF assms] layer2_copies [OF assms])

lemmas layer4_defs =
  MachineList_type_def MachineList_DeepCopyInto_def
  NixClusterList_type_def NixClusterList_DeepCopyInto_def
  NixCronJob_type_def NixCronJob_DeepCopyInto_def
  NixDeployment_type_def NixDeployment_DeepCopyInto_def
  NixJob_type_def NixJob_DeepCopyInto_def
  NixStatefulSet_type_def NixStatefulSet_DeepCopyInto_def
  NixosConfigurationList_type_def NixosConfigurationList_DeepCopyInto_def

lemma layer4_copies:
  assumes "foreign_copies X D"
  shows
    "copies (MachineList_type X) (MachineList_DeepCopyInto D)"
    "copies (NixClusterList_type X) (NixClusterList_DeepCopyInto D)"
    "copies (NixCronJob_type X) (NixCronJob_DeepCopyInto D)"
    "copies (NixDeployment_type X) (NixDeployment_DeepCopyInto D)"
    "copies (NixJob_type X) (NixJob_DeepCopyInto D)"
    "copies (NixStatefulSet_type X) (NixStatefulSet_DeepCopyInto D)"
    "copies (NixosConfigurationList_type X) (NixosConfigurationList_DeepCopyInto D)"
  by (simp_all add: layer4_defs copies_rules foreign_copiesD [OF assms] layer0_copies [OF assms] layer1_copies [OF assms] layer2_copies [OF assms] layer3_copies [OF assms])

lemmas layer5_defs =
  NixCronJobList_type_def NixCronJobList_DeepCopyInto_def
  NixDeploymentList_type_def NixDeploymentList_DeepCopyInto_def
  NixJobList_type_def NixJobList_DeepCopyInto_def
  NixStatefulSetList_type_def NixStatefulSetList_DeepCopyInto_def

lemma layer5_copies:
  assumes "foreign_copies X D"
  shows
    "copies (NixCronJobList_type X) (NixCronJobList_DeepCopyInto D)"
    "copies (NixDeploymentList_type X) (NixDeploymentList_DeepCopyInto D)"
    "copies (NixJobList_type X) (NixJobList_DeepCopyInto D)"
    "copies (NixStatefulSetList_type X) (NixStatefulSetList_DeepCopyInto D)"
  by (simp_all add: layer5_defs copies_rules foreign_copiesD [OF assms] layer0_copies [OF assms] layer1_copies [OF assms] layer2_copies [OF assms] layer3_copies [OF assms] layer4_copies [OF assms])

section \<open>Every deep copy of the package\<close>

definition deep_copies :: "foreign_types \<Rightarrow> foreign_copiers \<Rightarrow> (string \<times> ty \<times> copier) list" where
  "deep_copies X D = [
     (''AdditionalFile'', AdditionalFile_type X, AdditionalFile_DeepCopy D),
     (''CPUInfo'', CPUInfo_type X, CPUInfo_DeepCopy D),
     (''ConfigMapKeyReference'', ConfigMapKeyReference_type X, ConfigMapKeyReference_DeepCopy D),
     (''FluxSourceRef'', FluxSourceRef_type X, FluxSourceRef_DeepCopy D),
     (''HardwareFacts'', HardwareFacts_type X, HardwareFacts_DeepCopy D),
     (''JobTemplate'', JobTemplate_type X, JobTemplate_DeepCopy D),
     (''KernelInfo'', KernelInfo_type X, KernelInfo_DeepCopy D),
     (''LocalObjectReference'', LocalObjectReference_type X, LocalObjectReference_DeepCopy D),
     (''Machine'', Machine_type X, Machine_DeepCopy D),
     (''MachineList'', MachineList_type X, MachineList_DeepCopy D),
     (''MachineReference'', MachineReference_type X, MachineReference_DeepCopy D),
     (''MachineSpec'', MachineSpec_type X, MachineSpec_DeepCopy D),
     (''MachineStatus'', MachineStatus_type X, MachineStatus_DeepCopy D),
     (''MemberStatus'', MemberStatus_type X, MemberStatus_DeepCopy D),
     (''MemoryInfo'', MemoryInfo_type X, MemoryInfo_DeepCopy D),
     (''NixBuilder'', NixBuilder_type X, NixBuilder_DeepCopy D),
     (''NixBuilderList'', NixBuilderList_type X, NixBuilderList_DeepCopy D),
     (''NixBuilderSpec'', NixBuilderSpec_type X, NixBuilderSpec_DeepCopy D),
     (''NixBuilderStatus'', NixBuilderStatus_type X, NixBuilderStatus_DeepCopy D),
     (''NixCluster'', NixCluster_type X, NixCluster_DeepCopy D),
     (''NixClusterList'', NixClusterList_type X, NixClusterList_DeepCopy D),
     (''NixClusterSpec'', NixClusterSpec_type X, NixClusterSpec_DeepCopy D),
     (''NixClusterStatus'', NixClusterStatus_type X, NixClusterStatus_DeepCopy D),
     (''NixCronJob'', NixCronJob_type X, NixCronJob_DeepCopy D),
     (''NixCronJobList'', NixCronJobList_type X, NixCronJobList_DeepCopy D),
     (''NixCronJobSpec'', NixCronJobSpec_type X, NixCronJobSpec_DeepCopy D),
     (''NixCronJobStatus'', NixCronJobStatus_type X, NixCronJobStatus_DeepCopy D),
     (''NixDeployment'', NixDeployment_type X, NixDeployment_DeepCopy D),
     (''NixDeploymentList'', NixDeploymentList_type X, NixDeploymentList_DeepCopy D),
     (''NixDeploymentSpec'', NixDeploymentSpec_type X, NixDeploymentSpec_DeepCopy D),
     (''NixDeploymentStatus'', NixDeploymentStatus_type X, NixDeploymentStatus_DeepCopy D),
     (''NixFile'', NixFile_type X, NixFile_DeepCopy D),
     (''NixJob'', NixJob_type X, NixJob_DeepCopy D),
     (''NixJobList'', NixJobList_type X, NixJobList_DeepCopy D),
     (''NixJobSpec'', NixJobSpec_type X, NixJobSpec_DeepCopy D),
     (''NixJobStatus'', NixJobStatus_type X, NixJobStatus_DeepCopy D),
     (''NixLocalStore'', NixLocalStore_type X, NixLocalStore_DeepCopy D),
     (''NixSource'', NixSource_type X, NixSource_DeepCopy D),
     (''NixSpec'', NixSpec_type X, NixSpec_DeepCopy D),
     (''NixStatefulSet'', NixStatefulSet_type X, NixStatefulSet_DeepCopy D),
     (''NixStatefulSetList'', NixStatefulSetList_type X, NixStatefulSetList_DeepCopy D),
     (''NixStatefulSetSpec'', NixStatefulSetSpec_type X, NixStatefulSetSpec_DeepCopy D),
     (''NixStatefulSetStatus'', NixStatefulSetStatus_type X, NixStatefulSetStatus_DeepCopy D),
     (''NixStore'', NixStore_type X, NixStore_DeepCopy D),
     (''NixStoreList'', NixStoreList_type X, NixStoreList_DeepCopy D),
     (''NixStoreSpec'', NixStoreSpec_type X, NixStoreSpec_DeepCopy D),
     (''NixStoreStatus'', NixStoreStatus_type X, NixStoreStatus_DeepCopy D),
     (''NixWorkloadStatus'', NixWorkloadStatus_type X, NixWorkloadStatus_DeepCopy D),
     (''NixosConfiguration'', NixosConfiguration_type X, NixosConfiguration_DeepCopy D),
     (''NixosConfigurationList'', NixosConfigurationList_type X, NixosConfigurationList_DeepCopy D),
     (''NixosConfigurationSpec'', NixosConfigurationSpec_type X, NixosConfigurationSpec_DeepCopy D),
     (''NixosConfigurationStatus'', NixosConfigurationStatus_type X, NixosConfigurationStatus_DeepCopy D),
     (''NodeGroup'', NodeGroup_type X, NodeGroup_DeepCopy D),
     (''NodeGroupStatus'', NodeGroupStatus_type X, NodeGroupStatus_DeepCopy D),
     (''OSInfo'', OSInfo_type X, OSInfo_DeepCopy D),
     (''SSHPasswordSecretRef'', SSHPasswordSecretRef_type X, SSHPasswordSecretRef_DeepCopy D),
     (''SecretKeyReference'', SecretKeyReference_type X, SecretKeyReference_DeepCopy D),
     (''SecretReference'', SecretReference_type X, SecretReference_DeepCopy D),
     (''VirtualizationInfo'', VirtualizationInfo_type X, VirtualizationInfo_DeepCopy D)]"

definition object_copies :: "foreign_types \<Rightarrow> foreign_copiers \<Rightarrow> (string \<times> ty \<times> object_copier) list" where
  "object_copies X D = [
     (''Machine'', Machine_type X, Machine_DeepCopyObject D),
     (''MachineList'', MachineList_type X, MachineList_DeepCopyObject D),
     (''NixBuilder'', NixBuilder_type X, NixBuilder_DeepCopyObject D),
     (''NixBuilderList'', NixBuilderList_type X, NixBuilderList_DeepCopyObject D),
     (''NixCluster'', NixCluster_type X, NixCluster_DeepCopyObject D),
     (''NixClusterList'', NixClusterList_type X, NixClusterList_DeepCopyObject D),
     (''NixCronJob'', NixCronJob_type X, NixCronJob_DeepCopyObject D),
     (''NixCronJobList'', NixCronJobList_type X, NixCronJobList_DeepCopyObject D),
     (''NixDeployment'', NixDeployment_type X, NixDeployment_DeepCopyObject D),
     (''NixDeploymentList'', NixDeploymentList_type X, NixDeploymentList_DeepCopyObject D),
     (''NixJob'', NixJob_type X, NixJob_DeepCopyObject D),
     (''NixJobList'', NixJobList_type X, NixJobList_DeepCopyObject D),
     (''NixStatefulSet'', NixStatefulSet_type X, NixStatefulSet_DeepCopyObject D),
     (''NixStatefulSetList'', NixStatefulSetList_type X, NixStatefulSetList_DeepCopyObject D),
     (''NixStore'', NixStore_type X, NixStore_DeepCopyObject D),
     (''NixStoreList'', NixStoreList_type X, NixStoreList_DeepCopyObject D),
     (''NixosConfiguration'', NixosConfiguration_type X, NixosConfiguration_DeepCopyObject D),
     (''NixosConfigurationList'', NixosConfigurationList_type X, NixosConfigurationList_DeepCopyObject D)]"

lemmas DeepCopy_defs =
  AdditionalFile_DeepCopy_def CPUInfo_DeepCopy_def ConfigMapKeyReference_DeepCopy_def
  FluxSourceRef_DeepCopy_def HardwareFacts_DeepCopy_def JobTemplate_DeepCopy_def KernelInfo_DeepCopy_def
  LocalObjectReference_DeepCopy_def Machine_DeepCopy_def MachineList_DeepCopy_def
  MachineReference_DeepCopy_def MachineSpec_DeepCopy_def MachineStatus_DeepCopy_def
  MemberStatus_DeepCopy_def MemoryInfo_DeepCopy_def NixBuilder_DeepCopy_def NixBuilderList_DeepCopy_def
  NixBuilderSpec_DeepCopy_def NixBuilderStatus_DeepCopy_def NixCluster_DeepCopy_def
  NixClusterList_DeepCopy_def NixClusterSpec_DeepCopy_def NixClusterStatus_DeepCopy_def
  NixCronJob_DeepCopy_def NixCronJobList_DeepCopy_def NixCronJobSpec_DeepCopy_def
  NixCronJobStatus_DeepCopy_def NixDeployment_DeepCopy_def NixDeploymentList_DeepCopy_def
  NixDeploymentSpec_DeepCopy_def NixDeploymentStatus_DeepCopy_def NixFile_DeepCopy_def NixJob_DeepCopy_def
  NixJobList_DeepCopy_def NixJobSpec_DeepCopy_def NixJobStatus_DeepCopy_def NixLocalStore_DeepCopy_def
  NixSource_DeepCopy_def NixSpec_DeepCopy_def NixStatefulSet_DeepCopy_def NixStatefulSetList_DeepCopy_def
  NixStatefulSetSpec_DeepCopy_def NixStatefulSetStatus_DeepCopy_def NixStore_DeepCopy_def
  NixStoreList_DeepCopy_def NixStoreSpec_DeepCopy_def NixStoreStatus_DeepCopy_def
  NixWorkloadStatus_DeepCopy_def NixosConfiguration_DeepCopy_def NixosConfigurationList_DeepCopy_def
  NixosConfigurationSpec_DeepCopy_def NixosConfigurationStatus_DeepCopy_def NodeGroup_DeepCopy_def
  NodeGroupStatus_DeepCopy_def OSInfo_DeepCopy_def SSHPasswordSecretRef_DeepCopy_def
  SecretKeyReference_DeepCopy_def SecretReference_DeepCopy_def VirtualizationInfo_DeepCopy_def

lemmas DeepCopyObject_defs =
  Machine_DeepCopyObject_def MachineList_DeepCopyObject_def NixBuilder_DeepCopyObject_def
  NixBuilderList_DeepCopyObject_def NixCluster_DeepCopyObject_def NixClusterList_DeepCopyObject_def
  NixCronJob_DeepCopyObject_def NixCronJobList_DeepCopyObject_def NixDeployment_DeepCopyObject_def
  NixDeploymentList_DeepCopyObject_def NixJob_DeepCopyObject_def NixJobList_DeepCopyObject_def
  NixStatefulSet_DeepCopyObject_def NixStatefulSetList_DeepCopyObject_def NixStore_DeepCopyObject_def
  NixStoreList_DeepCopyObject_def NixosConfiguration_DeepCopyObject_def
  NixosConfigurationList_DeepCopyObject_def

lemma deep_copies_copy:
  assumes "foreign_copies X D" "(k, t, c) \<in> set (deep_copies X D)"
  shows "copies (TPtr t) c"
proof -
  have "list_all (\<lambda>(k, t, c). copies (TPtr t) c) (deep_copies X D)"
    by (simp add: deep_copies_def DeepCopy_defs copies_ptr copies_flat layer0_copies [OF assms(1)] layer1_copies [OF assms(1)]
        layer2_copies [OF assms(1)] layer3_copies [OF assms(1)] layer4_copies [OF assms(1)] layer5_copies [OF assms(1)])
  then show ?thesis using assms(2) by (auto simp: list_all_iff)
qed

text \<open>An object is copied by the deep copy of its type.\<close>

lemma object_copies_copy:
  assumes "(k, t, ob) \<in> set (object_copies X D)"
  obtains c where "(k, t, c) \<in> set (deep_copies X D)" "ob = object_of c"
proof -
  have "list_all (\<lambda>(k, t, ob). \<exists>c. (k, t, c) \<in> set (deep_copies X D) \<and> ob = object_of c)
       (object_copies X D)"
    by (simp add: object_copies_def deep_copies_def DeepCopyObject_defs)
  with assms show thesis by (auto simp: list_all_iff intro: that)
qed

end
