(* ===== verification/Copy_Safety.thy ===== *)
theory Copy_Safety
  imports Api_Copies
begin

text \<open>
  What the generated deep copies are used for: the objects of a shared cache are copied before they are
  changed, so no copy may share a cell with its original.
\<close>

lemma sample_foreign_copies: "foreign_copies (\<lambda>_. TPlain) (\<lambda>_. shallow)"
  by (simp add: foreign_copies_def copies_flat)

text \<open>An additional file with a reference to a Secret, behind a pointer.\<close>

definition sample_file :: "nat option \<Rightarrow> gval" where
  "sample_file secret = Struct [(''Path'', Plain ''etc/key''), (''ValueType'', Plain ''SecretRef''),
     (''Inline'', Plain []), (''SecretRef'', Ref secret), (''NixosFacter'', Plain ''false'')]"

definition sample_ref :: gval where
  "sample_ref = Struct [(''Name'', Plain ''keys''), (''Key'', Plain ''host'')]"

definition sample_heap :: heap where
  "sample_heap = [0 \<mapsto> One (sample_file (Some 1)), 1 \<mapsto> One sample_ref]"

definition sample_tree :: tree where
  "sample_tree = At 0 [([], Node [(''Path'', Leaf ''etc/key''), (''ValueType'', Leaf ''SecretRef''),
     (''Inline'', Leaf []), (''SecretRef'', At 1 [([], Node [(''Name'', Leaf ''keys''), (''Key'', Leaf ''host'')])]),
     (''NixosFacter'', Leaf ''false'')])]"

lemma sample_look: "look (TPtr (AdditionalFile_type X)) sample_heap (Ref (Some 0)) = Some sample_tree"
  by (simp add: sample_heap_def sample_file_def sample_ref_def sample_tree_def AdditionalFile_type_def
      SecretKeyReference_type_def)

lemma sample_run:
  "run_state (AdditionalFile_DeepCopy D (Ref (Some 0))) (sample_heap, 2) =
     (Ref (Some 2), (sample_heap(2 \<mapsto> One (sample_file (Some 3)), 3 \<mapsto> One sample_ref), 4))"
  by (simp add: AdditionalFile_DeepCopy_def AdditionalFile_DeepCopyInto_def new_ptr_def fields_def shallow_def state_defs
      sample_heap_def sample_file_def fun_upd_twist)

text \<open>C40. A deep copy stands alone: for every type of the package, \<open>DeepCopy\<close> of a pointer gives nil exactly
  for nil, and otherwise a value with the content of the original in which every cell is new. Whatever is
  written to the cells there were before, the copy keeps that content; whatever is written to other cells,
  the original keeps its own. The deep copies of the types of other packages are assumed to be such copies.\<close>

theorem deep_copies_stand_alone:
  assumes "foreign_copies X D" "(k, t, c) \<in> set (deep_copies X D)" "\<forall>a \<ge> n. h a = None"
    and "look (TPtr t) h v = Some x" "run_state (c v) (h, n) = (w, s')"
  shows "stands_alone (TPtr t) (h, n) v x w s' \<and> (w = Ref None \<longleftrightarrow> v = Ref None)"
proof -
  have alone: "stands_alone (TPtr t) (h, n) v x w s'"
    by (rule copies_alone [OF deep_copies_copy [OF assms(1,2)] assms(3-5)])
  then obtain y where y: "look (TPtr t) (fst s') w = Some y" "content y = content x"
    by (auto simp: stands_alone_def)
  have "w = Ref None \<longleftrightarrow> content y = Nowhere" by (rule look_nil [OF y(1)])
  then show ?thesis using alone look_nil [OF assms(4)] y(2) by simp
qed

lemma deep_copies_stand_alone_witness:
  "stands_alone (TPtr (AdditionalFile_type (\<lambda>_. TPlain))) (sample_heap, 2) (Ref (Some 0)) sample_tree (Ref (Some 2))
     (sample_heap(2 \<mapsto> One (sample_file (Some 3)), 3 \<mapsto> One sample_ref), 4)"
proof -
  let ?c = "AdditionalFile_DeepCopy (\<lambda>_. shallow)" and ?t = "AdditionalFile_type (\<lambda>_. TPlain)"
  have listed: "(''AdditionalFile'', ?t, ?c) \<in> set (deep_copies (\<lambda>_. TPlain) (\<lambda>_. shallow))"
    by (simp add: deep_copies_def)
  have free: "\<forall>a \<ge> 2. sample_heap a = None" by (simp add: sample_heap_def)
  show ?thesis
    by (rule deep_copies_stand_alone [where c = ?c and t = ?t and v = "Ref (Some 0)" and h = sample_heap,
          OF sample_foreign_copies listed free sample_look sample_run, THEN conjunct1])
qed

text \<open>The same for \<open>DeepCopyObject\<close>: the nil object for nil, and an object that stands alone otherwise.\<close>

lemma object_copies_stand_alone:
  assumes "foreign_copies X D" "(k, t, ob) \<in> set (object_copies X D)" "\<forall>a \<ge> n. h a = None"
    and "look (TPtr t) h v = Some x" "run_state (ob v) (h, n) = (r, s')"
  shows "case r of None \<Rightarrow> v = Ref None | Some w \<Rightarrow> v \<noteq> Ref None \<and> stands_alone (TPtr t) (h, n) v x w s'"
proof -
  obtain c where c: "(k, t, c) \<in> set (deep_copies X D)" "ob = object_of c"
    by (rule object_copies_copy [OF assms(2)])
  obtain w s where w: "run_state (c v) (h, n) = (w, s)" by (metis surj_pair)
  have "copies (TPtr t) c" by (rule deep_copies_copy [OF assms(1) c(1)])
  note copy = this
  from copies_alone [OF copy assms(3,4) w] have alone: "stands_alone (TPtr t) (h, n) v x w s" .
  have r: "r = as_object w" "s' = s" using assms(5) c(2) w by (simp_all add: object_of_def state_defs)
  obtain y where y: "look (TPtr t) (fst s) w = Some y" "content y = content x"
    using alone by (auto simp: stands_alone_def)
  then have "w = Ref None \<longleftrightarrow> v = Ref None" using look_nil [OF y(1)] look_nil [OF assms(4)] by simp
  then show ?thesis using alone r by (simp add: as_object_def)
qed

end
