(* ===== verification/Cluster_Steady.thy ===== *)
theory Cluster_Steady
  imports Cluster_Safety
begin

text \<open>
  Membership over successive reconciles of a NixCluster (\<open>nixcluster_controller.go\<close>): what one reconcile
  stores is what the next one starts from, and as long as names, labels and hosts of the Machines and the
  groups stay, the loop ends in the same state again, whatever the order in which the Machines are listed
  and whatever else about them has changed. The names of the groups must be distinct for that.
\<close>

section \<open>What the loop sees of a Machine\<close>

definition face :: "machine \<Rightarrow> string \<times> labels \<times> string" where
  "face m = (m_name (ma_meta m), m_labels (ma_meta m), ma_host (ma_spec m))"

definition same_faces :: "machine list \<Rightarrow> machine list \<Rightarrow> bool" where
  "same_faces ms ms' \<longleftrightarrow> face ` set ms = face ` set ms' \<and>
     distinct (map (\<lambda>m. m_name (ma_meta m)) ms) \<and> distinct (map (\<lambda>m. m_name (ma_meta m)) ms')"

lemma same_faces_twin:
  assumes "same_faces ms ms'" "m \<in> set ms"
  obtains m' where "m' \<in> set ms'" "face m' = face m"
  using assms by (auto simp: same_faces_def) (metis imageE imageI)

lemma same_faces_sym: "same_faces ms ms' \<Longrightarrow> same_faces ms' ms"
  by (simp add: same_faces_def)

lemma same_faces_names:
  assumes "same_faces ms ms'"
  shows "machine_names ms = machine_names ms'"
proof -
  have "machine_names ms = fst ` face ` set ms" for ms
    by (simp add: machine_names_def face_def image_image)
  then show ?thesis using assms by (simp only: same_faces_def)
qed

lemma matching_subset:
  assumes "same_faces ms ms'"
  shows "set (matchingMachines ms sel claimed) \<subseteq> set (matchingMachines ms' sel claimed)"
proof
  fix n
  assume "n \<in> set (matchingMachines ms sel claimed)"
  then obtain m where m: "m \<in> set ms" "n = m_name (ma_meta m)" "n \<notin> claimed" "sel (m_labels (ma_meta m))"
    by (auto simp: set_matchingMachines)
  obtain m' where "m' \<in> set ms'" "face m' = face m" by (rule same_faces_twin [OF assms m(1)])
  then show "n \<in> set (matchingMachines ms' sel claimed)"
    unfolding set_matchingMachines using m(2-4) by (intro CollectI exI [of _ m']) (simp add: face_def)
qed

lemma matching_same:
  assumes "same_faces ms ms'"
  shows "matchingMachines ms sel claimed = matchingMachines ms' sel claimed"
  using assms by (intro sorted_distinct_set_unique)
    (simp_all add: sorted_matchingMachines distinct_matchingMachines same_faces_def
      equalityI matching_subset [OF assms] matching_subset [OF same_faces_sym [OF assms]])

lemma machines_by_name_iff:
  assumes "distinct (map (\<lambda>m. m_name (ma_meta m)) ms)"
  shows "machines_by_name ms n = Some m \<longleftrightarrow> m \<in> set ms \<and> m_name (ma_meta m) = n"
proof -
  have "foldl (\<lambda>f x. f(m_name (ma_meta x) \<mapsto> x)) f ms n = Some m \<longleftrightarrow>
      (m \<in> set ms \<and> m_name (ma_meta m) = n) \<or> f n = Some m \<and> n \<notin> machine_names ms"
    if "distinct (map (\<lambda>m. m_name (ma_meta m)) ms)" for f ms
    using that by (induction ms arbitrary: f) (auto simp: machine_names_def)
  from this [OF assms] show ?thesis by (simp add: machines_by_name_def)
qed

lemma hosts_same:
  assumes "same_faces ms ms'"
  shows "map_option (ma_host \<circ> ma_spec) (machines_by_name ms n) = map_option (ma_host \<circ> ma_spec) (machines_by_name ms' n)"
proof -
  have d: "distinct (map (\<lambda>m. m_name (ma_meta m)) ms)" "distinct (map (\<lambda>m. m_name (ma_meta m)) ms')"
    using assms by (simp_all add: same_faces_def)
  show ?thesis
  proof (cases "machines_by_name ms n")
    case None
    then have "n \<notin> machine_names ms" using machines_by_name_dom [of ms] by auto
    then have "n \<notin> machine_names ms'" by (simp only: same_faces_names [OF assms] not_False_eq_True)
    then show ?thesis using None machines_by_name_dom [of ms'] by (metis domIff)
  next
    case (Some m)
    then have m: "m \<in> set ms" "m_name (ma_meta m) = n" by (simp_all add: machines_by_name_iff [OF d(1)])
    obtain m' where m': "m' \<in> set ms'" "face m' = face m" by (rule same_faces_twin [OF assms m(1)])
    then have "machines_by_name ms' n = Some m'" using m(2) by (simp add: machines_by_name_iff [OF d(2)] face_def)
    then show ?thesis using Some m'(2) by (simp add: face_def)
  qed
qed

lemma render_members_hosts:
  assumes "\<And>n. map_option (ma_host \<circ> ma_spec) (byName n) = map_option (ma_host \<circ> ma_spec) (byName' n)"
  shows "render_members cluster byName vals names files sts = render_members cluster byName' vals names files sts"
proof (induction names arbitrary: files sts)
  case (Cons n names)
  show ?case using assms [of n] Cons.IH by (cases "byName n"; cases "byName' n") (auto split: sum.splits)
qed simp

section \<open>Selecting again\<close>

lemma selectGroupMembers_again:
  assumes "sorted cands" "distinct cands" "selectGroupMembers cands prev cnt = (ms, few)"
  shows "selectGroupMembers cands ms cnt = (ms, few)"
proof (cases cnt)
  case (Some c)
  have ms: "ms = fst (selectGroupMembers cands prev (Some c))" using assms(3) Some by simp
  have len: "length ms = min (nat (sint c)) (length cands)"
    unfolding ms by (rule length_selectGroupMembers [OF assms(2)])
  have "selectGroupMembers cands ms (Some c) = (ms, length ms < nat (sint c))"
    using len selectGroupMembers_subset [of cands prev "Some c"] distinct_selectGroupMembers [OF assms(2), of prev "Some c"]
      sorted_selectGroupMembers [OF assms(1), of prev "Some c"]
    by (intro selectGroupMembers_full [OF assms(2)]) (simp_all add: ms)
  moreover have "few \<longleftrightarrow> length ms < nat (sint c)"
    using snd_selectGroupMembers [of cands prev c] assms(3) Some ms by (metis snd_conv)
  ultimately show ?thesis using Some by simp
qed (use assms(3) in \<open>simp add: selectGroupMembers_def\<close>)

text \<open>The loop appends one status per group and changes none.\<close>

lemma loop_statuses:
  assumes "group_loop L cluster machines byName prev gs st = LoopOk st'"
  shows "\<exists>sts. lp_statuses st' = lp_statuses st @ sts \<and> map gs_name sts = map ng_name gs"
  using assms
proof (induction gs arbitrary: st)
  case (Cons g gs)
  from Cons.prems obtain sel members few files sts where
    tl: "group_loop L cluster machines byName prev gs
       (next_state g (matchingMachines machines sel (lp_claimed st)) members few files sts st) = LoopOk st'"
    by (rule group_loop_step)
  from Cons.IH [OF tl] show ?case by (auto simp: next_state_def)
qed simp

lemma loop_again:
  assumes same: "same_faces machines machines'"
    and "group_loop L cluster machines (machines_by_name machines) prev gs st = LoopOk st'"
    and "\<forall>s \<in> set (lp_statuses st'). prev' (gs_name s) = group_names s"
  shows "group_loop L cluster machines' (machines_by_name machines') prev' gs st = LoopOk st'"
  using assms(2,3)
proof (induction gs arbitrary: st)
  case (Cons g gs)
  from Cons.prems(1) obtain sel where sel: "lib_selector L (ng_selector g) = Inr sel"
    by (auto split: sum.splits)
  let ?cands = "matchingMachines machines sel (lp_claimed st)"
  obtain ms few where ms: "selectGroupMembers ?cands (prev (ng_name g)) (ng_count g) = (ms, few)" by force
  obtain files sts where rd: "render_members cluster (machines_by_name machines) (ng_values g) ms (lp_files st) [] = MembersOk files sts"
      and tl: "group_loop L cluster machines (machines_by_name machines) prev gs (next_state g ?cands ms few files sts st) = LoopOk st'"
    using Cons.prems(1) sel ms by (auto simp: Let_def split: members_end.splits)
  have "\<exists>s \<in> set (lp_statuses st'). gs_name s = ng_name g \<and> gs_members s = sts"
    using loop_statuses [OF tl] by (auto simp: next_state_def)
  moreover have "map mb_name sts = ms" using render_members_Ok [OF rd] by simp
  ultimately have prev': "prev' (ng_name g) = ms" using Cons.prems(2) by (metis group_names_def)
  have "distinct ?cands" by (rule distinct_matchingMachines) (use same in \<open>simp add: same_faces_def\<close>)
  from selectGroupMembers_again [OF sorted_matchingMachines this ms]
  have again: "selectGroupMembers ?cands (prev' (ng_name g)) (ng_count g) = (ms, few)" by (simp only: prev')
  have rd': "render_members cluster (machines_by_name machines') (ng_values g) ms (lp_files st) [] = MembersOk files sts"
    using rd by (subst render_members_hosts [OF hosts_same [OF same_faces_sym [OF same]]])
  show ?case
    unfolding group_loop.simps sel sum.case Let_def matching_same [OF same, symmetric] again prod.case rd' members_end.case
    by (rule Cons.IH [OF tl Cons.prems(2)])
qed simp

section \<open>From one reconcile to the next\<close>

lemma previous_members_at:
  assumes "distinct (map gs_name groups)" "s \<in> set groups"
  shows "previous_members groups (gs_name s) = group_names s"
proof -
  have "foldl (\<lambda>f g. f(gs_name g := map mb_name (gs_members g))) f groups x =
      (if x \<in> gs_name ` set groups then group_names (the (find (\<lambda>g. gs_name g = x) groups)) else f x)"
    if "distinct (map gs_name groups)" for f x groups
    using that by (induction groups arbitrary: f) (auto simp: group_names_def)
  moreover have "find (\<lambda>g. gs_name g = gs_name s) groups = Some s"
    using assms by (induction groups) auto
  ultimately show ?thesis using assms by (auto simp: previous_members_def)
qed

lemma observe_members_names:
  "map gs_name (observe_members L cron have ps groups) = map gs_name groups"
  "map group_names (observe_members L cron have ps groups) = map group_names groups"
  by (simp_all add: observe_members_def group_names_def)

lemma observed_cluster_groups:
  "cls_groups (cl_status (observed_cluster L cluster cron have st ps)) = observe_members L cron have ps (lp_statuses st)"
  by (simp add: observed_cluster_def Let_def setConditions_fields)

section \<open>Properties\<close>

text \<open>C13. Membership settles: when the loop has succeeded and its result is the stored status, the next reconcile
  ends the loop in the very same state: the same members in every group, the same node files, the same
  totals. That holds for any list of the Machines in which names, labels and hosts are the same, in whatever
  order and whatever their status, and as long as the groups have distinct names.\<close>

theorem membership_settles:
  assumes "same_faces machines machines'" "distinct (map ng_name gs)"
    and "group_loop L cname machines (machines_by_name machines) prev gs loop_start = LoopOk st"
  shows "group_loop L cname machines' (machines_by_name machines')
     (previous_members (cls_groups (cl_status (observed_cluster L cluster cron have st ps)))) gs loop_start = LoopOk st"
proof (rule loop_again [OF assms(1,3)], rule ballI)
  fix s
  let ?groups = "observe_members L cron have ps (lp_statuses st)"
  assume "s \<in> set (lp_statuses st)"
  then obtain i where i: "i < length (lp_statuses st)" "s = lp_statuses st ! i" by (auto simp: in_set_conv_nth)
  have names: "gs_name (?groups ! i) = gs_name s" "group_names (?groups ! i) = group_names s"
    using i by (simp_all add: observe_members_def group_names_def)
  have "map gs_name ?groups = map ng_name gs"
    using loop_statuses [OF assms(3)] by (auto simp: observe_members_names loop_start_def)
  then have "distinct (map gs_name ?groups)" using assms(2) by simp
  moreover have "?groups ! i \<in> set ?groups" using i(1) by (simp add: observe_members_def)
  ultimately show "previous_members (cls_groups (cl_status (observed_cluster L cluster cron have st ps))) (gs_name s) =
      group_names s"
    unfolding observed_cluster_groups using previous_members_at names by metis
qed

lemma membership_settles_witness:
  "group_loop ref_lib ''c'' [worker ''m2'', worker ''m1''] (machines_by_name [worker ''m2'', worker ''m1''])
     (previous_members (cls_groups (cl_status (observed_cluster ref_lib sample_cluster zero_cron_job False
        (loop_result sample_loop) (\<lambda>_. MemberStatusNone)))))
     [worker_group ''a'' (Some 1), worker_group ''b'' None] loop_start = LoopOk (loop_result sample_loop)"
proof (rule membership_settles)
  show "same_faces [worker ''m1'', worker ''m2''] [worker ''m2'', worker ''m1'']"
    by (auto simp: same_faces_def worker_def)
  show "distinct (map ng_name [worker_group ''a'' (Some 1), worker_group ''b'' None])"
    by (simp add: worker_group_def)
  show "group_loop ref_lib ''c'' [worker ''m1'', worker ''m2''] (machines_by_name [worker ''m1'', worker ''m2''])
     (\<lambda>_. []) [worker_group ''a'' (Some 1), worker_group ''b'' None] loop_start = LoopOk (loop_result sample_loop)"
    using sample_loop_Ok by (simp only: sample_loop_def)
qed

section \<open>Where the code falls short\<close>

text \<open>The API documentation asks for distinct group names, but nothing checks it. Two groups of one name share
  one entry of previous members, the last one's, and swap their members at every reconcile.\<close>

definition twin_groups :: "node_group list" where
  "twin_groups = [worker_group ''a'' (Some 1), worker_group ''a'' (Some 1)]"

definition next_twins :: "node_group_status list \<Rightarrow> node_group_status list" where
  "next_twins groups = lp_statuses (loop_result (group_loop ref_lib ''c'' [worker ''m1'', worker ''m2'']
     (machines_by_name [worker ''m1'', worker ''m2'']) (previous_members groups) twin_groups loop_start))"

lemma groups_of_one_name_swap:
  "map group_names (next_twins []) = [[''m1''], [''m2'']]"
  "map group_names (next_twins (next_twins [])) = [[''m2''], [''m1'']]"
  "map group_names (next_twins (next_twins (next_twins []))) = [[''m1''], [''m2'']]"
  by code_simp+

end
