(* ===== verification/Metrics.thy ===== *)
theory Metrics
  imports Complex_Main K8s_Api
begin

text \<open>
  The Prometheus metrics (\<open>internal/metrics/metrics.go\<close>): the metrics with their labels and
  buckets, their registration, and the functions that record into them. A call names the metric and
  gives the label values; Prometheus panics when the number of values is not that of the labels, and
  \<open>MustRegister\<close> when a name is taken. Bucket bounds are exact rationals.
\<close>

section \<open>The metrics\<close>

named_theorems metric_defs \<open>the metrics of the registry\<close>

datatype metric_kind = Gauge | Counter | Histogram "rat list"

record metric =
  mt_name :: string
  mt_kind :: metric_kind
  mt_labels :: "string list"

definition new_metric :: "string \<Rightarrow> metric_kind \<Rightarrow> string list \<Rightarrow> metric" where
  [metric_defs]: "new_metric name kind labels = \<lparr>mt_name = ''nio_'' @ name, mt_kind = kind, mt_labels = labels\<rparr>"

text \<open>\<open>count\<close> buckets, the first up to \<open>start\<close>, each next one \<open>factor\<close> times wider.\<close>

definition ExponentialBuckets :: "rat \<Rightarrow> rat \<Rightarrow> nat \<Rightarrow> rat list" where
  "ExponentialBuckets start factor count = map (\<lambda>i. start * factor ^ i) [0..<count]"

definition MachinesTotal :: metric where
  [metric_defs]: "MachinesTotal = new_metric ''machines_total'' Gauge []"
definition MachinesDiscoverable :: metric where
  [metric_defs]: "MachinesDiscoverable = new_metric ''machines_discoverable'' Gauge []"
definition MachinesWithConfiguration :: metric where
  [metric_defs]: "MachinesWithConfiguration = new_metric ''machines_with_configuration'' Gauge []"
definition ConfigurationsTotal :: metric where
  [metric_defs]: "ConfigurationsTotal = new_metric ''configurations_total'' Gauge []"
definition JobsActive :: metric where
  [metric_defs]: "JobsActive = new_metric ''jobs_active'' Gauge []"
definition MachinesByState :: metric where
  [metric_defs]: "MachinesByState = new_metric ''machines_by_state'' Gauge [''state'']"
definition ConfigsByState :: metric where
  [metric_defs]: "ConfigsByState = new_metric ''configs_by_state'' Gauge [''state'']"
definition ConfigurationsAppliedTotal :: metric where
  [metric_defs]: "ConfigurationsAppliedTotal = new_metric ''configurations_applied_total'' Counter []"
definition ConfigurationsFailedTotal :: metric where
  [metric_defs]: "ConfigurationsFailedTotal = new_metric ''configurations_failed_total'' Counter []"
definition SSHConnectionsTotal :: metric where
  [metric_defs]: "SSHConnectionsTotal = new_metric ''ssh_connections_total'' Counter [''result'']"
definition GitClonesTotal :: metric where
  [metric_defs]: "GitClonesTotal = new_metric ''git_clones_total'' Counter [''result'']"
definition NixosBuildsTotal :: metric where
  [metric_defs]: "NixosBuildsTotal = new_metric ''nixos_builds_total'' Counter [''operation'', ''result'']"
definition RetriesTotal :: metric where
  [metric_defs]: "RetriesTotal = new_metric ''retries_total'' Counter [''resource_type'']"
definition ErrorsTotal :: metric where
  [metric_defs]: "ErrorsTotal = new_metric ''errors_total'' Counter [''error_type'']"
definition JobsFailedTotal :: metric where
  [metric_defs]: "JobsFailedTotal = new_metric ''jobs_failed_total'' Counter []"
definition SecretWatchTriggersTotal :: metric where
  [metric_defs]: "SecretWatchTriggersTotal = new_metric ''secret_watch_triggers_total'' Counter []"
definition ReconcileDuration :: metric where
  [metric_defs]: "ReconcileDuration = new_metric ''reconcile_duration_seconds'' (Histogram (ExponentialBuckets (1 / 100) 2 10)) [''controller'', ''result'']"
definition SSHConnectionDuration :: metric where
  [metric_defs]: "SSHConnectionDuration = new_metric ''ssh_connection_duration_seconds'' (Histogram (ExponentialBuckets (1 / 10) 2 8)) []"
definition GitCloneDuration :: metric where
  [metric_defs]: "GitCloneDuration = new_metric ''git_clone_duration_seconds'' (Histogram (ExponentialBuckets 1 2 8)) []"
definition NixosBuildDuration :: metric where
  [metric_defs]: "NixosBuildDuration = new_metric ''nixos_build_duration_seconds'' (Histogram (ExponentialBuckets 10 2 10)) [''operation'']"
definition JobDuration :: metric where
  [metric_defs]: "JobDuration = new_metric ''job_duration_seconds'' (Histogram (ExponentialBuckets 10 2 10)) [''operation'', ''result'']"

section \<open>Registration\<close>

text \<open>\<open>MustRegister\<close>: the name that is registered twice, or the registry.\<close>

fun must_register :: "metric list \<Rightarrow> metric list \<Rightarrow> string + metric list" where
  "must_register registry [] = Inr registry"
| "must_register registry (m # ms) =
     (if mt_name m \<in> mt_name ` set registry then Inl (mt_name m) else must_register (registry @ [m]) ms)"

definition all_metrics :: "metric list" where
  [metric_defs]: "all_metrics =
     [MachinesTotal, MachinesDiscoverable, MachinesWithConfiguration, ConfigurationsTotal,
      JobsActive, MachinesByState, ConfigsByState, ConfigurationsAppliedTotal,
      ConfigurationsFailedTotal, SSHConnectionsTotal, GitClonesTotal, NixosBuildsTotal,
      RetriesTotal, ErrorsTotal, JobsFailedTotal, SecretWatchTriggersTotal,
      ReconcileDuration, SSHConnectionDuration, GitCloneDuration, NixosBuildDuration,
      JobDuration]"

definition init_metrics :: "metric list \<Rightarrow> string + metric list" where
  "init_metrics registry = must_register registry all_metrics"

section \<open>Recording\<close>

definition result_label :: "bool \<Rightarrow> string" where
  "result_label success = (if success then ''success'' else ''failure'')"

definition RecordSSHConnection :: "bool \<Rightarrow> int \<Rightarrow> ('w, unit) prog" where
  "RecordSSHConnection success duration = do {
     metric_inc (mt_name SSHConnectionsTotal) [result_label success];
     metric_observe (mt_name SSHConnectionDuration) [] duration
   }"

definition RecordGitClone :: "bool \<Rightarrow> int \<Rightarrow> ('w, unit) prog" where
  "RecordGitClone success duration = do {
     metric_inc (mt_name GitClonesTotal) [result_label success];
     metric_observe (mt_name GitCloneDuration) [] duration
   }"

definition RecordNixosBuild :: "string \<Rightarrow> bool \<Rightarrow> int \<Rightarrow> ('w, unit) prog" where
  "RecordNixosBuild operation success duration = do {
     metric_inc (mt_name NixosBuildsTotal) [operation, result_label success];
     metric_observe (mt_name NixosBuildDuration) [operation] duration
   }"

definition RecordJobCompletion :: "string \<Rightarrow> bool \<Rightarrow> int \<Rightarrow> ('w, unit) prog" where
  "RecordJobCompletion operation success duration = do {
     (if success then State_Monad.return () else metric_inc (mt_name JobsFailedTotal) []);
     metric_observe (mt_name JobDuration) [operation, result_label success] duration;
     (if success then metric_inc (mt_name ConfigurationsAppliedTotal) []
      else metric_inc (mt_name ConfigurationsFailedTotal) [])
   }"

definition RecordError :: "string \<Rightarrow> ('w, unit) prog" where
  "RecordError errorType = metric_inc (mt_name ErrorsTotal) [errorType]"

definition UpdateMachineState :: "int \<Rightarrow> int \<Rightarrow> int \<Rightarrow> ('w, unit) prog" where
  "UpdateMachineState n discoverable configured = do {
     metric_set (mt_name MachinesTotal) [] n;
     metric_set (mt_name MachinesDiscoverable) [] discoverable;
     metric_set (mt_name MachinesWithConfiguration) [] configured;
     metric_set (mt_name MachinesByState) [''discoverable''] discoverable;
     metric_set (mt_name MachinesByState) [''undiscoverable''] (n - discoverable)
   }"

definition UpdateConfigState :: "int \<Rightarrow> int \<Rightarrow> int \<Rightarrow> int \<Rightarrow> int \<Rightarrow> ('w, unit) prog" where
  "UpdateConfigState n pending applying applied failed = do {
     metric_set (mt_name ConfigurationsTotal) [] n;
     metric_set (mt_name ConfigsByState) [''pending''] pending;
     metric_set (mt_name ConfigsByState) [''applying''] applying;
     metric_set (mt_name ConfigsByState) [''applied''] applied;
     metric_set (mt_name ConfigsByState) [''failed''] failed
   }"

section \<open>Calls that fit\<close>

text \<open>A call fits a registry when it names a metric of it, of its kind, with a value for every label.\<close>

definition is_histogram :: "metric_kind \<Rightarrow> bool" where
  "is_histogram k \<longleftrightarrow> (case k of Histogram _ \<Rightarrow> True | _ \<Rightarrow> False)"

definition fits :: "metric list \<Rightarrow> (metric_kind \<Rightarrow> bool) \<Rightarrow> string \<Rightarrow> string list \<Rightarrow> bool" where
  "fits registry P name ls \<longleftrightarrow> list_ex (\<lambda>m. mt_name m = name \<and> P (mt_kind m) \<and> length (mt_labels m) = length ls) registry"

fun metric_call_ok :: "metric list \<Rightarrow> event \<Rightarrow> bool" where
  "metric_call_ok registry (EvHost (MetricAdded name ls)) = fits registry (\<lambda>k. k = Counter) name ls"
| "metric_call_ok registry (EvHost (MetricObserved name ls v)) = fits registry is_histogram name ls"
| "metric_call_ok registry (EvHost (MetricSet name ls v)) = fits registry (\<lambda>k. k = Gauge) name ls"
| "metric_call_ok registry _ = True"

text \<open>How often a metric was incremented with these label values.\<close>

definition increments :: "metric \<Rightarrow> string list \<Rightarrow> event list \<Rightarrow> nat" where
  "increments m ls es = length (filter (\<lambda>ev. case ev of EvHost (MetricAdded name ls') \<Rightarrow> name = mt_name m \<and> ls' = ls | _ \<Rightarrow> False) es)"

lemma registry_names: "distinct (map mt_name all_metrics)"
  by (simp add: metric_defs)

lemma must_register_iff:
  "distinct (map mt_name ms) \<Longrightarrow>
     (\<exists>r. must_register registry ms = Inr r) \<longleftrightarrow> mt_name ` set registry \<inter> mt_name ` set ms = {}"
proof (induction ms arbitrary: registry)
  case (Cons m ms)
  show ?case
  proof (cases "mt_name m \<in> mt_name ` set registry")
    case False
    have "(\<exists>r. must_register (registry @ [m]) ms = Inr r) \<longleftrightarrow> mt_name ` set (registry @ [m]) \<inter> mt_name ` set ms = {}"
      by (rule Cons.IH) (use Cons.prems in simp)
    then show ?thesis using False Cons.prems by (auto simp: image_iff)
  qed auto
qed simp

lemma must_register_taken: "must_register registry ms = Inr r \<Longrightarrow> r = registry @ ms"
  by (induction ms arbitrary: registry) (fastforce split: if_splits)+

lemma fits_registered:
  "init_metrics before = Inr registry \<Longrightarrow> fits all_metrics P name ls \<Longrightarrow> fits registry P name ls"
  unfolding init_metrics_def fits_def list_ex_iff by (drule must_register_taken) auto

lemma metric_fits:
  "fits all_metrics (\<lambda>k. k = Counter) (mt_name SSHConnectionsTotal) [a]"
  "fits all_metrics (\<lambda>k. k = Counter) (mt_name GitClonesTotal) [a]"
  "fits all_metrics (\<lambda>k. k = Counter) (mt_name NixosBuildsTotal) [a, b]"
  "fits all_metrics (\<lambda>k. k = Counter) (mt_name ErrorsTotal) [a]"
  "fits all_metrics (\<lambda>k. k = Counter) (mt_name JobsFailedTotal) []"
  "fits all_metrics (\<lambda>k. k = Counter) (mt_name ConfigurationsAppliedTotal) []"
  "fits all_metrics (\<lambda>k. k = Counter) (mt_name ConfigurationsFailedTotal) []"
  "fits all_metrics is_histogram (mt_name SSHConnectionDuration) []"
  "fits all_metrics is_histogram (mt_name GitCloneDuration) []"
  "fits all_metrics is_histogram (mt_name NixosBuildDuration) [a]"
  "fits all_metrics is_histogram (mt_name JobDuration) [a, b]"
  "fits all_metrics (\<lambda>k. k = Gauge) (mt_name MachinesTotal) []"
  "fits all_metrics (\<lambda>k. k = Gauge) (mt_name MachinesDiscoverable) []"
  "fits all_metrics (\<lambda>k. k = Gauge) (mt_name MachinesWithConfiguration) []"
  "fits all_metrics (\<lambda>k. k = Gauge) (mt_name MachinesByState) [a]"
  "fits all_metrics (\<lambda>k. k = Gauge) (mt_name ConfigurationsTotal) []"
  "fits all_metrics (\<lambda>k. k = Gauge) (mt_name ConfigsByState) [a]"
  by (simp_all add: fits_def is_histogram_def metric_defs)

lemmas record_defs = RecordSSHConnection_def RecordGitClone_def RecordNixosBuild_def RecordJobCompletion_def
  RecordError_def UpdateMachineState_def UpdateConfigState_def

text \<open>The metrics a job completion touches are different ones.\<close>

lemma completion_names:
  "mt_name ConfigurationsAppliedTotal \<noteq> mt_name ConfigurationsFailedTotal"
  "mt_name JobsFailedTotal \<noteq> mt_name ConfigurationsFailedTotal"
  "mt_name JobsFailedTotal \<noteq> mt_name ConfigurationsAppliedTotal"
  by (simp_all add: metric_defs)

section \<open>Properties\<close>

text \<open>Recording cannot panic: the registration succeeds exactly when none of the names is taken, and after
  it every call of every recording function names a registered metric of the right kind with a value
  for each of its labels; a job completion counts as exactly one of applied and failed.\<close>

theorem metric_calls_fit:
  "((\<exists>registry. init_metrics before = Inr registry) \<longleftrightarrow> mt_name ` set before \<inter> mt_name ` set all_metrics = {}) \<and>
   (\<forall>registry. init_metrics before = Inr registry \<longrightarrow>
     runs (RecordSSHConnection ok d) (\<lambda>_. list_all (metric_call_ok registry)) \<and>
     runs (RecordGitClone ok d) (\<lambda>_. list_all (metric_call_ok registry)) \<and>
     runs (RecordNixosBuild op ok d) (\<lambda>_. list_all (metric_call_ok registry)) \<and>
     runs (RecordJobCompletion op ok d) (\<lambda>_. list_all (metric_call_ok registry)) \<and>
     runs (RecordError op) (\<lambda>_. list_all (metric_call_ok registry)) \<and>
     runs (UpdateMachineState n1 n2 n3) (\<lambda>_. list_all (metric_call_ok registry)) \<and>
     runs (UpdateConfigState n1 n2 n3 n4 n5) (\<lambda>_. list_all (metric_call_ok registry))) \<and>
   runs (RecordJobCompletion op ok d) (\<lambda>_ es. increments ConfigurationsAppliedTotal [] es = of_bool ok \<and>
     increments ConfigurationsFailedTotal [] es = of_bool (\<not> ok) \<and> increments JobsFailedTotal [] es = of_bool (\<not> ok))"
proof (intro conjI allI impI)
  show "(\<exists>registry. init_metrics before = Inr registry) \<longleftrightarrow> mt_name ` set before \<inter> mt_name ` set all_metrics = {}"
    unfolding init_metrics_def by (rule must_register_iff [OF registry_names])
  show "runs (RecordJobCompletion op ok d) (\<lambda>_ es. increments ConfigurationsAppliedTotal [] es = of_bool ok \<and>
     increments ConfigurationsFailedTotal [] es = of_bool (\<not> ok) \<and> increments JobsFailedTotal [] es = of_bool (\<not> ok))"
    using completion_names unfolding RecordJobCompletion_def by (intro runs_intros) (auto simp: increments_def)
qed (auto simp: record_defs intro!: runs_intros fits_registered metric_fits)

lemma metric_calls_fit_witness:
  "\<exists>registry. init_metrics [] = Inr registry \<and>
     runs (RecordSSHConnection True 3 :: (unit, unit) prog) (\<lambda>_. list_all (metric_call_ok registry))"
proof -
  obtain registry where registry: "init_metrics [] = Inr registry"
    using metric_calls_fit [of "[]", THEN conjunct1] by auto
  with metric_calls_fit [THEN conjunct2, THEN conjunct1, rule_format, OF registry, THEN conjunct1]
  show ?thesis by blast
qed

section \<open>Where the comments differ\<close>

text \<open>The widest finite buckets: 5.12 s, 12.8 s, 128 s and 5120 s, where the comments of the source say about
  10 s, 25 s, 256 s and 2.8 hours. A check of an unreachable machine, which takes up to 30 s, is above
  every finite bucket.\<close>

lemma widest_buckets:
  "last (ExponentialBuckets (1 / 100) 2 10) = 512 / 100" "last (ExponentialBuckets (1 / 10) 2 8) = 128 / 10"
  "last (ExponentialBuckets 1 2 8) = 128" "last (ExponentialBuckets 10 2 10) = 5120"
  by (simp_all add: ExponentialBuckets_def upt_rec)

end
