(* ===== verification/Machine_Controller.thy ===== *)
theory Machine_Controller
  imports Metrics
begin

text \<open>
  The Machine controller (\<open>machine_controller.go\<close>): credentials from Secrets, the SSH check, the
  architecture scan, the conditions and the finalizer. The SSH client is the interface \<open>ssh.Client\<close>, here the
  host operations \<open>h_ssh_check\<close> and \<open>h_ssh_run\<close>. Times and durations are in seconds.
\<close>

section \<open>Constants\<close>

definition DefaultSSHPort :: nat where "DefaultSSHPort = 22"
definition DefaultSSHTimeout :: int where "DefaultSSHTimeout = 30"
definition DiscoveryInterval :: int where "DiscoveryInterval = 60"
definition HardwareScanInterval :: int where "HardwareScanInterval = 12 * 3600"

definition IndexMachineBySSHKeySecret :: string where
  "IndexMachineBySSHKeySecret = ''spec.sshKeySecretRef.name''"

definition IndexMachineBySSHPasswordSecret :: string where
  "IndexMachineBySSHPasswordSecret = ''spec.sshPasswordSecretRef.name''"

section \<open>Credentials\<close>

text \<open>The first part: a Secret is read only when it is referenced.\<close>

definition ssh_private_key :: "'w env \<Rightarrow> machine \<Rightarrow> ('w, err + string) prog" where
  "ssh_private_key E machine =
     (case ma_key_ref (ma_spec machine) of
        None \<Rightarrow> State_Monad.return (Inr [])
      | Some name \<Rightarrow> do {
          g \<leftarrow> api_get (e_secrets E) EvSecret \<lparr>k_ns = m_ns (ma_meta machine), k_name = name\<rparr>;
          State_Monad.return (case g of
             Inl e \<Rightarrow>
               if IsNotFound e then Inl (mk_err (''SSH key secret '' @ go_quote name @ '' not found''))
               else Inl (wrap_err ''get SSH key secret: '' e)
           | Inr sec \<Rightarrow>
               (case sec_data sec ''ssh-privatekey'' of
                  None \<Rightarrow> Inl (mk_err (''secret '' @ go_quote name @ '' does not contain '' @ [CHR 0x27] @ ''ssh-privatekey'' @ [CHR 0x27]))
                | Some k \<Rightarrow> Inr k))
        })"

definition ssh_password :: "'w env \<Rightarrow> machine \<Rightarrow> ('w, err + string) prog" where
  "ssh_password E machine =
     (case ma_password_ref (ma_spec machine) of
        None \<Rightarrow> State_Monad.return (Inr [])
      | Some ref \<Rightarrow> do {
          g \<leftarrow> api_get (e_secrets E) EvSecret \<lparr>k_ns = m_ns (ma_meta machine), k_name = kr_name ref\<rparr>;
          State_Monad.return (case g of
             Inl e \<Rightarrow>
               if IsNotFound e then Inl (mk_err (''SSH password secret '' @ go_quote (kr_name ref) @ '' not found''))
               else Inl (wrap_err ''get SSH password secret: '' e)
           | Inr sec \<Rightarrow>
               (let key = (if kr_key ref = [] then ''password'' else kr_key ref) in
                case sec_data sec key of
                  None \<Rightarrow> Inl (mk_err (''secret '' @ go_quote (kr_name ref) @ '' does not contain key '' @ go_quote key))
                | Some pw \<Rightarrow> Inr pw))
        })"

definition ssh_config_of :: "machine \<Rightarrow> string \<Rightarrow> string \<Rightarrow> err + ssh_config" where
  "ssh_config_of machine privateKey password =
     (if privateKey = [] \<and> password = []
      then Inl (mk_err ''no SSH authentication method configured (neither key nor password)'')
      else Inr \<lparr>sc_user = (if ma_ssh_user (ma_spec machine) = [] then ''root'' else ma_ssh_user (ma_spec machine)),
        sc_key = privateKey, sc_password = password, sc_timeout = DefaultSSHTimeout\<rparr>)"

definition machine_ssh_config :: "'w env \<Rightarrow> machine \<Rightarrow> ('w, err + ssh_config) prog" where
  "machine_ssh_config E machine = do {
     k \<leftarrow> ssh_private_key E machine;
     (case k of
        Inl e \<Rightarrow> State_Monad.return (Inl e)
      | Inr privateKey \<Rightarrow> do {
          p \<leftarrow> ssh_password E machine;
          State_Monad.return (case p of
             Inl e \<Rightarrow> Inl e
           | Inr password \<Rightarrow> ssh_config_of machine privateKey password)
        })
   }"

section \<open>Discovery\<close>

definition machine_cond :: "lib \<Rightarrow> cond_type \<Rightarrow> cond_status \<Rightarrow> reason \<Rightarrow> string \<Rightarrow> machine \<Rightarrow> machine" where
  "machine_cond L ty st rsn msg m =
     m\<lparr>ma_status := (ma_status m)\<lparr>mst_conditions := lib_set_cond L (mst_conditions (ma_status m))
         \<lparr>c_type = ty, c_status = st, c_gen = m_gen (ma_meta m), c_reason = rsn, c_message = msg\<rparr>\<rparr>\<rparr>"

text \<open>\<open>(bool, error)\<close>, and the machine with the condition set on missing credentials.\<close>

definition checkDiscoverable :: "'w env \<Rightarrow> machine \<Rightarrow> ('w, machine \<times> bool \<times> err option) prog" where
  "checkDiscoverable E machine = do {
     c \<leftarrow> machine_ssh_config E machine;
     (case c of
        Inl e \<Rightarrow> do {
          record_event EventTypeWarning ''CredentialsMissing'' (e_msg e);
          RecordError ''ssh'';
          State_Monad.return (machine_cond (e_lib E) ConditionDiscoverable ConditionFalse ReasonCredentialsMissing (e_msg e) machine,
            False, Some e)
        }
      | Inr cfg \<Rightarrow> do {
          startTime \<leftarrow> host_now E;
          r \<leftarrow> host_ssh_check E (ma_host (ma_spec machine)) DefaultSSHPort cfg;
          now \<leftarrow> host_now E;
          (case r of
             Some e \<Rightarrow> do {
               RecordSSHConnection False (now - startTime);
               State_Monad.return (machine, False, Some e)
             }
           | None \<Rightarrow> do {
               RecordSSHConnection True (now - startTime);
               State_Monad.return (machine, True, None)
             })
        })
   }"

text \<open>\<open>archPattern\<close>, and the last plausible line of the answer.\<close>

definition archPattern :: "string \<Rightarrow> bool" where
  "archPattern s \<longleftrightarrow> s \<noteq> [] \<and> list_all (\<lambda>c.
     CHR ''A'' \<le> c \<and> c \<le> CHR ''Z'' \<or> CHR ''a'' \<le> c \<and> c \<le> CHR ''z'' \<or> CHR ''0'' \<le> c \<and> c \<le> CHR ''9'' \<or> c = CHR ''_'') s"

definition scanned_arch :: "string \<Rightarrow> string" where
  "scanned_arch out =
     foldl (\<lambda>arch line. if archPattern (trim_space line) then trim_space line else arch) [] (split_on (CHR 0x0A) out)"

definition no_facts :: hardware_facts where
  "no_facts = \<lparr>hf_os = None, hf_kernel = None, hf_cpu = None, hf_memory_mb = None, hf_architecture = [],
     hf_hostname = [], hf_virt = None, hf_disks = Map.empty, hf_interfaces = Map.empty\<rparr>"

definition set_arch :: "string \<Rightarrow> int \<Rightarrow> machine \<Rightarrow> machine" where
  "set_arch arch now m =
     m\<lparr>ma_status := (ma_status m)\<lparr>
         mst_facts := Some ((case mst_facts (ma_status m) of None \<Rightarrow> no_facts | Some f \<Rightarrow> f)\<lparr>hf_architecture := arch\<rparr>),
         mst_last_scan := Some now\<rparr>\<rparr>"

definition known_arch :: "machine \<Rightarrow> string \<Rightarrow> bool" where
  "known_arch m arch \<longleftrightarrow> (case mst_facts (ma_status m) of None \<Rightarrow> False | Some f \<Rightarrow> hf_architecture f = arch)"

text \<open>The scan itself, from the second \<open>buildSSHConfig\<close> on.\<close>

definition scan_uname :: "'w env \<Rightarrow> machine \<Rightarrow> ('w, machine) prog" where
  "scan_uname E machine = do {
     c \<leftarrow> machine_ssh_config E machine;
     (case c of
        Inl _ \<Rightarrow> State_Monad.return machine
      | Inr cfg \<Rightarrow> do {
          r \<leftarrow> host_ssh_run E (ma_host (ma_spec machine)) DefaultSSHPort cfg ''uname -m'';
          (case r of
             Inl _ \<Rightarrow> State_Monad.return machine
           | Inr out \<Rightarrow>
               (let arch = scanned_arch out in
                if arch = [] \<or> known_arch machine arch then State_Monad.return machine
                else do {
                  now \<leftarrow> host_now E;
                  State_Monad.return (set_arch arch now machine)
                }))
        })
   }"

definition scanArchitecture :: "'w env \<Rightarrow> machine \<Rightarrow> ('w, machine) prog" where
  "scanArchitecture E machine =
     (case mst_last_scan (ma_status machine) of
        None \<Rightarrow> scan_uname E machine
      | Some scanned \<Rightarrow> do {
          now \<leftarrow> host_now E;
          (if now - scanned < HardwareScanInterval then State_Monad.return machine else scan_uname E machine)
        })"

section \<open>Reconcile\<close>

text \<open>The Discoverable condition of an unreachable machine, unless missing credentials are on record.\<close>

definition unreachable_cond :: "lib \<Rightarrow> err option \<Rightarrow> machine \<Rightarrow> machine" where
  "unreachable_cond L err machine =
     (case lib_find_cond L (mst_conditions (ma_status machine)) ConditionDiscoverable of
        Some c \<Rightarrow>
          if c_reason c = ReasonCredentialsMissing then machine
          else machine_cond L ConditionDiscoverable ConditionFalse ReasonSSHFailed
                 (case err of None \<Rightarrow> ''SSH connection failed'' | Some e \<Rightarrow> e_msg e) machine
      | None \<Rightarrow> machine_cond L ConditionDiscoverable ConditionFalse ReasonSSHFailed
                 (case err of None \<Rightarrow> ''SSH connection failed'' | Some e \<Rightarrow> e_msg e) machine)"

definition machine_discover :: "'w env \<Rightarrow> machine \<Rightarrow> ('w, machine \<times> reconcile_end) prog" where
  "machine_discover E machine0 = do {
     d \<leftarrow> checkDiscoverable E machine0;
     (case d of (machine1, discoverable, err) \<Rightarrow>
        (let machine = machine1\<lparr>ma_status := (ma_status machine1)\<lparr>mst_discoverable := discoverable\<rparr>\<rparr> in
         if discoverable then do {
           record_event EventTypeNormal ''Discoverable'' ''Machine is reachable via SSH'';
           m \<leftarrow> scanArchitecture E (machine_cond (e_lib E) ConditionDiscoverable ConditionTrue ReasonSSHConnected
                  ''SSH connection successful'' machine);
           State_Monad.return (m, after_res DiscoveryInterval, None)
         }
         else State_Monad.return (unreachable_cond (e_lib E) err machine, after_res DiscoveryInterval, None)))
   }"

definition final_conditions :: "lib \<Rightarrow> err option \<Rightarrow> machine \<Rightarrow> machine" where
  "final_conditions L reconcileErr machine =
     (case reconcileErr of
        Some e \<Rightarrow>
          machine_cond L ConditionReady ConditionFalse ReasonFailed (e_msg e)
            (machine_cond L ConditionStalled ConditionTrue ReasonFailed (e_msg e) machine)
      | None \<Rightarrow>
          (let m1 = machine_cond L ConditionReconciling ConditionFalse ReasonSucceeded ''Reconciliation completed'' machine;
               m2 = m1\<lparr>ma_status := (ma_status m1)\<lparr>mst_conditions :=
                      lib_remove_cond L (mst_conditions (ma_status m1)) ConditionStalled\<rparr>\<rparr>
           in if mst_discoverable (ma_status m2)
              then machine_cond L ConditionReady ConditionTrue ReasonSSHConnected ''Machine is ready and reachable via SSH'' m2
              else machine_cond L ConditionReady ConditionFalse ReasonSSHFailed ''Machine is not reachable via SSH'' m2))"

definition machine_finalizer :: "'w env \<Rightarrow> machine \<Rightarrow> ('w, err + machine) prog" where
  "machine_finalizer E machine =
     (if lib_contains_finalizer (e_lib E) (m_finalizers (ma_meta machine)) FinalizerName
      then State_Monad.return (Inr machine)
      else api_update (e_machines E) EvMachine (machine\<lparr>ma_meta := (ma_meta machine)\<lparr>m_finalizers :=
             lib_add_finalizer (e_lib E) (m_finalizers (ma_meta machine)) FinalizerName\<rparr>\<rparr>))"

definition reconcileDelete :: "'w env \<Rightarrow> machine \<Rightarrow> ('w, reconcile_end) prog" where
  "reconcileDelete E machine =
     (if lib_contains_finalizer (e_lib E) (m_finalizers (ma_meta machine)) FinalizerName then do {
        r \<leftarrow> api_update (e_machines E) EvMachine (machine\<lparr>ma_meta := (ma_meta machine)\<lparr>m_finalizers :=
               lib_remove_finalizer (e_lib E) (m_finalizers (ma_meta machine)) FinalizerName\<rparr>\<rparr>);
        State_Monad.return (case r of Inl e \<Rightarrow> (done_res, Some e) | Inr _ \<Rightarrow> (done_res, None))
      }
      else State_Monad.return (done_res, None))"

text \<open>Discovery, the final conditions and the final status update.\<close>

definition machine_settle :: "'w env \<Rightarrow> machine \<Rightarrow> ('w, reconcile_end) prog" where
  "machine_settle E machine1 = do {
     d \<leftarrow> machine_discover E machine1;
     (case d of (machine2, result, reconcileErr) \<Rightarrow> do {
        u \<leftarrow> api_status_update (e_machines E) EvMachine (final_conditions (e_lib E) reconcileErr machine2);
        State_Monad.return (case u of Inl e \<Rightarrow> (done_res, Some e) | Inr _ \<Rightarrow> (result, reconcileErr))
      })
   }"

definition machine_live :: "'w env \<Rightarrow> machine \<Rightarrow> ('w, reconcile_end) prog" where
  "machine_live E machine0 = do {
     f \<leftarrow> machine_finalizer E machine0;
     (case f of
        Inl e \<Rightarrow> State_Monad.return (done_res, Some e)
      | Inr machine1 \<Rightarrow> machine_settle E machine1)
   }"

definition MachineReconcile :: "'w env \<Rightarrow> key \<Rightarrow> ('w, reconcile_end) prog" where
  "MachineReconcile E k = do {
     g \<leftarrow> api_get (e_machines E) EvMachine k;
     (case g of
        Inl e \<Rightarrow> State_Monad.return (done_res, ignore_not_found (Some e))
      | Inr machine0 \<Rightarrow> do {
          u \<leftarrow> api_status_update (e_machines E) EvMachine
                 (machine_cond (e_lib E) ConditionReconciling ConditionTrue ReasonProgressing ''Reconciliation in progress''
                   (machine0\<lparr>ma_status := (ma_status machine0)\<lparr>mst_observed_gen := m_gen (ma_meta machine0)\<rparr>\<rparr>));
          (case u of
             Inl e \<Rightarrow> State_Monad.return (done_res, Some e)
           | Inr machine \<Rightarrow>
               if m_deletion (ma_meta machine) \<noteq> None then reconcileDelete E machine
               else machine_live E machine)
        })
   }"

section \<open>Watches\<close>

text \<open>The index functions of \<open>SetupWithManager\<close>.\<close>

definition machine_index :: "string \<Rightarrow> machine \<Rightarrow> string list" where
  "machine_index field m =
     (if field = IndexMachineBySSHKeySecret
      then (case ma_key_ref (ma_spec m) of None \<Rightarrow> [] | Some n \<Rightarrow> [n])
      else if field = IndexMachineBySSHPasswordSecret
      then (case ma_password_ref (ma_spec m) of None \<Rightarrow> [] | Some r \<Rightarrow> [kr_name r])
      else [])"

definition add_request :: "key list \<Rightarrow> machine \<Rightarrow> key list" where
  "add_request requests m = (if key_of (ma_meta m) \<in> set requests then requests else requests @ [key_of (ma_meta m)])"

definition findMachinesForSecret :: "'w env \<Rightarrow> secret \<Rightarrow> ('w, key list) prog" where
  "findMachinesForSecret E sec = do {
     r \<leftarrow> api_list (e_machines E) EvMachine \<lparr>lo_ns = m_ns (sec_meta sec), lo_labels = [],
            lo_fields = [(IndexMachineBySSHKeySecret, m_name (sec_meta sec))]\<rparr>;
     (case r of
        Inl _ \<Rightarrow> State_Monad.return []
      | Inr byKey \<Rightarrow> do {
          r2 \<leftarrow> api_list (e_machines E) EvMachine \<lparr>lo_ns = m_ns (sec_meta sec), lo_labels = [],
                 lo_fields = [(IndexMachineBySSHPasswordSecret, m_name (sec_meta sec))]\<rparr>;
          State_Monad.return (case r2 of
             Inl _ \<Rightarrow> map (\<lambda>m. key_of (ma_meta m)) byKey
           | Inr byPassword \<Rightarrow> foldl add_request (map (\<lambda>m. key_of (ma_meta m)) byKey) byPassword)
        })
   }"

section \<open>What a reconcile saw\<close>

fun connects :: "event \<Rightarrow> bool" where
  "connects (EvHost (SshChecked h None)) = True"
| "connects _ = False"

fun machine_event :: "event \<Rightarrow> bool" where
  "machine_event (EvMachine _) = True"
| "machine_event _ = False"

fun uname_answer :: "event \<Rightarrow> string option" where
  "uname_answer (EvHost (SshRan h cmd (Inr out))) = (if cmd = ''uname -m'' then Some out else None)"
| "uname_answer _ = None"

definition connected :: "event list \<Rightarrow> bool" where
  "connected es \<longleftrightarrow> list_ex connects es"

definition quiet_machine :: "event \<Rightarrow> bool" where
  "quiet_machine ev \<longleftrightarrow> \<not> machine_event ev \<and> \<not> connects ev \<and> uname_answer ev = None"

lemma connected_simps [simp]:
  "\<not> connected []" "connected (ev # es) \<longleftrightarrow> connects ev \<or> connected es" "connected (es @ es') \<longleftrightarrow> connected es \<or> connected es'"
  by (auto simp: connected_def)

lemma quiet_not_connected [simp]: "list_all quiet_machine es \<Longrightarrow> \<not> connected es"
  by (auto simp: connected_def list_ex_iff list_all_iff quiet_machine_def)

lemma machine_ssh_config_runs [runs_intros]:
  assumes "\<And>r es. list_all quiet_machine es \<Longrightarrow> R r es"
  shows "runs (machine_ssh_config E m) R"
  unfolding machine_ssh_config_def ssh_private_key_def ssh_password_def
  by (auto intro!: runs_intros assms simp: quiet_machine_def)

lemma checkDiscoverable_runs [runs_intros]:
  assumes "\<And>m' d err es. list_all (\<lambda>ev. \<not> machine_event ev \<and> uname_answer ev = None) es \<Longrightarrow> d = connected es \<Longrightarrow>
    m' = m \<or> \<not> d \<and> (\<exists>msg. m' = machine_cond (e_lib E) ConditionDiscoverable ConditionFalse ReasonCredentialsMissing msg m) \<Longrightarrow>
    R (m', d, err) es"
  shows "runs (checkDiscoverable E m) R"
  unfolding checkDiscoverable_def RecordError_def RecordSSHConnection_def
  by (auto intro!: runs_intros assms simp: quiet_machine_def list_all_iff)

definition scanned :: "machine \<Rightarrow> event list \<Rightarrow> machine \<Rightarrow> bool" where
  "scanned m es m' \<longleftrightarrow> m' = m \<or>
     (\<exists>out now. Some out \<in> uname_answer ` set es \<and> scanned_arch out \<noteq> [] \<and> m' = set_arch (scanned_arch out) now m)"

lemma scanned_same: "scanned m es m"
  by (simp add: scanned_def)

lemma scanned_new: "Some out \<in> uname_answer ` set es \<Longrightarrow> scanned_arch out \<noteq> [] \<Longrightarrow> scanned m es (set_arch (scanned_arch out) now m)"
  by (auto simp: scanned_def)

lemma scanArchitecture_runs [runs_intros]:
  assumes "\<And>m' es. list_all (\<lambda>ev. \<not> machine_event ev \<and> \<not> connects ev) es \<Longrightarrow> scanned m es m' \<Longrightarrow> R m' es"
  shows "runs (scanArchitecture E m) R"
  unfolding scanArchitecture_def scan_uname_def Let_def
  by (auto intro!: runs_intros assms scanned_same scanned_new simp: quiet_machine_def list_all_iff image_iff)

section \<open>What is stored\<close>

definition condition_is :: "lib \<Rightarrow> machine \<Rightarrow> cond_type \<Rightarrow> (condition option \<Rightarrow> bool) \<Rightarrow> bool" where
  "condition_is L m t P \<longleftrightarrow> P (lib_find_cond L (mst_conditions (ma_status m)) t)"

definition is_status :: "cond_status \<Rightarrow> condition option \<Rightarrow> bool" where
  "is_status v c \<longleftrightarrow> (case c of None \<Rightarrow> False | Some d \<Rightarrow> c_status d = v)"

definition truth :: "bool \<Rightarrow> cond_status" where
  "truth b = (if b then ConditionTrue else ConditionFalse)"

text \<open>
  The status stored at the end: reachable if and only if the SSH check of this reconcile connected,
  Ready accordingly, nothing stalled or in progress. Discoverable accordingly too, except that the
  record of missing credentials is left alone. The facts are the ones of the machine \<open>m\<close> the server
  answered last, or a connected machine told its architecture; everything else is \<open>m\<close>'s.
\<close>

definition reported :: "lib \<Rightarrow> machine \<Rightarrow> event list \<Rightarrow> machine \<Rightarrow> bool" where
  "reported L m es x \<longleftrightarrow>
     mst_discoverable (ma_status x) = connected es \<and>
     condition_is L x ConditionReady (is_status (truth (connected es))) \<and>
     condition_is L x ConditionReconciling (is_status ConditionFalse) \<and>
     condition_is L x ConditionStalled (\<lambda>c. c = None) \<and>
     condition_is L x ConditionDiscoverable (\<lambda>c. is_status (truth (connected es)) c \<or>
       \<not> connected es \<and> (\<exists>d. c = Some d \<and> c_reason d = ReasonCredentialsMissing)) \<and>
     (\<exists>m'. scanned m es m' \<and> (m' = m \<or> connected es) \<and>
        x = m'\<lparr>ma_status := (ma_status m')\<lparr>mst_discoverable := connected es, mst_conditions := mst_conditions (ma_status x)\<rparr>\<rparr>)"

lemma cond_after [simp]:
  "lib_ok L \<Longrightarrow> condition_is L (machine_cond L t v rsn msg m) t' P =
     (if t' = t then P (Some \<lparr>c_type = t, c_status = v, c_gen = m_gen (ma_meta m), c_reason = rsn, c_message = msg\<rparr>)
      else condition_is L m t' P)"
  by (simp add: condition_is_def machine_cond_def)

lemma status_machine_cond [simp]:
  "mst_discoverable (ma_status (machine_cond L t v rsn msg m)) = mst_discoverable (ma_status m)"
  by (simp add: machine_cond_def)

lemma is_status_simps [simp]: "is_status v None = False" "is_status v (Some c) = (c_status c = v)"
  by (simp_all add: is_status_def)

lemma truth_simps [simp]: "truth True = ConditionTrue" "truth False = ConditionFalse"
  by (simp_all add: truth_def)

text \<open>The conditions at the end, for a machine whose Discoverable condition is already right.\<close>

lemma final_reported:
  assumes "lib_ok L" "mst_discoverable (ma_status m') = connected es"
    and "condition_is L m' ConditionDiscoverable (\<lambda>c. is_status (truth (connected es)) c \<or>
       \<not> connected es \<and> (\<exists>d. c = Some d \<and> c_reason d = ReasonCredentialsMissing))"
    and "scanned m es m1" "m1 = m \<or> connected es"
    and "m' = m1\<lparr>ma_status := (ma_status m1)\<lparr>mst_discoverable := connected es, mst_conditions := cs\<rparr>\<rparr>"
  shows "reported L m es (final_conditions L None m')"
proof -
  let ?x = "final_conditions L None m'"
  have "?x = m1\<lparr>ma_status := (ma_status m1)\<lparr>mst_discoverable := connected es, mst_conditions := mst_conditions (ma_status ?x)\<rparr>\<rparr>"
    using assms(6) by (simp add: final_conditions_def machine_cond_def Let_def)
  moreover have "condition_is L ?x ConditionDiscoverable (\<lambda>c. is_status (truth (connected es)) c \<or>
       \<not> connected es \<and> (\<exists>d. c = Some d \<and> c_reason d = ReasonCredentialsMissing))"
    using assms(1,3) by (simp add: final_conditions_def machine_cond_def condition_is_def Let_def)
  ultimately show ?thesis
    using assms(1,2,4,5) unfolding reported_def
    by (auto simp: final_conditions_def machine_cond_def condition_is_def Let_def)
qed

lemma scanned_commute:
  assumes "scanned (m\<lparr>ma_status := (ma_status m)\<lparr>mst_discoverable := d, mst_conditions := cs\<rparr>\<rparr>) es m'"
  shows "\<exists>m1. scanned m es m1 \<and> m' = m1\<lparr>ma_status := (ma_status m1)\<lparr>mst_discoverable := d, mst_conditions := cs\<rparr>\<rparr>"
proof -
  have "set_arch a t (m\<lparr>ma_status := (ma_status m)\<lparr>mst_discoverable := d, mst_conditions := cs\<rparr>\<rparr>) =
      (set_arch a t m)\<lparr>ma_status := (ma_status (set_arch a t m))\<lparr>mst_discoverable := d, mst_conditions := cs\<rparr>\<rparr>" for a t
    by (simp add: set_arch_def)
  then show ?thesis using assms unfolding scanned_def by metis
qed

lemma reachable_reported:
  assumes "lib_ok L" "connected es"
    and "scanned (machine_cond L ConditionDiscoverable ConditionTrue ReasonSSHConnected msg
        (m\<lparr>ma_status := (ma_status m)\<lparr>mst_discoverable := True\<rparr>\<rparr>)) es m'"
  shows "reported L m es (final_conditions L None m')"
proof -
  obtain m1 cs where 1: "scanned m es m1"
      "m' = m1\<lparr>ma_status := (ma_status m1)\<lparr>mst_discoverable := True, mst_conditions := cs\<rparr>\<rparr>"
    using assms(3) unfolding machine_cond_def by (auto dest!: scanned_commute [where m = m and d = True])
  have 2: "mst_discoverable (ma_status m')" "condition_is L m' ConditionDiscoverable (is_status ConditionTrue)"
    using assms(1,3) by (auto simp: scanned_def set_arch_def machine_cond_def condition_is_def)
  show ?thesis
    by (rule final_reported [OF assms(1) _ _ 1(1)]) (use 1(2) 2 assms(2) in simp_all)
qed

lemma unreachable_reported:
  assumes "lib_ok L" "\<not> connected es"
    and "m1 = m \<or> (\<exists>msg. m1 = machine_cond L ConditionDiscoverable ConditionFalse ReasonCredentialsMissing msg m)"
  shows "reported L m es (final_conditions L None
    (unreachable_cond L err (m1\<lparr>ma_status := (ma_status m1)\<lparr>mst_discoverable := False\<rparr>\<rparr>)))"
    (is "reported L m es (final_conditions L None ?m')")
proof (rule final_reported [where ?m1.0 = m and cs = "mst_conditions (ma_status ?m')"])
  show "?m' = m\<lparr>ma_status := (ma_status m)\<lparr>mst_discoverable := connected es, mst_conditions := mst_conditions (ma_status ?m')\<rparr>\<rparr>"
    using assms(2,3) by (auto simp: unreachable_cond_def machine_cond_def split: option.split)
  show "condition_is L ?m' ConditionDiscoverable (\<lambda>c. is_status (truth (connected es)) c \<or>
       \<not> connected es \<and> (\<exists>d. c = Some d \<and> c_reason d = ReasonCredentialsMissing))"
    using assms by (auto simp: unreachable_cond_def condition_is_def machine_cond_def split: option.split)
qed (use assms in \<open>auto simp: unreachable_cond_def machine_cond_def scanned_same split: option.split\<close>)

lemma machine_discover_runs:
  assumes "lib_ok (e_lib E)"
    and "\<And>m' es. list_all (\<lambda>ev. \<not> machine_event ev) es \<Longrightarrow> reported (e_lib E) m es (final_conditions (e_lib E) None m') \<Longrightarrow>
      R (m', after_res DiscoveryInterval, None) es"
  shows "runs (machine_discover E m) R"
  unfolding machine_discover_def Let_def
proof (rule runs_bind, rule checkDiscoverable_runs, unfold prod.case, rule runs_if)
  fix m1 d err es
  assume *: "list_all (\<lambda>ev. \<not> machine_event ev \<and> uname_answer ev = None) es" "d = connected es"
    "m1 = m \<or> \<not> d \<and> (\<exists>msg. m1 = machine_cond (e_lib E) ConditionDiscoverable ConditionFalse ReasonCredentialsMissing msg m)"
  let ?m = "m1\<lparr>ma_status := (ma_status m1)\<lparr>mst_discoverable := d\<rparr>\<rparr>"
  have quiet: "list_all (\<lambda>ev. \<not> machine_event ev) es" using *(1) by (auto simp: list_all_iff)
  show "runs (State_Monad.return (unreachable_cond (e_lib E) err ?m, after_res DiscoveryInterval, None)) (\<lambda>b es'. R b (es @ es'))"
    if "\<not> d"
    by (rule runs_return) (use that * quiet in \<open>auto intro!: assms(2) unreachable_reported [OF assms(1)]\<close>)
  assume "d"
  then have m1: "m1 = m" "connected es" using * by auto
  show "runs (State_Monad.bind (record_event EventTypeNormal ''Discoverable'' ''Machine is reachable via SSH'') (\<lambda>_.
      State_Monad.bind (scanArchitecture E (machine_cond (e_lib E) ConditionDiscoverable ConditionTrue ReasonSSHConnected
          ''SSH connection successful'' ?m)) (\<lambda>m. State_Monad.return (m, after_res DiscoveryInterval, None))))
      (\<lambda>b es'. R b (es @ es'))"
    by (intro runs_intros assms(2) reachable_reported [OF assms(1)])
      (use \<open>d\<close> m1 quiet in \<open>auto simp: scanned_def list_all_iff image_iff\<close>)
qed

text \<open>The status stored at the start of a reconcile, and the machines the server answered.\<close>

definition started :: "lib \<Rightarrow> machine \<Rightarrow> machine" where
  "started L m = machine_cond L ConditionReconciling ConditionTrue ReasonProgressing ''Reconciliation in progress''
     (m\<lparr>ma_status := (ma_status m)\<lparr>mst_observed_gen := m_gen (ma_meta m)\<rparr>\<rparr>)"

fun answered_machine :: "event \<Rightarrow> machine option" where
  "answered_machine (EvMachine (StatusUpdated x (Inr m))) = Some m"
| "answered_machine (EvMachine (Updated x (Inr m))) = Some m"
| "answered_machine _ = None"

definition stores_honestly :: "lib \<Rightarrow> key \<Rightarrow> event list \<Rightarrow> bool" where
  "stores_honestly L k es \<longleftrightarrow> (\<forall>x r. EvMachine (StatusUpdated x r) \<in> set es \<longrightarrow>
     (\<exists>m. EvMachine (Got k (Inr m)) \<in> set es \<and> x = started L m) \<or>
     (\<exists>m. Some m \<in> answered_machine ` set es \<and> reported L m es x))"

text \<open>What follows the start, before and after a log with no SSH session.\<close>

definition reports_from :: "lib \<Rightarrow> machine \<Rightarrow> event list \<Rightarrow> bool" where
  "reports_from L m0 es \<longleftrightarrow> (\<forall>x r. EvMachine (StatusUpdated x r) \<in> set es \<longrightarrow>
     (\<exists>m. (m = m0 \<or> Some m \<in> answered_machine ` set es) \<and> reported L m es x))"

lemma reported_cons: "\<not> connects ev \<Longrightarrow> uname_answer ev = None \<Longrightarrow> reported L m (ev # es) x = reported L m es x"
  by (simp add: reported_def scanned_def)

lemma reported_snoc:
  "\<not> connects ev \<Longrightarrow> uname_answer ev = None \<Longrightarrow> reported L m (es @ [ev]) x = reported L m es x"
  by (simp add: reported_def scanned_def)

lemma reports_here: "\<forall>x r. EvMachine (StatusUpdated x r) \<in> set es \<longrightarrow> reported L m es x \<Longrightarrow> reports_from L m es"
  unfolding reports_from_def by blast

lemma reports_updated:
  assumes "\<forall>x r. EvMachine (StatusUpdated x r) \<in> set es \<longrightarrow> reported L m es x"
  shows "reports_from L m0 (EvMachine (Updated y (Inr m)) # es)"
  using assms unfolding reports_from_def by (auto simp: reported_cons)

lemma stores_started:
  assumes "reports_from L m es"
  shows "stores_honestly L k (EvMachine (Got k (Inr m0)) # EvMachine (StatusUpdated (started L m0) (Inr m)) # es)"
  unfolding stores_honestly_def
proof (intro allI impI)
  fix x r
  let ?es = "EvMachine (Got k (Inr m0)) # EvMachine (StatusUpdated (started L m0) (Inr m)) # es"
  assume "EvMachine (StatusUpdated x r) \<in> set ?es"
  then consider "x = started L m0" | "EvMachine (StatusUpdated x r) \<in> set es" by auto
  then show "(\<exists>m. EvMachine (Got k (Inr m)) \<in> set ?es \<and> x = started L m) \<or>
     (\<exists>m. Some m \<in> answered_machine ` set ?es \<and> reported L m ?es x)"
  proof cases
    case 2
    then obtain m1 where "m1 = m \<or> Some m1 \<in> answered_machine ` set es" "reported L m1 es x"
      using assms unfolding reports_from_def by blast
    then show ?thesis by (auto simp: reported_cons)
  qed auto
qed

lemma machine_settle_runs:
  assumes "lib_ok (e_lib E)"
  shows "runs (machine_settle E m) (\<lambda>_ es. \<forall>x r. EvMachine (StatusUpdated x r) \<in> set es \<longrightarrow> reported (e_lib E) m es x)"
  unfolding machine_settle_def
  by (intro runs_bind machine_discover_runs [OF assms], unfold prod.case, intro runs_intros)
    (auto simp: reported_snoc list_all_iff)

lemma machine_live_runs:
  assumes "lib_ok (e_lib E)"
  shows "runs (machine_live E m0) (\<lambda>_. reports_from (e_lib E) m0)"
  unfolding machine_live_def machine_finalizer_def
  by (intro runs_bind runs_if runs_return runs_api; (unfold sum.case, rule runs_mono [OF machine_settle_runs [OF assms]])?)
    (auto intro!: runs_case_sum runs_return runs_mono [OF machine_settle_runs [OF assms]] reports_here reports_updated
      simp: reports_from_def [of _ _ "[_]"])

lemma MachineReconcile_runs:
  assumes "lib_ok (e_lib E)"
  shows "runs (MachineReconcile E k) (\<lambda>_. stores_honestly (e_lib E) k)"
proof -
  have del: "runs (reconcileDelete E m) (\<lambda>_. reports_from (e_lib E) m)" for m
    unfolding reconcileDelete_def by (auto intro!: runs_intros simp: reports_from_def)
  have none: "stores_honestly L k [EvMachine (Got k (Inl e))]"
    "stores_honestly L k [EvMachine (Got k (Inr m0)), EvMachine (StatusUpdated (started L m0) (Inl e))]" for L m0 e
    unfolding stores_honestly_def by auto
  show ?thesis
    unfolding MachineReconcile_def started_def [symmetric]
    by (intro runs_bind runs_api runs_case_sum runs_if runs_return)
      (auto intro!: none stores_started runs_mono [OF del] runs_mono [OF machine_live_runs [OF assms]])
qed

section \<open>The watch on Secrets\<close>

text \<open>What the server answers to a list by field index, when it holds the machines \<open>ms\<close>.\<close>

definition listed_by :: "list_opts \<Rightarrow> machine \<Rightarrow> bool" where
  "listed_by lo m \<longleftrightarrow> m_ns (ma_meta m) = lo_ns lo \<and> list_all (\<lambda>(f, v). v \<in> set (machine_index f m)) (lo_fields lo)"

definition lists_machines :: "'w env \<Rightarrow> machine list \<Rightarrow> bool" where
  "lists_machines E ms \<longleftrightarrow> (\<forall>lo w. ka_list (e_machines E) lo w = (Inr (filter (listed_by lo) ms), w))"

definition uses_secret :: "secret \<Rightarrow> machine \<Rightarrow> bool" where
  "uses_secret sec m \<longleftrightarrow> m_ns (ma_meta m) = m_ns (sec_meta sec) \<and>
     (ma_key_ref (ma_spec m) = Some (m_name (sec_meta sec)) \<or>
      (\<exists>r. ma_password_ref (ma_spec m) = Some r \<and> kr_name r = m_name (sec_meta sec)))"

lemma add_requests:
  "set (foldl add_request rs ms) = set rs \<union> (\<lambda>m. key_of (ma_meta m)) ` set ms"
  "distinct rs \<Longrightarrow> distinct (foldl add_request rs ms)"
  by (induction ms arbitrary: rs) (auto simp: add_request_def)

lemma index_fields_differ: "IndexMachineBySSHKeySecret \<noteq> IndexMachineBySSHPasswordSecret"
  by (simp add: IndexMachineBySSHKeySecret_def IndexMachineBySSHPasswordSecret_def)

lemma uses_secret_indexes:
  "uses_secret sec m \<longleftrightarrow>
     listed_by \<lparr>lo_ns = m_ns (sec_meta sec), lo_labels = [], lo_fields = [(IndexMachineBySSHKeySecret, m_name (sec_meta sec))]\<rparr> m \<or>
     listed_by \<lparr>lo_ns = m_ns (sec_meta sec), lo_labels = [], lo_fields = [(IndexMachineBySSHPasswordSecret, m_name (sec_meta sec))]\<rparr> m"
  using index_fields_differ
  by (cases "ma_key_ref (ma_spec m)"; cases "ma_password_ref (ma_spec m)")
    (auto simp: uses_secret_def listed_by_def machine_index_def)

section \<open>Properties\<close>

text \<open>C16. The stored status of a Machine is honest: a reconcile first stores the machine it read, marked as
  being reconciled at its generation, and then only the outcome: reachable, Ready and Discoverable if
  and only if the SSH check of this very reconcile connected (a record of missing credentials may stay
  instead), no longer reconciling, not stalled; the recorded architecture is the last plausible line
  of an answer of the machine itself, and only a connected machine is asked.\<close>

theorem machine_status_is_honest:
  assumes "lib_ok (e_lib E)"
  shows "runs (MachineReconcile E k) (\<lambda>_. stores_honestly (e_lib E) k)"
  by (rule MachineReconcile_runs [OF assms])

lemma machine_status_is_honest_witness:
  "runs (MachineReconcile (sample_env :: unit env) \<lparr>k_ns = ''ns'', k_name = ''m''\<rparr>)
     (\<lambda>_. stores_honestly (e_lib (sample_env :: unit env)) \<lparr>k_ns = ''ns'', k_name = ''m''\<rparr>)"
  by (rule machine_status_is_honest) (simp add: sample_env_def ref_lib_ok)

text \<open>A change of a Secret wakes exactly the Machines of its namespace that take their SSH key or
  password from it, each once, provided the server's field indexes are those the controller registers.\<close>

theorem secret_wakes_its_machines:
  assumes "lists_machines E ms" "distinct (map (\<lambda>m. key_of (ma_meta m)) ms)"
  shows "let ks = fst (run_state (findMachinesForSecret E sec) s) in
    distinct ks \<and> set ks = (\<lambda>m. key_of (ma_meta m)) ` {m \<in> set ms. uses_secret sec m}"
proof -
  let ?lo = "\<lambda>f. \<lparr>lo_ns = m_ns (sec_meta sec), lo_labels = [], lo_fields = [(f, m_name (sec_meta sec))]\<rparr>"
  have "fst (run_state (findMachinesForSecret E sec) s) =
      foldl add_request (map (\<lambda>m. key_of (ma_meta m)) (filter (listed_by (?lo IndexMachineBySSHKeySecret)) ms))
        (filter (listed_by (?lo IndexMachineBySSHPasswordSecret)) ms)"
    using assms(1) by (simp add: findMachinesForSecret_def api_list_def api_call_def lists_machines_def split_def)
  then show ?thesis
    using distinct_map_filter [OF assms(2)] unfolding Let_def by (auto simp: add_requests uses_secret_indexes)
qed

text \<open>The witness: a server with two machines, one of which uses the Secret, as key and as password.\<close>

definition secret_user :: machine where
  "secret_user = \<lparr>ma_meta = zero_meta\<lparr>m_name := ''m1'', m_ns := ''ns''\<rparr>,
     ma_spec = \<lparr>ma_host = ''h'', ma_ssh_user = [], ma_key_ref = Some ''s'', ma_password_ref = Some \<lparr>kr_name = ''s'', kr_key = []\<rparr>\<rparr>,
     ma_status = zero_machine_status\<rparr>"

definition other_machine :: machine where
  "other_machine = secret_user\<lparr>ma_meta := zero_meta\<lparr>m_name := ''m2'', m_ns := ''ns''\<rparr>,
     ma_spec := \<lparr>ma_host = ''h'', ma_ssh_user = [], ma_key_ref = Some ''t'', ma_password_ref = None\<rparr>\<rparr>"

definition indexed_env :: "unit env" where
  "indexed_env = sample_env\<lparr>e_machines := (view_api (\<lambda>_. None))\<lparr>
     ka_list := (\<lambda>lo w. (Inr (filter (listed_by lo) [secret_user, other_machine]), w))\<rparr>\<rparr>"

definition used_secret :: secret where
  "used_secret = \<lparr>sec_meta = zero_meta\<lparr>m_name := ''s'', m_ns := ''ns''\<rparr>, sec_type = [], sec_data = Map.empty\<rparr>"

lemma secret_wakes_its_machines_witness:
  "set (fst (run_state (findMachinesForSecret indexed_env used_secret) \<lparr>sys_world = (), sys_log = []\<rparr>)) =
     {\<lparr>k_ns = ''ns'', k_name = ''m1''\<rparr>}"
proof -
  have "lists_machines indexed_env [secret_user, other_machine]"
    by (simp add: lists_machines_def indexed_env_def)
  moreover have "distinct (map (\<lambda>m. key_of (ma_meta m)) [secret_user, other_machine])"
    by (simp add: secret_user_def other_machine_def key_of_def)
  moreover have "{m \<in> set [secret_user, other_machine]. uses_secret used_secret m} = {secret_user}"
    by (auto simp: uses_secret_def secret_user_def other_machine_def used_secret_def)
  ultimately show ?thesis
    using secret_wakes_its_machines [of indexed_env "[secret_user, other_machine]" used_secret "\<lparr>sys_world = (), sys_log = []\<rparr>"]
    by (simp add: Let_def secret_user_def key_of_def)
qed

section \<open>Where the code falls short\<close>

text \<open>
  A record of missing credentials outlives its cause: here the Secret exists by now and the connection
  fails, and the stored condition still says that credentials are missing.
\<close>

definition stale_machine :: machine where
  "stale_machine = machine_cond ref_lib ConditionDiscoverable ConditionFalse ReasonCredentialsMissing ''secret not found'' secret_user"

definition refused_env :: "unit env" where
  "refused_env = sample_env\<lparr>
     e_secrets := view_api (\<lambda>_. Some (used_secret\<lparr>sec_data := [''ssh-privatekey'' \<mapsto> ''key'', ''password'' \<mapsto> ''pw'']\<rparr>)),
     e_host := sample_host\<lparr>h_ssh_check := (\<lambda>_ _ _ w. (Some (mk_err ''connection refused''), w))\<rparr>\<rparr>"

fun refused :: "event \<Rightarrow> bool" where
  "refused (EvHost (SshChecked h (Some e))) = True"
| "refused _ = False"

lemma missing_credentials_stick:
  "case run_state (machine_discover refused_env stale_machine) \<lparr>sys_world = (), sys_log = []\<rparr> of
     ((m, _), s) \<Rightarrow> list_ex refused (sys_log s) \<and>
       condition_is ref_lib m ConditionDiscoverable (\<lambda>c. map_option c_reason c = Some ReasonCredentialsMissing)"
  by code_simp

text \<open>
  An unchanged architecture never renews the time of the scan: twelve hours after the first scan every
  reconcile asks the machine again.
\<close>

definition scanned_machine :: machine where
  "scanned_machine = set_arch ''x86_64'' 0 secret_user"

definition scan_env :: "unit env" where
  "scan_env = refused_env\<lparr>e_host := sample_host\<lparr>h_now := (\<lambda>w. (HardwareScanInterval, w)),
     h_ssh_run := (\<lambda>_ _ _ _ w. (Inr ''x86_64'', w))\<rparr>\<rparr>"

lemma unchanged_scan_not_recorded:
  "case run_state (scanArchitecture scan_env scanned_machine) \<lparr>sys_world = (), sys_log = []\<rparr> of
     (m, s) \<Rightarrow> list_ex (\<lambda>ev. uname_answer ev = Some ''x86_64'') (sys_log s) \<and> mst_last_scan (ma_status m) = Some 0"
  by code_simp

end
