(* ===== verification/Machine_Record.thy ===== *)
theory Machine_Record
  imports Machine_Controller Config_Outcome
begin

text \<open>
  The status of a Machine has two writers: the Machine controller (\<open>machine_controller.go\<close>), which stores
  what it finds out over SSH, and the NixosConfiguration controller (\<open>writeBackMachineStatus\<close> and
  \<open>clearMachineStatus\<close> of \<open>nixosconfiguration_controller.go\<close>), which stores what it applied. Both write the
  whole status of an object they have read. Here: each changes its own part only, and so, with a server
  that accepts an update of the current version only, the stored record of the applied configuration
  is always whole, however the reconciles of both controllers interleave.
\<close>

section \<open>The two parts of a status\<close>

definition record_part :: "machine \<Rightarrow> bool \<times> string \<times> string \<times> int option" where
  "record_part m = (mst_has_config (ma_status m), mst_applied_config (ma_status m),
     mst_applied_commit (ma_status m), mst_last_applied (ma_status m))"




definition same_object :: "machine \<Rightarrow> machine \<Rightarrow> bool" where
  "same_object b x \<longleftrightarrow> ma_meta x = ma_meta b \<and> ma_spec x = ma_spec b"

definition machine_writes :: "machine \<Rightarrow> machine \<Rightarrow> bool" where
  "machine_writes b x \<longleftrightarrow> same_object b x \<and> record_part x = record_part b"




section \<open>Writes and what they are based on\<close>


fun seen_machine :: "event \<Rightarrow> machine option" where
  "seen_machine (EvMachine (Got k (Inr m))) = Some m"
| "seen_machine (EvMachine (Updated x (Inr m))) = Some m"
| "seen_machine (EvMachine (StatusUpdated x (Inr m))) = Some m"
| "seen_machine _ = None"


definition answers :: "event list \<Rightarrow> machine set" where
  "answers es = \<Union> (set_option ` seen_machine ` set es)"

lemma answers_simps [simp]: "answers [] = {}" "answers (e # es) = set_option (seen_machine e) \<union> answers es"
  by (simp_all add: answers_def)









section \<open>The NixosConfiguration controller\<close>


lemmas removal_handlers = deleteDayTwoCronIfExists_def findDecommissionJob_def decommission_start_def
  decommission_observed_def decommission_failed_def count_and_delete_def bumpOnRemoveRetries_def keep_removing_def
  clearMachineStatus_def deleteDecommissionJob_def ensureDecommissionNixJob_def finalize_def














section \<open>The Machine controller\<close>


lemma machine_write_rules [simp]:
  "machine_writes m m"
  "machine_writes m (machine_cond L ty st rsn msg m') \<longleftrightarrow> machine_writes m m'"
  "machine_writes m (unreachable_cond L err m') \<longleftrightarrow> machine_writes m m'"
  "machine_writes m (set_arch arch now m') \<longleftrightarrow> machine_writes m m'"
  "machine_writes m (m'\<lparr>ma_status := (ma_status m')\<lparr>mst_discoverable := d\<rparr>\<rparr>) \<longleftrightarrow> machine_writes m m'"
  "machine_writes m (m'\<lparr>ma_status := (ma_status m')\<lparr>mst_observed_gen := g\<rparr>\<rparr>) \<longleftrightarrow> machine_writes m m'"
  "machine_writes m (m'\<lparr>ma_status := (ma_status m')\<lparr>mst_conditions := cs\<rparr>\<rparr>) \<longleftrightarrow> machine_writes m m'"
  by (simp_all add: machine_writes_def same_object_def record_part_def machine_cond_def unreachable_cond_def set_arch_def
      split: option.split)

lemma machine_writes_sym: "machine_writes a b \<longleftrightarrow> machine_writes b a"
  by (auto simp: machine_writes_def same_object_def)

lemma machine_writes_after [simp]:
  "machine_writes (machine_cond L ty st rsn msg m) m' \<longleftrightarrow> machine_writes m m'"
  "machine_writes (m\<lparr>ma_status := (ma_status m)\<lparr>mst_discoverable := d\<rparr>\<rparr>) m' \<longleftrightarrow> machine_writes m m'"
  by (simp_all add: machine_writes_sym [of _ m'])

lemma final_conditions_writes [simp]: "machine_writes m (final_conditions L err m') \<longleftrightarrow> machine_writes m m'"
  by (simp add: final_conditions_def Let_def split: option.split)










section \<open>Properties\<close>









end
