(* ===== verification/Object_Store.thy ===== *)
theory Object_Store
  imports K8s_Api
begin

text \<open>
  An API server that keeps the objects it accepted, as a hypothesis on the parameter \<open>'w env\<close>:
  \<open>snapshot\<close> is what it stores of the four kinds the NixosConfiguration controller works on,
  \<open>stores\<close> the documented contract of the client for one kind (a read answers the stored object, an
  update of the current version replaces what its endpoint may change, a deletion of an object without
  finalizers removes it), \<open>on_store\<close> the weakest precondition of a program run against such a
  server when no one else writes in between. \<open>ref_store\<close> is a server that satisfies the contract.
\<close>

section \<open>What is stored\<close>

record snapshot =
  sn_configs :: "key \<Rightarrow> nixos_config option"
  sn_machines :: "key \<Rightarrow> machine option"
  sn_jobs :: "key \<Rightarrow> nix_job option"
  sn_crons :: "key \<Rightarrow> nix_cron_job option"

text \<open>How one kind is stored, and the three parts of its objects.\<close>

record ('o, 's, 't) shape =
  sh_find :: "snapshot \<Rightarrow> key \<Rightarrow> 'o option"
  sh_set :: "key \<Rightarrow> 'o option \<Rightarrow> snapshot \<Rightarrow> snapshot"
  sh_meta :: "'o \<Rightarrow> meta"
  sh_spec :: "'o \<Rightarrow> 's"
  sh_status :: "'o \<Rightarrow> 't"

definition config_shape :: "(nixos_config, config_spec, config_status) shape" where
  "config_shape = \<lparr>sh_find = sn_configs, sh_set = (\<lambda>k x v. v\<lparr>sn_configs := (sn_configs v)(k := x)\<rparr>),
     sh_meta = cf_meta, sh_spec = cf_spec, sh_status = cf_status\<rparr>"

definition machine_shape :: "(machine, machine_spec, machine_status) shape" where
  "machine_shape = \<lparr>sh_find = sn_machines, sh_set = (\<lambda>k x v. v\<lparr>sn_machines := (sn_machines v)(k := x)\<rparr>),
     sh_meta = ma_meta, sh_spec = ma_spec, sh_status = ma_status\<rparr>"

definition job_shape :: "(nix_job, nix_job_spec, nix_job_status) shape" where
  "job_shape = \<lparr>sh_find = sn_jobs, sh_set = (\<lambda>k x v. v\<lparr>sn_jobs := (sn_jobs v)(k := x)\<rparr>),
     sh_meta = nj_meta, sh_spec = nj_spec, sh_status = nj_status\<rparr>"

definition cron_shape :: "(nix_cron_job, nix_cron_job_spec, nix_cron_job_status) shape" where
  "cron_shape = \<lparr>sh_find = sn_crons, sh_set = (\<lambda>k x v. v\<lparr>sn_crons := (sn_crons v)(k := x)\<rparr>),
     sh_meta = ncj_meta, sh_spec = ncj_spec, sh_status = ncj_status\<rparr>"

lemmas shape_defs = config_shape_def machine_shape_def job_shape_def cron_shape_def

text \<open>An object at its key that nobody is deleting and no finalizer holds.\<close>

definition plain_at :: "key \<Rightarrow> meta \<Rightarrow> bool" where
  "plain_at k m \<longleftrightarrow> key_of m = k \<and> m_deletion m = None \<and> m_finalizers m = []"

lemma key_of_eq: "key_of m = k \<longleftrightarrow> m_name m = k_name k \<and> m_ns m = k_ns k"
  by (cases k) (auto simp: key_of_def)

lemma key_of_sel [simp]: "k_name (key_of m) = m_name m" "k_ns (key_of m) = m_ns m"
  by (simp_all add: key_of_def)

section \<open>The contract\<close>

text \<open>The server keeps the metadata a client may set; the version is its own.\<close>

definition kept_meta :: "meta \<Rightarrow> meta \<Rightarrow> bool" where
  "kept_meta m m' \<longleftrightarrow> m_name m' = m_name m \<and> m_ns m' = m_ns m \<and> m_labels m' = m_labels m \<and>
     m_finalizers m' = m_finalizers m \<and> m_owners m' = m_owners m"

lemma kept_key: "kept_meta m m' \<Longrightarrow> key_of m' = key_of m"
  by (simp add: kept_meta_def key_of_def)

text \<open>\<open>z\<close> is the stored object that an update of the current version meets.\<close>

definition is_current :: "('w \<Rightarrow> snapshot) \<Rightarrow> ('o, 's, 't) shape \<Rightarrow> 'w \<Rightarrow> 'o \<Rightarrow> 'o \<Rightarrow> bool" where
  "is_current V S w x z \<longleftrightarrow> sh_find S (V w) (key_of (sh_meta S x)) = Some z \<and>
     m_rv (sh_meta S x) = m_rv (sh_meta S z) \<and> m_deletion (sh_meta S z) = None"

text \<open>A new object starts with the zero status \<open>t0\<close>.\<close>

definition new_object :: "('o, 's, 't) shape \<Rightarrow> 't \<Rightarrow> 'o \<Rightarrow> 'o \<Rightarrow> bool" where
  "new_object S t0 x y \<longleftrightarrow> kept_meta (sh_meta S x) (sh_meta S y) \<and> m_deletion (sh_meta S y) = None \<and>
     sh_spec S y = sh_spec S x \<and> sh_status S y = t0"

text \<open>An update keeps the stored status, a status update the stored metadata and specification.\<close>

definition updated :: "('o, 's, 't) shape \<Rightarrow> 'o \<Rightarrow> 'o \<Rightarrow> 'o \<Rightarrow> bool" where
  "updated S z x y \<longleftrightarrow> kept_meta (sh_meta S x) (sh_meta S y) \<and> m_deletion (sh_meta S y) = None \<and>
     m_creation (sh_meta S y) = m_creation (sh_meta S z) \<and>
     sh_spec S y = sh_spec S x \<and> sh_status S y = sh_status S z"

definition status_updated :: "('o, 's, 't) shape \<Rightarrow> 'o \<Rightarrow> 'o \<Rightarrow> 'o \<Rightarrow> bool" where
  "status_updated S z x y \<longleftrightarrow> kept_meta (sh_meta S z) (sh_meta S y) \<and> m_deletion (sh_meta S y) = None \<and>
     m_creation (sh_meta S y) = m_creation (sh_meta S z) \<and>
     sh_spec S y = sh_spec S z \<and> sh_status S y = sh_status S x"

definition stores :: "('w \<Rightarrow> snapshot) \<Rightarrow> ('w, 'o) kind_api \<Rightarrow> ('o, 's, 't) shape \<Rightarrow> 't \<Rightarrow> bool" where
  "stores V K S t0 \<longleftrightarrow>
     (\<forall>k w. \<exists>w'. V w' = V w \<and> (case sh_find S (V w) k of
        None \<Rightarrow> \<exists>e. ka_get K k w = (Inl e, w') \<and> IsNotFound e
      | Some x \<Rightarrow> ka_get K k w = (Inr x, w'))) \<and>
     (\<forall>x w. sh_find S (V w) (key_of (sh_meta S x)) = None \<longrightarrow>
        (\<exists>y w'. ka_create K x w = (Inr y, w') \<and> new_object S t0 x y \<and>
           V w' = sh_set S (key_of (sh_meta S x)) (Some y) (V w))) \<and>
     (\<forall>x z w. is_current V S w x z \<longrightarrow>
        (\<exists>y w'. ka_update K x w = (Inr y, w') \<and> updated S z x y \<and>
           V w' = sh_set S (key_of (sh_meta S x)) (Some y) (V w))) \<and>
     (\<forall>x z w. is_current V S w x z \<longrightarrow>
        (\<exists>y w'. ka_status_update K x w = (Inr y, w') \<and> status_updated S z x y \<and>
           V w' = sh_set S (key_of (sh_meta S x)) (Some y) (V w))) \<and>
     (\<forall>x z w. sh_find S (V w) (key_of (sh_meta S x)) = Some z \<and> m_finalizers (sh_meta S z) = [] \<longrightarrow>
        (\<exists>w'. ka_delete K x w = (None, w') \<and> V w' = sh_set S (key_of (sh_meta S x)) None (V w)))"

text \<open>A list without selectors answers the objects of the namespace.\<close>

definition lists_all :: "('w \<Rightarrow> snapshot) \<Rightarrow> ('w, 'o) kind_api \<Rightarrow> ('o, 's, 't) shape \<Rightarrow> bool" where
  "lists_all V K S \<longleftrightarrow> (\<forall>ns w. \<exists>xs w'. ka_list K \<lparr>lo_ns = ns, lo_labels = [], lo_fields = []\<rparr> w = (Inr xs, w') \<and>
     V w' = V w \<and> set xs = {x. \<exists>k. sh_find S (V w) k = Some x \<and> k_ns k = ns})"

definition faithful_server :: "'w env \<Rightarrow> ('w \<Rightarrow> snapshot) \<Rightarrow> bool" where
  "faithful_server E V \<longleftrightarrow> stores V (e_configs E) config_shape zero_config_status \<and> lists_all V (e_configs E) config_shape \<and>
     stores V (e_machines E) machine_shape zero_machine_status \<and>
     stores V (e_jobs E) job_shape zero_job_status \<and> stores V (e_crons E) cron_shape zero_cron_status"

section \<open>Programs on a store\<close>

definition on_store :: "('w \<Rightarrow> snapshot) \<Rightarrow> ('w, 'a) prog \<Rightarrow> ('a \<Rightarrow> snapshot \<Rightarrow> bool) \<Rightarrow> snapshot \<Rightarrow> bool" where
  "on_store V m Q v \<longleftrightarrow> (\<forall>s. V (sys_world s) = v \<longrightarrow> wp m (\<lambda>a s'. Q a (V (sys_world s'))) s)"

named_theorems store_rules \<open>compositional rules of on_store\<close>

lemma store_return [store_rules]: "Q a v \<Longrightarrow> on_store V (State_Monad.return a) Q v"
  by (simp add: on_store_def)

lemma store_bind [store_rules]:
  "on_store V m (\<lambda>a. on_store V (f a) Q) v \<Longrightarrow> on_store V (State_Monad.bind m f) Q v"
  unfolding on_store_def by (auto elim!: wp_mono)

lemma store_call: "(\<And>w. V w = v \<Longrightarrow> \<exists>r w'. op w = (r, w') \<and> Q r (V w')) \<Longrightarrow> on_store V (api_call op ev) Q v"
  by (fastforce simp: on_store_def wp_call)

lemma store_event [store_rules]: "Q () v \<Longrightarrow> on_store V (record_event ty rsn msg) Q v"
  unfolding record_event_def by (rule store_call) simp

lemma store_mono: "on_store V m Q v \<Longrightarrow> (\<And>a v'. Q a v' \<Longrightarrow> R a v') \<Longrightarrow> on_store V m R v"
  unfolding on_store_def by (blast intro: wp_mono)

lemma store_if [store_rules]:
  "(b \<Longrightarrow> on_store V m Q v) \<Longrightarrow> (\<not> b \<Longrightarrow> on_store V n Q v) \<Longrightarrow> on_store V (if b then m else n) Q v"
  by simp

lemma store_case_option [store_rules]:
  "(x = None \<Longrightarrow> on_store V f Q v) \<Longrightarrow> (\<And>b. x = Some b \<Longrightarrow> on_store V (g b) Q v) \<Longrightarrow>
     on_store V (case x of None \<Rightarrow> f | Some b \<Rightarrow> g b) Q v"
  by (cases x) simp_all

lemma store_get:
  assumes "stores V K S t0" "\<And>e. sh_find S v k = None \<Longrightarrow> IsNotFound e \<Longrightarrow> Q (Inl e) v"
    "\<And>x. sh_find S v k = Some x \<Longrightarrow> Q (Inr x) v"
  shows "on_store V (api_get K tag k) Q v"
  unfolding api_get_def
proof (rule store_call)
  fix w
  assume v: "V w = v"
  obtain w' where "V w' = V w" "case sh_find S (V w) k of
      None \<Rightarrow> \<exists>e. ka_get K k w = (Inl e, w') \<and> IsNotFound e | Some x \<Rightarrow> ka_get K k w = (Inr x, w')"
    using assms(1) unfolding stores_def by (elim conjE) blast
  then show "\<exists>r w'. ka_get K k w = (r, w') \<and> Q r (V w')"
    using assms(2,3) v by (auto split: option.splits)
qed

lemma store_list:
  assumes "lists_all V K S" "\<And>xs. set xs = {x. \<exists>k. sh_find S v k = Some x \<and> k_ns k = ns} \<Longrightarrow> Q (Inr xs) v"
  shows "on_store V (api_list K tag \<lparr>lo_ns = ns, lo_labels = [], lo_fields = []\<rparr>) Q v"
  unfolding api_list_def
proof (rule store_call)
  fix w
  assume v: "V w = v"
  obtain xs w' where "ka_list K \<lparr>lo_ns = ns, lo_labels = [], lo_fields = []\<rparr> w = (Inr xs, w')" "V w' = V w"
      "set xs = {x. \<exists>k. sh_find S (V w) k = Some x \<and> k_ns k = ns}"
    using assms(1) unfolding lists_all_def by blast
  then show "\<exists>r w'. ka_list K \<lparr>lo_ns = ns, lo_labels = [], lo_fields = []\<rparr> w = (r, w') \<and> Q r (V w')"
    using assms(2) v by auto
qed

text \<open>The writes, with the object they meet.\<close>

lemma store_create:
  assumes "stores V K S t0" "sh_find S v (key_of (sh_meta S x)) = None"
    "\<And>y. new_object S t0 x y \<Longrightarrow> Q (Inr y) (sh_set S (key_of (sh_meta S x)) (Some y) v)"
  shows "on_store V (api_create K tag x) Q v"
proof -
  have "\<forall>x w. sh_find S (V w) (key_of (sh_meta S x)) = None \<longrightarrow> (\<exists>y w'. ka_create K x w = (Inr y, w') \<and>
      new_object S t0 x y \<and> V w' = sh_set S (key_of (sh_meta S x)) (Some y) (V w))"
    using assms(1) unfolding stores_def by (elim conjE)
  then show ?thesis using assms(2,3) unfolding api_create_def by (intro store_call) metis
qed

lemma store_update:
  assumes "stores V K S t0" "sh_find S v (key_of (sh_meta S x)) = Some z" "m_rv (sh_meta S x) = m_rv (sh_meta S z)"
    "m_deletion (sh_meta S z) = None"
    "\<And>y. updated S z x y \<Longrightarrow> Q (Inr y) (sh_set S (key_of (sh_meta S x)) (Some y) v)"
  shows "on_store V (api_update K tag x) Q v"
proof -
  have "\<forall>x z w. is_current V S w x z \<longrightarrow> (\<exists>y w'. ka_update K x w = (Inr y, w') \<and>
      updated S z x y \<and> V w' = sh_set S (key_of (sh_meta S x)) (Some y) (V w))"
    using assms(1) unfolding stores_def by (elim conjE)
  moreover have "is_current V S w x z" if "V w = v" for w using assms(2-4) that by (simp add: is_current_def)
  ultimately show ?thesis using assms(5) unfolding api_update_def by (intro store_call) metis
qed

lemma store_status_update:
  assumes "stores V K S t0" "sh_find S v (key_of (sh_meta S x)) = Some z" "m_rv (sh_meta S x) = m_rv (sh_meta S z)"
    "m_deletion (sh_meta S z) = None"
    "\<And>y. status_updated S z x y \<Longrightarrow> Q (Inr y) (sh_set S (key_of (sh_meta S x)) (Some y) v)"
  shows "on_store V (api_status_update K tag x) Q v"
proof -
  have "\<forall>x z w. is_current V S w x z \<longrightarrow> (\<exists>y w'. ka_status_update K x w = (Inr y, w') \<and>
      status_updated S z x y \<and> V w' = sh_set S (key_of (sh_meta S x)) (Some y) (V w))"
    using assms(1) unfolding stores_def by (elim conjE)
  moreover have "is_current V S w x z" if "V w = v" for w using assms(2-4) that by (simp add: is_current_def)
  ultimately show ?thesis using assms(5) unfolding api_status_update_def by (intro store_call) metis
qed

lemma store_delete:
  assumes "stores V K S t0" "sh_find S v (key_of (sh_meta S x)) = Some z" "m_finalizers (sh_meta S z) = []"
    "Q None (sh_set S (key_of (sh_meta S x)) None v)"
  shows "on_store V (api_delete K tag x) Q v"
proof -
  have "\<forall>x z w. sh_find S (V w) (key_of (sh_meta S x)) = Some z \<and> m_finalizers (sh_meta S z) = [] \<longrightarrow>
      (\<exists>w'. ka_delete K x w = (None, w') \<and> V w' = sh_set S (key_of (sh_meta S x)) None (V w))"
    using assms(1) unfolding stores_def by (elim conjE)
  then show ?thesis using assms(2-4) unfolding api_delete_def by (intro store_call) metis
qed

text \<open>A retried program that does not meet a conflict runs once.\<close>

lemma store_retry:
  assumes "retry_ok E" "on_store V fn (\<lambda>r v'. (\<forall>e. r = Inl e \<longrightarrow> \<not> IsConflict e) \<and> Q r v') v"
  shows "on_store V (e_retry E fn) Q v"
proof -
  have once: "wp (attempts n fn) R s" if "wp fn (\<lambda>r s'. (\<forall>e. r = Inl e \<longrightarrow> \<not> IsConflict e) \<and> R r s') s" for n R s
  proof (cases n)
    case 0
    then show ?thesis using that by (auto elim: wp_mono)
  next
    case (Suc m)
    show ?thesis unfolding Suc attempts.simps wp_bind
      by (rule wp_mono [OF that]) (auto split: sum.split)
  qed
  show ?thesis
    unfolding on_store_def
  proof (intro allI impI)
    fix s :: "'a sys"
    assume s: "V (sys_world s) = v"
    obtain n where "run_state (e_retry E fn) s = run_state (attempts n fn) s"
      using assms(1) unfolding retry_ok_def by blast
    moreover have "wp (attempts n fn) (\<lambda>a s'. Q a (V (sys_world s'))) s"
      by (rule once) (use assms(2) s in \<open>simp add: on_store_def\<close>)
    ultimately show "wp (e_retry E fn) (\<lambda>a s'. Q a (V (sys_world s'))) s" by (simp add: wp_def)
  qed
qed

text \<open>The way the controllers ensure a child: read it, create it, or update what was read.\<close>

lemma store_ensure:
  assumes "stores V K S t0" "plain_at k (sh_meta S d)"
    and old: "\<And>x. sh_find S v k = Some x \<Longrightarrow> plain_at k (sh_meta S x)"
    and f: "\<And>x. plain_at k (sh_meta S x) \<Longrightarrow> plain_at k (sh_meta S (f x))" "\<And>x. m_rv (sh_meta S (f x)) = m_rv (sh_meta S x)"
    and g: "\<And>x. g x = sh_meta S x"
    and Q: "\<And>y. plain_at k (sh_meta S y) \<Longrightarrow>
      sh_status S y = (case sh_find S v k of None \<Rightarrow> t0 | Some x \<Rightarrow> sh_status S x) \<Longrightarrow> Q (Inr y) (sh_set S k (Some y) v)"
  shows "on_store V (State_Monad.bind (api_get K tag k) (\<lambda>r. case r of
      Inl e \<Rightarrow> if IsNotFound e then api_create K tag d else State_Monad.return (Inl e)
    | Inr x \<Rightarrow> if m_deletion (g x) \<noteq> None then State_Monad.return (Inr x) else api_update K tag (f x))) Q v"
proof (rule store_bind, rule store_get [OF assms(1)])
  fix e
  assume none: "sh_find S v k = None" and e: "IsNotFound e"
  have d: "key_of (sh_meta S d) = k" using assms(2) by (simp add: plain_at_def)
  have "on_store V (api_create K tag d) Q v"
    by (rule store_create [OF assms(1)], unfold d, rule none)
      (use none assms(2) Q in \<open>simp add: new_object_def plain_at_def kept_meta_def key_of_eq\<close>)
  then show "on_store V (case Inl e of Inl e \<Rightarrow> if IsNotFound e then api_create K tag d else State_Monad.return (Inl e)
    | Inr x \<Rightarrow> if m_deletion (g x) \<noteq> None then State_Monad.return (Inr x) else api_update K tag (f x)) Q v"
    using e by simp
next
  fix x
  assume x: "sh_find S v k = Some x"
  note px = old [OF x]
  have k: "key_of (sh_meta S (f x)) = k" using f(1) [OF px] by (simp add: plain_at_def)
  have "on_store V (api_update K tag (f x)) Q v"
    by (rule store_update [OF assms(1)], unfold k, rule x)
      (use px f(1) [OF px] f(2) Q x in \<open>simp_all add: updated_def plain_at_def kept_meta_def key_of_eq\<close>)
  then show "on_store V (case Inr x of Inl e \<Rightarrow> if IsNotFound e then api_create K tag d else State_Monad.return (Inl e)
    | Inr x \<Rightarrow> if m_deletion (g x) \<noteq> None then State_Monad.return (Inr x) else api_update K tag (f x)) Q v"
    using px g by (simp add: plain_at_def)
qed

section \<open>A server that keeps the contract\<close>

text \<open>
  One kind of objects in an association list of the world, read by \<open>al\<close> and written by \<open>put\<close>;
  \<open>sm\<close> and \<open>ss\<close> set the metadata and the status of an object. Every write makes a new version.
\<close>

definition not_found :: err where
  "not_found = \<lparr>e_kind = KNotFound, e_msg = ''not found''\<rparr>"

definition conflict :: err where
  "conflict = \<lparr>e_kind = KConflict, e_msg = ''the object has been modified''\<rparr>"

definition next_version :: "meta \<Rightarrow> meta \<Rightarrow> meta" where
  "next_version z m = m\<lparr>m_rv := m_rv z @ ''1'', m_creation := m_creation z, m_deletion := m_deletion z\<rparr>"

definition ref_store :: "('w \<Rightarrow> (key \<times> 'o) list) \<Rightarrow> ((key \<times> 'o) list \<Rightarrow> 'w \<Rightarrow> 'w) \<Rightarrow>
    (meta \<Rightarrow> 'o \<Rightarrow> 'o) \<Rightarrow> ('t \<Rightarrow> 'o \<Rightarrow> 'o) \<Rightarrow> ('o, 's, 't) shape \<Rightarrow> 't \<Rightarrow> ('w, 'o) kind_api" where
  "ref_store al put sm ss S t0 = \<lparr>
     ka_get = (\<lambda>k w. (case map_of (al w) k of None \<Rightarrow> Inl not_found | Some x \<Rightarrow> Inr x, w)),
     ka_list = (\<lambda>lo w. (Inr [the (map_of (al w) k). k \<leftarrow> remdups (map fst (al w)), k_ns k = lo_ns lo], w)),
     ka_create = (\<lambda>x w. let k = key_of (sh_meta S x) in case map_of (al w) k of
         Some z \<Rightarrow> (Inl \<lparr>e_kind = KAlreadyExists, e_msg = ''exists''\<rparr>, w)
       | None \<Rightarrow> let y = ss t0 (sm ((sh_meta S x)\<lparr>m_rv := ''1'', m_deletion := None\<rparr>) x) in (Inr y, put ((k, y) # al w) w)),
     ka_update = (\<lambda>x w. let k = key_of (sh_meta S x) in case map_of (al w) k of
         None \<Rightarrow> (Inl not_found, w)
       | Some z \<Rightarrow> if m_rv (sh_meta S x) \<noteq> m_rv (sh_meta S z) then (Inl conflict, w)
           else let y = ss (sh_status S z) (sm (next_version (sh_meta S z) (sh_meta S x)) x) in (Inr y, put ((k, y) # al w) w)),
     ka_status_update = (\<lambda>x w. let k = key_of (sh_meta S x) in case map_of (al w) k of
         None \<Rightarrow> (Inl not_found, w)
       | Some z \<Rightarrow> if m_rv (sh_meta S x) \<noteq> m_rv (sh_meta S z) then (Inl conflict, w)
           else let y = ss (sh_status S x) (sm (next_version (sh_meta S z) (sh_meta S z)) z) in (Inr y, put ((k, y) # al w) w)),
     ka_delete = (\<lambda>x w. let k = key_of (sh_meta S x) in case map_of (al w) k of
         None \<Rightarrow> (Some not_found, w)
       | Some z \<Rightarrow> (None, put (if m_finalizers (sh_meta S z) = [] then filter (\<lambda>p. fst p \<noteq> k) (al w)
           else (k, sm ((sh_meta S z)\<lparr>m_deletion := Some 0\<rparr>) z) # al w) w)),
     ka_create_or_update = (\<lambda>x f w. (Some (mk_err ''not served''), w))\<rparr>"

lemma map_of_without: "map_of (filter (\<lambda>p. fst p \<noteq> k) xs) = (map_of xs)(k := None)"
  by (induction xs) (auto simp: fun_eq_iff)

lemma ref_store_stores:
  assumes find: "\<And>w. sh_find S (V w) = map_of (al w)"
    and put: "\<And>w xs k o'. map_of xs = (map_of (al w))(k := o') \<Longrightarrow> V (put xs w) = sh_set S k o' (V w)"
    and parts: "\<And>m x. sh_meta S (sm m x) = m" "\<And>m x. sh_spec S (sm m x) = sh_spec S x" "\<And>m x. sh_status S (sm m x) = sh_status S x"
      "\<And>t x. sh_meta S (ss t x) = sh_meta S x" "\<And>t x. sh_spec S (ss t x) = sh_spec S x" "\<And>t x. sh_status S (ss t x) = t"
  shows "stores V (ref_store al put sm ss S t0) S t0"
proof -
  have put': "V (put ((k, y) # al w) w) = sh_set S k (Some y) (V w)"
    "V (put (filter (\<lambda>p. fst p \<noteq> k) (al w)) w) = sh_set S k None (V w)" for k y w
    by (rule put, simp, rule put, rule map_of_without)
  have get: "\<exists>w'. V w' = V w \<and> (case sh_find S (V w) k of
        None \<Rightarrow> \<exists>e. ka_get (ref_store al put sm ss S t0) k w = (Inl e, w') \<and> IsNotFound e
      | Some x \<Rightarrow> ka_get (ref_store al put sm ss S t0) k w = (Inr x, w'))" for k w
    by (rule exI [of _ w]) (simp add: ref_store_def find not_found_def split: option.split)
  show "stores V (ref_store al put sm ss S t0) S t0"
    unfolding stores_def
    by (intro conjI allI impI get)
      (auto simp: ref_store_def find parts put' Let_def new_object_def updated_def status_updated_def kept_meta_def
        is_current_def next_version_def)
qed

lemma ref_store_lists:
  assumes "\<And>w. sh_find S (V w) = map_of (al w)"
  shows "lists_all V (ref_store al put sm ss S t0) S"
  unfolding lists_all_def ref_store_def
proof (intro allI, simp only: kind_api.select_convs list_opts.select_convs prod.inject sum.inject assms)
  fix ns w
  have "set [the (map_of (al w) k). k \<leftarrow> remdups (map fst (al w)), k_ns k = ns] =
      {x. \<exists>k. map_of (al w) k = Some x \<and> k_ns k = ns}" (is "?l = ?r")
  proof (intro equalityI subsetI)
    fix x
    assume "x \<in> ?r"
    then obtain k where "map_of (al w) k = Some x" "k_ns k = ns" by blast
    moreover from this have "k \<in> fst ` set (al w)" by (metis domI dom_map_of_conv_image_fst)
    ultimately show "x \<in> ?l" by force
  next
    fix x
    assume "x \<in> ?l"
    then obtain k where "k \<in> fst ` set (al w)" "k_ns k = ns" "x = the (map_of (al w) k)" by auto
    then show "x \<in> ?r" by (metis (mono_tags, lifting) domD dom_map_of_conv_image_fst mem_Collect_eq option.sel)
  qed
  then show "\<exists>xs w'. ([the (map_of (al w) k). k \<leftarrow> remdups (map fst (al w)), k_ns k = ns] = xs \<and> w = w') \<and>
      V w' = V w \<and> set xs = {x. \<exists>k. map_of (al w) k = Some x \<and> k_ns k = ns}" by blast
qed

text \<open>The four kinds.\<close>

record ref_world =
  rw_configs :: "(key \<times> nixos_config) list"
  rw_machines :: "(key \<times> machine) list"
  rw_jobs :: "(key \<times> nix_job) list"
  rw_crons :: "(key \<times> nix_cron_job) list"

definition ref_view :: "ref_world \<Rightarrow> snapshot" where
  "ref_view w = \<lparr>sn_configs = map_of (rw_configs w), sn_machines = map_of (rw_machines w),
     sn_jobs = map_of (rw_jobs w), sn_crons = map_of (rw_crons w)\<rparr>"

definition ref_env :: "ref_world env" where
  "ref_env = sample_env\<lparr>
     e_configs := ref_store rw_configs (\<lambda>xs w. w\<lparr>rw_configs := xs\<rparr>) (\<lambda>m x. x\<lparr>cf_meta := m\<rparr>) (\<lambda>t x. x\<lparr>cf_status := t\<rparr>)
       config_shape zero_config_status,
     e_machines := ref_store rw_machines (\<lambda>xs w. w\<lparr>rw_machines := xs\<rparr>) (\<lambda>m x. x\<lparr>ma_meta := m\<rparr>) (\<lambda>t x. x\<lparr>ma_status := t\<rparr>)
       machine_shape zero_machine_status,
     e_jobs := ref_store rw_jobs (\<lambda>xs w. w\<lparr>rw_jobs := xs\<rparr>) (\<lambda>m x. x\<lparr>nj_meta := m\<rparr>) (\<lambda>t x. x\<lparr>nj_status := t\<rparr>)
       job_shape zero_job_status,
     e_crons := ref_store rw_crons (\<lambda>xs w. w\<lparr>rw_crons := xs\<rparr>) (\<lambda>m x. x\<lparr>ncj_meta := m\<rparr>) (\<lambda>t x. x\<lparr>ncj_status := t\<rparr>)
       cron_shape zero_cron_status\<rparr>"

lemma ref_env_serves: "faithful_server ref_env ref_view"
  unfolding faithful_server_def ref_env_def
  by (simp, intro conjI ref_store_stores ref_store_lists) (simp_all add: shape_defs ref_view_def)

lemma ref_env_helpers: "e_lib ref_env = ref_lib" "retry_ok ref_env"
  by (simp_all add: ref_env_def sample_env_def retry_ok_attempts)

end
