(* ===== verification/Config_Progress.thy ===== *)
theory Config_Progress
  imports Config_Outcome Object_Store "HOL-Library.Sublist"
begin

text \<open>
  A live configuration gets applied. On a server that keeps what it accepted (\<open>faithful_server\<close>) the
  NixosConfiguration controller and the runs of its children drive the stored objects through the
  stages of \<open>stage\<close>: the install child is created, fails and is retried or succeeds, its success is
  recorded and the day-2 child created, and once that reports a successful run the configuration is
  Ready and the Machine names it.
\<close>

section \<open>Stages\<close>

definition install_key :: "key \<Rightarrow> key" where
  "install_key k = \<lparr>k_ns = k_ns k, k_name = installChildName (k_name k)\<rparr>"

definition day_two_key :: "key \<Rightarrow> key" where
  "day_two_key k = \<lparr>k_ns = k_ns k, k_name = dayTwoChildName (k_name k)\<rparr>"

definition machine_key :: "key \<Rightarrow> config_spec \<Rightarrow> key" where
  "machine_key k sp = \<lparr>k_ns = k_ns k, k_name = cf_machine_ref sp\<rparr>"

text \<open>No other configuration of the namespace claims the Machine earlier.\<close>

definition first_claim :: "snapshot \<Rightarrow> key \<Rightarrow> nixos_config \<Rightarrow> bool" where
  "first_claim v k c \<longleftrightarrow> (\<forall>k' c'. sn_configs v k' = Some c' \<and> k_ns k' = k_ns k \<and>
     cf_machine_ref (cf_spec c') = cf_machine_ref (cf_spec c) \<and> m_name (cf_meta c') \<noteq> k_name k \<longrightarrow> \<not> configEarlier c' c)"

text \<open>A live configuration that asks for a full install of a reachable Machine it may use.\<close>

definition live_config :: "snapshot \<Rightarrow> key \<Rightarrow> nixos_config \<Rightarrow> machine \<Rightarrow> bool" where
  "live_config v k c m \<longleftrightarrow> sn_configs v k = Some c \<and> key_of (cf_meta c) = k \<and> m_deletion (cf_meta c) = None \<and>
     cf_full_install (cf_spec c) \<and> first_claim v k c \<and> buildable c m \<and>
     sn_machines v (machine_key k (cf_spec c)) = Some m \<and> key_of (ma_meta m) = machine_key k (cf_spec c) \<and>
     m_deletion (ma_meta m) = None \<and> mst_discoverable (ma_status m)"

datatype stage = InstallFailed | InstallAbsent | InstallRunning | InstallSucceeded | DayTwoPending | DayTwoHealthy

definition job_at :: "snapshot \<Rightarrow> key \<Rightarrow> (nix_job \<Rightarrow> bool) \<Rightarrow> bool" where
  "job_at v k P \<longleftrightarrow> (\<exists>j. sn_jobs v (install_key k) = Some j \<and> plain_at (install_key k) (nj_meta j) \<and> P j)"

definition cron_at :: "snapshot \<Rightarrow> key \<Rightarrow> (nix_cron_job \<Rightarrow> bool) \<Rightarrow> bool" where
  "cron_at v k P \<longleftrightarrow> (\<exists>c. sn_crons v (day_two_key k) = Some c \<and> plain_at (day_two_key k) (ncj_meta c) \<and> P c)"

definition unfinished :: "nix_job \<Rightarrow> bool" where
  "unfinished j \<longleftrightarrow> \<not> succeeded j \<and> \<not> failed j"

definition never_ran :: "nix_cron_job \<Rightarrow> bool" where
  "never_ran c \<longleftrightarrow> ncj_last_successful (ncj_status c) = None"

definition healthy :: "nix_cron_job \<Rightarrow> bool" where
  "healthy c \<longleftrightarrow> ws_phase (ncj_status c) = PhaseReady \<and> ncj_last_successful (ncj_status c) \<noteq> None"

text \<open>What is stored of the children in each stage; \<open>n\<close> bounds the retries recorded so far.\<close>

fun children_at :: "snapshot \<Rightarrow> key \<Rightarrow> int \<Rightarrow> int \<Rightarrow> stage \<Rightarrow> bool" where
  "children_at v k n r InstallFailed \<longleftrightarrow> r < n \<and> sn_crons v (day_two_key k) = None \<and> job_at v k (\<lambda>j. failed j \<and> \<not> succeeded j)"
| "children_at v k n r InstallAbsent \<longleftrightarrow> r \<le> n \<and> sn_crons v (day_two_key k) = None \<and> sn_jobs v (install_key k) = None"
| "children_at v k n r InstallRunning \<longleftrightarrow> r \<le> n \<and> sn_crons v (day_two_key k) = None \<and> job_at v k unfinished"
| "children_at v k n r InstallSucceeded \<longleftrightarrow> sn_crons v (day_two_key k) = None \<and> job_at v k succeeded"
| "children_at v k n r DayTwoPending \<longleftrightarrow> sn_jobs v (install_key k) = None \<and> cron_at v k never_ran"
| "children_at v k n r DayTwoHealthy \<longleftrightarrow> sn_jobs v (install_key k) = None \<and> cron_at v k healthy"

definition at_stage :: "snapshot \<Rightarrow> key \<Rightarrow> int \<Rightarrow> stage \<Rightarrow> bool" where
  "at_stage v k n st \<longleftrightarrow> (\<exists>c m. live_config v k c m \<and> 0 \<le> sint (cs_install_retries (cf_status c)) \<and>
     (cs_install_done (cf_status c) \<longleftrightarrow> st \<in> {DayTwoPending, DayTwoHealthy}) \<and>
     children_at v k n (sint (cs_install_retries (cf_status c))) st)"


section \<open>The steps of a life\<close>

datatype life_step = Reconcile | InstallSucceeds | InstallFails | DayTwoSucceeds | ChildBusy | OtherWrites




section \<open>Steps of the children\<close>

lemma sn_other [simp]:
  "live_config (v\<lparr>sn_jobs := js\<rparr>) k c m \<longleftrightarrow> live_config v k c m"
  "live_config (v\<lparr>sn_crons := cs\<rparr>) k c m \<longleftrightarrow> live_config v k c m"
  by (simp_all add: live_config_def first_claim_def)





section \<open>The working copy\<close>

text \<open>The working copy \<open>c\<close> of the handler has the identity, specification and version of the stored object.\<close>

definition same_identity :: "nixos_config \<Rightarrow> nixos_config \<Rightarrow> bool" where
  "same_identity c z \<longleftrightarrow> key_of (cf_meta c) = key_of (cf_meta z) \<and> m_creation (cf_meta c) = m_creation (cf_meta z) \<and>
     cf_spec c = cf_spec z"

definition working_copy :: "snapshot \<Rightarrow> key \<Rightarrow> nixos_config \<Rightarrow> machine \<Rightarrow> bool" where
  "working_copy v k c m \<longleftrightarrow> (\<exists>z. live_config v k z m \<and> same_identity c z \<and> m_rv (cf_meta c) = m_rv (cf_meta z))"






lemma working_copy_frame [simp]:
  "working_copy (v\<lparr>sn_jobs := js\<rparr>) k c m \<longleftrightarrow> working_copy v k c m"
  "working_copy (v\<lparr>sn_crons := cs\<rparr>) k c m \<longleftrightarrow> working_copy v k c m"
  "working_copy (v\<lparr>sn_jobs := js, sn_configs := cfs\<rparr>) k c m \<longleftrightarrow> working_copy (v\<lparr>sn_configs := cfs\<rparr>) k c m"
  by (simp_all add: working_copy_def live_config_def first_claim_def)



section \<open>The handlers on the store\<close>



















section \<open>One reconcile\<close>

lemma children_frame [simp]:
  "children_at (v\<lparr>sn_configs := cs\<rparr>) k n r st = children_at v k n r st"
  "children_at (v\<lparr>sn_machines := ms\<rparr>) k n r st = children_at v k n r st"
  by (cases st; simp add: job_at_def cron_at_def)+












section \<open>Lives\<close>

lemma advance_add: "at_stage v k n st \<Longrightarrow> n \<le> n' \<Longrightarrow> at_stage v k n' st"
  unfolding at_stage_def by (cases st) (auto intro: order.strict_trans2 order_trans)

definition failures :: "life_step list \<Rightarrow> int" where
  "failures es = int (count_list es InstallFails)"

lemma failures_simps [simp]: "failures [] = 0" "failures (es @ es') = failures es + failures es'"
    "failures [st] = (if st = InstallFails then 1 else 0)" "0 \<le> failures es"
  by (simp_all add: failures_def)


section \<open>The stages in order\<close>


text \<open>What has to happen, in this order, whatever happens in between.\<close>

definition course :: "life_step list" where
  "course = [Reconcile, Reconcile, InstallSucceeds, Reconcile, DayTwoSucceeds]"



lemma course_length [simp]: "length course = 5"
  by (simp add: course_def)



section \<open>Property\<close>









end
