(* ===== verification/Ssh_Client.thy ===== *)
theory Ssh_Client
  imports Machine_Controller
begin

text \<open>
  The SSH client (\<open>internal/ssh/client.go\<close>): the client configuration, the connection check and
  the remote command, with their deferred closes. The network is the parameter \<open>net\<close>; the
  handles it answers with are numbers. The Machine controller is then put on top of this client.
\<close>

section \<open>The network\<close>

text \<open>\<open>n_parse_key\<close> is \<open>ssh.ParsePrivateKey\<close>, \<open>n_dial timeout addr\<close> is \<open>net.Dialer.DialContext\<close>.\<close>

record 'w net =
  n_parse_key :: "string \<Rightarrow> err + string"
  n_dial :: "int \<Rightarrow> string \<Rightarrow> 'w \<Rightarrow> (err + nat) \<times> 'w"
  n_set_deadline :: "nat \<Rightarrow> int \<Rightarrow> 'w \<Rightarrow> err option \<times> 'w"
  n_handshake :: "nat \<Rightarrow> string \<Rightarrow> client_config \<Rightarrow> 'w \<Rightarrow> (err + nat) \<times> 'w"
  n_session :: "nat \<Rightarrow> 'w \<Rightarrow> (err + nat) \<times> 'w"
  n_output :: "nat \<Rightarrow> string \<Rightarrow> 'w \<Rightarrow> (string \<times> err option) \<times> 'w"
  n_close :: "net_resource \<Rightarrow> 'w \<Rightarrow> unit \<times> 'w"

definition net_dial :: "'w net \<Rightarrow> int \<Rightarrow> string \<Rightarrow> ('w, err + nat) prog" where
  "net_dial N timeout addr = api_call (n_dial N timeout addr) (\<lambda>r. EvNet (Dialed addr timeout r))"

definition net_deadline :: "'w net \<Rightarrow> nat \<Rightarrow> int \<Rightarrow> ('w, err option) prog" where
  "net_deadline N conn t = api_call (n_set_deadline N conn t) (\<lambda>r. EvNet (DeadlineSet conn t r))"

definition net_handshake :: "'w net \<Rightarrow> nat \<Rightarrow> string \<Rightarrow> client_config \<Rightarrow> ('w, err + nat) prog" where
  "net_handshake N conn addr c = api_call (n_handshake N conn addr c) (\<lambda>r. EvNet (Handshaken conn addr c r))"

definition net_client :: "nat \<Rightarrow> ('w, unit) prog" where
  "net_client s = api_call (Pair ()) (\<lambda>_. EvNet (ClientMade s))"

definition net_session :: "'w net \<Rightarrow> nat \<Rightarrow> ('w, err + nat) prog" where
  "net_session N s = api_call (n_session N s) (\<lambda>r. EvNet (SessionOpened s r))"

definition net_output :: "'w net \<Rightarrow> nat \<Rightarrow> string \<Rightarrow> ('w, string \<times> err option) prog" where
  "net_output N x cmd = api_call (n_output N x cmd) (\<lambda>r. EvNet (CommandRan x cmd r))"

definition net_close :: "'w net \<Rightarrow> net_resource \<Rightarrow> ('w, unit) prog" where
  "net_close N x = api_call (n_close N x) (\<lambda>_. EvNet (Closed x))"

lemma runs_net [runs_intros]:
  "(\<And>r. R1 r [EvNet (Dialed addr t r)]) \<Longrightarrow> runs (net_dial N t addr) R1"
  "(\<And>r. R2 r [EvNet (DeadlineSet conn d r)]) \<Longrightarrow> runs (net_deadline N conn d) R2"
  "(\<And>r. R1 r [EvNet (Handshaken conn addr c r)]) \<Longrightarrow> runs (net_handshake N conn addr c) R1"
  "R3 () [EvNet (ClientMade s)] \<Longrightarrow> runs (net_client s) R3"
  "(\<And>r. R1 r [EvNet (SessionOpened s r)]) \<Longrightarrow> runs (net_session N s) R1"
  "(\<And>r. R4 r [EvNet (CommandRan x cmd r)]) \<Longrightarrow> runs (net_output N x cmd) R4"
  "R3 () [EvNet (Closed y)] \<Longrightarrow> runs (net_close N y) R3"
  unfolding net_dial_def net_deadline_def net_handshake_def net_client_def net_session_def net_output_def net_close_def
  by (rule runs_call; simp)+

section \<open>The client\<close>

definition ssh_addr :: "string \<Rightarrow> nat \<Rightarrow> string" where
  "ssh_addr host port = host @ '':'' @ show_nat port"

text \<open>The key first, the password as fallback.\<close>

definition key_auth :: "'w net \<Rightarrow> ssh_config \<Rightarrow> err + auth_method list" where
  "key_auth N config =
     (if sc_key config = [] then Inr []
      else (case n_parse_key N (sc_key config) of
          Inl e \<Rightarrow> Inl (wrap_err ''parse private key: '' e)
        | Inr signer \<Rightarrow> Inr [PublicKeys signer]))"

definition buildSSHConfig :: "'w net \<Rightarrow> ssh_config \<Rightarrow> err + client_config" where
  "buildSSHConfig N config =
     (case key_auth N config of
        Inl e \<Rightarrow> Inl e
      | Inr keys \<Rightarrow>
          (let auth = keys @ (if sc_password config = [] then [] else [AuthPassword (sc_password config)]) in
           if auth = [] then Inl (mk_err ''no authentication method configured'')
           else Inr \<lparr>clc_user = sc_user config, clc_auth = auth, clc_check_host_key = False, clc_timeout = sc_timeout config\<rparr>))"

text \<open>\<open>defer\<close>: the close runs when the body has returned, whatever it returned.\<close>

definition deferred :: "'w net \<Rightarrow> net_resource \<Rightarrow> ('w, 'a) prog \<Rightarrow> ('w, 'a) prog" where
  "deferred N x body = do {
     r \<leftarrow> body;
     net_close N x;
     State_Monad.return r
   }"

definition set_deadline :: "'w net \<Rightarrow> nat \<Rightarrow> int option \<Rightarrow> ('w, err option) prog" where
  "set_deadline N conn deadline = (case deadline of None \<Rightarrow> State_Monad.return None | Some t \<Rightarrow> net_deadline N conn t)"

text \<open>
  What both operations do between the configuration and their last step \<open>body\<close>: dial, set the
  deadline of the context, shake hands, make the client. \<open>fail\<close> forms their answer from an error.
\<close>

definition with_client ::
    "'w net \<Rightarrow> int option \<Rightarrow> string \<Rightarrow> ssh_config \<Rightarrow> client_config \<Rightarrow> (err \<Rightarrow> 'a) \<Rightarrow> (nat \<Rightarrow> ('w, 'a) prog) \<Rightarrow> ('w, 'a) prog" where
  "with_client N deadline addr config sshConfig fail body = do {
     c \<leftarrow> net_dial N (sc_timeout config) addr;
     (case c of
        Inl e \<Rightarrow> State_Monad.return (fail (wrap_err ''tcp dial: '' e))
      | Inr conn \<Rightarrow> deferred N (TcpConn conn) (do {
          d \<leftarrow> set_deadline N conn deadline;
          (case d of
             Some e \<Rightarrow> State_Monad.return (fail (wrap_err ''set deadline: '' e))
           | None \<Rightarrow> do {
               h \<leftarrow> net_handshake N conn addr sshConfig;
               (case h of
                  Inl e \<Rightarrow> State_Monad.return (fail (wrap_err ''ssh handshake: '' e))
                | Inr sshConn \<Rightarrow> deferred N (SshConn sshConn) (do {
                    net_client sshConn;
                    deferred N (SshClient sshConn) (body sshConn)
                  }))
             })
        }))
   }"

definition CheckConnection :: "'w net \<Rightarrow> int option \<Rightarrow> string \<Rightarrow> nat \<Rightarrow> ssh_config \<Rightarrow> ('w, err option) prog" where
  "CheckConnection N deadline host port config =
     (case buildSSHConfig N config of
        Inl e \<Rightarrow> State_Monad.return (Some (wrap_err ''build ssh config: '' e))
      | Inr sshConfig \<Rightarrow> with_client N deadline (ssh_addr host port) config sshConfig Some (\<lambda>_. State_Monad.return None))"

text \<open>The session: \<open>CombinedOutput\<close> answers with the output also when it fails.\<close>

definition run_session :: "'w net \<Rightarrow> string \<Rightarrow> nat \<Rightarrow> ('w, string \<times> err option) prog" where
  "run_session N command client = do {
     s \<leftarrow> net_session N client;
     (case s of
        Inl e \<Rightarrow> State_Monad.return ([], Some (wrap_err ''new session: '' e))
      | Inr session \<Rightarrow> deferred N (SshSession session) (do {
          r \<leftarrow> net_output N session command;
          State_Monad.return (fst r, map_option (wrap_err ''run command: '') (snd r))
        }))
   }"

definition RunCommand ::
    "'w net \<Rightarrow> int option \<Rightarrow> string \<Rightarrow> nat \<Rightarrow> ssh_config \<Rightarrow> string \<Rightarrow> ('w, string \<times> err option) prog" where
  "RunCommand N deadline host port config command =
     (case buildSSHConfig N config of
        Inl e \<Rightarrow> State_Monad.return ([], Some (wrap_err ''build ssh config: '' e))
      | Inr sshConfig \<Rightarrow> with_client N deadline (ssh_addr host port) config sshConfig (\<lambda>e. ([], Some e)) (run_session N command))"

text \<open>The interface \<open>ssh.Client\<close> the Machine controller calls, on this client.\<close>

definition default_check :: "'w net \<Rightarrow> ('w \<Rightarrow> int option) \<Rightarrow> string \<Rightarrow> nat \<Rightarrow> ssh_config \<Rightarrow> 'w \<Rightarrow> err option \<times> 'w" where
  "default_check N deadline host port config w =
     (case run_state (CheckConnection N (deadline w) host port config) \<lparr>sys_world = w, sys_log = []\<rparr> of
        (r, s) \<Rightarrow> (r, sys_world s))"

definition default_run :: "'w net \<Rightarrow> ('w \<Rightarrow> int option) \<Rightarrow> string \<Rightarrow> nat \<Rightarrow> ssh_config \<Rightarrow> string \<Rightarrow> 'w \<Rightarrow> (err + string) \<times> 'w" where
  "default_run N deadline host port config command w =
     (case run_state (RunCommand N (deadline w) host port config command) \<lparr>sys_world = w, sys_log = []\<rparr> of
        ((out, err), s) \<Rightarrow> (case err of Some e \<Rightarrow> Inl e | None \<Rightarrow> Inr out, sys_world s))"

text \<open>The client of the tests: its two functions, each optional.\<close>

record 'w mock_client =
  CheckConnectionFunc :: "(string \<Rightarrow> nat \<Rightarrow> ssh_config \<Rightarrow> 'w \<Rightarrow> err option \<times> 'w) option"
  RunCommandFunc :: "(string \<Rightarrow> nat \<Rightarrow> ssh_config \<Rightarrow> string \<Rightarrow> 'w \<Rightarrow> (err + string) \<times> 'w) option"

definition MockCheckConnection :: "'w mock_client \<Rightarrow> string \<Rightarrow> nat \<Rightarrow> ssh_config \<Rightarrow> 'w \<Rightarrow> err option \<times> 'w" where
  "MockCheckConnection M host port config w =
     (case CheckConnectionFunc M of Some f \<Rightarrow> f host port config w | None \<Rightarrow> (None, w))"

definition MockRunCommand ::
    "'w mock_client \<Rightarrow> string \<Rightarrow> nat \<Rightarrow> ssh_config \<Rightarrow> string \<Rightarrow> 'w \<Rightarrow> (err + string) \<times> 'w" where
  "MockRunCommand M host port config command w =
     (case RunCommandFunc M of Some f \<Rightarrow> f host port config command w | None \<Rightarrow> (Inr [], w))"

section \<open>Closing what was opened\<close>

fun opens :: "event \<Rightarrow> net_resource option" where
  "opens (EvNet (Dialed addr t (Inr c))) = Some (TcpConn c)"
| "opens (EvNet (Handshaken c addr k (Inr s))) = Some (SshConn s)"
| "opens (EvNet (ClientMade s)) = Some (SshClient s)"
| "opens (EvNet (SessionOpened s (Inr x))) = Some (SshSession x)"
| "opens _ = None"

fun closes :: "event \<Rightarrow> net_resource option" where
  "closes (EvNet (Closed x)) = Some x"
| "closes _ = None"

text \<open>The resources open after some events; \<open>None\<close> when something is closed that is not the last one opened.\<close>

fun still_open :: "net_resource list \<Rightarrow> event list \<Rightarrow> net_resource list option" where
  "still_open st [] = Some st"
| "still_open st (ev # es) =
     (case opens ev of
        Some x \<Rightarrow> still_open (x # st) es
      | None \<Rightarrow>
          (case closes ev of
             None \<Rightarrow> still_open st es
           | Some x \<Rightarrow> (case st of [] \<Rightarrow> None | y # st' \<Rightarrow> if x = y then still_open st' es else None)))"

definition tidy :: "event list \<Rightarrow> bool" where
  "tidy es \<longleftrightarrow> (\<forall>st. still_open st es = Some st)"

lemma still_open_append: "still_open st (es @ es') = (case still_open st es of None \<Rightarrow> None | Some st' \<Rightarrow> still_open st' es')"
  by (induction st es rule: still_open.induct) (auto split: option.splits list.splits)

lemma tidy_Nil [simp]: "tidy []"
  by (simp add: tidy_def)

lemma tidy_quiet: "opens ev = None \<Longrightarrow> closes ev = None \<Longrightarrow> tidy (ev # es) = tidy es"
  by (simp add: tidy_def)

lemma tidy_wrap: "tidy es \<Longrightarrow> opens ev = Some x \<Longrightarrow> tidy (ev # es @ [EvNet (Closed x)])"
  by (simp add: tidy_def still_open_append)

lemma tidy_snoc: "tidy es \<Longrightarrow> still_open [] (es @ [EvNet (Closed x)]) = None"
  by (simp add: tidy_def still_open_append)

lemma deferred_runs [runs_intros]: "runs body (\<lambda>r es. R r (es @ [EvNet (Closed x)])) \<Longrightarrow> runs (deferred N x body) R"
  unfolding deferred_def by (rule runs_bind, erule runs_mono) (intro runs_intros, simp)

lemma runs_set_deadline [runs_intros]:
  "(\<And>d r. deadline = Some d \<Longrightarrow> R r [EvNet (DeadlineSet conn d r)]) \<Longrightarrow> (deadline = None \<Longrightarrow> R None []) \<Longrightarrow>
     runs (set_deadline N conn deadline) R"
  unfolding set_deadline_def by (auto intro!: runs_intros)

section \<open>What was reached\<close>

definition deadline_events :: "int option \<Rightarrow> nat \<Rightarrow> event list" where
  "deadline_events deadline conn = (case deadline of None \<Rightarrow> [] | Some t \<Rightarrow> [EvNet (DeadlineSet conn t None)])"

text \<open>The connection was dialled at this address, shaken hands with under the deadline, as this user with
  these credentials, and gave the client \<open>s\<close>; \<open>rest\<close> is what followed.\<close>

definition reached :: "'w net \<Rightarrow> int option \<Rightarrow> string \<Rightarrow> nat \<Rightarrow> ssh_config \<Rightarrow> nat \<Rightarrow> event list \<Rightarrow> event list \<Rightarrow> bool" where
  "reached N deadline host port config s es rest \<longleftrightarrow>
     (\<exists>conn sshConfig. buildSSHConfig N config = Inr sshConfig \<and>
        es = EvNet (Dialed (ssh_addr host port) (sc_timeout config) (Inr conn)) # deadline_events deadline conn @
          EvNet (Handshaken conn (ssh_addr host port) sshConfig (Inr s)) # EvNet (ClientMade s) # rest @
          [EvNet (Closed (SshClient s)), EvNet (Closed (SshConn s)), EvNet (Closed (TcpConn conn))])"

fun is_command :: "event \<Rightarrow> bool" where
  "is_command (EvNet (CommandRan x cmd r)) = True"
| "is_command _ = False"

fun is_client :: "event \<Rightarrow> bool" where
  "is_client (EvNet (ClientMade s)) = True"
| "is_client _ = False"

text \<open>The answer of \<open>with_client\<close>: what the body answers to a client that was reached, or an error, and then
  no client was made.\<close>

lemma with_client_runs:
  assumes "buildSSHConfig N config = Inr sshConfig"
    and "\<And>s. runs (body s) (\<lambda>r es. tidy es \<and> B s r es)"
    and "\<And>s r rest es. B s r rest \<Longrightarrow> reached N deadline host port config s es rest \<Longrightarrow> tidy es \<Longrightarrow> R r es"
    and "\<And>e es. list_all (\<lambda>ev. \<not> is_client ev \<and> \<not> is_command ev) es \<Longrightarrow> tidy es \<Longrightarrow> R (fail e) es"
  shows "runs (with_client N deadline (ssh_addr host port) config sshConfig fail body) R"
proof -
  let ?closes = "\<lambda>s conn. [EvNet (Closed (SshClient s)), EvNet (Closed (SshConn s)), EvNet (Closed (TcpConn conn))]"
  have body: "runs (body s) (\<lambda>r es. R r (EvNet (Dialed (ssh_addr host port) (sc_timeout config) (Inr conn)) #
      deadline_events deadline conn @ EvNet (Handshaken conn (ssh_addr host port) sshConfig (Inr s)) #
      EvNet (ClientMade s) # es @ ?closes s conn))" for s conn
  proof (rule runs_mono [OF assms(2)])
    fix r rest
    assume "tidy rest \<and> B s r rest"
    then show "R r (EvNet (Dialed (ssh_addr host port) (sc_timeout config) (Inr conn)) # deadline_events deadline conn @
        EvNet (Handshaken conn (ssh_addr host port) sshConfig (Inr s)) # EvNet (ClientMade s) # rest @ ?closes s conn)"
      by (intro assms(3) [of s r rest])
        (auto simp: reached_def assms(1) deadline_events_def tidy_def still_open_append split: option.split)
  qed
  show ?thesis
    unfolding with_client_def
    by (intro runs_intros)
      (use body in \<open>auto simp: deadline_events_def tidy_def intro!: assms(4) split: option.splits\<close>)
qed

text \<open>What a session of the client \<open>s\<close> that ran \<open>command\<close> answers.\<close>

definition session_answer :: "nat \<Rightarrow> string \<Rightarrow> string \<times> err option \<Rightarrow> event list \<Rightarrow> bool" where
  "session_answer s command r rest \<longleftrightarrow>
     (\<exists>e. rest = [EvNet (SessionOpened s (Inl e))] \<and> snd r \<noteq> None) \<or>
     (\<exists>x out err. rest = [EvNet (SessionOpened s (Inr x)), EvNet (CommandRan x command (out, err)), EvNet (Closed (SshSession x))] \<and>
        fst r = out \<and> snd r = map_option (wrap_err ''run command: '') err)"

lemma run_session_runs: "runs (run_session N command s) (\<lambda>r es. tidy es \<and> session_answer s command r es)"
  unfolding run_session_def by (intro runs_intros) (auto simp: tidy_def session_answer_def)

definition check_answer :: "'w net \<Rightarrow> int option \<Rightarrow> string \<Rightarrow> nat \<Rightarrow> ssh_config \<Rightarrow> err option \<Rightarrow> event list \<Rightarrow> bool" where
  "check_answer N deadline host port config r es \<longleftrightarrow>
     (case r of None \<Rightarrow> \<exists>s. reached N deadline host port config s es []
      | Some e \<Rightarrow> list_all (\<lambda>ev. \<not> is_client ev \<and> \<not> is_command ev) es)"

definition command_answer ::
    "'w net \<Rightarrow> int option \<Rightarrow> string \<Rightarrow> nat \<Rightarrow> ssh_config \<Rightarrow> string \<Rightarrow> string \<times> err option \<Rightarrow> event list \<Rightarrow> bool" where
  "command_answer N deadline host port config command r es \<longleftrightarrow>
     (\<exists>s rest. reached N deadline host port config s es rest \<and> session_answer s command r rest) \<or>
     (snd r \<noteq> None \<and> list_all (\<lambda>ev. \<not> is_client ev \<and> \<not> is_command ev) es)"

lemma CheckConnection_runs:
  "runs (CheckConnection N deadline host port config) (\<lambda>r es. tidy es \<and> check_answer N deadline host port config r es)"
proof (cases "buildSSHConfig N config")
  case (Inl e)
  then show ?thesis by (simp add: CheckConnection_def check_answer_def runs_return)
next
  case (Inr sshConfig)
  show ?thesis
    unfolding CheckConnection_def Inr sum.case
    by (rule with_client_runs [OF Inr, where B = "\<lambda>s r rest. r = None \<and> rest = []"])
      (auto simp: check_answer_def intro!: runs_return)
qed

lemma RunCommand_runs:
  "runs (RunCommand N deadline host port config command)
     (\<lambda>r es. tidy es \<and> command_answer N deadline host port config command r es)"
proof (cases "buildSSHConfig N config")
  case (Inl e)
  then show ?thesis by (simp add: RunCommand_def command_answer_def runs_return)
next
  case (Inr sshConfig)
  show ?thesis
    unfolding RunCommand_def Inr sum.case
    by (rule with_client_runs [OF Inr, where B = "\<lambda>s. session_answer s command"])
      (auto simp: command_answer_def intro!: run_session_runs)
qed

section \<open>Properties\<close>

text \<open>C29. The SSH client leaks nothing: on every path, of a check as of a command, the connection, the SSH
  connection, the client and the session that were opened are closed before the return, each once and
  the last opened first, and nothing else is closed.\<close>

theorem ssh_client_closes:
  "runs (CheckConnection N deadline host port config) (\<lambda>_ es. still_open [] es = Some []) \<and>
   runs (RunCommand N deadline host port config command) (\<lambda>_ es. still_open [] es = Some [])"
  by (auto intro!: runs_mono [OF CheckConnection_runs] runs_mono [OF RunCommand_runs] simp: tidy_def)

text \<open>The SSH client answers truthfully: a check succeeds exactly when the address was dialled, the
  deadline set and the handshake done with the configured user and credentials; a command runs only
  in a session of such a connection, at most once and as given, and what is answered is its output
  and failure; without such a connection there is an error, no client and no command.\<close>

theorem ssh_client_answers:
  "runs (CheckConnection N deadline host port config) (check_answer N deadline host port config) \<and>
   runs (RunCommand N deadline host port config command) (command_answer N deadline host port config command)"
  by (auto intro: runs_mono [OF CheckConnection_runs] runs_mono [OF RunCommand_runs])

section \<open>The Machine controller on this client\<close>

text \<open>The credentials are the ones the Secrets of the Machine were read with.\<close>

definition credentials :: "event list \<Rightarrow> machine \<Rightarrow> ssh_config \<Rightarrow> bool" where
  "credentials es m cfg \<longleftrightarrow>
     sc_user cfg = (if ma_ssh_user (ma_spec m) = [] then ''root'' else ma_ssh_user (ma_spec m)) \<and>
     (case ma_key_ref (ma_spec m) of
        None \<Rightarrow> sc_key cfg = []
      | Some n \<Rightarrow> \<exists>sec. EvSecret (Got \<lparr>k_ns = m_ns (ma_meta m), k_name = n\<rparr> (Inr sec)) \<in> set es \<and>
          sec_data sec ''ssh-privatekey'' = Some (sc_key cfg)) \<and>
     (case ma_password_ref (ma_spec m) of
        None \<Rightarrow> sc_password cfg = []
      | Some ref \<Rightarrow> \<exists>sec. EvSecret (Got \<lparr>k_ns = m_ns (ma_meta m), k_name = kr_name ref\<rparr> (Inr sec)) \<in> set es \<and>
          sec_data sec (if kr_key ref = [] then ''password'' else kr_key ref) = Some (sc_password cfg)) \<and>
     (sc_key cfg \<noteq> [] \<or> sc_password cfg \<noteq> [])"

lemma machine_ssh_config_credentials:
  "runs (machine_ssh_config E m) (\<lambda>r es. \<forall>cfg. r = Inr cfg \<longrightarrow> credentials es m cfg)"
  unfolding machine_ssh_config_def ssh_private_key_def ssh_password_def ssh_config_of_def Let_def
  by (intro runs_intros) (auto simp: credentials_def split: option.splits sum.splits if_splits)

text \<open>From some state of the world, the client connects to the host with \<open>cfg\<close>.\<close>

definition connects_with :: "'w net \<Rightarrow> ('w \<Rightarrow> int option) \<Rightarrow> string \<Rightarrow> ssh_config \<Rightarrow> bool" where
  "connects_with N deadline host cfg \<longleftrightarrow>
     (\<exists>w s. reached N (deadline w) host DefaultSSHPort cfg s
        (sys_log (snd (run_state (CheckConnection N (deadline w) host DefaultSSHPort cfg) \<lparr>sys_world = w, sys_log = []\<rparr>))) [])"

lemma default_check_connects:
  assumes "fst (default_check N deadline host DefaultSSHPort cfg w) = None"
  shows "connects_with N deadline host cfg"
proof -
  let ?m = "CheckConnection N (deadline w) host DefaultSSHPort cfg" and ?s = "\<lparr>sys_world = w, sys_log = []\<rparr>"
  obtain r s where run: "run_state ?m ?s = (r, s)" by fastforce
  then have "r = None" using assms by (simp add: default_check_def)
  with runs_run [OF CheckConnection_runs run]
  have "\<exists>c. reached N (deadline w) host DefaultSSHPort cfg c (sys_log s) []" by (simp add: check_answer_def)
  with run show ?thesis unfolding connects_with_def by (metis snd_conv)
qed

lemma runs_call_op: "(\<And>w. R (fst (op w)) [ev (fst (op w))]) \<Longrightarrow> runs (api_call op ev) R"
  unfolding runs_def api_call_def by (auto split: prod.split) (metis fst_conv)

lemma host_ssh_check_runs:
  assumes "h_ssh_check (e_host E) = default_check N deadline"
  shows "runs (host_ssh_check E host DefaultSSHPort cfg)
    (\<lambda>r es. es = [EvHost (SshChecked host r)] \<and> (r = None \<longrightarrow> connects_with N deadline host cfg))"
  unfolding host_ssh_check_def assms
  by (rule runs_call_op) (auto intro: default_check_connects)

lemma credentials_mono: "credentials es m cfg \<Longrightarrow> set es \<subseteq> set es' \<Longrightarrow> credentials es' m cfg"
  unfolding credentials_def by (auto split: option.splits)

definition proven_reachable :: "'w net \<Rightarrow> ('w \<Rightarrow> int option) \<Rightarrow> machine \<Rightarrow> event list \<Rightarrow> bool" where
  "proven_reachable N deadline m es \<longleftrightarrow>
     (\<exists>cfg. credentials es m cfg \<and> connects_with N deadline (ma_host (ma_spec m)) cfg)"

lemma proven_mono: "proven_reachable N deadline m es \<Longrightarrow> set es \<subseteq> set es' \<Longrightarrow> proven_reachable N deadline m es'"
  unfolding proven_reachable_def by (auto intro: credentials_mono)

lemma checkDiscoverable_proves:
  assumes "h_ssh_check (e_host E) = default_check N deadline"
  shows "runs (checkDiscoverable E m) (\<lambda>(m', d, err) es. d \<longrightarrow> proven_reachable N deadline m es)"
  unfolding checkDiscoverable_def
proof (rule runs_then [OF machine_ssh_config_credentials], rule runs_case_sum, goal_cases)
  case (1 r es e)
  then show ?case unfolding RecordError_def by (intro runs_intros) simp_all
next
  case (2 c es cfg)
  then have cred: "credentials (es @ es') m cfg" for es' by (auto intro: credentials_mono)
  show ?case
    unfolding RecordSSHConnection_def
    by (intro runs_intros runs_then [OF host_ssh_check_runs [OF assms]])
      (auto simp: proven_reachable_def intro: cred)
qed

lemma status_frame [simp]:
  "mst_discoverable (ma_status (machine_cond L ty st rsn msg m)) = mst_discoverable (ma_status m)"
  "mst_discoverable (ma_status (unreachable_cond L err m)) = mst_discoverable (ma_status m)"
  "mst_discoverable (ma_status (set_arch arch now m)) = mst_discoverable (ma_status m)"
  by (simp_all add: machine_cond_def unreachable_cond_def set_arch_def split: option.split)

text \<open>C15. What the Machine controller calls reachable is: with the default client behind it, a reconcile that
  leaves a Machine discoverable has read the credentials of that Machine from the Secrets it names,
  and the client dialled its host at the SSH port and completed the handshake with exactly these
  credentials, as the configured user.\<close>

theorem discoverable_is_proven:
  assumes "h_ssh_check (e_host E) = default_check N deadline"
  shows "runs (machine_discover E m) (\<lambda>(m', res, err) es.
    mst_discoverable (ma_status m') \<longrightarrow> proven_reachable N deadline m es)"
  unfolding machine_discover_def
proof (rule runs_then [OF checkDiscoverable_proves [OF assms]], goal_cases)
  case (1 d es)
  obtain m1 disc err where d: "d = (m1, disc, err)" by (cases d)
  from 1 have "disc \<Longrightarrow> proven_reachable N deadline m (es @ es')" for es'
    by (auto simp: d intro: proven_mono)
  then show ?case
    by (auto simp: d Let_def intro!: runs_intros)
qed

text \<open>The witness: a network where every host answers and every handshake succeeds.\<close>

definition open_net :: "unit net" where
  "open_net = \<lparr>n_parse_key = Inr, n_dial = (\<lambda>_ _ w. (Inr 3, w)), n_set_deadline = (\<lambda>_ _ w. (None, w)),
     n_handshake = (\<lambda>_ _ _ w. (Inr 4, w)), n_session = (\<lambda>_ w. (Inr 5, w)), n_output = (\<lambda>_ _ w. ((''x86_64'', None), w)),
     n_close = (\<lambda>_ w. ((), w))\<rparr>"

definition client_env :: "unit env" where
  "client_env = sample_env\<lparr>e_host := (e_host sample_env)\<lparr>h_ssh_check := default_check open_net (\<lambda>_. Some 30)\<rparr>\<rparr>"

lemma discoverable_is_proven_witness:
  "runs (machine_discover client_env secret_user) (\<lambda>(m', res, err) es.
    mst_discoverable (ma_status m') \<longrightarrow> proven_reachable open_net (\<lambda>_. Some 30) secret_user es)"
  by (rule discoverable_is_proven) (simp add: client_env_def)

section \<open>Where the code falls short\<close>

text \<open>
  The address is formed with \<open>fmt.Sprintf\<close> and not with \<open>net.JoinHostPort\<close>, which brackets a host with a
  colon: the two agree on names and IPv4 addresses only, while the CRD admits colons in a host.
\<close>

definition join_host_port :: "string \<Rightarrow> nat \<Rightarrow> string" where
  "join_host_port host port =
     (if CHR '':'' \<in> set host then ''['' @ host @ '']:'' @ show_nat port else host @ '':'' @ show_nat port)"

lemma ssh_addr_is_join: "ssh_addr host port = join_host_port host port \<longleftrightarrow> CHR '':'' \<notin> set host"
proof (cases "CHR '':'' \<in> set host")
  case True
  then have "host \<noteq> []" by auto
  have "length (ssh_addr host port) \<noteq> length (join_host_port host port)"
    using True by (simp add: ssh_addr_def join_host_port_def)
  with True show ?thesis by auto
qed (simp add: ssh_addr_def join_host_port_def)

end
