(* ===== verification/Manager.thy ===== *)
theory Manager
  imports Ssh_Client Infra_Controllers Config_Controller Cluster_Controller
begin

text \<open>
  The manager entry point (\<open>cmd/main.go\<close>) and the \<open>SetupWithManager\<close> functions: the options of the
  two servers, the field indexes, and what wakes each controller. A call that can fail is a \<open>step\<close>;
  the program makes its steps in order and exits with 1 at the first failure. The parsed flags are
  the input; \<open>mapped kind\<close> is whether the REST mapper knows a Flux kind.
\<close>

section \<open>What a controller watches\<close>

datatype obj_kind =
    KMachine | KNixosConfiguration | KNixStore | KNixBuilder | KNixDeployment | KNixStatefulSet
  | KNixJob | KNixCronJob | KNixCluster
  | KSecret | KService | KStatefulSet | KDeployment | KJob | KCronJob | KFlux string

text \<open>The map functions of the watches; \<open>ByIndex list_kind index\<close> is \<open>enqueueByIndex\<close>.\<close>

datatype map_func =
    FindMachinesForSecret | FindConfigsForMachine | FindConfigsForOrphanRemoveJob | FindClustersForMachine
  | ByIndex obj_kind string

record controller =
  ctl_name :: string
  ctl_for :: obj_kind
  ctl_owns :: "obj_kind list"
  ctl_watches :: "(obj_kind \<times> map_func) list"

section \<open>Server options\<close>

record flags =
  fl_metrics_addr :: string
  fl_probe_addr :: string
  fl_leader_elect :: bool
  fl_metrics_secure :: bool
  fl_webhook_cert :: "string \<times> string \<times> string"
  fl_metrics_cert :: "string \<times> string \<times> string"
  fl_enable_http2 :: bool

definition default_flags :: flags where
  "default_flags = \<lparr>fl_metrics_addr = ''0'', fl_probe_addr = '':8081'', fl_leader_elect = False, fl_metrics_secure = True,
     fl_webhook_cert = ([], ''tls.crt'', ''tls.key''), fl_metrics_cert = ([], ''tls.crt'', ''tls.key''),
     fl_enable_http2 = False\<rparr>"

text \<open>A TLS option changes the protocols (\<open>NextProtos\<close>) of a TLS configuration.\<close>

type_synonym tls_opt = "string list \<Rightarrow> string list"

definition disableHTTP2 :: tls_opt where
  "disableHTTP2 protos = [''http/1.1'']"

definition tlsOpts :: "flags \<Rightarrow> tls_opt list" where
  "tlsOpts f = (if fl_enable_http2 f then [] else [disableHTTP2])"

record server_options =
  so_bind :: string
  so_secure :: bool
  so_tls :: "tls_opt list"
  so_filter :: bool
  so_cert_dir :: string
  so_cert_name :: string
  so_key_name :: string

definition with_cert :: "string \<times> string \<times> string \<Rightarrow> server_options \<Rightarrow> server_options" where
  "with_cert c o1 = (case c of (path, name, key) \<Rightarrow>
     if path = [] then o1 else o1\<lparr>so_cert_dir := path, so_cert_name := name, so_key_name := key\<rparr>)"

definition webhookServerOptions :: "flags \<Rightarrow> server_options" where
  "webhookServerOptions f = with_cert (fl_webhook_cert f)
     \<lparr>so_bind = [], so_secure = False, so_tls = tlsOpts f, so_filter = False, so_cert_dir = [], so_cert_name = [], so_key_name = []\<rparr>"

definition metricsServerOptions :: "flags \<Rightarrow> server_options" where
  "metricsServerOptions f = with_cert (fl_metrics_cert f)
     (let o1 = \<lparr>so_bind = fl_metrics_addr f, so_secure = fl_metrics_secure f, so_tls = tlsOpts f, so_filter = False,
            so_cert_dir = [], so_cert_name = [], so_key_name = []\<rparr>
      in if fl_metrics_secure f then o1\<lparr>so_filter := True\<rparr> else o1)"

record manager_options =
  mo_metrics :: server_options
  mo_webhook :: server_options
  mo_probe_addr :: string
  mo_leader_election :: bool
  mo_leader_id :: string

definition manager_options_of :: "flags \<Rightarrow> manager_options" where
  "manager_options_of f = \<lparr>mo_metrics = metricsServerOptions f, mo_webhook = webhookServerOptions f,
     mo_probe_addr = fl_probe_addr f, mo_leader_election = fl_leader_elect f, mo_leader_id = ''2edf4ad4.homystack.com''\<rparr>"

section \<open>Setting up the controllers\<close>

datatype step =
    NewManager manager_options
  | IndexField obj_kind string
  | CompleteController controller
  | AddHealthzCheck string
  | AddReadyzCheck string
  | StartManager

definition MachineSetup :: "step list" where
  "MachineSetup =
     [IndexField KMachine IndexMachineBySSHKeySecret,
      IndexField KMachine IndexMachineBySSHPasswordSecret,
      CompleteController \<lparr>ctl_name = ''machine'', ctl_for = KMachine, ctl_owns = [],
        ctl_watches = [(KSecret, FindMachinesForSecret)]\<rparr>]"

definition ConfigSetup :: "step list" where
  "ConfigSetup =
     [IndexField KNixosConfiguration IndexConfigByMachine,
      CompleteController \<lparr>ctl_name = ''nixosconfiguration'', ctl_for = KNixosConfiguration, ctl_owns = [KNixJob, KNixCronJob],
        ctl_watches = [(KMachine, FindConfigsForMachine), (KNixJob, FindConfigsForOrphanRemoveJob)]\<rparr>]"

definition StoreSetup :: "step list" where
  "StoreSetup = [CompleteController \<lparr>ctl_name = ''nixstore'', ctl_for = KNixStore,
     ctl_owns = [KStatefulSet, KService, KSecret], ctl_watches = []\<rparr>]"

definition BuilderSetup :: "step list" where
  "BuilderSetup = [CompleteController \<lparr>ctl_name = ''nixbuilder'', ctl_for = KNixBuilder,
     ctl_owns = [KStatefulSet, KService], ctl_watches = []\<rparr>]"

definition registerWorkloadIndexes :: "obj_kind \<Rightarrow> step list" where
  "registerWorkloadIndexes k = [IndexField k IndexByCredentialsSecret, IndexField k IndexByFluxSource]"

definition flux_watches :: "(string \<Rightarrow> bool) \<Rightarrow> obj_kind \<Rightarrow> (obj_kind \<times> map_func) list" where
  "flux_watches mapped k = map (\<lambda>fk. (KFlux fk, ByIndex k IndexByFluxSource)) (addFluxSourceWatches mapped)"

definition JobSetup :: "(string \<Rightarrow> bool) \<Rightarrow> step list" where
  "JobSetup mapped = registerWorkloadIndexes KNixJob @
     [CompleteController \<lparr>ctl_name = ''nixjob'', ctl_for = KNixJob, ctl_owns = [KJob],
        ctl_watches = (KSecret, ByIndex KNixJob IndexByCredentialsSecret) # flux_watches mapped KNixJob\<rparr>]"

definition CronSetup :: "(string \<Rightarrow> bool) \<Rightarrow> step list" where
  "CronSetup mapped = registerWorkloadIndexes KNixCronJob @
     [CompleteController \<lparr>ctl_name = ''nixcronjob'', ctl_for = KNixCronJob, ctl_owns = [KCronJob, KJob],
        ctl_watches = (KSecret, ByIndex KNixCronJob IndexByCredentialsSecret) # flux_watches mapped KNixCronJob\<rparr>]"

definition DeploymentSetup :: "(string \<Rightarrow> bool) \<Rightarrow> step list" where
  "DeploymentSetup mapped = registerWorkloadIndexes KNixDeployment @
     [CompleteController \<lparr>ctl_name = ''nixdeployment'', ctl_for = KNixDeployment, ctl_owns = [KDeployment],
        ctl_watches = (KSecret, ByIndex KNixDeployment IndexByCredentialsSecret) # flux_watches mapped KNixDeployment\<rparr>]"

definition StatefulSetSetup :: "(string \<Rightarrow> bool) \<Rightarrow> step list" where
  "StatefulSetSetup mapped = registerWorkloadIndexes KNixStatefulSet @
     [CompleteController \<lparr>ctl_name = ''nixstatefulset'', ctl_for = KNixStatefulSet, ctl_owns = [KStatefulSet],
        ctl_watches = (KSecret, ByIndex KNixStatefulSet IndexByCredentialsSecret) # flux_watches mapped KNixStatefulSet\<rparr>]"

definition ClusterSetup :: "step list" where
  "ClusterSetup = [CompleteController \<lparr>ctl_name = ''nixcluster'', ctl_for = KNixCluster, ctl_owns = [KNixCronJob],
     ctl_watches = [(KMachine, FindClustersForMachine)]\<rparr>]"

section \<open>The program\<close>

definition main_steps :: "(string \<Rightarrow> bool) \<Rightarrow> flags \<Rightarrow> step list" where
  "main_steps mapped f =
     NewManager (manager_options_of f) #
     MachineSetup @ ConfigSetup @ StoreSetup @ BuilderSetup @ DeploymentSetup mapped @ StatefulSetSetup mapped @
     JobSetup mapped @ CronSetup mapped @ ClusterSetup @
     [AddHealthzCheck ''healthz'', AddReadyzCheck ''readyz'', StartManager]"

text \<open>The steps made, each with its answer; a failure is the last one.\<close>

fun make_steps :: "(step \<Rightarrow> 'w \<Rightarrow> err option \<times> 'w) \<Rightarrow> step list \<Rightarrow> 'w \<Rightarrow> (step \<times> err option) list \<times> 'w" where
  "make_steps op [] w = ([], w)"
| "make_steps op (st # sts) w =
     (case op st w of
        (Some e, w1) \<Rightarrow> ([(st, Some e)], w1)
      | (None, w1) \<Rightarrow> (case make_steps op sts w1 of (done, w2) \<Rightarrow> ((st, None) # done, w2)))"

record outcome =
  oc_stdout :: string
  oc_exit :: nat
  oc_steps :: "(step \<times> err option) list"

definition main ::
    "(step \<Rightarrow> 'w \<Rightarrow> err option \<times> 'w) \<Rightarrow> (string \<Rightarrow> bool) \<Rightarrow> string list \<Rightarrow> flags \<Rightarrow> 'w \<Rightarrow> outcome \<times> 'w" where
  "main op mapped args f w =
     (if 1 < length args \<and> args ! 1 = ''version''
      then (\<lparr>oc_stdout = ''nixos-operator v0.1.0'' @ [CHR 0x0A], oc_exit = 0, oc_steps = []\<rparr>, w)
      else (case make_steps op (main_steps mapped f) w of
         (done, w1) \<Rightarrow> (\<lparr>oc_stdout = [], oc_exit = (if list_ex (\<lambda>(_, r). r \<noteq> None) done then 1 else 0), oc_steps = done\<rparr>, w1)))"

section \<open>Running the steps\<close>

lemma make_steps_shape:
  assumes "make_steps op sts w = (done, w')"
  obtains (all) "done = map (\<lambda>s. (s, None)) sts"
  | (failed) pre st e post where "sts = pre @ st # post" "done = map (\<lambda>s. (s, None)) pre @ [(st, Some e)]"
  using assms
proof (induction op sts w arbitrary: "done" w' thesis rule: make_steps.induct)
  case (1 op w)
  then show ?case by simp
next
  case (2 op st sts w)
  obtain r w1 where r: "op st w = (r, w1)" by fastforce
  show ?case
  proof (cases r)
    case (Some e)
    then show ?thesis using 2(3) [of "[]" st sts e] 2(4) r by simp
  next
    case None
    obtain d w2 where d: "make_steps op sts w1 = (d, w2)" by fastforce
    have eq: "done = (st, None) # d" using 2(4) r None d by simp
    show ?thesis
    proof (rule 2(1) [OF r [symmetric] None _ _ d])
      assume "d = map (\<lambda>s. (s, None)) sts"
      then show ?thesis using 2(2) eq by simp
    next
      fix pre s e post
      assume "sts = pre @ s # post" "d = map (\<lambda>s. (s, None)) pre @ [(s, Some e)]"
      then show ?thesis using 2(3) [of "st # pre" s post e] eq by simp
    qed
  qed
qed

section \<open>Indexes\<close>

text \<open>The indexes a map function lists by, and those a list call asked for.\<close>

fun index_queries :: "map_func \<Rightarrow> (obj_kind \<times> string) list" where
  "index_queries FindMachinesForSecret = [(KMachine, IndexMachineBySSHKeySecret), (KMachine, IndexMachineBySSHPasswordSecret)]"
| "index_queries FindConfigsForMachine = [(KNixosConfiguration, IndexConfigByMachine)]"
| "index_queries FindConfigsForOrphanRemoveJob = []"
| "index_queries FindClustersForMachine = []"
| "index_queries (ByIndex k i) = [(k, i)]"



text \<open>Every index a watch of a controller lists by was registered before the controller.\<close>

fun indexed_before :: "step list \<Rightarrow> step list \<Rightarrow> bool" where
  "indexed_before seen [] = True"
| "indexed_before seen (CompleteController c # sts) =
     (list_all (\<lambda>(k, mf). list_all (\<lambda>(lk, ix). IndexField lk ix \<in> set seen) (index_queries mf)) (ctl_watches c) \<and>
      indexed_before (CompleteController c # seen) sts)"
| "indexed_before seen (st # sts) = indexed_before (st # seen) sts"

lemmas setup_defs = MachineSetup_def ConfigSetup_def StoreSetup_def BuilderSetup_def JobSetup_def CronSetup_def
  DeploymentSetup_def StatefulSetSetup_def ClusterSetup_def registerWorkloadIndexes_def

definition controllers :: "step list \<Rightarrow> controller list" where
  "controllers sts = concat (map (\<lambda>st. case st of CompleteController c \<Rightarrow> [c] | _ \<Rightarrow> []) sts)"

section \<open>What wakes a controller\<close>











section \<open>Properties\<close>

text \<open>C28. The manager is started whole or not at all: without the version argument the program makes its steps
  in their order and stops at the first that fails, exactly then with exit code 1; a manager that is
  started has all nine controllers completed, one for each kind and name, and every field index a
  watch of a controller lists by was registered before that controller.\<close>

theorem manager_starts_whole:
  assumes "\<not> (1 < length args \<and> args ! 1 = ''version'')"
  shows "let oc = fst (main op mapped args f w); sts = main_steps mapped f in
    oc_stdout oc = [] \<and>
    (oc_exit oc = 0 \<and> oc_steps oc = map (\<lambda>st. (st, None)) sts \<or>
     oc_exit oc = 1 \<and> (\<exists>pre st e post. sts = pre @ st # post \<and> oc_steps oc = map (\<lambda>st. (st, None)) pre @ [(st, Some e)])) \<and>
    (StartManager \<in> fst ` set (oc_steps oc) \<longrightarrow> map fst (oc_steps oc) = sts) \<and>
    distinct (map ctl_name (controllers sts)) \<and>
    map ctl_for (controllers sts) = [KMachine, KNixosConfiguration, KNixStore, KNixBuilder, KNixDeployment, KNixStatefulSet,
      KNixJob, KNixCronJob, KNixCluster] \<and>
    indexed_before [] sts"
proof -
  let ?sts = "main_steps mapped f"
  obtain d w' where d: "make_steps op ?sts w = (d, w')" by fastforce
  have main: "fst (main op mapped args f w) =
      \<lparr>oc_stdout = [], oc_exit = (if list_ex (\<lambda>(_, r). r \<noteq> None) d then 1 else 0), oc_steps = d\<rparr>"
    using assms d by (auto simp: main_def)
  obtain init where start: "?sts = init @ [StartManager]" "StartManager \<notin> set init"
    by (simp add: main_steps_def setup_defs)
  have shape: "d = map (\<lambda>st. (st, None)) ?sts \<or>
      (\<exists>pre st e post. ?sts = pre @ st # post \<and> d = map (\<lambda>st. (st, None)) pre @ [(st, Some e)])"
    using make_steps_shape [OF d] by metis
  have started: "map fst d = ?sts" if "StartManager \<in> fst ` set d"
    using shape
  proof (elim disjE exE conjE)
    fix pre st e post
    assume pre: "?sts = pre @ st # post" and d: "d = map (\<lambda>st. (st, None)) pre @ [(st, Some e)]"
    have "StartManager \<in> set (pre @ [st])" using that by (auto simp: d)
    then have "post = []" using start pre by (cases post rule: rev_cases) auto
    then show ?thesis using pre d by (simp add: comp_def)
  qed (simp add: comp_def)
  have "distinct (map ctl_name (controllers ?sts))"
    by (simp add: controllers_def main_steps_def setup_defs)
  moreover have "map ctl_for (controllers ?sts) = [KMachine, KNixosConfiguration, KNixStore, KNixBuilder, KNixDeployment,
      KNixStatefulSet, KNixJob, KNixCronJob, KNixCluster]"
    by (simp add: controllers_def main_steps_def setup_defs)
  moreover have "indexed_before [] ?sts"
    by (auto simp: main_steps_def setup_defs flux_watches_def list_all_iff)
  moreover have "oc_exit (fst (main op mapped args f w)) = 0 \<and> d = map (\<lambda>st. (st, None)) ?sts \<or>
      oc_exit (fst (main op mapped args f w)) = 1 \<and>
        (\<exists>pre st e post. ?sts = pre @ st # post \<and> d = map (\<lambda>st. (st, None)) pre @ [(st, Some e)])"
    using shape
  proof (elim disjE exE conjE)
    assume "d = map (\<lambda>st. (st, None)) ?sts"
    then show ?thesis by (simp add: main list_ex_iff)
  next
    fix pre st e post
    assume "?sts = pre @ st # post" "d = map (\<lambda>st. (st, None)) pre @ [(st, Some e)]"
    moreover from this have "list_ex (\<lambda>(_, r). r \<noteq> None) d" by simp
    ultimately show ?thesis unfolding main by auto
  qed
  ultimately show ?thesis
    using started by (simp add: Let_def main)
qed

lemma manager_starts_whole_witness:
  "oc_exit (fst (main (\<lambda>st w. (if st = AddReadyzCheck ''readyz'' then Some (mk_err ''x'') else None, w)) (\<lambda>_. True)
     [''manager''] default_flags ())) = 1"
proof -
  let ?op = "\<lambda>st w :: unit. (if st = AddReadyzCheck ''readyz'' then Some (mk_err ''x'') else None, w)"
  let ?oc = "fst (main ?op (\<lambda>_. True) [''manager''] default_flags ())"
  have "\<not> (1 < length [''manager''] \<and> [''manager''] ! 1 = ''version'')" by simp
  note whole = manager_starts_whole [OF this, of ?op "\<lambda>_. True" default_flags "()", unfolded Let_def]
  have "oc_steps ?oc \<noteq> map (\<lambda>st. (st, None)) (main_steps (\<lambda>_. True) default_flags)"
    by (simp add: main_def main_steps_def setup_defs)
  with whole show ?thesis by blast
qed



text \<open>The protocols a server offers, from those of its default configuration.\<close>

definition offered :: "server_options \<Rightarrow> string list \<Rightarrow> string list" where
  "offered o1 protos = foldl (\<lambda>p opt. opt p) protos (so_tls o1)"

text \<open>The servers follow the flags: HTTP/2 is offered by neither the webhook nor the metrics server unless
  it is enabled, the metrics endpoint asks for authentication exactly when it is served securely, each
  server takes its own certificate when a path for it is given and none otherwise, and nothing else of
  the options of the metrics server depends on the certificates.\<close>

theorem servers_follow_flags:
  "(offered (webhookServerOptions f) protos = (if fl_enable_http2 f then protos else [''http/1.1''])) \<and>
   (offered (metricsServerOptions f) protos = (if fl_enable_http2 f then protos else [''http/1.1''])) \<and>
   so_filter (metricsServerOptions f) = fl_metrics_secure f \<and> so_secure (metricsServerOptions f) = fl_metrics_secure f \<and>
   so_bind (metricsServerOptions f) = fl_metrics_addr f \<and>
   (so_cert_dir (metricsServerOptions f), so_cert_name (metricsServerOptions f), so_key_name (metricsServerOptions f)) =
     (if fst (fl_metrics_cert f) = [] then ([], [], []) else fl_metrics_cert f) \<and>
   (so_cert_dir (webhookServerOptions f), so_cert_name (webhookServerOptions f), so_key_name (webhookServerOptions f)) =
     (if fst (fl_webhook_cert f) = [] then ([], [], []) else fl_webhook_cert f)"
  by (cases "fl_webhook_cert f"; cases "fl_metrics_cert f")
    (simp add: offered_def webhookServerOptions_def metricsServerOptions_def with_cert_def tlsOpts_def disableHTTP2_def Let_def)

end
