(* ===== verification/Api_Registration.thy ===== *)
theory Api_Registration
  imports Manager Api_Copies
begin

text \<open>
  The types of the scheme: \<open>groupversion_info.go\<close>, the \<open>init\<close> of every types file of \<open>api/v1alpha1\<close>, which
  registers a type and its list, and the \<open>init\<close> of \<open>cmd/main.go\<close>, which adds those of client-go and these.
  A scheme is the list of known types by group, version and kind; the types of client-go are a
  parameter. Flux sources are watched as unstructured objects and need not be known.
\<close>

section \<open>The builder\<close>

type_synonym group_version = "string \<times> string"
type_synonym scheme = "(group_version \<times> string) list"

record scheme_builder =
  sb_group_version :: group_version
  sb_kinds :: "string list"

definition GroupVersion :: group_version where
  "GroupVersion = (''nio.homystack.com'', ''v1alpha1'')"

definition SchemeBuilder :: scheme_builder where
  "SchemeBuilder = \<lparr>sb_group_version = GroupVersion, sb_kinds = []\<rparr>"

definition Register :: "string list \<Rightarrow> scheme_builder \<Rightarrow> scheme_builder" where
  "Register kinds b = b\<lparr>sb_kinds := sb_kinds b @ kinds\<rparr>"

definition AddToScheme :: "scheme_builder \<Rightarrow> scheme \<Rightarrow> scheme" where
  "AddToScheme b s = s @ map (Pair (sb_group_version b)) (sb_kinds b)"

section \<open>The inits, in the order of the files\<close>

definition machine_init :: "scheme_builder \<Rightarrow> scheme_builder" where
  "machine_init = Register [''Machine'', ''MachineList'']"

definition nixbuilder_init :: "scheme_builder \<Rightarrow> scheme_builder" where
  "nixbuilder_init = Register [''NixBuilder'', ''NixBuilderList'']"

definition nixcluster_init :: "scheme_builder \<Rightarrow> scheme_builder" where
  "nixcluster_init = Register [''NixCluster'', ''NixClusterList'']"

definition nixcronjob_init :: "scheme_builder \<Rightarrow> scheme_builder" where
  "nixcronjob_init = Register [''NixCronJob'', ''NixCronJobList'']"

definition nixdeployment_init :: "scheme_builder \<Rightarrow> scheme_builder" where
  "nixdeployment_init = Register [''NixDeployment'', ''NixDeploymentList'']"

definition nixjob_init :: "scheme_builder \<Rightarrow> scheme_builder" where
  "nixjob_init = Register [''NixJob'', ''NixJobList'']"

definition nixosconfiguration_init :: "scheme_builder \<Rightarrow> scheme_builder" where
  "nixosconfiguration_init = Register [''NixosConfiguration'', ''NixosConfigurationList'']"

definition nixstatefulset_init :: "scheme_builder \<Rightarrow> scheme_builder" where
  "nixstatefulset_init = Register [''NixStatefulSet'', ''NixStatefulSetList'']"

definition nixstore_init :: "scheme_builder \<Rightarrow> scheme_builder" where
  "nixstore_init = Register [''NixStore'', ''NixStoreList'']"

definition api_builder :: scheme_builder where
  "api_builder = fold (\<lambda>f. f) [machine_init, nixbuilder_init, nixcluster_init, nixcronjob_init, nixdeployment_init,
     nixjob_init, nixosconfiguration_init, nixstatefulset_init, nixstore_init] SchemeBuilder"

text \<open>\<open>init\<close> of the program.\<close>

definition main_init :: "scheme \<Rightarrow> scheme" where
  "main_init client_go = AddToScheme api_builder ([] @ client_go)"

section \<open>What the controllers need\<close>

fun group_kind :: "obj_kind \<Rightarrow> (group_version \<times> string) option" where
  "group_kind KMachine = Some (GroupVersion, ''Machine'')"
| "group_kind KNixosConfiguration = Some (GroupVersion, ''NixosConfiguration'')"
| "group_kind KNixStore = Some (GroupVersion, ''NixStore'')"
| "group_kind KNixBuilder = Some (GroupVersion, ''NixBuilder'')"
| "group_kind KNixDeployment = Some (GroupVersion, ''NixDeployment'')"
| "group_kind KNixStatefulSet = Some (GroupVersion, ''NixStatefulSet'')"
| "group_kind KNixJob = Some (GroupVersion, ''NixJob'')"
| "group_kind KNixCronJob = Some (GroupVersion, ''NixCronJob'')"
| "group_kind KNixCluster = Some (GroupVersion, ''NixCluster'')"
| "group_kind KSecret = Some (([], ''v1''), ''Secret'')"
| "group_kind KService = Some (([], ''v1''), ''Service'')"
| "group_kind KStatefulSet = Some ((''apps'', ''v1''), ''StatefulSet'')"
| "group_kind KDeployment = Some ((''apps'', ''v1''), ''Deployment'')"
| "group_kind KJob = Some ((''batch'', ''v1''), ''Job'')"
| "group_kind KCronJob = Some ((''batch'', ''v1''), ''CronJob'')"
| "group_kind (KFlux fk) = None"

definition built_in_kinds :: scheme where
  "built_in_kinds = [(([], ''v1''), ''Secret''), (([], ''v1''), ''Service''), ((''apps'', ''v1''), ''StatefulSet''),
     ((''apps'', ''v1''), ''Deployment''), ((''batch'', ''v1''), ''Job''), ((''batch'', ''v1''), ''CronJob'')]"

lemmas init_defs = machine_init_def nixbuilder_init_def nixcluster_init_def nixcronjob_init_def nixdeployment_init_def
  nixjob_init_def nixosconfiguration_init_def nixstatefulset_init_def nixstore_init_def

lemma api_kinds:
  "sb_kinds api_builder = [''Machine'', ''MachineList'', ''NixBuilder'', ''NixBuilderList'', ''NixCluster'', ''NixClusterList'',
     ''NixCronJob'', ''NixCronJobList'', ''NixDeployment'', ''NixDeploymentList'', ''NixJob'', ''NixJobList'',
     ''NixosConfiguration'', ''NixosConfigurationList'', ''NixStatefulSet'', ''NixStatefulSetList'', ''NixStore'', ''NixStoreList'']"
  "sb_group_version api_builder = GroupVersion"
  by (simp_all add: api_builder_def init_defs Register_def SchemeBuilder_def)

text \<open>Every registered type is an object: it has a \<open>DeepCopyObject\<close>, and the other way round.\<close>

lemma registered_are_objects: "set (sb_kinds api_builder) = fst ` set (object_copies X D)" "distinct (sb_kinds api_builder)"
  by (auto simp: api_kinds object_copies_def)

text \<open>With the built-in types in client-go's scheme, every kind a controller can reconcile, own or watch is known to
  the scheme of the manager, except the Flux sources.\<close>

theorem kinds_are_known:
  assumes "set built_in_kinds \<subseteq> set client_go" "group_kind k = Some gk"
  shows "gk \<in> set (main_init client_go)"
proof -
  have "gk \<in> set (map (Pair GroupVersion) (sb_kinds api_builder)) \<union> set built_in_kinds"
    using assms(2) by (cases k) (auto simp: api_kinds built_in_kinds_def)
  moreover have "set (map (Pair GroupVersion) (sb_kinds api_builder)) \<subseteq> set (main_init client_go)"
    by (auto simp: main_init_def AddToScheme_def api_kinds(2))
  moreover have "set client_go \<subseteq> set (main_init client_go)" by (auto simp: main_init_def AddToScheme_def)
  ultimately show ?thesis using assms(1) by blast
qed

end
