(* ===== verification/Test_Utils.thy ===== *)
theory Test_Utils
  imports Go_Std "HOL-Library.State_Monad" "HOL-Library.Monad_Syntax"
begin

text \<open>
  The helpers of the end-to-end tests (\<open>test/utils/utils.go\<close>): running commands in the project directory,
  asking for the CRDs of cert-manager, and removing comment prefixes from a file. The machine they run on
  is a parameter, a record of operations over an arbitrary world; messages to \<open>GinkgoWriter\<close> are left
  out. Writes to a \<open>bytes.Buffer\<close> never fail; its content is a string.
\<close>

section \<open>The machine\<close>

text \<open>\<open>os.Getwd\<close>, \<open>os.Chdir\<close>, \<open>os.Environ\<close>, \<open>os.LookupEnv\<close>, \<open>os.ReadFile\<close>, \<open>os.WriteFile\<close> and
  \<open>cmd.CombinedOutput\<close> of a command with its directory and environment. An error is its text.\<close>

record 'w machine_os =
  os_getwd :: "'w \<Rightarrow> (string \<times> string option) \<times> 'w"
  os_chdir :: "string \<Rightarrow> 'w \<Rightarrow> string option \<times> 'w"
  os_environ :: "'w \<Rightarrow> string list \<times> 'w"
  os_lookup_env :: "string \<Rightarrow> 'w \<Rightarrow> string option \<times> 'w"
  os_read_file :: "string \<Rightarrow> 'w \<Rightarrow> (string + string) \<times> 'w"
  os_write_file :: "string \<Rightarrow> string \<Rightarrow> nat \<Rightarrow> 'w \<Rightarrow> string option \<times> 'w"
  os_combined_output :: "string list \<Rightarrow> string \<Rightarrow> string list \<Rightarrow> 'w \<Rightarrow> (string \<times> string option) \<times> 'w"

section \<open>Commands\<close>

definition GetProjectDir :: "'w machine_os \<Rightarrow> ('w, string \<times> string option) state" where
  "GetProjectDir M = do {
     r \<leftarrow> State (os_getwd M);
     State_Monad.return (case r of
        (wd, Some e) \<Rightarrow> (wd, Some (''failed to get current working directory: '' @ e))
      | (wd, None) \<Rightarrow> (replace_all ''/test/e2e'' [] wd, None))
   }"

definition Run :: "'w machine_os \<Rightarrow> string list \<Rightarrow> ('w, string \<times> string option) state" where
  "Run M args = do {
     d \<leftarrow> GetProjectDir M;
     State (os_chdir M (fst d));
     environ \<leftarrow> State (os_environ M);
     r \<leftarrow> State (os_combined_output M args (fst d) (environ @ [''GO111MODULE=on'']));
     State_Monad.return (case r of
        (out, Some e) \<Rightarrow> (out, Some (go_quote (join '' '' args) @ '' failed with error '' @ go_quote out @ '': '' @ e))
      | (out, None) \<Rightarrow> (out, None))
   }"

definition cert_manager_url :: string where
  "cert_manager_url = ''https://github.com/cert-manager/cert-manager/releases/download/v1.19.1/cert-manager.yaml''"

definition InstallCertManager :: "'w machine_os \<Rightarrow> ('w, string option) state" where
  "InstallCertManager M = do {
     r \<leftarrow> Run M [''kubectl'', ''apply'', ''-f'', cert_manager_url];
     (case snd r of
        Some e \<Rightarrow> State_Monad.return (Some e)
      | None \<Rightarrow> do {
          w \<leftarrow> Run M [''kubectl'', ''wait'', ''deployment.apps/cert-manager-webhook'', ''--for'', ''condition=Available'',
                 ''--namespace'', ''cert-manager'', ''--timeout'', ''5m''];
          State_Monad.return (snd w)
        })
   }"

fun delete_leases :: "'w machine_os \<Rightarrow> string list \<Rightarrow> ('w, unit) state" where
  "delete_leases M [] = State_Monad.return ()"
| "delete_leases M (lease # leases) = do {
     Run M [''kubectl'', ''delete'', ''lease'', lease, ''-n'', ''kube-system'', ''--ignore-not-found'', ''--force'', ''--grace-period=0''];
     delete_leases M leases
   }"

definition UninstallCertManager :: "'w machine_os \<Rightarrow> ('w, unit) state" where
  "UninstallCertManager M = do {
     Run M [''kubectl'', ''delete'', ''-f'', cert_manager_url];
     delete_leases M [''cert-manager-cainjector-leader-election'', ''cert-manager-controller'']
   }"

definition GetNonEmptyLines :: "string \<Rightarrow> string list" where
  "GetNonEmptyLines out = filter (\<lambda>element. element \<noteq> []) (split_on (CHR 0x0A) out)"

definition certManagerCRDs :: "string list" where
  "certManagerCRDs = [''certificates.cert-manager.io'', ''issuers.cert-manager.io'', ''clusterissuers.cert-manager.io'',
     ''certificaterequests.cert-manager.io'', ''orders.acme.cert-manager.io'', ''challenges.acme.cert-manager.io'']"

definition IsCertManagerCRDsInstalled :: "'w machine_os \<Rightarrow> ('w, bool) state" where
  "IsCertManagerCRDsInstalled M = do {
     r \<leftarrow> Run M [''kubectl'', ''get'', ''crds''];
     State_Monad.return (case snd r of
        Some e \<Rightarrow> False
      | None \<Rightarrow> list_ex (\<lambda>crd. list_ex (\<lambda>line. contains_str line crd) (GetNonEmptyLines (fst r))) certManagerCRDs)
   }"

definition LoadImageToKindClusterWithName :: "'w machine_os \<Rightarrow> string \<Rightarrow> ('w, string option) state" where
  "LoadImageToKindClusterWithName M name = do {
     c \<leftarrow> State (os_lookup_env M ''KIND_CLUSTER'');
     k \<leftarrow> State (os_lookup_env M ''KIND'');
     r \<leftarrow> Run M [case k of Some v \<Rightarrow> v | None \<Rightarrow> ''kind'', ''load'', ''docker-image'', name, ''--name'',
            case c of Some v \<Rightarrow> v | None \<Rightarrow> ''kind''];
     State_Monad.return (snd r)
   }"

section \<open>Removing comment prefixes\<close>

text \<open>\<open>strings.Index\<close>: the text before the first occurrence, and the text after it.\<close>

fun cut_at :: "string \<Rightarrow> string \<Rightarrow> (string \<times> string) option" where
  "cut_at target s =
     (if has_prefix s target then Some ([], drop (length target) s)
      else (case s of [] \<Rightarrow> None | c # cs \<Rightarrow> map_option (\<lambda>(a, b). (c # a, b)) (cut_at target cs)))"

text \<open>The lines \<open>bufio.Scanner\<close> returns: a carriage return before the newline is dropped, so is an empty last
  line, and scanning stops at a line that does not fit the buffer.\<close>

definition MaxScanTokenSize :: nat where
  "MaxScanTokenSize = 64 * 1024"

definition drop_cr :: "string \<Rightarrow> string" where
  "drop_cr line = (if line \<noteq> [] \<and> last line = CHR 0x0D then butlast line else line)"

definition scan_lines :: "string \<Rightarrow> string list" where
  "scan_lines s =
     (let ls = split_on (CHR 0x0A) s; raw = (if last ls = [] then butlast ls else ls)
      in map drop_cr (takeWhile (\<lambda>l. length l < MaxScanTokenSize) raw))"

definition trim_prefix :: "string \<Rightarrow> string \<Rightarrow> string" where
  "trim_prefix s prefix = (if has_prefix s prefix then drop (length prefix) s else s)"

text \<open>The loop that writes the lines, separated by newlines.\<close>

fun write_lines :: "string \<Rightarrow> string list \<Rightarrow> string \<Rightarrow> string" where
  "write_lines prefix [] out = out"
| "write_lines prefix [l] out = out @ trim_prefix l prefix"
| "write_lines prefix (l # ls) out = write_lines prefix ls (out @ trim_prefix l prefix @ [CHR 0x0A])"

definition UncommentCode :: "'w machine_os \<Rightarrow> string \<Rightarrow> string \<Rightarrow> string \<Rightarrow> ('w, string option) state" where
  "UncommentCode M filename target prefix = do {
     r \<leftarrow> State (os_read_file M filename);
     (case r of
        Inl e \<Rightarrow> State_Monad.return (Some (''failed to read file '' @ go_quote filename @ '': '' @ e))
      | Inr content \<Rightarrow>
     (case cut_at target content of
        None \<Rightarrow> State_Monad.return (Some (''unable to find the code '' @ go_quote target @ '' to be uncomment''))
      | Some (before, after) \<Rightarrow>
          if scan_lines target = [] then State_Monad.return None
          else do {
            w \<leftarrow> State (os_write_file M filename (write_lines prefix (scan_lines target) before @ after) 420);
            State_Monad.return (case w of
               Some e \<Rightarrow> Some (''failed to write file '' @ go_quote filename @ '': '' @ e) | None \<Rightarrow> None)
          }))
   }"

section \<open>What is written\<close>

declare cut_at.simps [simp del]

lemma has_prefix_iff: "has_prefix s p \<longleftrightarrow> (\<exists>t. s = p @ t)"
  by (metis append_eq_conv_conj append_take_drop_id has_prefix_def)

text \<open>\<open>cut_at\<close> finds the first occurrence, if there is one.\<close>

lemma cut_at_Some:
  "cut_at t s = Some (a, b) \<Longrightarrow> s = a @ t @ b \<and> (\<forall>a' b'. s = a' @ t @ b' \<longrightarrow> length a \<le> length a')"
proof (induction t s arbitrary: a rule: cut_at.induct)
  case (1 t s)
  show ?case
  proof (cases "has_prefix s t")
    case True
    with 1 show ?thesis by (auto simp: cut_at.simps has_prefix_iff)
  next
    case False
    with 1(2) obtain c cs a1 where s: "s = c # cs" "cut_at t cs = Some (a1, b)" "a = c # a1"
      by (auto simp: cut_at.simps [of t s] split: list.splits)
    have "length a \<le> length a'" if "s = a' @ t @ b'" for a' b'
    proof (cases a')
      case Nil
      with that False show ?thesis by (simp add: has_prefix_iff)
    next
      case (Cons x xs)
      with that s 1(1) [OF False s(1,2)] show ?thesis by auto
    qed
    with 1(1) [OF False s(1,2)] s show ?thesis by auto
  qed
qed

lemma cut_at_None: "cut_at t s = None \<Longrightarrow> s \<noteq> a @ t @ b"
proof (induction t s arbitrary: a rule: cut_at.induct)
  case (1 t s)
  then have no: "\<not> has_prefix s t" by (auto simp: cut_at.simps [of t s] split: if_splits)
  show ?case
  proof (cases s)
    case (Cons c cs)
    with 1(2) no have "cut_at t cs = None" by (simp add: cut_at.simps [of t "c # cs"])
    with 1(1) [OF no Cons] Cons no show ?thesis by (cases a) (auto simp: has_prefix_iff)
  qed (use no in \<open>auto simp: has_prefix_iff\<close>)
qed

lemma write_lines_join: "write_lines prefix ls out = out @ join [CHR 0x0A] (map (\<lambda>l. trim_prefix l prefix) ls)"
  by (induction prefix ls out rule: write_lines.induct) simp_all

lemma trim_prefix_append [simp]: "trim_prefix (p @ s) p = s"
  by (simp add: trim_prefix_def)

text \<open>Lines the scanner returns as they are.\<close>

definition plain_line :: "string \<Rightarrow> bool" where
  "plain_line l \<longleftrightarrow> l \<noteq> [] \<and> CHR 0x0A \<notin> set l \<and> last l \<noteq> CHR 0x0D \<and> length l < MaxScanTokenSize"

lemma scan_plain_lines:
  assumes "ls \<noteq> []" "list_all plain_line ls"
  shows "scan_lines (join [CHR 0x0A] ls) = ls"
proof -
  have split: "split_on (CHR 0x0A) (join [CHR 0x0A] ls) = ls"
    using assms by (intro split_on_join) (auto simp: list_all_iff plain_line_def)
  have last: "(last ls = []) = False" using assms by (auto simp: list_all_iff plain_line_def)
  have short: "takeWhile (\<lambda>l. length l < MaxScanTokenSize) ls = ls"
    using assms(2) by (simp add: takeWhile_eq_all_conv list_all_iff plain_line_def)
  have "map drop_cr ls = ls"
    using assms(2) by (intro map_idI) (auto simp: list_all_iff plain_line_def drop_cr_def)
  then show ?thesis by (simp only: scan_lines_def Let_def split last if_False short)
qed

text \<open>Uncommenting a block of lines replaces its first occurrence by the lines without the prefix and leaves the
  rest of the file as it is.\<close>

theorem UncommentCode_replaces:
  assumes "ls \<noteq> []" "list_all plain_line (map ((@) prefix) ls)"
    and "os_read_file M filename w = (Inr content, w1)"
    and "target = join [CHR 0x0A] (map ((@) prefix) ls)" "cut_at target content = Some (before, after)"
    and "os_write_file M filename (before @ join [CHR 0x0A] ls @ after) 420 w1 = (None, w2)"
  shows "run_state (UncommentCode M filename target prefix) w = (None, w2) \<and> content = before @ target @ after"
proof -
  have "scan_lines target = map ((@) prefix) ls" unfolding assms(4) by (rule scan_plain_lines) (use assms in simp_all)
  moreover have "map (\<lambda>l. trim_prefix l prefix) (map ((@) prefix) ls) = ls" by (simp add: comp_def)
  ultimately show ?thesis
    using assms(1,3,5,6) cut_at_Some [OF assms(5)]
    by (simp add: UncommentCode_def State_Monad.bind_def State_Monad.return_def write_lines_join)
qed

text \<open>Without the block the file is not written.\<close>

theorem UncommentCode_refuses:
  assumes "os_read_file M filename w = (Inr content, w1)" "cut_at target content = None"
  shows "run_state (UncommentCode M filename target prefix) w =
    (Some (''unable to find the code '' @ go_quote target @ '' to be uncomment''), w1)"
  using assms by (simp add: UncommentCode_def State_Monad.bind_def State_Monad.return_def)

lemma nonempty_lines:
  "list_all (\<lambda>l. l \<noteq> [] \<and> CHR 0x0A \<notin> set l) (GetNonEmptyLines s)"
  "join [] (GetNonEmptyLines s) = filter (\<lambda>c. c \<noteq> CHR 0x0A) s"
proof -
  show "list_all (\<lambda>l. l \<noteq> [] \<and> CHR 0x0A \<notin> set l) (GetNonEmptyLines s)"
    by (auto simp: GetNonEmptyLines_def list_all_iff dest: in_split_on_no_delim)
  have j: "join [] ls = concat ls" for ls :: "string list" by (induction "[] :: string" ls rule: join.induct) simp_all
  have "concat (split_on (CHR 0x0A) s) = filter (\<lambda>c. c \<noteq> CHR 0x0A) s"
    by (induction s) (auto split: list.splits)
  moreover have "concat (filter (\<lambda>l. l \<noteq> []) ls) = concat ls" for ls :: "string list" by (induction ls) auto
  ultimately show "join [] (GetNonEmptyLines s) = filter (\<lambda>c. c \<noteq> CHR 0x0A) s"
    by (simp add: GetNonEmptyLines_def j)
qed

section \<open>Where the code falls short\<close>

text \<open>A target that ends in a newline loses it: the scanner returns no empty last line, so the line after the
  block is joined to its last one. A line that does not fit the scanner's buffer, and all after it, is
  removed from the file.\<close>

lemma trailing_newline_is_lost:
  "write_lines ''//'' (scan_lines (''//a'' @ [CHR 0x0A])) [] @ ''b'' = ''ab''"
  by (simp add: scan_lines_def MaxScanTokenSize_def drop_cr_def trim_prefix_def)

lemma long_lines_are_removed:
  assumes "length l \<ge> MaxScanTokenSize" "CHR 0x0A \<notin> set l" "l \<noteq> []"
  shows "scan_lines (''a'' @ [CHR 0x0A] @ l) = [''a'']"
  using assms by (simp add: scan_lines_def split_on_no_delim drop_cr_def MaxScanTokenSize_def)

end
