(* ===== verification/Spec2Isabelle.thy ===== *)
theory Spec2Isabelle
  imports Cluster_Safety Config_Outcome Removal_Bound Render_Safety Child_Runs Job_History Infra_Safety Copy_Safety
    Cluster_Steady Machine_Record Config_Progress Api_Registration Test_Utils
begin

text \<open>
  Verification development of NIO, the Kubernetes operator of the repository (Go, under \<open>src/\<close>).

  The program. A manager (\<open>cmd/main.go\<close>) runs nine controllers. Users write a NixosConfiguration
  (one machine) or a NixCluster (groups of machines); these create NixJob and NixCronJob children. The
  four workload kinds (NixJob, NixCronJob, NixDeployment, NixStatefulSet) resolve a git or Flux source
  to a revision and project a native Job, CronJob, Deployment or StatefulSet whose pods build and run
  a flake. NixStore and NixBuilder are the infrastructure the pods build with; the Machine controller
  finds out over SSH which machines can be reached. Controllers meet only in the API server: each reads
  the status the other wrote, and is woken by watches.

  How it is modelled. A reconcile is a program of the state monad over an arbitrary world and a log:
  \<open>('w, 'a) prog\<close> of \<open>K8s_Api\<close>. The API server, the host (files, processes, clock, keys), the network,
  \<open>RetryOnConflict\<close> and the helpers of controller-runtime are functions in the environment \<open>env\<close>, so
  every property holds for every server, including one that fails, conflicts or answers stale data; every
  call is an event of the log with its answer, and \<open>runs m R\<close> says what \<open>m\<close> returns and logs from any
  world. \<open>lib_ok\<close> and \<open>retry_ok\<close> are the documented laws of the helpers; \<open>sample_env\<close> and \<open>ref_lib\<close> satisfy
  them. Errors are values (\<open>err + 'a\<close>), a nil pointer is \<open>None\<close>, an int32 is a 32-bit word read by \<open>sint\<close>,
  strings are byte strings, times and durations are whole seconds.

  Theories, in the order they build on each other:

  \<^item> \<open>Nio_Prelude\<close>, \<open>Go_Std\<close>, \<open>Sha256\<close>: the collections of rules (\<open>runs_intros\<close>, \<open>emits_intros\<close>,
    \<open>const_defs\<close>); Go's \<open>strings\<close>, \<open>path\<close> and \<open>%q\<close>; SHA-256 as the revision hash uses it. Its constants
    are computed as roots of primes bit by bit (35 bits: 3 of the integer part, 32 of the fraction).
  \<^item> \<open>Nio_Types\<close>, \<open>Infra_Types\<close>: the types of \<open>api/v1alpha1\<close> and the native objects, with the fields the
    program reads or writes; the rest of an object is one opaque field.
  \<^item> \<open>K8s_Api\<close>: environment, events, programs, and the calculus (\<open>runs\<close>, \<open>emits\<close>, \<open>wp\<close>).
  \<^item> \<open>Selection\<close>, \<open>Node_Files\<close>, \<open>Cluster_Status\<close>, \<open>Cluster_Controller\<close>, \<open>Cluster_Safety\<close>,
    \<open>Cluster_Steady\<close>: \<open>nixcluster_controller.go\<close>: which machines a group gets (locale \<open>member_pick\<close> for the claiming loop,
    interpreted on \<open>selectGroupMembers\<close>), paths and Nix literals of node files, the reconcile, what its
    status means, and that membership settles.
  \<^item> \<open>Run_Outcome\<close>, \<open>Children\<close>, \<open>Config_Controller\<close>, \<open>Config_Status\<close>, \<open>Config_Install\<close>, \<open>Config_Outcome\<close>,
    \<open>Config_History\<close>, \<open>Removal_Bound\<close>: \<open>nixosconfiguration_controller.go\<close> and \<open>nixosconfiguration_children.go\<close>:
    the state machine, its gates, the install and decommission children; then sequences of reconciles:
    no install twice, and removal ends. \<open>Object_Store\<close> and \<open>Config_Progress\<close>: on a server that keeps what it
    accepted (hypothesis \<open>faithful_server\<close>, satisfied by \<open>ref_env\<close>) the stored objects go through the stages
    of an installation, whatever else happens in between. \<open>Run_Outcome\<close> reads finished Jobs (\<open>nixcronjob_controller.go\<close>).
  \<^item> \<open>Render\<close>, \<open>Shell_Quoting\<close>, \<open>Render_Safety\<close>: \<open>nixrender.go\<close>: pods, scripts and command lines, against a
    model of shell words; the locale \<open>keyed_upsert\<close> has the laws of lists with keys, interpreted on volumes,
    environment variables and containers.
  \<^item> \<open>Git_Source\<close>, \<open>Workload\<close>, \<open>Pipeline\<close>, \<open>Job_Controller\<close>, \<open>Cron_Controller\<close>, \<open>Apps_Controllers\<close>: source
    resolution (\<open>nixresolve.go\<close>, \<open>gitauth.go\<close>), what the kinds share (\<open>nixworkload.go\<close>, \<open>nix_sshkey.go\<close>,
    \<open>nixworkload_watches.go\<close>), their common reconcile and the four kinds.
  \<^item> \<open>Rollout\<close>, \<open>Workload_Kinds\<close>, \<open>Job_History\<close>: the locale \<open>workload_rollout\<close> states what the common
    reconcile relies on in a kind; it is interpreted on all four, and the properties follow. \<open>Job_History\<close>
    follows runs over time.
  \<^item> \<open>Child_Runs\<close>: from a NixosConfiguration through its child and the renderer to the words a container runs.
  \<^item> \<open>Infra_Controllers\<close>, \<open>Infra_Safety\<close>: \<open>nixstore_controller.go\<close> and \<open>nixbuilder_controller.go\<close>: keys, Services,
    StatefulSets and statuses, and that what they publish is what the workload kinds ask for.
  \<^item> \<open>Metrics\<close>, \<open>Machine_Controller\<close>, \<open>Ssh_Client\<close>: \<open>internal/metrics\<close>, \<open>machine_controller.go\<close> and
    \<open>internal/ssh\<close>; the Machine controller on top of the default client.
    \<open>Machine_Record\<close>: the status of a Machine under its two writers, over all interleavings.
  \<^item> \<open>Deep_Copy\<close>, \<open>Api_Copies\<close>, \<open>Copy_Safety\<close>: \<open>zz_generated.deepcopy.go\<close> over a heap of cells, function by
    function. Elsewhere values are immutable and a copy is the value itself; these theories show that this
    is sound: a deep copy has the content of its original and shares no cell with it.
  \<^item> \<open>Manager\<close>, \<open>Api_Registration\<close>: \<open>cmd/main.go\<close> from the parsed flags on, \<open>SetupWithManager\<close> of all
    controllers, and the types registered in the scheme.
  \<^item> \<open>Test_Utils\<close>: \<open>test/utils/utils.go\<close>, the helpers of the end-to-end tests.

  What is shown. Safety of effects: nothing destructive happens out of order (install, decommission,
  finalizers, native objects before their gates), temporary files and connections are cleaned up.
  Honesty: each stored status claims only what that reconcile did and saw. Function: selection, rendering,
  quoting, resolution and the histories do what their specification says. Interaction: the watches and
  indexes fit, published addresses are usable, reachable means authenticated, two writers of one status keep it whole.
  Progress: a live configuration gets applied, removal ends, a live workload is run again. Lemmas of the sections
  "Where the code falls short" evaluate runs in which the code does not do what it means to.

  Bounds. \<open>attempts n\<close> runs a retried function at most \<open>n + 1\<close> times, for any \<open>n\<close>. Loops of the source
  are over finite lists and are structural recursions or folds; no definition uses fuel. The one unbounded
  process, removal over many reconciles, is bounded by \<open>MaxOnRemoveRetries\<close> (\<open>Removal_Bound\<close>); an install is
  retried \<open>MaxInstallRetries\<close> times (\<open>Config_Progress\<close>).

  Not modelled: logging; the flag package; concurrency inside one reconcile (the source has none: a
  reconcile is sequential, and others act through the arbitrary server). Kubernetes, git, nix, ssh and the cryptographic libraries are parameters.
\<close>

end
